(* ===== verification/Prelude.thy ===== *)
theory Prelude
  imports Complex_Main "HOL-Library.AList"
begin

text \<open>
  What every component of the three services shares: the faults an operation of the C++ program
  can end in, the named collections of simplification rules, the C++ standard library's decimal
  conversions \<open>std::stoi\<close> and \<open>std::to_string\<close> for \<open>int\<close>, truncation of a floating point value,
  C strings, and the facts about association lists the containers rest on.
\<close>

named_theorems enum_simps \<open>code points of the enumerations\<close>
named_theorems wire_simps \<open>building and reading D-Bus messages\<close>
named_theorems handler_simps \<open>definitions of the event handlers\<close>
named_theorems frame_simps \<open>what an operation leaves unchanged\<close>

section \<open>Faults\<close>

text \<open>
  A C++ operation that does not return normally: the exceptions the code can raise, a call of
  \<open>std::terminate\<close>, a wait that never ends, and behaviour the C++ standard leaves undefined.
  \<open>fault + 'a\<close> is the type of such an operation.
\<close>

datatype fault =
    Invalid_argument
  | Out_of_range
  | Runtime_error string
  | Future_error
  | Terminate
  | Filesystem_error
  | System_error
  | Json_error
  | Blocked
  | Undefined_behaviour

text \<open>Running one operation after another: a fault of the first skips the second.\<close>

definition bind_result :: "fault + 'a \<Rightarrow> ('a \<Rightarrow> fault + 'b) \<Rightarrow> fault + 'b" where
  "bind_result r f = (case r of Inl e \<Rightarrow> Inl e | Inr x \<Rightarrow> f x)"

lemma bind_result_simps [simp]:
  "bind_result (Inl e) f = Inl e"
  "bind_result (Inr x) f = f x"
  by (simp_all add: bind_result_def)

lemma bind_result_Inr:
  "bind_result r f = Inr y \<longleftrightarrow> (\<exists>x. r = Inr x \<and> f x = Inr y)"
  by (cases r) auto

lemma bind_result_Inl:
  "bind_result r f = Inl e \<longleftrightarrow> r = Inl e \<or> (\<exists>x. r = Inr x \<and> f x = Inl e)"
  by (cases r) auto

lemma bind_result_split:
  "P (bind_result r f) \<longleftrightarrow> (\<forall>e. r = Inl e \<longrightarrow> P (Inl e)) \<and> (\<forall>x. r = Inr x \<longrightarrow> P (f x))"
  by (cases r) auto

text \<open>Running an operation over a list: the first fault ends the run.\<close>

fun fold_result :: "('a \<Rightarrow> 's \<Rightarrow> fault + 's) \<Rightarrow> 'a list \<Rightarrow> 's \<Rightarrow> fault + 's" where
  "fold_result f [] s = Inr s"
| "fold_result f (x # xs) s = (case f x s of Inl e \<Rightarrow> Inl e | Inr s' \<Rightarrow> fold_result f xs s')"

lemma fold_result_append:
  "fold_result f (xs @ ys) s =
     (case fold_result f xs s of Inl e \<Rightarrow> Inl e | Inr s' \<Rightarrow> fold_result f ys s')"
  by (induction xs arbitrary: s) (auto split: sum.splits)

lemma fold_result_total:
  "(\<And>x s. f x s = Inr (g x s)) \<Longrightarrow> fold_result f xs s = Inr (fold g xs s)"
  by (induction xs arbitrary: s) auto

section \<open>32-bit ranges\<close>

definition INT32_MAX :: int where "INT32_MAX = 2147483647"
definition INT32_MIN :: int where "INT32_MIN = -2147483648"

definition int32 :: "int \<Rightarrow> bool" where
  "int32 n \<longleftrightarrow> INT32_MIN \<le> n \<and> n \<le> INT32_MAX"

text \<open>The narrowing conversion of an integer to \<open>int\<close>, modulo \<open>2^32\<close>.\<close>

definition wrap32 :: "int \<Rightarrow> int" where
  "wrap32 n = (n + 2 ^ 31) mod 2 ^ 32 - 2 ^ 31"

lemma wrap32_int32: "int32 (wrap32 n)"
proof -
  have "0 \<le> (n + 2 ^ 31) mod 2 ^ 32" "(n + 2 ^ 31) mod 2 ^ 32 < 2 ^ 32" by simp_all
  then show ?thesis by (simp add: wrap32_def int32_def INT32_MAX_def INT32_MIN_def)
qed

lemma wrap32_id: "int32 n \<Longrightarrow> wrap32 n = n"
  by (simp add: wrap32_def int32_def INT32_MAX_def INT32_MIN_def)

lemma wrap32_add: "wrap32 (n + 2 ^ 32) = wrap32 n"
proof -
  have "n + 2 ^ 32 + 2 ^ 31 = (n + 2 ^ 31) + 2 ^ 32" by simp
  then show ?thesis unfolding wrap32_def by (simp only: mod_add_self2)
qed

section \<open>Decimal conversions\<close>

text \<open>\<open>isspace\<close> and \<open>isdigit\<close> of the C locale.\<close>

definition is_space :: "char \<Rightarrow> bool" where
  "is_space c \<longleftrightarrow> (let k = of_char c :: nat in k = 32 \<or> (9 \<le> k \<and> k \<le> 13))"

definition digit_of :: "char \<Rightarrow> nat option" where
  "digit_of c = (let k = of_char c :: nat in if 48 \<le> k \<and> k \<le> 57 then Some (k - 48) else None)"

definition char_of_digit :: "nat \<Rightarrow> char" where
  "char_of_digit d = char_of (48 + d)"

lemma of_char_char_of_digit:
  "d < 10 \<Longrightarrow> (of_char (char_of_digit d) :: nat) = 48 + d"
  unfolding char_of_digit_def of_char_of by simp

lemma digit_of_char_of_digit [simp]: "d < 10 \<Longrightarrow> digit_of (char_of_digit d) = Some d"
  by (simp add: digit_of_def of_char_char_of_digit)

lemma is_space_char_of_digit [simp]: "d < 10 \<Longrightarrow> \<not> is_space (char_of_digit d)"
  by (simp add: is_space_def of_char_char_of_digit)

lemma char_of_digit_neq:
  assumes "d < 10"
  shows "char_of_digit d \<noteq> CHR ''-''" and "char_of_digit d \<noteq> CHR ''+''"
    and "char_of_digit d \<noteq> CHR 0x00"
  using of_char_char_of_digit [OF assms] by auto

text \<open>The value of the leading digits, read from left to right.\<close>

fun scan_digits :: "nat \<Rightarrow> string \<Rightarrow> nat" where
  "scan_digits acc [] = acc"
| "scan_digits acc (c # cs) =
     (case digit_of c of None \<Rightarrow> acc | Some d \<Rightarrow> scan_digits (10 * acc + d) cs)"

text \<open>
  \<open>std::stoi\<close> in base 10: leading white space, an optional sign, at least one digit; what follows
  the digits is ignored.  No digit is \<open>invalid_argument\<close>, a value outside \<open>int\<close> \<open>out_of_range\<close>.
\<close>

definition split_sign :: "string \<Rightarrow> bool \<times> string" where
  "split_sign s =
     (case s of
        [] \<Rightarrow> (False, [])
      | c # cs \<Rightarrow>
          if c = CHR ''-'' then (True, cs) else if c = CHR ''+'' then (False, cs) else (False, s))"

definition stoi :: "string \<Rightarrow> fault + int" where
  "stoi s =
     (case split_sign (dropWhile is_space s) of
        (neg, ds) \<Rightarrow>
          (case ds of
             [] \<Rightarrow> Inl Invalid_argument
           | d # _ \<Rightarrow>
               if digit_of d = None then Inl Invalid_argument
               else (let v = int (scan_digits 0 ds); n = (if neg then - v else v)
                     in if int32 n then Inr n else Inl Out_of_range)))"

text \<open>\<open>std::to_string\<close> of an integer.\<close>

fun nat_to_string :: "nat \<Rightarrow> string" where
  "nat_to_string n =
     (if n < 10 then [char_of_digit n]
      else nat_to_string (n div 10) @ [char_of_digit (n mod 10)])"

declare nat_to_string.simps [simp del]

definition int_to_string :: "int \<Rightarrow> string" where
  "int_to_string i =
     (if i < 0 then CHR ''-'' # nat_to_string (nat (- i)) else nat_to_string (nat i))"

lemma scan_digits_append:
  "list_all (\<lambda>c. digit_of c \<noteq> None) xs \<Longrightarrow>
   scan_digits acc (xs @ ys) = scan_digits (scan_digits acc xs) ys"
  by (induction xs arbitrary: acc) (auto split: option.splits)

lemma nat_to_string_digits: "list_all (\<lambda>c. digit_of c \<noteq> None) (nat_to_string n)"
proof (induction n rule: nat_to_string.induct)
  case (1 n)
  then show ?case by (subst nat_to_string.simps) auto
qed

lemma scan_nat_to_string: "scan_digits 0 (nat_to_string n) = n"
proof (induction n rule: nat_to_string.induct)
  case (1 n)
  show ?case
  proof (cases "n < 10")
    case True
    then show ?thesis by (subst nat_to_string.simps) simp
  next
    case False
    with 1 show ?thesis
      by (subst nat_to_string.simps) (simp add: scan_digits_append [OF nat_to_string_digits])
  qed
qed

lemma nat_to_string_Cons:
  obtains d ds where "nat_to_string n = char_of_digit d # ds" and "d < 10"
proof -
  have "\<exists>d ds. nat_to_string n = char_of_digit d # ds \<and> d < 10"
  proof (induction n rule: nat_to_string.induct)
    case (1 n)
    show ?case
    proof (cases "n < 10")
      case True
      then show ?thesis by (subst nat_to_string.simps) auto
    next
      case False
      with 1 show ?thesis by (subst nat_to_string.simps) auto
    qed
  qed
  with that show ?thesis by blast
qed

lemma is_space_minus [simp]: "\<not> is_space CHR ''-''"
  by (simp add: is_space_def)

lemma stoi_int_to_string: "int32 n \<Longrightarrow> stoi (int_to_string n) = Inr n"
proof -
  assume n: "int32 n"
  obtain d ds where s: "nat_to_string (nat \<bar>n\<bar>) = char_of_digit d # ds" and d: "d < 10"
    by (rule nat_to_string_Cons)
  have v: "int (scan_digits 0 (char_of_digit d # ds)) = \<bar>n\<bar>"
    using scan_nat_to_string [of "nat \<bar>n\<bar>"] by (simp add: s)
  show ?thesis
  proof (cases "n < 0")
    case True
    with n s d v show ?thesis
      by (auto simp: int_to_string_def stoi_def split_sign_def Let_def)
  next
    case False
    with n s d v show ?thesis
      by (auto simp: int_to_string_def stoi_def split_sign_def Let_def char_of_digit_neq)
  qed
qed

section \<open>Floating point values\<close>

text \<open>
  A finite \<open>float\<close> is the rational number it stands for; \<open>static_cast<int>\<close> truncates towards
  zero and is undefined when the result is not an \<open>int\<close>.
\<close>

definition truncate :: "rat \<Rightarrow> int" where
  "truncate x = (if 0 \<le> x then \<lfloor>x\<rfloor> else - \<lfloor>- x\<rfloor>)"

definition float_to_int :: "rat \<Rightarrow> int option" where
  "float_to_int x = (if int32 (truncate x) then Some (truncate x) else None)"

section \<open>C strings\<close>

text \<open>What \<open>c_str()\<close> passes to a C library: the characters before the first NUL.\<close>

definition c_str :: "string \<Rightarrow> string" where
  "c_str s = takeWhile (\<lambda>c. c \<noteq> CHR 0x00) s"

lemma c_str_id: "CHR 0x00 \<notin> set s \<Longrightarrow> c_str s = s"
  unfolding c_str_def by (rule takeWhile_eq_all_conv [THEN iffD2]) auto

lemma c_str_idem [simp]: "c_str (c_str s) = c_str s"
  by (rule c_str_id) (auto simp: c_str_def dest: set_takeWhileD)

lemma nat_to_string_no_nul: "CHR 0x00 \<notin> set (nat_to_string n)"
proof
  assume "CHR 0x00 \<in> set (nat_to_string n)"
  with nat_to_string_digits [of n] have "digit_of CHR 0x00 \<noteq> None"
    by (simp add: list_all_iff)
  then show False by (simp add: digit_of_def)
qed

lemma c_str_int_to_string [simp]: "c_str (int_to_string n) = int_to_string n"
  by (rule c_str_id) (simp add: int_to_string_def nat_to_string_no_nul)

section \<open>Association lists with distinct keys\<close>

lemma fst_set_delete: "fst ` set (AList.delete k al) = fst ` set al - {k}"
  using arg_cong [OF AList.delete_keys [of k al], of set] by simp

end
