(* ===== verification/Floats.thy ===== *)
theory Floats
  imports Prelude "HOL-Library.Log_Nat"
begin

text \<open>
  The C++ \<open>float\<close> (IEEE binary32) as the temperature path uses it: rounding to nearest, addition,
  \<open>std::stof\<close> and the conversion to \<open>int\<close>.  A finite value is the rational it stands for; the two
  zeros are not told apart, which nothing here can observe.
\<close>

datatype float32 = Finite rat | Infinity bool | NaN

section \<open>Rounding\<close>

definition pow2 :: "int \<Rightarrow> rat" where
  "pow2 k = (if 0 \<le> k then 2 ^ nat k else 1 / 2 ^ nat (- k))"

text \<open>The exponent of a positive rational: the \<open>e\<close> with \<open>2^e \<le> x < 2^(e+1)\<close>.\<close>

definition rat_exponent :: "rat \<Rightarrow> int" where
  "rat_exponent x =
     (case quotient_of x of (n, d) \<Rightarrow>
        let k = bitlen n - bitlen d in if pow2 k \<le> x then k else k - 1)"

definition ulp32 :: "rat \<Rightarrow> rat" where
  "ulp32 x = pow2 (max (rat_exponent \<bar>x\<bar>) (- 126) - 23)"

definition round_half_even :: "rat \<Rightarrow> int" where
  "round_half_even x =
     (let f = \<lfloor>x\<rfloor>; r = x - of_int f
      in if r < 1 / 2 then f else if 1 / 2 < r then f + 1 else if even f then f else f + 1)"

definition round32 :: "rat \<Rightarrow> float32" where
  "round32 x =
     (if x = 0 then Finite 0
      else let v = of_int (round_half_even (\<bar>x\<bar> / ulp32 x)) * ulp32 x
           in if 2 ^ 128 \<le> v then Infinity (x < 0)
              else Finite (if x < 0 then - v else v))"

definition float_add :: "float32 \<Rightarrow> float32 \<Rightarrow> float32" where
  "float_add a b =
     (case a of
        NaN \<Rightarrow> NaN
      | Infinity s \<Rightarrow>
          (case b of NaN \<Rightarrow> NaN | Infinity t \<Rightarrow> (if s = t then Infinity s else NaN) | Finite _ \<Rightarrow> Infinity s)
      | Finite x \<Rightarrow> (case b of NaN \<Rightarrow> NaN | Infinity t \<Rightarrow> Infinity t | Finite y \<Rightarrow> round32 (x + y)))"

text \<open>\<open>static_cast<int>\<close>: truncation, undefined outside \<open>int\<close>.\<close>

definition float32_to_int :: "float32 \<Rightarrow> fault + int" where
  "float32_to_int a =
     (case a of
        Finite x \<Rightarrow> (case float_to_int x of Some n \<Rightarrow> Inr n | None \<Rightarrow> Inl Undefined_behaviour)
      | _ \<Rightarrow> Inl Undefined_behaviour)"

section \<open>stof\<close>

definition to_lower :: "char \<Rightarrow> char" where
  "to_lower c = (let k = of_char c :: nat in if 65 \<le> k \<and> k \<le> 90 then char_of (k + 32) else c)"

definition hex_digit_of :: "char \<Rightarrow> nat option" where
  "hex_digit_of c =
     (case digit_of c of
        Some d \<Rightarrow> Some d
      | None \<Rightarrow> (let k = of_char (to_lower c) :: nat in if 97 \<le> k \<and> k \<le> 102 then Some (k - 87) else None))"

text \<open>The digits at the front of a text: their value, how many there are, and what follows.\<close>

fun span_digits :: "(char \<Rightarrow> nat option) \<Rightarrow> nat \<Rightarrow> nat \<Rightarrow> nat \<Rightarrow> string \<Rightarrow> nat \<times> nat \<times> string" where
  "span_digits dg b acc k [] = (acc, k, [])"
| "span_digits dg b acc k (c # cs) =
     (case dg c of None \<Rightarrow> (acc, k, c # cs) | Some d \<Rightarrow> span_digits dg b (b * acc + d) (Suc k) cs)"

text \<open>Digits with an optional point: the digits' value, how many follow the point, and the rest.\<close>

definition scan_mantissa ::
    "(char \<Rightarrow> nat option) \<Rightarrow> nat \<Rightarrow> string \<Rightarrow> (nat \<times> nat \<times> string) option" where
  "scan_mantissa dg b s =
     (case span_digits dg b 0 0 s of (m, k, rest) \<Rightarrow>
        (case rest of
           c # cs \<Rightarrow>
             if c = CHR ''.'' then
               (case span_digits dg b m 0 cs of (m', f, rest') \<Rightarrow>
                  if k + f = 0 then None else Some (m', f, rest'))
             else if k = 0 then None else Some (m, 0, rest)
         | [] \<Rightarrow> if k = 0 then None else Some (m, 0, [])))"

definition scan_exponent :: "char \<Rightarrow> string \<Rightarrow> int" where
  "scan_exponent mark s =
     (case s of
        [] \<Rightarrow> 0
      | c # cs \<Rightarrow>
          if to_lower c \<noteq> mark then 0
          else (case split_sign cs of (neg, ds) \<Rightarrow>
                  let e = int (scan_digits 0 ds) in if neg then - e else e))"

definition scale :: "rat \<Rightarrow> int \<Rightarrow> rat" where
  "scale b k = (if 0 \<le> k then b ^ nat k else 1 / b ^ nat (- k))"

text \<open>
  The number at the front of a text after white space and sign: \<open>None\<close> when there is none.  A
  hexadecimal number needs a digit after \<open>0x\<close>; otherwise only the \<open>0\<close> is read.
\<close>

definition scan_number :: "string \<Rightarrow> float32 option" where
  "scan_number s =
     (let l = map to_lower s
      in if take 3 l = ''inf'' then Some (Infinity False)
         else if take 3 l = ''nan'' then Some NaN
         else case (if take 2 l = ''0x'' then scan_mantissa hex_digit_of 16 (drop 2 s) else None) of
                Some (m, f, rest) \<Rightarrow>
                  Some (Finite (of_nat m * scale 2 (scan_exponent CHR ''p'' rest - 4 * int f)))
              | None \<Rightarrow>
                  (case scan_mantissa digit_of 10 s of
                     None \<Rightarrow> None
                   | Some (m, f, rest) \<Rightarrow>
                       Some (Finite (of_nat m * scale 10 (scan_exponent CHR ''e'' rest - int f)))))"

definition stof :: "string \<Rightarrow> fault + float32" where
  "stof s =
     (case split_sign (dropWhile is_space s) of
        (neg, ds) \<Rightarrow>
          (case scan_number ds of
             None \<Rightarrow> Inl Invalid_argument
           | Some NaN \<Rightarrow> Inr NaN
           | Some (Infinity _) \<Rightarrow> Inr (Infinity neg)
           | Some (Finite x) \<Rightarrow>
               (case round32 (if neg then - x else x) of
                  Finite y \<Rightarrow>
                    if \<bar>y\<bar> < pow2 (- 126) \<and> \<bar>y\<bar> \<noteq> x then Inl Out_of_range else Inr (Finite y)
                | _ \<Rightarrow> Inl Out_of_range)))"

section \<open>Facts\<close>

lemma pow2_pos [simp]: "0 < pow2 k"
  by (simp add: pow2_def)

lemma round_half_even_near: "\<bar>of_int (round_half_even x) - x\<bar> \<le> 1 / 2"
proof -
  have "of_int \<lfloor>x\<rfloor> \<le> x" "x < of_int \<lfloor>x\<rfloor> + 1" by linarith+
  then show ?thesis by (simp add: round_half_even_def Let_def abs_le_iff)
qed

lemma round_half_even_int [simp]: "round_half_even (of_int n) = n"
  by (simp add: round_half_even_def)

text \<open>Rounding moves a value by at most half a unit in the last place.\<close>

lemma round32_near:
  assumes "round32 x = Finite y"
  shows "\<bar>y - x\<bar> \<le> ulp32 x / 2"
proof (cases "x = 0")
  case True
  with assms show ?thesis by (simp add: round32_def ulp32_def less_imp_le)
next
  case False
  let ?u = "ulp32 x" and ?r = "round_half_even (\<bar>x\<bar> / ulp32 x)"
  have u: "0 < ?u" by (simp add: ulp32_def)
  have "\<bar>of_int ?r - \<bar>x\<bar> / ?u\<bar> * ?u \<le> 1 / 2 * ?u"
    using round_half_even_near [of "\<bar>x\<bar> / ?u"] u by (intro mult_right_mono) auto
  moreover have "\<bar>of_int ?r - \<bar>x\<bar> / ?u\<bar> * ?u = \<bar>(of_int ?r - \<bar>x\<bar> / ?u) * ?u\<bar>"
    using u by (simp only: abs_mult abs_of_pos)
  moreover have "(of_int ?r - \<bar>x\<bar> / ?u) * ?u = of_int ?r * ?u - \<bar>x\<bar>"
    using u by (simp only: left_diff_distrib nonzero_divide_eq_eq less_imp_neq [symmetric] times_divide_eq_left nonzero_mult_div_cancel_right not_False_eq_True)
  ultimately have near: "\<bar>of_int ?r * ?u - \<bar>x\<bar>\<bar> \<le> ?u / 2"
    by simp
  from assms False have "y = (if x < 0 then - (of_int ?r * ?u) else of_int ?r * ?u)"
    by (auto simp: round32_def Let_def split: if_splits)
  with near show ?thesis by (auto simp: abs_if split: if_splits)
qed

end
