(* ===== verification/Json.thy ===== *)
theory Json
  imports Floats
begin

text \<open>
  JSON values as the core manager uses them, from \<open>coremgr/external/json/json.hpp\<close>, and
  \<open>coremgr/src/Util/JsonHelper.cpp\<close>.  The definitions of the core manager have \<open>dump\<close> and \<open>parse\<close> as arguments;
  \<open>JsonWriter\<close> and \<open>JsonParser\<close> model them.  Objects are ordered maps, here lists with ascending keys.
  Signed and unsigned integers are one constructor; a floating point number is the rational it stands for; binary and
  discarded values do not occur.
\<close>

datatype json =
    JNull
  | JBool bool
  | JInt int
  | JFloat rat
  | JString string
  | JArray "json list"
  | JObject "(string \<times> json) list"

section \<open>Objects\<close>

fun string_less :: "string \<Rightarrow> string \<Rightarrow> bool" where
  "string_less s [] = False"
| "string_less [] (c # cs) = True"
| "string_less (a # as) (c # cs) =
     ((of_char a :: nat) < of_char c \<or> (a = c \<and> string_less as cs))"

fun object_update :: "string \<Rightarrow> json \<Rightarrow> (string \<times> json) list \<Rightarrow> (string \<times> json) list" where
  "object_update k v [] = [(k, v)]"
| "object_update k v ((k', v') # kvs) =
     (if k = k' then (k, v) # kvs
      else if string_less k k' then (k, v) # (k', v') # kvs
      else (k', v') # object_update k v kvs)"

text \<open>\<open>j[k] = v\<close>: a null value becomes an object.  Other values raise a type error.\<close>

definition json_set :: "string \<Rightarrow> json \<Rightarrow> json \<Rightarrow> fault + json" where
  "json_set k v j =
     (case j of
        JNull \<Rightarrow> Inr (JObject [(k, v)])
      | JObject kvs \<Rightarrow> Inr (JObject (object_update k v kvs))
      | _ \<Rightarrow> Inl Json_error)"

text \<open>An initialiser list of pairs whose first parts are strings; the first of two equal keys stays.\<close>

definition json_object :: "(string \<times> json) list \<Rightarrow> json" where
  "json_object kvs =
     JObject (fold (\<lambda>(k, v) o'. if map_of o' k = None then object_update k v o' else o') kvs [])"

definition json_contains :: "json \<Rightarrow> string \<Rightarrow> bool" where
  "json_contains j k = (case j of JObject kvs \<Rightarrow> map_of kvs k \<noteq> None | _ \<Rightarrow> False)"

text \<open>
  \<open>j[k]\<close> of a constant value that has the key, and \<open>j.value(k, default)\<close>, which raises a type error
  when the value is not an object.
\<close>

definition json_at :: "json \<Rightarrow> string \<Rightarrow> json" where
  "json_at j k = (case j of JObject kvs \<Rightarrow> (case map_of kvs k of Some v \<Rightarrow> v | None \<Rightarrow> JNull) | _ \<Rightarrow> JNull)"

definition json_value :: "json \<Rightarrow> string \<Rightarrow> json \<Rightarrow> fault + json" where
  "json_value j k d =
     (case j of
        JObject kvs \<Rightarrow> Inr (case map_of kvs k of Some v \<Rightarrow> v | None \<Rightarrow> d)
      | _ \<Rightarrow> Inl Json_error)"

definition json_is_number :: "json \<Rightarrow> bool" where
  "json_is_number j = (case j of JInt _ \<Rightarrow> True | JFloat _ \<Rightarrow> True | _ \<Rightarrow> False)"

definition json_is_string :: "json \<Rightarrow> bool" where
  "json_is_string j = (case j of JString _ \<Rightarrow> True | _ \<Rightarrow> False)"

text \<open>A 64-bit integer is narrowed by \<open>wrap32\<close>; a floating point value outside \<open>int\<close> is undefined.\<close>

definition json_get_int :: "json \<Rightarrow> fault + int" where
  "json_get_int j =
     (case j of
        JInt n \<Rightarrow> Inr (wrap32 n)
      | JFloat x \<Rightarrow> (case float_to_int x of Some n \<Rightarrow> Inr n | None \<Rightarrow> Inl Undefined_behaviour)
      | JBool b \<Rightarrow> Inr (if b then 1 else 0)
      | _ \<Rightarrow> Inl Json_error)"

definition json_get_string :: "json \<Rightarrow> fault + string" where
  "json_get_string j = (case j of JString s \<Rightarrow> Inr s | _ \<Rightarrow> Inl Json_error)"

section \<open>JsonHelper\<close>

text \<open>
  The log line for a value of the wrong type uses \<open>dump\<close>, which does not fail on a value that was parsed
  (\<open>parsed_can_be_written\<close> in \<open>JsonSound\<close>).
\<close>

definition getIntField :: "json \<Rightarrow> string \<Rightarrow> fault + int option" where
  "getIntField data key =
     (if json_contains data key
      then let val = json_at data key
           in if json_is_number val
              then (case json_get_int val of Inl e \<Rightarrow> Inl e | Inr n \<Rightarrow> Inr (Some n))
              else Inr None
      else Inr None)"

definition getStringField :: "json \<Rightarrow> string \<Rightarrow> fault + string option" where
  "getStringField data key =
     (if json_contains data key
      then let val = json_at data key
           in if json_is_string val
              then (case json_get_string val of Inl e \<Rightarrow> Inl e | Inr s \<Rightarrow> Inr (Some s))
              else Inr None
      else Inr None)"

section \<open>Facts\<close>

lemma map_of_object_update:
  "map_of (object_update k v kvs) = (map_of kvs)(k \<mapsto> v)"
  by (induction k v kvs rule: object_update.induct) (auto simp: fun_eq_iff)

lemma json_contains_set:
  "json_set k v j = Inr j' \<Longrightarrow> json_contains j' k' \<longleftrightarrow> k' = k \<or> json_contains j k'"
  by (auto simp: json_set_def json_contains_def map_of_object_update split: json.splits if_splits)

lemma json_at_set:
  "json_set k v j = Inr j' \<Longrightarrow> json_at j' k' = (if k' = k then v else json_at j k')"
  by (auto simp: json_set_def json_at_def map_of_object_update split: json.splits)

text \<open>The helpers never raise a JSON error: they look before they convert.\<close>

lemma getStringField_total: "\<exists>r. getStringField data key = Inr r"
  by (auto simp: getStringField_def json_is_string_def json_get_string_def Let_def split: json.splits)

lemma getStringField_Some:
  "getStringField data key = Inr (Some s) \<longleftrightarrow>
   json_contains data key \<and> json_at data key = JString s"
  by (auto simp: getStringField_def json_is_string_def json_get_string_def Let_def split: json.splits)

lemma getIntField_int32: "getIntField data key = Inr (Some n) \<Longrightarrow> int32 n"
  by (auto simp: getIntField_def json_is_number_def json_get_int_def float_to_int_def Let_def
      wrap32_int32 split: json.splits if_splits option.splits)

lemma getIntField_int:
  "json_contains data key \<Longrightarrow> json_at data key = JInt n \<Longrightarrow>
   getIntField data key = Inr (Some (wrap32 n))"
  by (simp add: getIntField_def json_is_number_def json_get_int_def Let_def)

lemma getIntField_faults: "getIntField data key = Inl e \<Longrightarrow> e = Undefined_behaviour"
  by (auto simp: getIntField_def json_is_number_def json_get_int_def Let_def
      split: json.splits if_splits option.splits)

end
