(* ===== verification/StateView.thy ===== *)
theory StateView
  imports Prelude
begin

text \<open>
  \<open>coremgr/include/Configure/StateView.hpp\<close>: what the core manager believes about the recorder, the
  Bluetooth adapter, the sensor and the call.  The class has only static members, so one record is
  the whole of it; \<open>core\<close> extends it with the rest of the process's state.
\<close>

datatype RecordState = STOPPED | RECORDING | PROCESSING

datatype ScanningBTDeviceState = IDLE | SCANNING | PROCESSING

datatype BluetoothPowerState = OFF | ON | PROCESSING

datatype CallState = IDLE | PROCESSING | INCOMING | OUTCOMING | CALLING

record StateView =
  RECORD_STATE :: RecordState
  CURRENT_TEMPERATURE :: int
  SCANNING_BTDEVICE_STATE :: ScanningBTDeviceState
  BLUETOOTH_POWER_STATE :: BluetoothPowerState
  CALL_STATE :: CallState

definition StateView_init :: StateView where
  "StateView_init =
     \<lparr>RECORD_STATE = RecordState.STOPPED, CURRENT_TEMPERATURE = 0,
      SCANNING_BTDEVICE_STATE = ScanningBTDeviceState.IDLE,
      BLUETOOTH_POWER_STATE = BluetoothPowerState.OFF, CALL_STATE = CallState.IDLE\<rparr>"

end
