(* ===== verification/DBusTypes.thy ===== *)
theory DBusTypes
  imports Prelude
begin

text \<open>
  The vocabulary the three services share (\<open>common/include/Define.hpp\<close>, \<open>DBusData.hpp\<close>): the
  commands and notifications that travel over D-Bus, the fields of the data block that goes with
  a notification, and the block with its initial contents.  A command is sent as its code point,
  an \<open>int\<close>; \<open>static_cast_DBusCommand\<close> reads it back.  An \<open>int\<close> that is the code of no enumerator is
  \<open>None\<close>: every \<open>switch\<close> of the program sends such a value to its default branch.
\<close>

section \<open>Commands\<close>

datatype DBusCommand =
  NONE | INITIALIZE_BLUETOOTH | START_SCAN_BTDEVICE | STOP_SCAN_BTDEVICE | BLUETOOTH_POWER_ON
    | BLUETOOTH_POWER_OFF | PAIR_BTDEVICE | UNPAIR_BTDEVICE | CONNECT_BTDEVICE
    | DISCONNECT_BTDEVICE | REJECT_REQUEST_CONFIRMATION | ACCEPT_REQUEST_CONFIRMATION
    | DIAL_CALL | HANGUP_CALL | ANSWER_CALL | UPDATE_TEMPERATURE_NOTI
    | START_SCAN_BTDEVICE_NOTI | STOP_SCAN_BTDEVICE_NOTI | SCANNING_BTDEVICE_FOUND_NOTI
    | SCANNING_BTDEVICE_DELETE_NOTI | BLUETOOTH_POWER_ON_NOTI | BLUETOOTH_POWER_OFF_NOTI
    | BTDEVICE_PROPERTY_CHANGE_NOTI | PAIR_BTDEVICE_NOTI | UNPAIR_BTDEVICE_NOTI
    | CONNECT_BTDEVICE_NOTI | DISCONNECT_BTDEVICE_NOTI | BTDEVICE_REQUEST_CONFIRMATION_NOTI
    | INCOMING_CALL_NOTI | OUTGOING_CALL_NOTI | CALL_STATE_CHANGED_NOTI | CALL_ENDED_NOTI
    | DIAL_CALL_NOTI | ANSWER_CALL_NOTI | HANGUP_CALL_NOTI | PBAP_SESSION_END_NOTI
    | PBAP_PHONEBOOK_PULL_START_NOTI | PBAP_PHONEBOOK_PULL_NOTI | PBAP_PHONEBOOK_PULL_END_NOTI
    | CALL_HISTORY_PULL_START_NOTI | CALL_HISTORY_PULL_NOTI | CALL_HISTORY_PULL_END_NOTI
    | START_RECORD | STOP_RECORD | CANCEL_RECORD | START_RECORD_NOTI | STOP_RECORD_NOTI
    | CANCEL_RECORD_NOTI | FILTER_WAV_FILE_NOTI | MAX

definition DBusCommand_values :: "DBusCommand list" where
  "DBusCommand_values =
    [DBusCommand.NONE, DBusCommand.INITIALIZE_BLUETOOTH, DBusCommand.START_SCAN_BTDEVICE
     , DBusCommand.STOP_SCAN_BTDEVICE, DBusCommand.BLUETOOTH_POWER_ON
     , DBusCommand.BLUETOOTH_POWER_OFF, DBusCommand.PAIR_BTDEVICE, DBusCommand.UNPAIR_BTDEVICE
     , DBusCommand.CONNECT_BTDEVICE, DBusCommand.DISCONNECT_BTDEVICE
     , DBusCommand.REJECT_REQUEST_CONFIRMATION, DBusCommand.ACCEPT_REQUEST_CONFIRMATION
     , DBusCommand.DIAL_CALL, DBusCommand.HANGUP_CALL, DBusCommand.ANSWER_CALL
     , DBusCommand.UPDATE_TEMPERATURE_NOTI, DBusCommand.START_SCAN_BTDEVICE_NOTI
     , DBusCommand.STOP_SCAN_BTDEVICE_NOTI, DBusCommand.SCANNING_BTDEVICE_FOUND_NOTI
     , DBusCommand.SCANNING_BTDEVICE_DELETE_NOTI, DBusCommand.BLUETOOTH_POWER_ON_NOTI
     , DBusCommand.BLUETOOTH_POWER_OFF_NOTI, DBusCommand.BTDEVICE_PROPERTY_CHANGE_NOTI
     , DBusCommand.PAIR_BTDEVICE_NOTI, DBusCommand.UNPAIR_BTDEVICE_NOTI
     , DBusCommand.CONNECT_BTDEVICE_NOTI, DBusCommand.DISCONNECT_BTDEVICE_NOTI
     , DBusCommand.BTDEVICE_REQUEST_CONFIRMATION_NOTI, DBusCommand.INCOMING_CALL_NOTI
     , DBusCommand.OUTGOING_CALL_NOTI, DBusCommand.CALL_STATE_CHANGED_NOTI
     , DBusCommand.CALL_ENDED_NOTI, DBusCommand.DIAL_CALL_NOTI, DBusCommand.ANSWER_CALL_NOTI
     , DBusCommand.HANGUP_CALL_NOTI, DBusCommand.PBAP_SESSION_END_NOTI
     , DBusCommand.PBAP_PHONEBOOK_PULL_START_NOTI, DBusCommand.PBAP_PHONEBOOK_PULL_NOTI
     , DBusCommand.PBAP_PHONEBOOK_PULL_END_NOTI, DBusCommand.CALL_HISTORY_PULL_START_NOTI
     , DBusCommand.CALL_HISTORY_PULL_NOTI, DBusCommand.CALL_HISTORY_PULL_END_NOTI
     , DBusCommand.START_RECORD, DBusCommand.STOP_RECORD, DBusCommand.CANCEL_RECORD
     , DBusCommand.START_RECORD_NOTI, DBusCommand.STOP_RECORD_NOTI
     , DBusCommand.CANCEL_RECORD_NOTI, DBusCommand.FILTER_WAV_FILE_NOTI, DBusCommand.MAX]"

lemma distinct_DBusCommand_values: "distinct DBusCommand_values"
  by (simp add: DBusCommand_values_def)

lemma in_DBusCommand_values: "c \<in> set DBusCommand_values"
  by (cases c) (simp_all add: DBusCommand_values_def)

lemma length_DBusCommand_values: "length DBusCommand_values = 50"
  by (simp add: DBusCommand_values_def)

lemma set_DBusCommand_values: "set DBusCommand_values = UNIV"
  using in_DBusCommand_values by blast

instantiation DBusCommand :: enum
begin

definition enum_DBusCommand :: "DBusCommand list" where
  "enum_DBusCommand = DBusCommand_values"

definition enum_all_DBusCommand :: "(DBusCommand \<Rightarrow> bool) \<Rightarrow> bool" where
  "enum_all_DBusCommand P = list_all P DBusCommand_values"

definition enum_ex_DBusCommand :: "(DBusCommand \<Rightarrow> bool) \<Rightarrow> bool" where
  "enum_ex_DBusCommand P = list_ex P DBusCommand_values"

instance
  by standard
    (simp_all add: enum_DBusCommand_def enum_all_DBusCommand_def enum_ex_DBusCommand_def
      set_DBusCommand_values distinct_DBusCommand_values list_all_iff list_ex_iff)

end

text \<open>The position of an element in a list without repetitions.\<close>

definition index_in :: "'a list \<Rightarrow> 'a \<Rightarrow> nat" where
  "index_in xs x = length (takeWhile (\<lambda>y. y \<noteq> x) xs)"

lemma index_in_less: "x \<in> set xs \<Longrightarrow> index_in xs x < length xs"
  unfolding index_in_def by (induction xs) auto

lemma nth_index_in: "x \<in> set xs \<Longrightarrow> xs ! index_in xs x = x"
  unfolding index_in_def by (induction xs) auto

lemma index_in_nth: "distinct xs \<Longrightarrow> i < length xs \<Longrightarrow> index_in xs (xs ! i) = i"
  by (simp add: nth_eq_iff_index_eq [symmetric] index_in_less nth_index_in)

definition cmd_code :: "DBusCommand \<Rightarrow> int" where
  "cmd_code c = int (index_in DBusCommand_values c)"

definition static_cast_DBusCommand :: "int \<Rightarrow> DBusCommand option" where
  "static_cast_DBusCommand n =
     (if 0 \<le> n \<and> n < int (length DBusCommand_values)
      then Some (DBusCommand_values ! nat n) else None)"

lemma static_cast_cmd_code [wire_simps]: "static_cast_DBusCommand (cmd_code c) = Some c"
  by (simp add: static_cast_DBusCommand_def cmd_code_def nth_index_in index_in_less
      in_DBusCommand_values)

lemma cmd_code_static_cast: "static_cast_DBusCommand n = Some c \<Longrightarrow> cmd_code c = n"
  by (auto simp: static_cast_DBusCommand_def cmd_code_def index_in_nth distinct_DBusCommand_values
      split: if_splits)

lemma int32_cmd_code: "int32 (cmd_code c)"
  using index_in_less [OF in_DBusCommand_values, of c]
  by (simp add: int32_def INT32_MIN_def INT32_MAX_def cmd_code_def length_DBusCommand_values)

section \<open>The data block of a notification\<close>

text \<open>
  \<open>DBUS_DATA_MAX\<close> is the number of fields, not a field.  The block \<open>std::string data[DBUS_DATA_MAX]\<close>
  is a function from fields to strings: \<open>info[t] = s\<close> is \<open>info(t := s)\<close>.
\<close>

datatype DBusDataType =
  DBUS_DATA_MESSAGE | DBUS_DATA_TEMPERATURE_VALUE | DBUS_DATA_BT_DEVICE_NAME
    | DBUS_DATA_BT_DEVICE_ADDRESS | DBUS_DATA_BT_DEVICE_RSSI | DBUS_DATA_BT_DEVICE_PAIRED
    | DBUS_DATA_BT_DEVICE_CONNECTED | DBUS_DATA_BT_DEVICE_TRUSTED | DBUS_DATA_BT_DEVICE_ICON
    | DBUS_DATA_BT_ADAPTER_POWERED | DBUS_DATA_BT_ADAPTER_DISCOVERING
    | DBUS_DATA_BT_ADAPTER_DISCOVERABLE | DBUS_DATA_BT_PAIRING_PASSKEY
    | DBUS_DATA_CONTACT_NAME | DBUS_DATA_CONTACT_NUMBER | DBUS_DATA_CALL_NUMBER
    | DBUS_DATA_CALL_NAME | DBUS_DATA_CALL_STATE | DBUS_DATA_CALL_HISTORY_NAME
    | DBUS_DATA_CALL_HISTORY_NUMBER | DBUS_DATA_CALL_HISTORY_TYPE
    | DBUS_DATA_CALL_HISTORY_DATETIME | DBUS_DATA_WAV_FILE_PATH
    | DBUS_DATA_WAV_FILE_DURATION_SEC

definition DBusDataType_values :: "DBusDataType list" where
  "DBusDataType_values =
    [DBUS_DATA_MESSAGE, DBUS_DATA_TEMPERATURE_VALUE, DBUS_DATA_BT_DEVICE_NAME
     , DBUS_DATA_BT_DEVICE_ADDRESS, DBUS_DATA_BT_DEVICE_RSSI, DBUS_DATA_BT_DEVICE_PAIRED
     , DBUS_DATA_BT_DEVICE_CONNECTED, DBUS_DATA_BT_DEVICE_TRUSTED, DBUS_DATA_BT_DEVICE_ICON
     , DBUS_DATA_BT_ADAPTER_POWERED, DBUS_DATA_BT_ADAPTER_DISCOVERING
     , DBUS_DATA_BT_ADAPTER_DISCOVERABLE, DBUS_DATA_BT_PAIRING_PASSKEY, DBUS_DATA_CONTACT_NAME
     , DBUS_DATA_CONTACT_NUMBER, DBUS_DATA_CALL_NUMBER, DBUS_DATA_CALL_NAME
     , DBUS_DATA_CALL_STATE, DBUS_DATA_CALL_HISTORY_NAME, DBUS_DATA_CALL_HISTORY_NUMBER
     , DBUS_DATA_CALL_HISTORY_TYPE, DBUS_DATA_CALL_HISTORY_DATETIME, DBUS_DATA_WAV_FILE_PATH
     , DBUS_DATA_WAV_FILE_DURATION_SEC]"

definition DBUS_DATA_MAX :: nat where "DBUS_DATA_MAX = 24"

lemma distinct_DBusDataType_values: "distinct DBusDataType_values"
  by (simp add: DBusDataType_values_def)

lemma in_DBusDataType_values: "t \<in> set DBusDataType_values"
  by (cases t) (simp_all add: DBusDataType_values_def)

lemma length_DBusDataType_values: "length DBusDataType_values = DBUS_DATA_MAX"
  by (simp add: DBusDataType_values_def DBUS_DATA_MAX_def)

type_synonym DBusDataInfo = "DBusDataType \<Rightarrow> string"

text \<open>The constructor of \<open>DBusDataInfo\<close>: every field is empty but for three numeric ones.\<close>

definition DBusDataInfo_init :: DBusDataInfo where
  "DBusDataInfo_init =
     (\<lambda>_. [])(DBUS_DATA_TEMPERATURE_VALUE := ''0.0'',
             DBUS_DATA_BT_DEVICE_RSSI := ''0'',
             DBUS_DATA_WAV_FILE_DURATION_SEC := ''0'')"

lemma DBusDataInfo_init_simps [simp]:
  "DBusDataInfo_init DBUS_DATA_TEMPERATURE_VALUE = ''0.0''"
  "DBusDataInfo_init DBUS_DATA_BT_DEVICE_RSSI = ''0''"
  "DBusDataInfo_init DBUS_DATA_WAV_FILE_DURATION_SEC = ''0''"
  "t \<notin> {DBUS_DATA_TEMPERATURE_VALUE, DBUS_DATA_BT_DEVICE_RSSI, DBUS_DATA_WAV_FILE_DURATION_SEC}
   \<Longrightarrow> DBusDataInfo_init t = []"
  by (auto simp: DBusDataInfo_init_def)

text \<open>A block whose strings survive \<open>c_str()\<close>, that is, hold no NUL character.\<close>

definition nul_free :: "DBusDataInfo \<Rightarrow> bool" where
  "nul_free d \<longleftrightarrow> list_all (\<lambda>t. CHR 0x00 \<notin> set (d t)) DBusDataType_values"

lemma nul_freeD: "nul_free d \<Longrightarrow> c_str (d t) = d t"
  using in_DBusDataType_values [of t] by (auto simp: nul_free_def list_all_iff intro: c_str_id)

end
