(* ===== verification/DBusTransport.thy ===== *)
theory DBusTransport
  imports DBusTypes
begin

text \<open>
  Sending and receiving over D-Bus: \<open>common/src/DBus/ISenderFactory.cpp\<close>, \<open>DBusSenderBase.cpp\<close>
  and \<open>common/src/Thread/DBusReceiverBase.cpp\<close>.

  A D-Bus message is data: its header fields and its list of typed arguments.  What libdbus adds
  is whether a call succeeds (memory, connection, valid text), and that is a parameter: a
  \<open>faults\<close> says which library calls of one attempt to send fail, and every early return of the code
  is taken accordingly.
\<close>

section \<open>Messages\<close>

datatype dbus_value =
    DInt32 int
  | DUInt32 int
  | DInt16 int
  | DBoolean bool
  | DString string
  | DObjectPath string
  | DArray string "dbus_value list"
  | DVariant dbus_value
  | DStruct "dbus_value list"
  | DDictEntry dbus_value dbus_value

datatype message_type =
  MESSAGE_TYPE_INVALID | MESSAGE_TYPE_METHOD_CALL | MESSAGE_TYPE_METHOD_RETURN
  | MESSAGE_TYPE_ERROR | MESSAGE_TYPE_SIGNAL

record dbus_msg =
  msg_type :: message_type
  msg_path :: "string option"
  msg_interface :: "string option"
  msg_member :: "string option"
  msg_args :: "dbus_value list"

text \<open>The type codes of the D-Bus specification; \<open>DArray\<close> carries its element's.\<close>

fun type_code :: "dbus_value \<Rightarrow> string" where
  "type_code (DInt32 _) = ''i''"
| "type_code (DUInt32 _) = ''u''"
| "type_code (DInt16 _) = ''n''"
| "type_code (DBoolean _) = ''b''"
| "type_code (DString _) = ''s''"
| "type_code (DObjectPath _) = ''o''"
| "type_code (DArray es _) = CHR ''a'' # es"
| "type_code (DVariant _) = ''v''"
| "type_code (DStruct vs) = CHR ''('' # concat (map type_code vs) @ '')''"
| "type_code (DDictEntry k v) = CHR ''{'' # type_code k @ type_code v @ ''}''"

definition get_signature :: "dbus_msg \<Rightarrow> string" where
  "get_signature m = concat (map type_code (msg_args m))"

definition new_signal :: "string \<Rightarrow> string \<Rightarrow> string \<Rightarrow> dbus_msg" where
  "new_signal objectpath interface signal =
     \<lparr>msg_type = MESSAGE_TYPE_SIGNAL, msg_path = Some objectpath, msg_interface = Some interface,
      msg_member = Some signal, msg_args = []\<rparr>"

definition append_arg :: "dbus_value \<Rightarrow> dbus_msg \<Rightarrow> dbus_msg" where
  "append_arg v m = m\<lparr>msg_args := msg_args m @ [v]\<rparr>"

text \<open>The library calls of one attempt to send that can fail.\<close>

datatype dbus_call =
    New_signal
  | Append_args
  | Append_cmd
  | Append_success
  | Open_container
  | Append_string nat
  | Close_container
  | Connection_send

type_synonym faults = "dbus_call \<Rightarrow> bool"

definition no_faults :: faults where "no_faults = (\<lambda>_. False)"

section \<open>ISenderFactory\<close>

definition makeMsgInternal ::
    "faults \<Rightarrow> string \<Rightarrow> string \<Rightarrow> string \<Rightarrow> DBusCommand \<Rightarrow> dbus_msg option" where
  "makeMsgInternal F objectpath interface signal cmd =
     (if F New_signal then None
      else let msg = new_signal objectpath interface signal
           in if F Append_args then None
              else Some (append_arg (DInt32 (cmd_code cmd)) msg))"

text \<open>The loop that appends the strings of the data block to the array, from field \<open>i\<close> on.\<close>

fun append_strings :: "faults \<Rightarrow> nat \<Rightarrow> string list \<Rightarrow> dbus_value list option" where
  "append_strings F i [] = Some []"
| "append_strings F i (s # ss) =
     (if F (Append_string i) then None
      else (case append_strings F (Suc i) ss of
              None \<Rightarrow> None
            | Some vs \<Rightarrow> Some (DString (c_str s) # vs)))"

definition makeMsgNotiInternal ::
    "faults \<Rightarrow> string \<Rightarrow> string \<Rightarrow> string \<Rightarrow> DBusCommand \<Rightarrow> bool \<Rightarrow> DBusDataInfo \<Rightarrow> dbus_msg option"
  where
  "makeMsgNotiInternal F objectpath interface signal cmd isSuccess msgInfo =
     (if F New_signal then None
      else let msg = new_signal objectpath interface signal
           in if F Append_cmd then None
              else let msg = append_arg (DInt32 (cmd_code cmd)) msg
                   in if F Append_success then None
                      else let msg = append_arg (DBoolean isSuccess) msg
                           in if F Open_container then None
                              else (case append_strings F 0 (map msgInfo DBusDataType_values) of
                                      None \<Rightarrow> None
                                    | Some vs \<Rightarrow>
                                        if F Close_container then None
                                        else Some (append_arg (DArray ''s'' vs) msg)))"

section \<open>DBusSenderBase\<close>

text \<open>
  The sender of a service: its connection, how many attempts to send were made, and the messages
  the library accepted.  The \<open>n\<close>-th attempt meets the faults \<open>F n\<close>.  \<open>msgMaker\<close> is the service's
  factory, \<open>makeMsg\<close> or \<open>makeMsgNoti\<close> applied to its arguments.
\<close>

record dbus_sender =
  conn :: bool
  attempts :: nat
  sent :: "dbus_msg list"

definition dbus_sender_init :: dbus_sender where
  "dbus_sender_init = \<lparr>conn = True, attempts = 0, sent = []\<rparr>"

definition isMsgValid :: "dbus_msg option \<Rightarrow> bool" where
  "isMsgValid msg =
     (case msg of
        None \<Rightarrow> False
      | Some m \<Rightarrow> msg_type m \<noteq> MESSAGE_TYPE_INVALID \<and> msg_path m \<noteq> None \<and> msg_interface m \<noteq> None)"

definition sendMessageInternal :: "faults \<Rightarrow> dbus_msg \<Rightarrow> dbus_sender \<Rightarrow> bool \<times> dbus_sender" where
  "sendMessageInternal F msg s =
     (if \<not> conn s then (False, s)
      else if \<not> isMsgValid (Some msg) then (False, s)
      else if F Connection_send then (False, s)
      else (True, s\<lparr>sent := sent s @ [msg]\<rparr>))"

definition sendMessage ::
    "(nat \<Rightarrow> faults) \<Rightarrow> (faults \<Rightarrow> DBusCommand \<Rightarrow> dbus_msg option) \<Rightarrow> DBusCommand
     \<Rightarrow> dbus_sender \<Rightarrow> bool \<times> dbus_sender" where
  "sendMessage F makeMsg cmd s =
     (let f = F (attempts s); s' = s\<lparr>attempts := Suc (attempts s)\<rparr>
      in case makeMsg f cmd of
           None \<Rightarrow> (False, s')
         | Some msg \<Rightarrow> sendMessageInternal f msg s')"

definition sendMessageNoti ::
    "(nat \<Rightarrow> faults) \<Rightarrow> (faults \<Rightarrow> DBusCommand \<Rightarrow> bool \<Rightarrow> DBusDataInfo \<Rightarrow> dbus_msg option)
     \<Rightarrow> DBusCommand \<Rightarrow> bool \<Rightarrow> DBusDataInfo \<Rightarrow> dbus_sender \<Rightarrow> bool \<times> dbus_sender" where
  "sendMessageNoti F makeMsgNoti cmd isSuccess dataInfo s =
     (let f = F (attempts s); s' = s\<lparr>attempts := Suc (attempts s)\<rparr>
      in case makeMsgNoti f cmd isSuccess dataInfo of
           None \<Rightarrow> (False, s')
         | Some msg \<Rightarrow> sendMessageInternal f msg s')"

section \<open>DBusReceiverBase\<close>

text \<open>
  Reading a notification's array of strings: one field after another, as long as the iterator is
  at a string and fields are left.
\<close>

fun read_strings :: "DBusDataType list \<Rightarrow> dbus_value list \<Rightarrow> DBusDataInfo \<Rightarrow> DBusDataInfo" where
  "read_strings (t # ts) (DString str_val # vs) dataInfo =
     read_strings ts vs (dataInfo(t := str_val))"
| "read_strings _ _ dataInfo = dataInfo"

text \<open>
  \<open>dispatchMessage\<close>, with the service's \<open>handleMessage\<close> and \<open>handleMessageNoti\<close>, which may fail, as
  arguments.  The iterator is the list of the arguments that are left.
\<close>

definition dispatchMessage ::
    "(DBusCommand option \<Rightarrow> 's \<Rightarrow> fault + 's)
     \<Rightarrow> (DBusCommand option \<Rightarrow> bool \<Rightarrow> DBusDataInfo \<Rightarrow> 's \<Rightarrow> fault + 's)
     \<Rightarrow> dbus_msg \<Rightarrow> 's \<Rightarrow> fault + 's" where
  "dispatchMessage handleMessage handleMessageNoti msg s =
     (let signature = get_signature msg
      in if signature = ''i''
         then (case msg_args msg of
                 [DInt32 received_cmd] \<Rightarrow> handleMessage (static_cast_DBusCommand received_cmd) s
               | _ \<Rightarrow> Inr s)
         else if signature = ''ibas''
         then (case msg_args msg of
                 DInt32 received_cmd # iter1 \<Rightarrow>
                   (case iter1 of
                      DBoolean isSuccess # iter2 \<Rightarrow>
                        (case iter2 of
                           DArray _ vs # _ \<Rightarrow>
                             handleMessageNoti (static_cast_DBusCommand received_cmd) isSuccess
                               (read_strings DBusDataType_values vs DBusDataInfo_init) s
                         | _ \<Rightarrow> Inr s)
                    | _ \<Rightarrow> Inr s)
               | _ \<Rightarrow> Inr s)
         else Inr s)"

text \<open>As libdbus tests it: a message without interface matches any.\<close>

definition is_signal :: "dbus_msg \<Rightarrow> string \<Rightarrow> string \<Rightarrow> bool" where
  "is_signal m interface signal =
     (msg_type m = MESSAGE_TYPE_SIGNAL \<and> msg_interface m \<in> {None, Some interface}
      \<and> msg_member m = Some signal)"

text \<open>
  One turn of the receiver's loop, after \<open>poll\<close> returned: an error, a timeout or an event other
  than incoming data leaves everything as it is, and incoming data makes the thread dispatch every
  message that is ready and has the service's interface and signal name.
\<close>

datatype poll_result = Poll_error | Poll_timeout | Poll_other | Poll_in "dbus_msg list"

definition receive_message ::
    "string \<Rightarrow> string \<Rightarrow> (dbus_msg \<Rightarrow> 's \<Rightarrow> fault + 's) \<Rightarrow> dbus_msg \<Rightarrow> 's \<Rightarrow> fault + 's" where
  "receive_message interface signal dispatch msg s =
     (if is_signal msg interface signal then dispatch msg s else Inr s)"

definition receiver_turn ::
    "string \<Rightarrow> string \<Rightarrow> (dbus_msg \<Rightarrow> 's \<Rightarrow> fault + 's) \<Rightarrow> poll_result \<Rightarrow> 's \<Rightarrow> fault + 's" where
  "receiver_turn interface signal dispatch ret s =
     (case ret of
        Poll_in msgs \<Rightarrow> fold_result (receive_message interface signal dispatch) msgs s
      | _ \<Rightarrow> Inr s)"

section \<open>What arrives is what was sent\<close>

lemma append_strings_no_faults:
  "(\<And>i. \<not> F (Append_string i)) \<Longrightarrow> append_strings F i ss = Some (map (DString \<circ> c_str) ss)"
  by (induction ss arbitrary: i) auto

lemma append_strings_Some:
  "append_strings F i ss = Some vs \<Longrightarrow> vs = map (DString \<circ> c_str) ss"
  by (induction ss arbitrary: i vs) (auto split: if_splits option.splits)

lemma append_strings_None:
  "append_strings F i ss = None \<longleftrightarrow> (\<exists>j<length ss. F (Append_string (i + j)))"
proof (induction ss arbitrary: i)
  case (Cons s ss)
  have "append_strings F i (s # ss) = None \<longleftrightarrow>
      F (Append_string i) \<or> append_strings F (Suc i) ss = None"
    by (simp split: option.splits)
  then show ?case by (simp add: Cons.IH Ex_less_Suc2)
qed simp

lemma read_strings_notin:
  "t \<notin> set ts \<Longrightarrow> read_strings ts vs d t = d t"
  by (induction ts vs d rule: read_strings.induct) auto

text \<open>Reading back a block that was written whole; the block before does not matter.\<close>

lemma read_strings_map:
  assumes "distinct ts" and "t \<in> set ts"
  shows "read_strings ts (map (DString \<circ> c_str \<circ> d) ts) d0 t = c_str (d t)"
  using assms
proof (induction ts arbitrary: d0)
  case (Cons t' ts)
  then show ?case by (auto simp: read_strings_notin)
qed simp

lemma read_strings_block:
  "read_strings DBusDataType_values (map (DString \<circ> c_str) (map d DBusDataType_values)) d0 =
   (\<lambda>t. c_str (d t))"
  by (rule ext)
    (simp add: read_strings_map distinct_DBusDataType_values in_DBusDataType_values
      comp_assoc [symmetric])

text \<open>The message a successful factory call builds.\<close>

lemma makeMsgInternal_Some [wire_simps]:
  "makeMsgInternal F p i m cmd = Some msg \<longleftrightarrow>
   \<not> F New_signal \<and> \<not> F Append_args \<and>
   msg = \<lparr>msg_type = MESSAGE_TYPE_SIGNAL, msg_path = Some p, msg_interface = Some i,
          msg_member = Some m, msg_args = [DInt32 (cmd_code cmd)]\<rparr>"
  by (auto simp: makeMsgInternal_def new_signal_def append_arg_def)

definition noti_msg :: "string \<Rightarrow> string \<Rightarrow> string \<Rightarrow> DBusCommand \<Rightarrow> bool \<Rightarrow> DBusDataInfo \<Rightarrow> dbus_msg"
  where
  "noti_msg p i m cmd ok info =
     \<lparr>msg_type = MESSAGE_TYPE_SIGNAL, msg_path = Some p, msg_interface = Some i,
      msg_member = Some m,
      msg_args = [DInt32 (cmd_code cmd), DBoolean ok,
        DArray ''s'' (map (DString \<circ> c_str) (map info DBusDataType_values))]\<rparr>"

lemma makeMsgNotiInternal_Some [wire_simps]:
  "makeMsgNotiInternal F p i m cmd ok info = Some msg \<longleftrightarrow>
   \<not> F New_signal \<and> \<not> F Append_cmd \<and> \<not> F Append_success \<and> \<not> F Open_container \<and>
   (\<forall>j<DBUS_DATA_MAX. \<not> F (Append_string j)) \<and> \<not> F Close_container \<and>
   msg = noti_msg p i m cmd ok info"
proof -
  have len: "length (map info DBusDataType_values) = DBUS_DATA_MAX"
    by (simp add: length_DBusDataType_values)
  show ?thesis
    using append_strings_None [of F 0 "map info DBusDataType_values"] len
    by (auto simp: makeMsgNotiInternal_def noti_msg_def new_signal_def append_arg_def Let_def
        split: option.splits dest: append_strings_Some)
qed

lemma isMsgValid_noti_msg [wire_simps]: "isMsgValid (Some (noti_msg p i m cmd ok info))"
  by (simp add: isMsgValid_def noti_msg_def)

lemma dispatch_cmd_msg [wire_simps]:
  "dispatchMessage hm hn
     \<lparr>msg_type = t, msg_path = p, msg_interface = i, msg_member = m,
      msg_args = [DInt32 (cmd_code cmd)]\<rparr> s = hm (Some cmd) s"
  by (simp add: dispatchMessage_def get_signature_def static_cast_cmd_code)

lemma dispatch_noti_msg [wire_simps]:
  "dispatchMessage hm hn (noti_msg p i m cmd ok info) s = hn (Some cmd) ok (\<lambda>t. c_str (info t)) s"
  by (simp add: dispatchMessage_def noti_msg_def get_signature_def static_cast_cmd_code
      read_strings_block del: map_map)

lemma sendMessageInternal_frame:
  "conn (snd (sendMessageInternal f m s)) = conn s"
  "attempts (snd (sendMessageInternal f m s)) = attempts s"
  by (simp_all add: sendMessageInternal_def)

lemma makeMsgNotiInternal_no_faults [wire_simps]:
  "makeMsgNotiInternal no_faults p i m cmd ok info = Some (noti_msg p i m cmd ok info)"
  by (simp add: makeMsgNotiInternal_Some) (simp add: no_faults_def)

lemma makeMsgInternal_no_faults [wire_simps]:
  "makeMsgInternal no_faults p i m cmd =
   Some \<lparr>msg_type = MESSAGE_TYPE_SIGNAL, msg_path = Some p, msg_interface = Some i,
         msg_member = Some m, msg_args = [DInt32 (cmd_code cmd)]\<rparr>"
  by (simp add: makeMsgInternal_Some) (simp add: no_faults_def)

section \<open>The interface between two services\<close>

text \<open>
  A service makes notifications for the commands it offers; each is a signal of the receiving
  service's interface that carries the command, the flag and the data block.
\<close>

locale notification_link =
  fixes makeNoti :: "faults \<Rightarrow> DBusCommand \<Rightarrow> bool \<Rightarrow> DBusDataInfo \<Rightarrow> dbus_msg option"
    and offers :: "DBusCommand \<Rightarrow> bool"
    and interface :: string
    and signal :: string
  assumes made: "makeNoti F cmd ok info = Some msg \<Longrightarrow>
      offers cmd \<and> (\<exists>p. msg = noti_msg p interface signal cmd ok info)"
    and makes: "offers cmd \<Longrightarrow> makeNoti no_faults cmd ok info \<noteq> None"
begin

lemma delivered:
  assumes "makeNoti F cmd ok info = Some msg"
  shows "receive_message interface signal (dispatchMessage hm hn) msg s =
    hn (Some cmd) ok (\<lambda>t. c_str (info t)) s"
proof -
  obtain p where "msg = noti_msg p interface signal cmd ok info"
    using made [OF assms] by blast
  then show ?thesis
    by (simp add: receive_message_def is_signal_def dispatch_noti_msg) (simp add: noti_msg_def)
qed

lemma not_for_others:
  assumes "makeNoti F cmd ok info = Some msg" and "other \<noteq> interface"
  shows "receive_message other sg dispatch msg s = Inr s"
proof -
  obtain p where "msg = noti_msg p interface signal cmd ok info"
    using made [OF assms(1)] by blast
  with assms(2) show ?thesis
    by (simp add: receive_message_def is_signal_def noti_msg_def)
qed

lemma not_offered: "\<not> offers cmd \<Longrightarrow> makeNoti F cmd ok info = None"
  using made [of F cmd ok info] by (cases "makeNoti F cmd ok info") auto

lemma send_result:
  assumes "conn s"
  shows "case sendMessageNoti F makeNoti cmd ok info s of
      (True, s') \<Rightarrow> (\<exists>p. sent s' = sent s @ [noti_msg p interface signal cmd ok info])
    | (False, s') \<Rightarrow> sent s' = sent s"
proof (cases "makeNoti (F (attempts s)) cmd ok info")
  case None
  then show ?thesis by (simp add: sendMessageNoti_def)
next
  case (Some msg)
  then obtain p where "msg = noti_msg p interface signal cmd ok info"
    using made [OF Some] by blast
  with Some assms show ?thesis
    by (cases "F (attempts s) Connection_send")
      (auto simp: sendMessageNoti_def sendMessageInternal_def isMsgValid_noti_msg Let_def)
qed

lemma send_healthy:
  assumes "conn s" and "F (attempts s) = no_faults" and "offers cmd"
  shows "fst (sendMessageNoti F makeNoti cmd ok info s)"
proof -
  obtain msg where m: "makeNoti no_faults cmd ok info = Some msg"
    using makes [OF assms(3), of ok info] by blast
  obtain p where "msg = noti_msg p interface signal cmd ok info"
    using made [OF m] by blast
  with m assms show ?thesis
    by (simp add: sendMessageNoti_def sendMessageInternal_def isMsgValid_noti_msg Let_def)
      (simp add: no_faults_def)
qed

end

text \<open>The same for the commands without data.\<close>

definition cmd_msg :: "string \<Rightarrow> string \<Rightarrow> string \<Rightarrow> DBusCommand \<Rightarrow> dbus_msg" where
  "cmd_msg p i m cmd =
     \<lparr>msg_type = MESSAGE_TYPE_SIGNAL, msg_path = Some p, msg_interface = Some i,
      msg_member = Some m, msg_args = [DInt32 (cmd_code cmd)]\<rparr>"

locale command_link =
  fixes makeCmd :: "faults \<Rightarrow> DBusCommand \<Rightarrow> dbus_msg option"
    and commands :: "DBusCommand \<Rightarrow> bool"
    and interface :: string
    and signal :: string
  assumes made: "commands cmd \<Longrightarrow> makeCmd F cmd = Some msg \<Longrightarrow> \<exists>p. msg = cmd_msg p interface signal cmd"
    and makes: "commands cmd \<Longrightarrow> makeCmd no_faults cmd \<noteq> None"
begin

lemma delivered:
  assumes "commands cmd" and "makeCmd F cmd = Some msg"
  shows "receive_message interface signal (dispatchMessage hm hn) msg s = hm (Some cmd) s"
proof -
  obtain p where "msg = cmd_msg p interface signal cmd"
    using made [OF assms] by blast
  then show ?thesis
    by (simp add: cmd_msg_def receive_message_def is_signal_def dispatch_cmd_msg)
qed

lemma not_for_others:
  assumes "commands cmd" and "makeCmd F cmd = Some msg" and "other \<noteq> interface"
  shows "receive_message other sg dispatch msg s = Inr s"
proof -
  obtain p where "msg = cmd_msg p interface signal cmd"
    using made [OF assms(1,2)] by blast
  with assms(3) show ?thesis
    by (simp add: cmd_msg_def receive_message_def is_signal_def)
qed

end

end
