(* ===== verification/Configs.thy ===== *)
theory Configs
  imports Prelude
begin

text \<open>
  The constants of the three services' \<open>include/Configure/Config.hpp\<close>: each service's names on the
  system bus, and the names, paths and limits its code uses.
\<close>

text \<open>The getters of \<open>common/include/Configure/IConfig.hpp\<close>.\<close>

record IConfig =
  getBinaryPath :: string
  getServiceName :: string
  getObjectPath :: string
  getInterfaceName :: string
  getSignalName :: string

definition core_config :: IConfig where
  "core_config =
     \<lparr>getBinaryPath = ''/usr/local/bin/coremanager'',
      getServiceName = ''com.example.coremanager'',
      getObjectPath = ''/com/example/coremanager'',
      getInterfaceName = ''com.example.coremanager.interface'',
      getSignalName = ''CoreSignal''\<rparr>"

definition record_config :: IConfig where
  "record_config =
     \<lparr>getBinaryPath = ''/usr/local/bin/recordmanager'',
      getServiceName = ''com.example.recordmanager'',
      getObjectPath = ''/com/example/recordmanager'',
      getInterfaceName = ''com.example.recordmanager.interface'',
      getSignalName = ''RecordSignal''\<rparr>"

definition hardware_config :: IConfig where
  "hardware_config =
     \<lparr>getBinaryPath = ''/usr/local/bin/hardwaremanager'',
      getServiceName = ''com.example.hardwaremanager'',
      getObjectPath = ''/com/example/hardwaremanager'',
      getInterfaceName = ''com.example.hardwaremanager.interface'',
      getSignalName = ''HardwareSignal''\<rparr>"

text \<open>\<open>coremgr\<close>: the address of the web socket server, the database and the number of its workers.\<close>

definition WEBSOCKET_HOST :: string where "WEBSOCKET_HOST = ''0.0.0.0''"
definition WEBSOCKET_PORT :: nat where "WEBSOCKET_PORT = 9000"
definition SQLiteDBFilePath :: string where "SQLiteDBFilePath = ''/var/local/coremanager/coremanager.db''"
definition SQLiteDBWorkerThreads :: nat where "SQLiteDBWorkerThreads = 5"

text \<open>\<open>recordmgr\<close>: microphone (which depends on the machine), audio format, recording limit and directories.\<close>

definition MICROPHONE_DEVICE :: "bool \<Rightarrow> string" where
  "MICROPHONE_DEVICE raspberry_pi = (if raspberry_pi then ''plughw:1,0'' else ''plughw:0,0'')"

definition SAMPLE_RATE :: nat where "SAMPLE_RATE = 16000"
definition FRAMES_PER_PERIOD :: nat where "FRAMES_PER_PERIOD = 1024"
definition MAX_RECORD_DURATION_SEC :: nat where "MAX_RECORD_DURATION_SEC = 300"
definition WAV_OUTPUT_DIR :: string where "WAV_OUTPUT_DIR = ''/tmp''"
definition FILTERED_AUDIO_DIR :: string where
  "FILTERED_AUDIO_DIR = ''/var/local/recordmanager/audio''"

lemmas config_simps [simp] = core_config_def record_config_def hardware_config_def

end
