(* ===== verification/CMSenderFactory.thy ===== *)
theory CMSenderFactory
  imports DBusTransport Configs
begin

text \<open>
  \<open>coremgr/src/DBus/CMSenderFactory.cpp\<close>: the messages the core manager sends, one definition per
  method, and what reaches whom: device and call commands go to the hardware manager, recording
  commands to the record manager.
\<close>

named_theorems CM_factory_simps \<open>the methods of CMSenderFactory\<close>

definition CM_makeMsg_InitializeBluetooth ::
    "faults \<Rightarrow> DBusCommand \<Rightarrow> dbus_msg option" where [CM_factory_simps]:
  "CM_makeMsg_InitializeBluetooth F cmd =
     makeMsgInternal F ''/com/example/hardwaremanager'' ''com.example.hardwaremanager.interface''
       ''HardwareSignal'' cmd"

definition CM_makeMsg_StartScanBTDevice ::
    "faults \<Rightarrow> DBusCommand \<Rightarrow> dbus_msg option" where [CM_factory_simps]:
  "CM_makeMsg_StartScanBTDevice F cmd =
     makeMsgInternal F ''/com/example/hardwaremanager'' ''com.example.hardwaremanager.interface''
       ''HardwareSignal'' cmd"

definition CM_makeMsg_StopScanBTDevice ::
    "faults \<Rightarrow> DBusCommand \<Rightarrow> dbus_msg option" where [CM_factory_simps]:
  "CM_makeMsg_StopScanBTDevice F cmd =
     makeMsgInternal F ''/com/example/hardwaremanager'' ''com.example.hardwaremanager.interface''
       ''HardwareSignal'' cmd"

definition CM_makeMsg_BluetoothPowerOn ::
    "faults \<Rightarrow> DBusCommand \<Rightarrow> dbus_msg option" where [CM_factory_simps]:
  "CM_makeMsg_BluetoothPowerOn F cmd =
     makeMsgInternal F ''/com/example/hardwaremanager'' ''com.example.hardwaremanager.interface''
       ''HardwareSignal'' cmd"

definition CM_makeMsg_BluetoothPowerOff ::
    "faults \<Rightarrow> DBusCommand \<Rightarrow> dbus_msg option" where [CM_factory_simps]:
  "CM_makeMsg_BluetoothPowerOff F cmd =
     makeMsgInternal F ''/com/example/hardwaremanager'' ''com.example.hardwaremanager.interface''
       ''HardwareSignal'' cmd"

definition CM_makeMsg_HangupCall ::
    "faults \<Rightarrow> DBusCommand \<Rightarrow> dbus_msg option" where [CM_factory_simps]:
  "CM_makeMsg_HangupCall F cmd =
     makeMsgInternal F ''/com/example/hardwaremanager'' ''com.example.hardwaremanager.interface''
       ''HardwareSignal'' cmd"

definition CM_makeMsg_AnswerCall ::
    "faults \<Rightarrow> DBusCommand \<Rightarrow> dbus_msg option" where [CM_factory_simps]:
  "CM_makeMsg_AnswerCall F cmd =
     makeMsgInternal F ''/com/example/hardwaremanager'' ''com.example.hardwaremanager.interface''
       ''HardwareSignal'' cmd"

definition CM_makeMsgNoti_PairBTDevice ::
    "faults \<Rightarrow> DBusCommand \<Rightarrow> bool \<Rightarrow> DBusDataInfo \<Rightarrow> dbus_msg option" where [CM_factory_simps]:
  "CM_makeMsgNoti_PairBTDevice F cmd isSuccess msgInfo =
     makeMsgNotiInternal F ''/com/example/hardwaremanager'' ''com.example.hardwaremanager.interface''
       ''HardwareSignal'' cmd isSuccess msgInfo"

definition CM_makeMsgNoti_UnpairBTDevice ::
    "faults \<Rightarrow> DBusCommand \<Rightarrow> bool \<Rightarrow> DBusDataInfo \<Rightarrow> dbus_msg option" where [CM_factory_simps]:
  "CM_makeMsgNoti_UnpairBTDevice F cmd isSuccess msgInfo =
     makeMsgNotiInternal F ''/com/example/hardwaremanager'' ''com.example.hardwaremanager.interface''
       ''HardwareSignal'' cmd isSuccess msgInfo"

definition CM_makeMsgNoti_ConnectBTDevice ::
    "faults \<Rightarrow> DBusCommand \<Rightarrow> bool \<Rightarrow> DBusDataInfo \<Rightarrow> dbus_msg option" where [CM_factory_simps]:
  "CM_makeMsgNoti_ConnectBTDevice F cmd isSuccess msgInfo =
     makeMsgNotiInternal F ''/com/example/hardwaremanager'' ''com.example.hardwaremanager.interface''
       ''HardwareSignal'' cmd isSuccess msgInfo"

definition CM_makeMsgNoti_DisconnectBTDevice ::
    "faults \<Rightarrow> DBusCommand \<Rightarrow> bool \<Rightarrow> DBusDataInfo \<Rightarrow> dbus_msg option" where [CM_factory_simps]:
  "CM_makeMsgNoti_DisconnectBTDevice F cmd isSuccess msgInfo =
     makeMsgNotiInternal F ''/com/example/hardwaremanager'' ''com.example.hardwaremanager.interface''
       ''HardwareSignal'' cmd isSuccess msgInfo"

definition CM_makeMsgNoti_RejectBTDeviceRequestConfirmation ::
    "faults \<Rightarrow> DBusCommand \<Rightarrow> bool \<Rightarrow> DBusDataInfo \<Rightarrow> dbus_msg option" where [CM_factory_simps]:
  "CM_makeMsgNoti_RejectBTDeviceRequestConfirmation F cmd isSuccess msgInfo =
     makeMsgNotiInternal F ''/com/example/hardwaremanager'' ''com.example.hardwaremanager.interface''
       ''HardwareSignal'' cmd isSuccess msgInfo"

definition CM_makeMsgNoti_AcceptBTDeviceRequestConfirmation ::
    "faults \<Rightarrow> DBusCommand \<Rightarrow> bool \<Rightarrow> DBusDataInfo \<Rightarrow> dbus_msg option" where [CM_factory_simps]:
  "CM_makeMsgNoti_AcceptBTDeviceRequestConfirmation F cmd isSuccess msgInfo =
     makeMsgNotiInternal F ''/com/example/hardwaremanager'' ''com.example.hardwaremanager.interface''
       ''HardwareSignal'' cmd isSuccess msgInfo"

definition CM_makeMsgNoti_DialCall ::
    "faults \<Rightarrow> DBusCommand \<Rightarrow> bool \<Rightarrow> DBusDataInfo \<Rightarrow> dbus_msg option" where [CM_factory_simps]:
  "CM_makeMsgNoti_DialCall F cmd isSuccess msgInfo =
     makeMsgNotiInternal F ''/com/example/hardwaremanager'' ''com.example.hardwaremanager.interface''
       ''HardwareSignal'' cmd isSuccess msgInfo"

definition CM_makeMsg_StartRecord ::
    "faults \<Rightarrow> DBusCommand \<Rightarrow> dbus_msg option" where [CM_factory_simps]:
  "CM_makeMsg_StartRecord F cmd =
     makeMsgInternal F ''/com/example/recordmanager'' ''com.example.recordmanager.interface''
       ''RecordSignal'' cmd"

definition CM_makeMsg_StopRecord ::
    "faults \<Rightarrow> DBusCommand \<Rightarrow> dbus_msg option" where [CM_factory_simps]:
  "CM_makeMsg_StopRecord F cmd =
     makeMsgInternal F ''/com/example/recordmanager'' ''com.example.recordmanager.interface''
       ''RecordSignal'' cmd"

definition CM_makeMsg_CancelRecord ::
    "faults \<Rightarrow> DBusCommand \<Rightarrow> dbus_msg option" where [CM_factory_simps]:
  "CM_makeMsg_CancelRecord F cmd =
     makeMsgInternal F ''/com/example/recordmanager'' ''com.example.recordmanager.interface''
       ''RecordSignal'' cmd"

definition CM_makeMsg ::
    "faults \<Rightarrow> DBusCommand \<Rightarrow> dbus_msg option" where
  "CM_makeMsg F cmd =
     (case cmd of
        DBusCommand.INITIALIZE_BLUETOOTH \<Rightarrow> CM_makeMsg_InitializeBluetooth F cmd
      | DBusCommand.START_SCAN_BTDEVICE \<Rightarrow> CM_makeMsg_StartScanBTDevice F cmd
      | DBusCommand.STOP_SCAN_BTDEVICE \<Rightarrow> CM_makeMsg_StopScanBTDevice F cmd
      | DBusCommand.BLUETOOTH_POWER_ON \<Rightarrow> CM_makeMsg_BluetoothPowerOn F cmd
      | DBusCommand.BLUETOOTH_POWER_OFF \<Rightarrow> CM_makeMsg_BluetoothPowerOff F cmd
      | DBusCommand.HANGUP_CALL \<Rightarrow> CM_makeMsg_HangupCall F cmd
      | DBusCommand.ANSWER_CALL \<Rightarrow> CM_makeMsg_AnswerCall F cmd
      | DBusCommand.START_RECORD \<Rightarrow> CM_makeMsg_StartRecord F cmd
      | DBusCommand.STOP_RECORD \<Rightarrow> CM_makeMsg_StopRecord F cmd
      | DBusCommand.CANCEL_RECORD \<Rightarrow> CM_makeMsg_CancelRecord F cmd
      | _ \<Rightarrow> None)"

definition CM_makeMsgNoti ::
    "faults \<Rightarrow> DBusCommand \<Rightarrow> bool \<Rightarrow> DBusDataInfo \<Rightarrow> dbus_msg option" where
  "CM_makeMsgNoti F cmd isSuccess msgInfo =
     (case cmd of
        DBusCommand.PAIR_BTDEVICE \<Rightarrow>
          CM_makeMsgNoti_PairBTDevice F cmd isSuccess msgInfo
      | DBusCommand.UNPAIR_BTDEVICE \<Rightarrow>
          CM_makeMsgNoti_UnpairBTDevice F cmd isSuccess msgInfo
      | DBusCommand.CONNECT_BTDEVICE \<Rightarrow>
          CM_makeMsgNoti_ConnectBTDevice F cmd isSuccess msgInfo
      | DBusCommand.DISCONNECT_BTDEVICE \<Rightarrow>
          CM_makeMsgNoti_DisconnectBTDevice F cmd isSuccess msgInfo
      | DBusCommand.REJECT_REQUEST_CONFIRMATION \<Rightarrow>
          CM_makeMsgNoti_RejectBTDeviceRequestConfirmation F cmd isSuccess msgInfo
      | DBusCommand.ACCEPT_REQUEST_CONFIRMATION \<Rightarrow>
          CM_makeMsgNoti_AcceptBTDeviceRequestConfirmation F cmd isSuccess msgInfo
      | DBusCommand.DIAL_CALL \<Rightarrow> CM_makeMsgNoti_DialCall F cmd isSuccess msgInfo
      | _ \<Rightarrow> None)"

text \<open>Which commands go to which service.\<close>

definition CM_hardware_commands :: "DBusCommand list" where
  "CM_hardware_commands =
    [DBusCommand.INITIALIZE_BLUETOOTH, DBusCommand.START_SCAN_BTDEVICE,
     DBusCommand.STOP_SCAN_BTDEVICE, DBusCommand.BLUETOOTH_POWER_ON,
     DBusCommand.BLUETOOTH_POWER_OFF, DBusCommand.HANGUP_CALL, DBusCommand.ANSWER_CALL]"

definition CM_record_commands :: "DBusCommand list" where
  "CM_record_commands =
    [DBusCommand.START_RECORD, DBusCommand.STOP_RECORD, DBusCommand.CANCEL_RECORD]"

definition CM_notifications :: "DBusCommand list" where
  "CM_notifications =
    [DBusCommand.PAIR_BTDEVICE, DBusCommand.UNPAIR_BTDEVICE, DBusCommand.CONNECT_BTDEVICE,
     DBusCommand.DISCONNECT_BTDEVICE, DBusCommand.REJECT_REQUEST_CONFIRMATION,
     DBusCommand.ACCEPT_REQUEST_CONFIRMATION, DBusCommand.DIAL_CALL]"

lemma CM_makeMsgNoti_offered:
  "cmd \<in> set CM_notifications \<Longrightarrow>
   CM_makeMsgNoti F cmd ok info = makeMsgNotiInternal F (getObjectPath hardware_config)
     (getInterfaceName hardware_config) (getSignalName hardware_config) cmd ok info"
  by (cases cmd) (simp_all add: CM_makeMsgNoti_def CM_factory_simps CM_notifications_def)

lemma CM_makeMsgNoti_other:
  "cmd \<notin> set CM_notifications \<Longrightarrow> CM_makeMsgNoti F cmd ok info = None"
  by (cases cmd) (simp_all add: CM_makeMsgNoti_def CM_notifications_def)

interpretation cm_to_hm: notification_link CM_makeMsgNoti "\<lambda>cmd. cmd \<in> set CM_notifications"
  "getInterfaceName hardware_config" "getSignalName hardware_config"
proof
  show "cmd \<in> set CM_notifications \<and>
      (\<exists>p. msg = noti_msg p (getInterfaceName hardware_config) (getSignalName hardware_config) cmd ok info)"
    if "CM_makeMsgNoti F cmd ok info = Some msg" for F cmd ok info msg
    using that
    by (cases "cmd \<in> set CM_notifications")
      (auto simp: CM_makeMsgNoti_offered CM_makeMsgNoti_other makeMsgNotiInternal_Some
        simp del: config_simps)
  show "CM_makeMsgNoti no_faults cmd ok info \<noteq> None" if "cmd \<in> set CM_notifications" for cmd ok info
    using that by (simp add: CM_makeMsgNoti_offered makeMsgNotiInternal_no_faults)
qed

lemma CM_makeMsg_hardware:
  "cmd \<in> set CM_hardware_commands \<Longrightarrow>
   CM_makeMsg F cmd = makeMsgInternal F (getObjectPath hardware_config)
     (getInterfaceName hardware_config) (getSignalName hardware_config) cmd"
  by (cases cmd) (simp_all add: CM_makeMsg_def CM_factory_simps CM_hardware_commands_def)

lemma CM_makeMsg_record:
  "cmd \<in> set CM_record_commands \<Longrightarrow>
   CM_makeMsg F cmd = makeMsgInternal F (getObjectPath record_config)
     (getInterfaceName record_config) (getSignalName record_config) cmd"
  by (cases cmd) (simp_all add: CM_makeMsg_def CM_factory_simps CM_record_commands_def)

lemma CM_makeMsg_other:
  "cmd \<notin> set CM_hardware_commands \<Longrightarrow> cmd \<notin> set CM_record_commands \<Longrightarrow> CM_makeMsg F cmd = None"
  by (cases cmd) (simp_all add: CM_makeMsg_def CM_hardware_commands_def CM_record_commands_def)

interpretation cm_to_hm_cmd: command_link CM_makeMsg "\<lambda>cmd. cmd \<in> set CM_hardware_commands"
  "getInterfaceName hardware_config" "getSignalName hardware_config"
  by unfold_locales
    (auto simp: CM_makeMsg_hardware makeMsgInternal_Some makeMsgInternal_no_faults cmd_msg_def
      simp del: config_simps)

interpretation cm_to_rm_cmd: command_link CM_makeMsg "\<lambda>cmd. cmd \<in> set CM_record_commands"
  "getInterfaceName record_config" "getSignalName record_config"
  by unfold_locales
    (auto simp: CM_makeMsg_record makeMsgInternal_Some makeMsgInternal_no_faults cmd_msg_def
      simp del: config_simps)

end
