(* ===== verification/WebSocketServer.thy ===== *)
theory WebSocketServer
  imports Json StateView CMSenderFactory
begin

text \<open>
  \<open>coremgr/src/WS/WebSocketServer.cpp\<close>: the sessions with the web clients and the server that
  broadcasts to them.  Boost's executor and stream are represented by what the code has asked of
  them and not yet got back: how many \<open>doWrite\<close> calls are posted and how many \<open>async_write\<close> operations
  are outstanding.
\<close>

section \<open>Sessions\<close>

text \<open>
  \<open>delivered\<close> are the messages written without an error, \<open>accepted\<close> everything \<open>send\<close> was given, and
  \<open>failed\<close> counts the writes that ended in an error: they record history and steer nothing.
\<close>

record WebSocketSession =
  message_queue :: "string list"
  writing :: bool
  posted :: nat
  inflight :: nat
  delivered :: "string list"
  accepted :: "string list"
  failed :: nat

definition WebSocketSession_init :: WebSocketSession where
  "WebSocketSession_init =
     \<lparr>message_queue = [], writing = False, posted = 0, inflight = 0, delivered = [],
      accepted = [], failed = 0\<rparr>"

definition session_send :: "string \<Rightarrow> WebSocketSession \<Rightarrow> WebSocketSession" where
  "session_send message s =
     (let s = s\<lparr>message_queue := message_queue s @ [message], accepted := accepted s @ [message]\<rparr>
      in if \<not> writing s then s\<lparr>writing := True, posted := posted s + 1\<rparr> else s)"

text \<open>
  \<open>doWrite\<close> run by the executor: \<open>front()\<close> of an empty queue is undefined, and so is starting a
  write while another one of the same stream is outstanding.
\<close>

definition session_doWrite :: "WebSocketSession \<Rightarrow> fault + WebSocketSession" where
  "session_doWrite s =
     (if message_queue s = [] \<or> 0 < inflight s then Inl Undefined_behaviour
      else Inr (s\<lparr>posted := posted s - 1, inflight := inflight s + 1\<rparr>))"

text \<open>
  The completion handler of the write.  The flag of the result says that the handler made the
  session leave the server.
\<close>

definition session_write_done :: "bool \<Rightarrow> WebSocketSession \<Rightarrow> fault + (WebSocketSession \<times> bool)" where
  "session_write_done ec s =
     (case message_queue s of
        [] \<Rightarrow> Inl Undefined_behaviour
      | m # ms \<Rightarrow>
          (let s = s\<lparr>message_queue := ms, inflight := inflight s - 1\<rparr>
           in if ec then Inr (s\<lparr>writing := False, failed := failed s + 1\<rparr>, True)
              else let s = s\<lparr>delivered := delivered s @ [m]\<rparr>
                   in if ms \<noteq> [] then Inr (s\<lparr>posted := posted s + 1\<rparr>, False)
                      else Inr (s\<lparr>writing := False\<rparr>, False)))"

text \<open>What can happen to a session, in any order.\<close>

inductive session_step :: "WebSocketSession \<Rightarrow> WebSocketSession \<Rightarrow> bool" where
  Send: "session_step s (session_send m s)"
| Run: "0 < posted s \<Longrightarrow> session_doWrite s = Inr s' \<Longrightarrow> session_step s s'"
| Done: "0 < inflight s \<Longrightarrow> session_write_done ec s = Inr (s', left) \<Longrightarrow> session_step s s'"

inductive_cases session_stepE: "session_step s s'"

definition session_reachable :: "WebSocketSession \<Rightarrow> bool" where
  "session_reachable s = session_step\<^sup>*\<^sup>* WebSocketSession_init s"

definition session_inv :: "WebSocketSession \<Rightarrow> bool" where
  "session_inv s \<longleftrightarrow>
     posted s + inflight s = (if writing s then 1 else 0)
     \<and> (writing s \<longrightarrow> message_queue s \<noteq> [])
     \<and> length (accepted s) = length (delivered s) + failed s + length (message_queue s)
     \<and> (failed s = 0 \<longrightarrow> accepted s = delivered s @ message_queue s
                     \<and> (message_queue s \<noteq> [] \<longrightarrow> writing s))"

lemma session_inv_init: "session_inv WebSocketSession_init"
  by (simp add: session_inv_def WebSocketSession_init_def)

lemma session_inv_send: "session_inv s \<Longrightarrow> session_inv (session_send m s)"
  by (auto simp: session_inv_def session_send_def Let_def)

lemma session_inv_doWrite:
  "session_inv s \<Longrightarrow> session_doWrite s = Inr s' \<Longrightarrow> 0 < posted s \<Longrightarrow> session_inv s'"
  by (auto simp: session_inv_def session_doWrite_def split: if_splits)

lemma session_inv_write_done:
  "session_inv s \<Longrightarrow> session_write_done ec s = Inr (s', left) \<Longrightarrow> 0 < inflight s \<Longrightarrow> session_inv s'"
  by (auto simp: session_inv_def session_write_done_def Let_def split: list.splits if_splits)

lemma session_inv_step: "session_step s s' \<Longrightarrow> session_inv s \<Longrightarrow> session_inv s'"
  by (erule session_stepE)
    (auto intro: session_inv_send session_inv_doWrite session_inv_write_done)

lemma session_inv_reachable: "session_reachable s \<Longrightarrow> session_inv s"
  unfolding session_reachable_def
  by (induction rule: rtranclp_induct) (auto intro: session_inv_init session_inv_step)

text \<open>A posted \<open>doWrite\<close> and a completion never meet an empty queue or a second write.\<close>

lemma session_doWrite_safe:
  "session_inv s \<Longrightarrow> 0 < posted s \<Longrightarrow> \<exists>s'. session_doWrite s = Inr s'"
  by (auto simp: session_inv_def session_doWrite_def split: if_splits)

lemma session_write_done_safe:
  "session_inv s \<Longrightarrow> 0 < inflight s \<Longrightarrow> \<exists>r. session_write_done ec s = Inr r"
  by (auto simp: session_inv_def session_write_done_def Let_def split: list.splits if_splits)

text \<open>The executor serving a session whose writes succeed.\<close>

fun session_run_writes :: "nat \<Rightarrow> WebSocketSession \<Rightarrow> fault + WebSocketSession" where
  "session_run_writes 0 s = Inr s"
| "session_run_writes (Suc n) s =
     bind_result (session_doWrite s) (\<lambda>s1.
       bind_result (session_write_done False s1) (\<lambda>(s2, _). session_run_writes n s2))"

lemma session_run_writes_drains:
  assumes "session_inv s" and "failed s = 0" and "inflight s = 0"
  shows "\<exists>s'. session_run_writes (length (message_queue s)) s = Inr s'
      \<and> message_queue s' = [] \<and> delivered s' = accepted s \<and> \<not> writing s'"
  using assms
proof (induction "length (message_queue s)" arbitrary: s)
  case 0
  then show ?case by (auto simp: session_inv_def)
next
  case (Suc n)
  then obtain m ms where q: "message_queue s = m # ms" and n: "n = length ms"
    by (metis length_Suc_conv)
  let ?s1 = "s\<lparr>posted := posted s - 1, inflight := inflight s + 1\<rparr>"
  obtain s2 where s2: "session_write_done False ?s1 = Inr (s2, False)"
    and q2: "message_queue s2 = ms" and f2: "failed s2 = 0" and i2: "inflight s2 = 0"
    and a2: "accepted s2 = accepted s"
    using Suc.prems q by (cases "ms = []") (simp_all add: session_write_done_def)
  have d1: "session_doWrite s = Inr ?s1"
    using Suc.prems q by (simp add: session_doWrite_def)
  have "0 < posted s"
    using Suc.prems q by (auto simp: session_inv_def split: if_splits)
  then have "session_inv ?s1"
    using Suc.prems(1) d1 by (auto intro: session_inv_doWrite)
  then have "session_inv s2"
    using s2 by (auto intro: session_inv_write_done)
  with Suc.hyps(1) [of s2] q2 f2 i2 n a2 show ?case
    using d1 s2 by (simp add: q)
qed

section \<open>The server\<close>

text \<open>
  The set of the joined sessions, iterated in the order of its pointers, and the sessions
  themselves, which outlive their membership.  A session is named by its address.
\<close>

record WebSocketServer =
  sessions :: "nat list"
  session_at :: "nat \<Rightarrow> WebSocketSession"

definition WebSocketServer_init :: WebSocketServer where
  "WebSocketServer_init = \<lparr>sessions = [], session_at = (\<lambda>_. WebSocketSession_init)\<rparr>"

definition server_send :: "nat \<Rightarrow> string \<Rightarrow> WebSocketServer \<Rightarrow> WebSocketServer" where
  "server_send c message w =
     w\<lparr>session_at := (session_at w)(c := session_send message (session_at w c))\<rparr>"

definition broadcast :: "string \<Rightarrow> WebSocketServer \<Rightarrow> WebSocketServer" where
  "broadcast message w = fold (\<lambda>c. server_send c message) (sessions w) w"

definition leave :: "nat \<Rightarrow> WebSocketServer \<Rightarrow> WebSocketServer" where
  "leave c w = w\<lparr>sessions := remove1 c (sessions w)\<rparr>"

text \<open>The completion of a write of one session, with the \<open>leave\<close> of the error branch.\<close>

definition server_write_done :: "nat \<Rightarrow> bool \<Rightarrow> WebSocketServer \<Rightarrow> fault + WebSocketServer" where
  "server_write_done c ec w =
     bind_result (session_write_done ec (session_at w c)) (\<lambda>(s, left).
       let w = w\<lparr>session_at := (session_at w)(c := s)\<rparr> in Inr (if left then leave c w else w))"

text \<open>
  The message of a state update, and its broadcast.  \<open>dump\<close> is \<open>nlohmann::json::dump\<close>, which raises
  a type error for text that is not UTF-8.
\<close>

definition status_json :: "string \<Rightarrow> string \<Rightarrow> string \<Rightarrow> string \<Rightarrow> json \<Rightarrow> fault + json" where
  "status_json status msgInfo component msgData data =
     bind_result (json_set ''status'' (JString status) JNull) (\<lambda>status_msg.
     bind_result (json_set ''msg'' (JString msgInfo) status_msg) (\<lambda>status_msg.
     bind_result (json_set ''component'' (JString component) JNull) (\<lambda>jsonData.
     bind_result (json_set ''msg'' (JString msgData) jsonData) (\<lambda>jsonData.
     bind_result (json_set ''data'' data jsonData) (\<lambda>jsonData.
       json_set ''data'' jsonData status_msg)))))"

definition updateStateAndBroadcast ::
    "(json \<Rightarrow> fault + string) \<Rightarrow> string \<Rightarrow> string \<Rightarrow> string \<Rightarrow> string \<Rightarrow> json
     \<Rightarrow> WebSocketServer \<Rightarrow> fault + WebSocketServer" where
  "updateStateAndBroadcast dump status msgInfo component msgData data w =
     bind_result (status_json status msgInfo component msgData data) (\<lambda>status_msg.
     bind_result (dump status_msg) (\<lambda>message. Inr (broadcast message w)))"

text \<open>\<open>sendInitStateToClient\<close>: three messages, built by overwriting fields of the same two objects.\<close>

definition sendInitStateToClient ::
    "(json \<Rightarrow> fault + string) \<Rightarrow> 'a StateView_scheme \<Rightarrow> nat \<Rightarrow> WebSocketServer
     \<Rightarrow> fault + WebSocketServer" where
  "sendInitStateToClient dump view c w =
     bind_result (json_set ''status'' (JString ''success'') JNull) (\<lambda>status_msg.
     bind_result (json_set ''msg'' (JString '''') status_msg) (\<lambda>status_msg.
     bind_result (json_set ''component'' (JString ''Header'') JNull) (\<lambda>jsonData.
     bind_result (json_set ''msg'' (JString ''update_temperature_noti'') jsonData) (\<lambda>jsonData.
     bind_result (json_set ''data''
       (json_object [(''temperature'', JInt (CURRENT_TEMPERATURE view))]) jsonData) (\<lambda>jsonData.
     bind_result (json_set ''data'' jsonData status_msg) (\<lambda>status_msg.
     bind_result (dump status_msg) (\<lambda>message.
       let w = server_send c message w in
     bind_result (json_set ''msg'' (JString ''initial_state'') jsonData) (\<lambda>jsonData.
     bind_result (json_set ''component'' (JString ''Record'') jsonData) (\<lambda>jsonData.
     bind_result (json_set ''data''
       (json_object [(''is_recording'', JBool (RECORD_STATE view = RecordState.RECORDING))])
       jsonData) (\<lambda>jsonData.
     bind_result (json_set ''data'' jsonData status_msg) (\<lambda>status_msg.
     bind_result (dump status_msg) (\<lambda>message.
       let w = server_send c message w in
     bind_result (json_set ''msg'' (JString ''initial_state'') jsonData) (\<lambda>jsonData.
     bind_result (json_set ''component'' (JString ''Settings'') jsonData) (\<lambda>jsonData.
     bind_result (json_set ''data''
       (json_object
         [(''bluetooth_power_state'', JBool (BLUETOOTH_POWER_STATE view = BluetoothPowerState.ON)),
          (''scanning_btdevice_state'',
            JBool (SCANNING_BTDEVICE_STATE view = ScanningBTDeviceState.SCANNING))])
       jsonData) (\<lambda>jsonData.
     bind_result (json_set ''data'' jsonData status_msg) (\<lambda>status_msg.
     bind_result (dump status_msg) (\<lambda>message. Inr (server_send c message w))))))))))))))))))"

text \<open>
  \<open>join\<close>, called by \<open>WebSocketSession::doAccept\<close>: the session enters the set, gets the current state,
  and the hardware manager is asked to report its Bluetooth devices.  \<open>doAccept\<close> then starts reading,
  which needs the address of the peer: \<open>remote_endpoint\<close> raises a system error when the socket is
  not connected any more.
\<close>

definition join ::
    "(nat \<Rightarrow> faults) \<Rightarrow> (json \<Rightarrow> fault + string) \<Rightarrow> 'a StateView_scheme \<Rightarrow> nat
     \<Rightarrow> WebSocketServer \<times> dbus_sender \<Rightarrow> fault + (WebSocketServer \<times> dbus_sender)" where
  "join F dump view c ws =
     (case ws of (w, sender) \<Rightarrow>
        let w = w\<lparr>sessions := (if c \<in> set (sessions w) then sessions w else insort c (sessions w))\<rparr>
        in bind_result (sendInitStateToClient dump view c w) (\<lambda>w.
             Inr (w, snd (sendMessage F CM_makeMsg DBusCommand.INITIALIZE_BLUETOOTH sender))))"

definition session_doAccept ::
    "(nat \<Rightarrow> faults) \<Rightarrow> (json \<Rightarrow> fault + string) \<Rightarrow> 'a StateView_scheme \<Rightarrow> bool \<Rightarrow> nat
     \<Rightarrow> WebSocketServer \<times> dbus_sender \<Rightarrow> fault + (WebSocketServer \<times> dbus_sender)" where
  "session_doAccept F dump view has_peer c ws =
     bind_result (join F dump view c ws) (\<lambda>ws.
       if has_peer then Inr ws else Inl System_error)"

section \<open>What the clients get\<close>

lemma status_json_Inr:
  "status_json status msgInfo component msgData data =
   Inr (JObject
     [(''data'', JObject [(''component'', JString component), (''data'', data), (''msg'', JString msgData)]),
      (''msg'', JString msgInfo), (''status'', JString status)])"
  by (simp add: status_json_def json_set_def)

lemma server_send_simps [simp]:
  "sessions (server_send c m w) = sessions w"
  "session_at (server_send c m w) c' =
     (if c' = c then session_send m (session_at w c) else session_at w c')"
  by (simp_all add: server_send_def)

lemma sessions_broadcast [simp]: "sessions (broadcast m w) = sessions w"
proof -
  have "sessions (fold (\<lambda>c. server_send c m) cs w) = sessions w" for cs
    by (induction cs arbitrary: w) auto
  then show ?thesis by (simp add: broadcast_def)
qed

lemma session_at_fold_send:
  "distinct cs \<Longrightarrow>
   session_at (fold (\<lambda>c. server_send c m) cs w) c =
     (if c \<in> set cs then session_send m (session_at w c) else session_at w c)"
  by (induction cs arbitrary: w) auto

definition server_inv :: "WebSocketServer \<Rightarrow> bool" where
  "server_inv w \<longleftrightarrow> sorted (sessions w) \<and> distinct (sessions w) \<and> (\<forall>c. session_inv (session_at w c))"

lemma server_inv_init: "server_inv WebSocketServer_init"
  by (simp add: server_inv_def WebSocketServer_init_def session_inv_init)

lemma session_at_broadcast:
  "server_inv w \<Longrightarrow> session_at (broadcast m w) c =
     (if c \<in> set (sessions w) then session_send m (session_at w c) else session_at w c)"
  by (simp add: broadcast_def session_at_fold_send server_inv_def)

lemma server_inv_server_send: "server_inv w \<Longrightarrow> server_inv (server_send c m w)"
  by (simp add: server_inv_def session_inv_send)

lemma server_inv_broadcast: "server_inv w \<Longrightarrow> server_inv (broadcast m w)"
  by (auto simp: server_inv_def [of "broadcast m w"] session_at_broadcast)
    (auto simp: server_inv_def session_inv_send)

lemma server_inv_leave: "server_inv w \<Longrightarrow> server_inv (leave c w)"
  by (simp add: server_inv_def leave_def sorted_remove1)

lemma server_inv_write_done:
  "server_inv w \<Longrightarrow> 0 < inflight (session_at w c) \<Longrightarrow> server_write_done c ec w = Inr w' \<Longrightarrow>
   server_inv w'"
  using session_inv_write_done [of "session_at w c" ec]
  by (auto simp: server_write_done_def bind_result_Inr Let_def server_inv_def leave_def sorted_remove1)

lemma accepted_session_send [simp]: "accepted (session_send m s) = accepted s @ [m]"
  by (simp add: session_send_def Let_def)

lemma updateStateAndBroadcast_Inr:
  "updateStateAndBroadcast dump status msgInfo component msgData data w = Inr w' \<longleftrightarrow>
   (\<exists>j m. status_json status msgInfo component msgData data = Inr j \<and> dump j = Inr m
      \<and> w' = broadcast m w)"
  by (auto simp: updateStateAndBroadcast_def bind_result_Inr)

text \<open>A client whose write failed is in the set no more.\<close>

lemma write_error_leaves:
  "server_inv w \<Longrightarrow> server_write_done c True w = Inr w' \<Longrightarrow> c \<notin> set (sessions w')"
  by (auto simp: server_write_done_def bind_result_Inr Let_def session_write_done_def leave_def
      server_inv_def split: list.splits)

text \<open>A client that joins gets the three messages of the initial state, and only that client.\<close>

definition init_messages :: "'a StateView_scheme \<Rightarrow> json list" where
  "init_messages view =
     map (\<lambda>(component, msg, data).
       JObject
         [(''data'', JObject [(''component'', JString component), (''data'', data), (''msg'', JString msg)]),
          (''msg'', JString ''''), (''status'', JString ''success'')])
       [(''Header'', ''update_temperature_noti'',
           JObject [(''temperature'', JInt (CURRENT_TEMPERATURE view))]),
        (''Record'', ''initial_state'',
           JObject [(''is_recording'', JBool (RECORD_STATE view = RecordState.RECORDING))]),
        (''Settings'', ''initial_state'',
           JObject
             [(''bluetooth_power_state'', JBool (BLUETOOTH_POWER_STATE view = BluetoothPowerState.ON)),
              (''scanning_btdevice_state'',
                 JBool (SCANNING_BTDEVICE_STATE view = ScanningBTDeviceState.SCANNING))])]"

lemma sendInitStateToClient_Inr:
  "sendInitStateToClient dump view c w = Inr w' \<longleftrightarrow>
   (\<exists>ms. map dump (init_messages view) = map Inr ms \<and> w' = fold (server_send c) ms w)"
  by (auto simp: sendInitStateToClient_def json_set_def json_object_def Let_def bind_result_Inr
      init_messages_def Cons_eq_map_conv)

end
