(* ===== verification/LockOrder.thy ===== *)
theory LockOrder
  imports WebSocketServer
begin

text \<open>
  The locking of \<open>coremgr/src/WS/WebSocketServer.cpp\<close>.  The main worker broadcasts: it holds the
  server's \<open>mutex_\<close> and takes each session's \<open>queue_mutex_\<close> in turn.  The I/O thread completes
  writes: it holds the session's \<open>queue_mutex_\<close> and, when the write failed, takes \<open>mutex_\<close> in \<open>leave\<close>.
  The two orders are opposite; the step relation below has one step per lock and unlock.
\<close>

datatype thread = Main_thread | Io_thread

text \<open>
  Where the main worker is: outside \<open>updateStateAndBroadcast\<close>, in the loop of \<open>broadcast\<close> with the
  sessions still to be served, or inside \<open>send\<close> of the first of them.
\<close>

datatype main_pc = M_outside | M_loop "nat list" | M_send nat "nat list"

text \<open>
  Where the I/O thread is: outside the completion handler, inside it for a session after its lock
  (with the error code of the write), or inside \<open>leave\<close>.
\<close>

datatype io_pc = I_outside | I_handler nat bool | I_leave nat

record locks =
  members :: "nat list"
  mutex :: "thread option"
  queue_mutex :: "nat \<Rightarrow> thread option"
  main_pc :: main_pc
  io_pc :: io_pc

definition locks_init :: "nat list \<Rightarrow> locks" where
  "locks_init cs =
     \<lparr>members = cs, mutex = None, queue_mutex = (\<lambda>_. None), main_pc = M_outside, io_pc = I_outside\<rparr>"

inductive lock_step :: "locks \<Rightarrow> locks \<Rightarrow> bool" where
  broadcast_lock: "main_pc s = M_outside \<Longrightarrow> mutex s = None \<Longrightarrow>
    lock_step s (s\<lparr>mutex := Some Main_thread, main_pc := M_loop (members s)\<rparr>)"
| send_lock: "main_pc s = M_loop (c # cs) \<Longrightarrow> queue_mutex s c = None \<Longrightarrow>
    lock_step s (s\<lparr>queue_mutex := (queue_mutex s)(c := Some Main_thread), main_pc := M_send c cs\<rparr>)"
| send_unlock: "main_pc s = M_send c cs \<Longrightarrow>
    lock_step s (s\<lparr>queue_mutex := (queue_mutex s)(c := None), main_pc := M_loop cs\<rparr>)"
| broadcast_unlock: "main_pc s = M_loop [] \<Longrightarrow>
    lock_step s (s\<lparr>mutex := None, main_pc := M_outside\<rparr>)"
| handler_lock: "io_pc s = I_outside \<Longrightarrow> queue_mutex s c = None \<Longrightarrow>
    lock_step s (s\<lparr>queue_mutex := (queue_mutex s)(c := Some Io_thread), io_pc := I_handler c ec\<rparr>)"
| handler_unlock: "io_pc s = I_handler c False \<Longrightarrow>
    lock_step s (s\<lparr>queue_mutex := (queue_mutex s)(c := None), io_pc := I_outside\<rparr>)"
| leave_lock: "io_pc s = I_handler c True \<Longrightarrow> mutex s = None \<Longrightarrow>
    lock_step s (s\<lparr>mutex := Some Io_thread, io_pc := I_leave c,
      members := remove1 c (members s)\<rparr>)"
| leave_unlock: "io_pc s = I_leave c \<Longrightarrow>
    lock_step s (s\<lparr>mutex := None, io_pc := I_handler c False\<rparr>)"

text \<open>After \<open>leave\<close> returned the handler only unlocks, as it does after a write without an error.\<close>

inductive_simps lock_step_iff: "lock_step s s'"

definition stuck :: "locks \<Rightarrow> bool" where
  "stuck s = (\<not> (\<exists>s'. lock_step s s'))"

text \<open>Who holds what follows from where the threads are.\<close>

definition locks_inv :: "locks \<Rightarrow> bool" where
  "locks_inv s \<longleftrightarrow>
     (mutex s = Some Main_thread \<longleftrightarrow> main_pc s \<noteq> M_outside)
     \<and> (mutex s = Some Io_thread \<longleftrightarrow> (\<exists>c. io_pc s = I_leave c))
     \<and> (\<forall>c. queue_mutex s c = Some Main_thread \<longleftrightarrow> (\<exists>cs. main_pc s = M_send c cs))
     \<and> (\<forall>c. queue_mutex s c = Some Io_thread \<longleftrightarrow> (io_pc s = I_leave c \<or> (\<exists>ec. io_pc s = I_handler c ec)))"

lemma locks_inv_init: "locks_inv (locks_init cs)"
  by (simp add: locks_inv_def locks_init_def)

lemma locks_inv_step: "lock_step s s' \<Longrightarrow> locks_inv s \<Longrightarrow> locks_inv s'"
  by (induction rule: lock_step.induct)
    (auto simp: locks_inv_def; metis option.distinct(1) option.inject thread.distinct(1))+

lemma locks_inv_reachable: "lock_step\<^sup>*\<^sup>* (locks_init cs) s \<Longrightarrow> locks_inv s"
  by (induction rule: rtranclp_induct) (auto intro: locks_inv_init locks_inv_step)

text \<open>The only way to be stuck is the main worker in \<open>send\<close> and the I/O thread in \<open>leave\<close>, crosswise.\<close>

definition crossed :: "locks \<Rightarrow> bool" where
  "crossed s \<longleftrightarrow> (\<exists>c cs. main_pc s = M_loop (c # cs) \<and> io_pc s = I_handler c True
      \<and> mutex s = Some Main_thread \<and> queue_mutex s c = Some Io_thread)"

lemma thread_None: "x = None \<longleftrightarrow> x \<noteq> Some Main_thread \<and> x \<noteq> Some Io_thread"
  by (metis not_Some_eq option.distinct(1) thread.exhaust)

lemma stuck_crossed:
  assumes inv: "locks_inv s" and stuck: "stuck s"
  shows "crossed s"
proof -
  have no: "\<not> lock_step s s'" for s' using stuck by (simp add: stuck_def)
  obtain c where io: "io_pc s = I_handler c True" and m: "mutex s \<noteq> None"
  proof (cases "io_pc s")
    case I_outside
    have "\<exists>c. queue_mutex s c = None"
    proof (rule ccontr)
      assume "\<nexists>c. queue_mutex s c = None"
      then have all: "queue_mutex s c = Some Main_thread" for c
        using inv I_outside by (auto simp: locks_inv_def thread_None)
      from all [of 0] all [of 1] inv show False by (auto simp: locks_inv_def)
    qed
    with I_outside no show ?thesis by (blast intro: handler_lock)
  next
    case (I_handler c ec)
    show ?thesis
    proof (cases ec)
      case True
      with I_handler have h: "io_pc s = I_handler c True" by simp
      then have "mutex s \<noteq> None" using no leave_lock by blast
      with h that show ?thesis by blast
    next
      case False
      with I_handler have "io_pc s = I_handler c False" by simp
      then show ?thesis using no handler_unlock by blast
    qed
  next
    case (I_leave c)
    with no show ?thesis by (blast intro: leave_unlock)
  qed
  with inv have mx: "mutex s = Some Main_thread" and qc: "queue_mutex s c = Some Io_thread"
    by (auto simp: locks_inv_def thread_None)
  then have out: "main_pc s \<noteq> M_outside" using inv by (simp add: locks_inv_def)
  show ?thesis
  proof (cases "main_pc s")
    case M_outside
    with out show ?thesis by simp
  next
    case (M_loop cs)
    show ?thesis
    proof (cases cs)
      case Nil
      with M_loop no show ?thesis by (blast intro: broadcast_unlock)
    next
      case (Cons c' cs')
      with M_loop have "main_pc s = M_loop (c' # cs')" by simp
      then have "queue_mutex s c' \<noteq> None" using no send_lock by blast
      moreover have "queue_mutex s c' \<noteq> Some Main_thread"
        using inv M_loop by (simp add: locks_inv_def)
      ultimately have "queue_mutex s c' = Some Io_thread" by (simp add: thread_None)
      then have "c' = c" using inv io by (simp add: locks_inv_def)
      with M_loop Cons io mx qc show ?thesis by (auto simp: crossed_def)
    qed
  next
    case (M_send c' cs)
    with no show ?thesis by (blast intro: send_unlock)
  qed
qed

lemma crossed_stuck: "crossed s \<Longrightarrow> stuck s"
  by (auto simp: crossed_def stuck_def lock_step_iff)

text \<open>And it can be reached: the write of the session served first fails during the broadcast.\<close>

lemma crossed_reachable:
  "\<exists>s. lock_step\<^sup>*\<^sup>* (locks_init (c # cs)) s \<and> crossed s"
proof -
  let ?s0 = "locks_init (c # cs)"
  let ?s1 = "?s0\<lparr>queue_mutex := (queue_mutex ?s0)(c := Some Io_thread), io_pc := I_handler c True\<rparr>"
  let ?s2 = "?s1\<lparr>mutex := Some Main_thread, main_pc := M_loop (members ?s1)\<rparr>"
  have "lock_step ?s0 ?s1"
    by (rule handler_lock) (simp_all add: locks_init_def)
  moreover have "lock_step ?s1 ?s2"
    by (rule broadcast_lock) (simp_all add: locks_init_def)
  moreover have "crossed ?s2"
    by (simp add: crossed_def locks_init_def)
  ultimately show ?thesis
    by (meson rtranclp.rtrancl_into_rtrancl rtranclp.rtrancl_refl)
qed

end
