(* ===== verification/AlsaHelper.thy ===== *)
theory AlsaHelper
  imports Configs "HOL-Library.Word"
begin

text \<open>
  The record manager's microphone and WAV file, \<open>recordmgr/src/Util/AlsaHelper.cpp\<close>: the search for
  a capture device, opening and closing the PCM handle, one read, and the bytes of the file that is
  written, with its sizes kept as the 32-bit words they are.
\<close>

section \<open>The sound library\<close>

text \<open>
  What libasound answers: which cards and devices there are, and the return code of each call of
  \<open>initAlsa\<close>; a negative code is an error.
\<close>

record alsa =
  sound_cards :: "nat list"
  ctl_open :: "nat \<Rightarrow> int"
  ctl_devices :: "nat \<Rightarrow> nat list"
  ctl_pcm_info :: "nat \<Rightarrow> nat \<Rightarrow> int"
  pcm_open :: "string \<Rightarrow> int"
  hw_params_any :: int
  hw_params_set_access :: int
  hw_params_set_format :: int
  hw_params_set_rate_near :: int
  hw_params_set_channels :: int
  hw_params :: int
  pcm_prepare :: int

text \<open>One \<open>snd_pcm_readi\<close>: its result, what it put into the buffer, and what \<open>snd_pcm_recover\<close> gives.\<close>

record pcm_read =
  readi :: int
  frames_read :: "16 word list"
  recover :: int

definition EPIPE :: int where "EPIPE = 32"

text \<open>
  The helper: its handle (whether it is set), the samples and the path of the file.  \<open>open_handles\<close>
  counts the handles of the process that are open.
\<close>

record AlsaHelper =
  pcmHandle :: bool
  audioBuffer :: "16 word list"
  outputFilePath :: string
  open_handles :: nat

definition AlsaHelper_init :: AlsaHelper where
  "AlsaHelper_init = \<lparr>pcmHandle = False, audioBuffer = [], outputFilePath = [], open_handles = 0\<rparr>"

section \<open>Finding and opening the device\<close>

fun find_device :: "alsa \<Rightarrow> nat \<Rightarrow> nat list \<Rightarrow> nat option" where
  "find_device L hw [] = None"
| "find_device L hw (dev # devs) =
     (if 0 \<le> ctl_pcm_info L hw dev then Some dev else find_device L hw devs)"

fun find_card :: "alsa \<Rightarrow> nat list \<Rightarrow> (nat \<times> nat) option" where
  "find_card L [] = None"
| "find_card L (hw # hws) =
     (if ctl_open L hw < 0 then find_card L hws
      else (case find_device L hw (ctl_devices L hw) of
              Some dev \<Rightarrow> Some (hw, dev)
            | None \<Rightarrow> find_card L hws))"

definition findCaptureDevice :: "string \<Rightarrow> alsa \<Rightarrow> string" where
  "findCaptureDevice microphone L =
     (case find_card L (sound_cards L) of
        Some (hw, dev) \<Rightarrow> ''plughw:'' @ int_to_string (int hw) @ '','' @ int_to_string (int dev)
      | None \<Rightarrow> microphone)"

definition initAlsa :: "string \<Rightarrow> alsa \<Rightarrow> AlsaHelper \<Rightarrow> bool \<times> AlsaHelper" where
  "initAlsa microphone L h =
     (let device = findCaptureDevice microphone L
      in if pcm_open L device < 0 then (False, h\<lparr>pcmHandle := False\<rparr>)
         else let h = h\<lparr>pcmHandle := True, open_handles := open_handles h + 1\<rparr>
              in if hw_params_any L < 0 then (False, h)
                 else if hw_params_set_access L < 0 then (False, h)
                 else if hw_params_set_format L < 0 then (False, h)
                 else if hw_params_set_rate_near L < 0 then (False, h)
                 else if hw_params_set_channels L < 0 then (False, h)
                 else if hw_params L < 0 then (False, h)
                 else if pcm_prepare L < 0 then (False, h)
                 else (True, h))"

definition cleanupAlsa :: "AlsaHelper \<Rightarrow> AlsaHelper" where
  "cleanupAlsa h =
     (if pcmHandle h then h\<lparr>pcmHandle := False, open_handles := open_handles h - 1\<rparr> else h)"

section \<open>Reading\<close>

text \<open>
  \<open>captureOnce\<close>: the buffer of one period starts as zeros; libasound reports at most as many frames
  as it was asked for.
\<close>

definition captureOnce :: "pcm_read \<Rightarrow> AlsaHelper \<Rightarrow> bool \<times> AlsaHelper" where
  "captureOnce r h =
     (if \<not> pcmHandle h then (False, h)
      else let buffer = take FRAMES_PER_PERIOD (frames_read r @ replicate FRAMES_PER_PERIOD 0)
           in if readi r = - EPIPE then (True, h)
              else if readi r < 0 then (if recover r < 0 then (False, h) else (True, h))
              else (True, h\<lparr>audioBuffer := audioBuffer h @ take (nat (readi r)) buffer\<rparr>))"

definition clearAudioBuffer :: "AlsaHelper \<Rightarrow> AlsaHelper" where
  "clearAudioBuffer h = h\<lparr>audioBuffer := []\<rparr>"

definition isAudioBufferEmpty :: "AlsaHelper \<Rightarrow> bool" where
  "isAudioBufferEmpty h = (audioBuffer h = [])"

section \<open>The file\<close>

type_synonym byte = "8 word"

definition ascii :: "string \<Rightarrow> byte list" where
  "ascii s = map of_char s"

text \<open>The machine is little-endian, so writing the object representation writes the low byte first.\<close>

definition le16 :: "16 word \<Rightarrow> byte list" where
  "le16 w = [ucast w, ucast (drop_bit 8 w)]"

definition le32 :: "32 word \<Rightarrow> byte list" where
  "le32 w = [ucast w, ucast (drop_bit 8 w), ucast (drop_bit 16 w), ucast (drop_bit 24 w)]"

definition wav_bytes :: "16 word list \<Rightarrow> byte list" where
  "wav_bytes samples =
     (let subchunk2Size = (of_nat (length samples * 2) :: 32 word);
          chunkSize = 36 + subchunk2Size;
          byteRate = (of_nat SAMPLE_RATE * 1 * 2 :: 32 word);
          blockAlign = (1 * 2 :: 16 word);
          subchunk1Size = (16 :: 32 word);
          audioFormat = (1 :: 16 word);
          numChannels = (1 :: 16 word);
          sampleRate = (of_nat SAMPLE_RATE :: 32 word);
          bitsPerSample = (16 :: 16 word)
      in ascii ''RIFF'' @ le32 chunkSize @ ascii ''WAVE''
         @ ascii ''fmt '' @ le32 subchunk1Size @ le16 audioFormat @ le16 numChannels @ le32 sampleRate
         @ le32 byteRate @ le16 blockAlign @ le16 bitsPerSample
         @ ascii ''data'' @ le32 subchunk2Size
         @ take (unat subchunk2Size) (concat (map le16 samples)))"

text \<open>
  The file system as far as this program uses it: the contents of the files.  For the write of a
  recording, \<open>stamp\<close> is the formatted local time, \<open>can_open\<close> whether the file could be opened, and
  \<open>disk_room\<close> how many bytes reach the disk; \<open>saveWavFile\<close> does not look at the stream's state.
\<close>

type_synonym filesystem = "string \<rightharpoonup> byte list"

record wav_write =
  stamp :: string
  can_open :: bool
  disk_room :: nat

definition saveWavFile :: "wav_write \<Rightarrow> AlsaHelper \<Rightarrow> filesystem \<Rightarrow> bool \<times> AlsaHelper \<times> filesystem" where
  "saveWavFile w h fs =
     (if audioBuffer h = [] then (False, h, fs)
      else let h = h\<lparr>outputFilePath := WAV_OUTPUT_DIR @ ''/record_'' @ stamp w @ ''.wav''\<rparr>
           in if \<not> can_open w then (False, h, fs)
              else (True, h, fs(outputFilePath h \<mapsto> take (disk_room w) (wav_bytes (audioBuffer h)))))"

section \<open>Handles\<close>

definition alsa_inv :: "AlsaHelper \<Rightarrow> bool" where
  "alsa_inv h \<longleftrightarrow> open_handles h = (if pcmHandle h then 1 else 0)"

lemma alsa_inv_init: "alsa_inv AlsaHelper_init"
  by (simp add: alsa_inv_def AlsaHelper_init_def)

lemma initAlsa_inv:
  assumes "alsa_inv h" and "\<not> pcmHandle h"
  shows "alsa_inv (snd (initAlsa mic L h))" "fst (initAlsa mic L h) \<Longrightarrow> pcmHandle (snd (initAlsa mic L h))"
  using assms by (auto simp: alsa_inv_def initAlsa_def Let_def)

lemma initAlsa_buffer [simp]: "audioBuffer (snd (initAlsa mic L h)) = audioBuffer h"
  by (simp add: initAlsa_def Let_def)

lemma cleanupAlsa_inv: "alsa_inv h \<Longrightarrow> alsa_inv (cleanupAlsa h)" "\<not> pcmHandle (cleanupAlsa h)"
  by (simp_all add: alsa_inv_def cleanupAlsa_def)

lemma captureOnce_frame [simp]:
  "pcmHandle (snd (captureOnce r h)) = pcmHandle h"
  "open_handles (snd (captureOnce r h)) = open_handles h"
  "outputFilePath (snd (captureOnce r h)) = outputFilePath h"
  by (simp_all add: captureOnce_def Let_def)

lemma saveWavFile_frame [simp]:
  "pcmHandle (fst (snd (saveWavFile w h fs))) = pcmHandle h"
  "open_handles (fst (snd (saveWavFile w h fs))) = open_handles h"
  "audioBuffer (fst (snd (saveWavFile w h fs))) = audioBuffer h"
  by (simp_all add: saveWavFile_def Let_def)

lemma clearAudioBuffer_frame [simp]:
  "pcmHandle (clearAudioBuffer h) = pcmHandle h" "open_handles (clearAudioBuffer h) = open_handles h"
  "audioBuffer (clearAudioBuffer h) = []"
  by (simp_all add: clearAudioBuffer_def)

lemma alsa_inv_frame [simp]:
  "alsa_inv (snd (captureOnce r h)) = alsa_inv h"
  "alsa_inv (fst (snd (saveWavFile w h fs))) = alsa_inv h"
  "alsa_inv (clearAudioBuffer h) = alsa_inv h"
  by (simp_all add: alsa_inv_def)

text \<open>One read adds at most one period.\<close>

lemma captureOnce_length:
  "length (audioBuffer (snd (captureOnce r h))) \<le> length (audioBuffer h) + FRAMES_PER_PERIOD"
  by (simp add: captureOnce_def Let_def del: take_append)

section \<open>Reading the file back\<close>

text \<open>The values of little-endian bytes, and a reader of RIFF files with one channel of 16-bit PCM.\<close>

definition le_nat :: "byte list \<Rightarrow> nat" where
  "le_nat bs = foldr (\<lambda>b n. unat b + 256 * n) bs 0"

fun samples_of :: "byte list \<Rightarrow> 16 word list option" where
  "samples_of [] = Some []"
| "samples_of [b] = None"
| "samples_of (lo # hi # bs) = map_option ((#) (of_nat (le_nat [lo, hi]))) (samples_of bs)"

record wav =
  wav_rate :: nat
  wav_samples :: "16 word list"

definition field :: "nat \<Rightarrow> nat \<Rightarrow> byte list \<Rightarrow> byte list" where
  "field i n bs = take n (drop i bs)"

definition parse_wav :: "byte list \<Rightarrow> wav option" where
  "parse_wav bs =
     (if 44 \<le> length bs
        \<and> field 0 4 bs = ascii ''RIFF'' \<and> le_nat (field 4 4 bs) + 8 = length bs
        \<and> field 8 4 bs = ascii ''WAVE'' \<and> field 12 4 bs = ascii ''fmt ''
        \<and> le_nat (field 16 4 bs) = 16 \<and> le_nat (field 20 2 bs) = 1 \<and> le_nat (field 22 2 bs) = 1
        \<and> le_nat (field 28 4 bs) = le_nat (field 24 4 bs) * 2
        \<and> le_nat (field 32 2 bs) = 2 \<and> le_nat (field 34 2 bs) = 16
        \<and> field 36 4 bs = ascii ''data'' \<and> le_nat (field 40 4 bs) + 44 = length bs
      then map_option (\<lambda>xs. \<lparr>wav_rate = le_nat (field 24 4 bs), wav_samples = xs\<rparr>)
             (samples_of (drop 44 bs))
      else None)"

lemma unat_byte: "unat (ucast (drop_bit n w) :: byte) = unat (w :: 'a :: len word) div 2 ^ n mod 256"
proof -
  have lt: "unat w < 2 ^ LENGTH('a)" by (rule unsigned_less)
  have "unat (drop_bit n w) = unat w div 2 ^ n"
    using lt
    by (simp only: unsigned_drop_bit_eq take_bit_eq_mod mod_less drop_bit_eq_div [where ?'a = nat])
  then show ?thesis by (simp add: unsigned_ucast_eq take_bit_eq_mod)
qed

lemma le_nat_le16: "le_nat (le16 w) = unat w"
proof -
  have "unat w < 65536" using unsigned_less [of w] by simp
  then show ?thesis
    using unat_byte [of 0 w] unat_byte [of 8 w] by (simp add: le_nat_def le16_def)
qed

lemma le_nat_le32: "le_nat (le32 w) = unat w"
proof -
  have lt: "unat w < 4294967296" using unsigned_less [of w] by simp
  have *: "n mod 256 + 256 * (n div 256 mod 256 + 256 * (n div 65536 mod 256 + 256 * (n div 16777216 mod 256))) = n"
    if "n < 4294967296" for n :: nat
  proof -
    have d: "n div 65536 = n div 256 div 256" "n div 16777216 = n div 256 div 256 div 256"
      by (simp_all add: div_mult2_eq [symmetric])
    have "n div 256 div 256 div 256 < 256" using that by (simp add: less_mult_imp_div_less)
    then show ?thesis unfolding d by (simp only: mod_less mod_mult_div_eq)
  qed
  have "le_nat (le32 w) = unat w mod 256 + 256 * (unat w div 256 mod 256
      + 256 * (unat w div 65536 mod 256 + 256 * (unat w div 16777216 mod 256)))"
    using unat_byte [of 0 w] unat_byte [of 8 w] unat_byte [of 16 w] unat_byte [of 24 w]
    by (simp add: le_nat_def le32_def)
  also have "\<dots> = unat w" by (rule * [OF lt])
  finally show ?thesis .
qed

lemma length_le [simp]: "length (le16 w) = 2" "length (le32 v) = 4"
  by (simp_all add: le16_def le32_def)

lemma samples_of_le16: "samples_of (concat (map le16 xs)) = Some xs"
proof (induction xs)
  case (Cons x xs)
  have "of_nat (le_nat (le16 x)) = x" unfolding le_nat_le16 by simp
  with Cons show ?case by (simp add: le16_def)
qed simp

lemma length_concat_le16: "length (concat (map le16 xs)) = 2 * length xs"
  by (induction xs) simp_all

text \<open>A size that does not fit into 32 bits wraps, and only that many samples are written.\<close>

lemma take_concat_le16: "take (2 * n) (concat (map le16 xs)) = concat (map le16 (take n xs))"
proof (induction xs arbitrary: n)
  case (Cons x xs)
  then show ?case by (cases n) (simp_all add: le16_def)
qed simp

lemma unat_bytes: "unat (of_nat (n * 2) :: 32 word) = 2 * (n mod 2 ^ 31)"
proof -
  have "unat (of_nat (n * 2) :: 32 word) = (n * 2) mod 2 ^ 32"
    by (simp only: unat_of_nat) simp
  then show ?thesis by (simp add: mult_mod_right mult.commute)
qed

lemma wav_bytes_wraps: "wav_bytes xs = wav_bytes (take (length xs mod 2 ^ 31) xs)"
proof -
  let ?n = "length xs mod 2 ^ 31"
  have w: "(of_nat (length xs * 2) :: 32 word) = of_nat (?n * 2)"
    by (simp only: word_unat_eq_iff unat_bytes) simp
  have l: "length (take ?n xs) = ?n" by (simp add: min_def)
  have u: "unat (of_nat (?n * 2) :: 32 word) = 2 * ?n"
    by (simp only: unat_bytes) simp
  show ?thesis
    unfolding wav_bytes_def Let_def l w u take_concat_le16 by simp
qed

lemma parse_wav_bytes:
  assumes "length xs < 2 ^ 31 - 18"
  shows "parse_wav (wav_bytes xs) = Some \<lparr>wav_rate = SAMPLE_RATE, wav_samples = xs\<rparr>"
    and "length (wav_bytes xs) = 44 + 2 * length xs"
proof -
  define size where "size = (of_nat (length xs * 2) :: 32 word)"
  have u: "unat size = 2 * length xs"
    using assms by (simp only: size_def unat_bytes) simp
  have u36: "unat (36 + size) = 36 + 2 * length xs"
    using assms u by (simp add: unat_add_lem [THEN iffD1])
  have rest: "take (unat size) (concat (map le16 xs)) = concat (map le16 xs)"
    by (simp add: u length_concat_le16)
  have shape: "wav_bytes xs = ascii ''RIFF'' @ le32 (36 + size) @ ascii ''WAVE''
      @ ascii ''fmt '' @ le32 16 @ le16 1 @ le16 1 @ le32 (of_nat SAMPLE_RATE)
      @ le32 (of_nat SAMPLE_RATE * 1 * 2) @ le16 (1 * 2) @ le16 16
      @ ascii ''data'' @ le32 size @ concat (map le16 xs)"
    unfolding wav_bytes_def Let_def size_def [symmetric] rest ..
  have a: "length (ascii s) = length s" for s by (simp add: ascii_def)
  show len: "length (wav_bytes xs) = 44 + 2 * length xs"
    by (simp add: shape a length_concat_le16)
  show "parse_wav (wav_bytes xs) = Some \<lparr>wav_rate = SAMPLE_RATE, wav_samples = xs\<rparr>"
    unfolding parse_wav_def len
    by (simp add: shape field_def a le_nat_le16 le_nat_le32 u u36 samples_of_le16 SAMPLE_RATE_def)
qed

end
