(* ===== verification/RMSenderFactory.thy ===== *)
theory RMSenderFactory
  imports DBusTransport Configs
begin

text \<open>
  \<open>recordmgr/src/DBus/RMSenderFactory.cpp\<close>: the notifications the record manager sends to the core
  manager, one definition per method.
\<close>

named_theorems RM_factory_simps \<open>the methods of RMSenderFactory\<close>

definition RM_makeMsgNoti_StartRecord ::
    "faults \<Rightarrow> DBusCommand \<Rightarrow> bool \<Rightarrow> DBusDataInfo \<Rightarrow> dbus_msg option" where [RM_factory_simps]:
  "RM_makeMsgNoti_StartRecord F cmd isSuccess msgInfo =
     makeMsgNotiInternal F ''/com/example/coremanager'' ''com.example.coremanager.interface''
       ''CoreSignal'' cmd isSuccess msgInfo"

definition RM_makeMsgNoti_StopRecord ::
    "faults \<Rightarrow> DBusCommand \<Rightarrow> bool \<Rightarrow> DBusDataInfo \<Rightarrow> dbus_msg option" where [RM_factory_simps]:
  "RM_makeMsgNoti_StopRecord F cmd isSuccess msgInfo =
     makeMsgNotiInternal F ''/com/example/coremanager'' ''com.example.coremanager.interface''
       ''CoreSignal'' cmd isSuccess msgInfo"

definition RM_makeMsgNoti_CancelRecord ::
    "faults \<Rightarrow> DBusCommand \<Rightarrow> bool \<Rightarrow> DBusDataInfo \<Rightarrow> dbus_msg option" where [RM_factory_simps]:
  "RM_makeMsgNoti_CancelRecord F cmd isSuccess msgInfo =
     makeMsgNotiInternal F ''/com/example/coremanager'' ''com.example.coremanager.interface''
       ''CoreSignal'' cmd isSuccess msgInfo"

definition RM_makeMsgNoti_FilterWavFile ::
    "faults \<Rightarrow> DBusCommand \<Rightarrow> bool \<Rightarrow> DBusDataInfo \<Rightarrow> dbus_msg option" where [RM_factory_simps]:
  "RM_makeMsgNoti_FilterWavFile F cmd isSuccess msgInfo =
     makeMsgNotiInternal F ''/com/example/coremanager'' ''com.example.coremanager.interface''
       ''CoreSignal'' cmd isSuccess msgInfo"

definition RM_makeMsg ::
    "faults \<Rightarrow> DBusCommand \<Rightarrow> dbus_msg option" where
  "RM_makeMsg F cmd = None"

definition RM_makeMsgNoti ::
    "faults \<Rightarrow> DBusCommand \<Rightarrow> bool \<Rightarrow> DBusDataInfo \<Rightarrow> dbus_msg option" where
  "RM_makeMsgNoti F cmd isSuccess msgInfo =
     (case cmd of
        DBusCommand.START_RECORD_NOTI \<Rightarrow>
          RM_makeMsgNoti_StartRecord F cmd isSuccess msgInfo
      | DBusCommand.STOP_RECORD_NOTI \<Rightarrow>
          RM_makeMsgNoti_StopRecord F cmd isSuccess msgInfo
      | DBusCommand.CANCEL_RECORD_NOTI \<Rightarrow>
          RM_makeMsgNoti_CancelRecord F cmd isSuccess msgInfo
      | DBusCommand.FILTER_WAV_FILE_NOTI \<Rightarrow>
          RM_makeMsgNoti_FilterWavFile F cmd isSuccess msgInfo
      | _ \<Rightarrow> None)"

text \<open>The commands the factory makes notifications for.\<close>

definition RM_notifications :: "DBusCommand list" where
  "RM_notifications =
    [DBusCommand.START_RECORD_NOTI, DBusCommand.STOP_RECORD_NOTI,
     DBusCommand.CANCEL_RECORD_NOTI, DBusCommand.FILTER_WAV_FILE_NOTI]"

lemma RM_makeMsgNoti_offered:
  "cmd \<in> set RM_notifications \<Longrightarrow>
   RM_makeMsgNoti F cmd ok info = makeMsgNotiInternal F (getObjectPath core_config)
     (getInterfaceName core_config) (getSignalName core_config) cmd ok info"
  by (cases cmd) (simp_all add: RM_makeMsgNoti_def RM_factory_simps RM_notifications_def)

lemma RM_makeMsgNoti_other:
  "cmd \<notin> set RM_notifications \<Longrightarrow> RM_makeMsgNoti F cmd ok info = None"
  by (cases cmd) (simp_all add: RM_makeMsgNoti_def RM_notifications_def)

interpretation rm_to_core: notification_link RM_makeMsgNoti "\<lambda>cmd. cmd \<in> set RM_notifications"
  "getInterfaceName core_config" "getSignalName core_config"
proof
  show "cmd \<in> set RM_notifications \<and>
      (\<exists>p. msg = noti_msg p (getInterfaceName core_config) (getSignalName core_config) cmd ok info)"
    if "RM_makeMsgNoti F cmd ok info = Some msg" for F cmd ok info msg
    using that
    by (cases "cmd \<in> set RM_notifications")
      (auto simp: RM_makeMsgNoti_offered RM_makeMsgNoti_other makeMsgNotiInternal_Some
        simp del: config_simps)
  show "RM_makeMsgNoti no_faults cmd ok info \<noteq> None" if "cmd \<in> set RM_notifications" for cmd ok info
    using that by (simp add: RM_makeMsgNoti_offered makeMsgNotiInternal_no_faults)
qed

end
