(* ===== verification/EventQueue.thy ===== *)
theory EventQueue
  imports Floats
begin

text \<open>
  Events and the queue between a service's threads: \<open>common/include/Event/Event.hpp\<close> and
  \<open>common/src/Event/EventQueue.cpp\<close>, the interface \<open>event_queue\<close> a main worker relies on, and the
  loop of \<open>MainWorker::threadFunction\<close>, which is the same in all three services.
\<close>

section \<open>Payloads and events\<close>

text \<open>
  The classes derived from \<open>Payload\<close>, one constructor each, with the fields in the order of their
  constructors.  A \<open>shared_ptr<Payload>\<close> is an option: \<open>None\<close> is the null pointer.
\<close>

datatype Payload =
    NotiPayload bool string
  | NotiTemperaturePayload bool float32
  | NotiBTDeviceAddressPayload bool string string
  | ContactPayload string string
  | CallHistoryPayload string string string string
  | CallPayload string string string
  | BluetoothDevicePayload string string int bool bool string
  | BluetoothDeviceAddressPayload string
  | BluetoothDevicePasskeyPayload string string
  | WavPayload string int
  | RemoveRecordPayload int

text \<open>\<open>Event\<close>, for the service's own \<open>EventTypeID\<close>.\<close>

record 'e Event =
  getEventTypeId :: 'e
  getPayload :: "Payload option"

definition make_Event :: "'e \<Rightarrow> Payload option \<Rightarrow> 'e Event" where
  "make_Event i p = \<lparr>getEventTypeId = i, getPayload = p\<rparr>"

lemma make_Event_sel [simp]:
  "getEventTypeId (make_Event i p) = i" "getPayload (make_Event i p) = p"
  by (simp_all add: make_Event_def)

section \<open>The queue\<close>

record 'e EventQueue =
  eventList :: "'e Event list"

definition EventQueue_init :: "'e EventQueue" where
  "EventQueue_init = \<lparr>eventList = []\<rparr>"

definition pushEvent :: "'e Event option \<Rightarrow> 'e EventQueue \<Rightarrow> bool \<times> 'e EventQueue" where
  "pushEvent event q =
     (case event of
        None \<Rightarrow> (False, q)
      | Some e \<Rightarrow> (True, q\<lparr>eventList := eventList q @ [e]\<rparr>))"

definition popEvent :: "'e EventQueue \<Rightarrow> 'e Event option \<times> 'e EventQueue" where
  "popEvent q =
     (case eventList q of
        [] \<Rightarrow> (None, q)
      | e # es \<Rightarrow> (Some e, q\<lparr>eventList := es\<rparr>))"

definition hasEvent :: "'e EventQueue \<Rightarrow> bool" where
  "hasEvent q = (eventList q \<noteq> [])"

definition size_EventQueue :: "'e EventQueue \<Rightarrow> nat" where
  "size_EventQueue q = length (eventList q)"

section \<open>The interface\<close>

text \<open>
  What a thread may rely on: pushing appends, popping takes the oldest event and nothing else, a
  null event is refused, and the two queries agree with the contents.
\<close>

locale event_queue =
  fixes empty :: "'q"
    and push :: "'e Event option \<Rightarrow> 'q \<Rightarrow> bool \<times> 'q"
    and pop :: "'q \<Rightarrow> 'e Event option \<times> 'q"
    and has :: "'q \<Rightarrow> bool"
    and items :: "'q \<Rightarrow> 'e Event list"
  assumes items_empty: "items empty = []"
    and push_null: "push None q = (False, q)"
    and push_fst: "fst (push (Some e) q)"
    and push_items: "items (snd (push (Some e) q)) = items q @ [e]"
    and pop_empty: "items q = [] \<Longrightarrow> fst (pop q) = None \<and> items (snd (pop q)) = []"
    and pop_first: "items q = e # es \<Longrightarrow> fst (pop q) = Some e \<and> items (snd (pop q)) = es"
    and has_items: "has q \<longleftrightarrow> items q \<noteq> []"
begin

lemma pop_has: "has q \<Longrightarrow> \<exists>e. fst (pop q) = Some e \<and> items q = e # items (snd (pop q))"
  by (cases "items q") (auto simp: has_items dest: pop_first)

lemma items_pushes:
  "items (fold (\<lambda>e q. snd (push (Some e) q)) es q) = items q @ es"
  by (induction es arbitrary: q) (auto simp: push_items)

lemma pop_pushes:
  assumes "items q = []"
  shows "fst (pop (fold (\<lambda>e q. snd (push (Some e) q)) (e # es) q)) = Some e"
proof -
  have "items (fold (\<lambda>e q. snd (push (Some e) q)) (e # es) q) = e # es"
    using items_pushes [of "e # es" q] assms by simp
  then show ?thesis using pop_first by blast
qed

end

interpretation evq: event_queue EventQueue_init pushEvent popEvent hasEvent eventList
  by unfold_locales
    (auto simp: EventQueue_init_def pushEvent_def popEvent_def hasEvent_def split: list.splits)

lemmas queue_simps [simp] = evq.push_items evq.push_null evq.push_fst

section \<open>The main worker's loop\<close>

text \<open>
  \<open>MainWorker::threadFunction\<close>: while the thread runs, an iteration takes the oldest event, if any,
  and processes it.  The other threads push between two iterations; the iterations of a run are
  the list of what arrived before each.  \<open>process\<close> is the service's \<open>processEvent\<close>.
\<close>

definition main_iteration ::
    "('e Event \<Rightarrow> 's \<Rightarrow> fault + 's) \<Rightarrow> 'e EventQueue \<Rightarrow> 's \<Rightarrow> fault + ('e EventQueue \<times> 's)" where
  "main_iteration process q s =
     (if hasEvent q
      then (case popEvent q of
              (None, q') \<Rightarrow> Inr (q', s)
            | (Some e, q') \<Rightarrow>
                (case process e s of Inl x \<Rightarrow> Inl x | Inr s' \<Rightarrow> Inr (q', s')))
      else Inr (q, s))"

definition push_all :: "'e Event list \<Rightarrow> 'e EventQueue \<Rightarrow> 'e EventQueue" where
  "push_all es q = fold (\<lambda>e q. snd (pushEvent (Some e) q)) es q"

fun main_loop ::
    "('e Event \<Rightarrow> 's \<Rightarrow> fault + 's) \<Rightarrow> 'e Event list list \<Rightarrow> 'e EventQueue \<Rightarrow> 's
     \<Rightarrow> fault + ('e EventQueue \<times> 's)" where
  "main_loop process [] q s = Inr (q, s)"
| "main_loop process (es # ess) q s =
     (case main_iteration process (push_all es q) s of
        Inl x \<Rightarrow> Inl x
      | Inr (q', s') \<Rightarrow> main_loop process ess q' s')"

lemma items_push_all [simp]: "eventList (push_all es q) = eventList q @ es"
  by (simp add: push_all_def evq.items_pushes)

lemma main_iteration_empty:
  "eventList q = [] \<Longrightarrow> main_iteration process q s = Inr (q, s)"
  by (simp add: main_iteration_def hasEvent_def)

lemma main_iteration_Cons:
  "eventList q = e # es \<Longrightarrow>
   main_iteration process q s =
     (case process e s of Inl x \<Rightarrow> Inl x | Inr s' \<Rightarrow> Inr (q\<lparr>eventList := es\<rparr>, s'))"
  by (simp add: main_iteration_def hasEvent_def popEvent_def)

text \<open>Whatever arrives, the events processed and those still queued are the arrivals, in order.\<close>

lemma main_loop_fifo:
  "main_loop process ess q s = Inr (q', s') \<Longrightarrow>
   \<exists>done. eventList q @ concat ess = done @ eventList q' \<and> fold_result process done s = Inr s'"
proof (induction ess arbitrary: q s)
  case Nil
  then show ?case by auto
next
  case (Cons es ess)
  show ?case
  proof (cases "eventList (push_all es q)")
    case Nil
    with Cons.prems have "main_loop process ess (push_all es q) s = Inr (q', s')"
      by (simp add: main_iteration_empty)
    from Cons.IH [OF this] Nil show ?thesis by simp
  next
    case (Cons e rest)
    with Cons.prems obtain s1 where s1: "process e s = Inr s1"
      and run: "main_loop process ess ((push_all es q)\<lparr>eventList := rest\<rparr>) s1 = Inr (q', s')"
      by (auto simp: main_iteration_Cons split: sum.splits)
    from Cons.IH [OF run] obtain done1 where d: "rest @ concat ess = done1 @ eventList q'"
      and f: "fold_result process done1 s1 = Inr s'"
      by auto
    from Cons have "eventList q @ es = e # rest" by simp
    then have "eventList q @ concat (es # ess) = (e # done1) @ eventList q'"
      using d by (metis append.assoc append_Cons concat.simps(2))
    moreover have "fold_result process (e # done1) s = Inr s'"
      by (simp add: s1 f)
    ultimately show ?thesis by blast
  qed
qed

text \<open>Every iteration takes an event while there is one, so enough iterations drain the queue.\<close>

lemma main_loop_drains:
  assumes total: "\<And>e s. \<exists>s'. process e s = Inr s'"
  shows "\<exists>q' s'. main_loop process (es # replicate n []) q s = Inr (q', s')
      \<and> length (eventList q') = length (eventList q) + length es - Suc n"
proof (induction n arbitrary: es q s)
  case 0
  show ?case
  proof (cases "eventList (push_all es q)")
    case Nil
    then show ?thesis by (simp add: main_iteration_empty)
  next
    case (Cons e rest)
    moreover obtain s1 where "process e s = Inr s1" using total by blast
    moreover have "length (eventList q) + length es = Suc (length rest)"
      using arg_cong [OF Cons, of length] by simp
    ultimately show ?thesis by (simp add: main_iteration_Cons)
  qed
next
  case (Suc n)
  show ?case
  proof (cases "eventList (push_all es q)")
    case Nil
    then have "length (eventList q) = 0" "length es = 0" by simp_all
    with Suc.IH [of "[]" "push_all es q" s] Nil show ?thesis
      by (simp add: main_iteration_empty)
  next
    case (Cons e rest)
    obtain s1 where s1: "process e s = Inr s1" using total by blast
    have len: "length (eventList q) + length es = Suc (length rest)"
      using arg_cong [OF Cons, of length] by simp
    have "main_loop process (es # replicate (Suc n) []) q s =
        main_loop process ([] # replicate n []) ((push_all es q)\<lparr>eventList := rest\<rparr>) s1"
      using Cons s1 by (simp add: main_iteration_Cons)
    then show ?thesis
      using Suc.IH [of "[]" "(push_all es q)\<lparr>eventList := rest\<rparr>" s1] len by simp
  qed
qed

end
