(* ===== verification/RecordWorker.thy ===== *)
theory RecordWorker
  imports AlsaHelper RMSenderFactory EventQueue
begin

text \<open>
  The record manager's worker, \<open>recordmgr/src/Thread/RecordWorker.cpp\<close>.  Three threads meet in it: the
  worker itself, the main worker that calls \<open>startRecording\<close>, \<open>stopRecording\<close> and
  \<open>cancelRecording\<close>, and the process's main thread that calls \<open>stop\<close>.  Each is a program counter
  over the shared state, a step is one access to the shared atomics (or thread-local work), and the
  mutex and the condition variable are modelled with the moments at which they are held and waited
  on.
\<close>

section \<open>State\<close>

datatype RmEventTypeID = NONE | START_RECORD | STOP_RECORD | CANCEL_RECORD | FILTER_WAV_FILE | MAX

datatype RecordWorkerState = IDLE | RECORDING

text \<open>
  Where the worker is.  \<open>Checking\<close> evaluates the predicate of the wait; \<open>Falling_asleep\<close> found it
  false and still holds the mutex; \<open>Asleep\<close> waits for a notification; the numbers of \<open>Capturing\<close> and
  \<open>Leaving\<close> are \<open>startTime\<close>, and \<open>Leaving\<close> has \<open>durationExceeded\<close> and \<open>isCaptureError\<close>.
\<close>

datatype worker_pc =
    Checking | Falling_asleep | Asleep | Awake
  | Capturing int | Leaving int bool bool
  | Cleaning | Resetting | Finished

text \<open>Where the main worker is in a call: after the test of the state, after setting the cancel flag.\<close>

datatype caller_pc =
    No_call | Start_checked | Start_cleared | Stop_checked | Cancel_checked | Cancel_set

text \<open>Where the main thread is in \<open>stop\<close>.\<close>

datatype stop_pc = Not_stopped | Flag_cleared | State_cleared | Stopped

text \<open>
  The shared state.  \<open>jobs\<close> are the detached threads that filter a recording and have not run yet.
  \<open>session_log\<close> records what the worker thread itself notified, and \<open>saved\<close> the paths it pushed for
  filtering.
\<close>

record record_mgr =
  running :: bool
  workerState :: RecordWorkerState
  cancelRequested :: bool
  helper :: AlsaHelper
  disk :: filesystem
  rm_sender :: dbus_sender
  rm_queue :: "RmEventTypeID EventQueue"
  jobs :: "(string \<times> int) list"
  at_worker :: worker_pc
  at_caller :: caller_pc
  at_stop :: stop_pc
  session_log :: "(DBusCommand \<times> bool) list"
  saved :: "string list"

record rm_env =
  rm_faults :: "nat \<Rightarrow> faults"
  microphone :: string

text \<open>What the world answers during one step of the worker.\<close>

record turn =
  now_ns :: int
  sound :: alsa
  pcm :: pcm_read
  writing_wav :: wav_write

definition record_mgr_init :: "filesystem \<Rightarrow> record_mgr" where
  "record_mgr_init fs =
     \<lparr>running = True, workerState = RecordWorkerState.IDLE, cancelRequested = False,
      helper = AlsaHelper_init, disk = fs, rm_sender = dbus_sender_init, rm_queue = EventQueue_init, jobs = [],
      at_worker = Checking, at_caller = No_call, at_stop = Not_stopped, session_log = [], saved = []\<rparr>"

definition rm_notify :: "rm_env \<Rightarrow> DBusCommand \<Rightarrow> bool \<Rightarrow> DBusDataInfo \<Rightarrow> record_mgr \<Rightarrow> record_mgr" where
  "rm_notify env cmd ok info m =
     m\<lparr>rm_sender := snd (sendMessageNoti (rm_faults env) RM_makeMsgNoti cmd ok info (rm_sender m))\<rparr>"

definition message_info :: "string \<Rightarrow> DBusDataInfo" where
  "message_info s = DBusDataInfo_init(DBUS_DATA_MESSAGE := s)"

definition worker_notify :: "rm_env \<Rightarrow> DBusCommand \<Rightarrow> bool \<Rightarrow> string \<Rightarrow> record_mgr \<Rightarrow> record_mgr" where
  "worker_notify env cmd ok s m =
     (rm_notify env cmd ok (message_info s) m)\<lparr>session_log := session_log m @ [(cmd, ok)]\<rparr>"

text \<open>\<open>cv_.notify_one()\<close> reaches the worker only if it is asleep.\<close>

definition notify_one :: "record_mgr \<Rightarrow> record_mgr" where
  "notify_one m = (if at_worker m = Asleep then m\<lparr>at_worker := Checking\<rparr> else m)"

section \<open>The calls\<close>

text \<open>The calls as the main worker makes them, when nothing comes between.\<close>

definition startRecording :: "rm_env \<Rightarrow> record_mgr \<Rightarrow> record_mgr" where
  "startRecording env m =
     (if workerState m = RecordWorkerState.IDLE
      then notify_one (m\<lparr>cancelRequested := False, workerState := RecordWorkerState.RECORDING\<rparr>)
      else rm_notify env DBusCommand.START_RECORD_NOTI False
             (message_info ''Recording is already in progress.'') m)"

definition stopRecording :: "rm_env \<Rightarrow> record_mgr \<Rightarrow> record_mgr" where
  "stopRecording env m =
     (if workerState m = RecordWorkerState.RECORDING
      then m\<lparr>workerState := RecordWorkerState.IDLE\<rparr>
      else rm_notify env DBusCommand.STOP_RECORD_NOTI False
             (message_info ''No recording is in progress.'') m)"

definition cancelRecording :: "rm_env \<Rightarrow> record_mgr \<Rightarrow> record_mgr" where
  "cancelRecording env m =
     (if workerState m = RecordWorkerState.RECORDING
      then m\<lparr>cancelRequested := True, workerState := RecordWorkerState.IDLE\<rparr>
      else rm_notify env DBusCommand.CANCEL_RECORD_NOTI False
             (message_info ''No recording is in progress.'') m)"

text \<open>
  The same calls access by access.  \<open>startRecording\<close> holds the mutex from its test on, and can take
  it only while the worker does not hold it.
\<close>

definition start_begin :: "rm_env \<Rightarrow> record_mgr \<Rightarrow> record_mgr option" where
  "start_begin env m =
     (if at_caller m \<noteq> No_call \<or> at_worker m = Falling_asleep then None
      else if workerState m = RecordWorkerState.IDLE then Some (m\<lparr>at_caller := Start_checked\<rparr>)
      else Some (rm_notify env DBusCommand.START_RECORD_NOTI False
                   (message_info ''Recording is already in progress.'') m))"

definition stop_begin :: "rm_env \<Rightarrow> record_mgr \<Rightarrow> record_mgr option" where
  "stop_begin env m =
     (if at_caller m \<noteq> No_call then None
      else if workerState m = RecordWorkerState.RECORDING then Some (m\<lparr>at_caller := Stop_checked\<rparr>)
      else Some (rm_notify env DBusCommand.STOP_RECORD_NOTI False
                   (message_info ''No recording is in progress.'') m))"

definition cancel_begin :: "rm_env \<Rightarrow> record_mgr \<Rightarrow> record_mgr option" where
  "cancel_begin env m =
     (if at_caller m \<noteq> No_call then None
      else if workerState m = RecordWorkerState.RECORDING then Some (m\<lparr>at_caller := Cancel_checked\<rparr>)
      else Some (rm_notify env DBusCommand.CANCEL_RECORD_NOTI False
                   (message_info ''No recording is in progress.'') m))"

definition caller_turn :: "record_mgr \<Rightarrow> record_mgr option" where
  "caller_turn m =
     (case at_caller m of
        No_call \<Rightarrow> None
      | Start_checked \<Rightarrow> Some (m\<lparr>cancelRequested := False, at_caller := Start_cleared\<rparr>)
      | Start_cleared \<Rightarrow>
          Some (notify_one (m\<lparr>workerState := RecordWorkerState.RECORDING, at_caller := No_call\<rparr>))
      | Stop_checked \<Rightarrow> Some (m\<lparr>workerState := RecordWorkerState.IDLE, at_caller := No_call\<rparr>)
      | Cancel_checked \<Rightarrow> Some (m\<lparr>cancelRequested := True, at_caller := Cancel_set\<rparr>)
      | Cancel_set \<Rightarrow> Some (m\<lparr>workerState := RecordWorkerState.IDLE, at_caller := No_call\<rparr>))"

text \<open>\<open>stop\<close>: the flag of \<open>ThreadBase::stop\<close>, the state, the notification.\<close>

definition stop_turn :: "record_mgr \<Rightarrow> record_mgr option" where
  "stop_turn m =
     (case at_stop m of
        Not_stopped \<Rightarrow> Some (m\<lparr>running := False, at_stop := Flag_cleared\<rparr>)
      | Flag_cleared \<Rightarrow> Some (m\<lparr>workerState := RecordWorkerState.IDLE, at_stop := State_cleared\<rparr>)
      | State_cleared \<Rightarrow> Some (notify_one (m\<lparr>at_stop := Stopped\<rparr>))
      | Stopped \<Rightarrow> None)"

definition rm_stop :: "record_mgr \<Rightarrow> record_mgr" where
  "rm_stop m =
     notify_one (m\<lparr>running := False, workerState := RecordWorkerState.IDLE, at_stop := Stopped\<rparr>)"

section \<open>The worker thread\<close>

definition mutex_free :: "record_mgr \<Rightarrow> bool" where
  "mutex_free m \<longleftrightarrow> at_caller m \<notin> {Start_checked, Start_cleared}"

definition max_duration_ns :: int where
  "max_duration_ns = int MAX_RECORD_DURATION_SEC * 1000000000"

text \<open>\<open>duration_cast<seconds>\<close>, which truncates, and the narrowing to \<open>int\<close>.\<close>

definition duration_sec :: "int \<Rightarrow> int" where
  "duration_sec ns = wrap32 (if 0 \<le> ns then ns div 1000000000 else - ((- ns) div 1000000000))"

definition begin_session :: "rm_env \<Rightarrow> turn \<Rightarrow> record_mgr \<Rightarrow> record_mgr" where
  "begin_session env t m =
     (case initAlsa (microphone env) (sound t) (clearAudioBuffer (helper m)) of
        (False, h) \<Rightarrow>
          (worker_notify env DBusCommand.START_RECORD_NOTI False ''ALSA initialization failed''
             (m\<lparr>helper := cleanupAlsa h\<rparr>))\<lparr>at_worker := Resetting\<rparr>
      | (True, h) \<Rightarrow>
          (worker_notify env DBusCommand.START_RECORD_NOTI True ''Recording started''
             (m\<lparr>helper := h\<rparr>))\<lparr>at_worker := Capturing (now_ns t)\<rparr>)"

definition capture_turn :: "turn \<Rightarrow> int \<Rightarrow> record_mgr \<Rightarrow> record_mgr" where
  "capture_turn t startTime m =
     (if \<not> (running m \<and> workerState m = RecordWorkerState.RECORDING)
      then m\<lparr>at_worker := Leaving startTime False False\<rparr>
      else if now_ns t - startTime > max_duration_ns
      then m\<lparr>at_worker := Leaving startTime True False\<rparr>
      else (case captureOnce (pcm t) (helper m) of
              (False, h) \<Rightarrow> m\<lparr>helper := h, at_worker := Leaving startTime False True\<rparr>
            | (True, h) \<Rightarrow> m\<lparr>helper := h\<rparr>))"

definition end_session :: "rm_env \<Rightarrow> turn \<Rightarrow> int \<Rightarrow> bool \<Rightarrow> record_mgr \<Rightarrow> record_mgr" where
  "end_session env t startTime isCaptureError m =
     (if isCaptureError
      then worker_notify env DBusCommand.STOP_RECORD_NOTI False ''Recording stopped due to capture error.'' m
      else if cancelRequested m
      then worker_notify env DBusCommand.CANCEL_RECORD_NOTI True ''Recording canceled by user.'' m
      else if isAudioBufferEmpty (helper m)
      then worker_notify env DBusCommand.STOP_RECORD_NOTI False ''No audio data captured.'' m
      else (case saveWavFile (writing_wav t) (helper m) (disk m) of
              (False, h, fs) \<Rightarrow>
                worker_notify env DBusCommand.STOP_RECORD_NOTI False ''Failed to save WAV file.''
                  (m\<lparr>helper := h, disk := fs\<rparr>)
            | (True, h, fs) \<Rightarrow>
                (let m = worker_notify env DBusCommand.STOP_RECORD_NOTI True
                           (''WAV file saved: '' @ outputFilePath h) (m\<lparr>helper := h, disk := fs\<rparr>);
                     event = make_Event RmEventTypeID.FILTER_WAV_FILE
                       (Some (WavPayload (outputFilePath h) (duration_sec (now_ns t - startTime))))
                 in m\<lparr>rm_queue := snd (pushEvent (Some event) (rm_queue m)),
                      saved := saved m @ [outputFilePath h]\<rparr>)))"

text \<open>One step of \<open>threadFunction\<close>; \<open>None\<close> when it cannot move.\<close>

definition recorder_turn :: "rm_env \<Rightarrow> turn \<Rightarrow> record_mgr \<Rightarrow> record_mgr option" where
  "recorder_turn env t m =
     (case at_worker m of
        Checking \<Rightarrow>
          if \<not> mutex_free m then None
          else if workerState m = RecordWorkerState.RECORDING \<or> \<not> running m
          then Some (m\<lparr>at_worker := Awake\<rparr>)
          else Some (m\<lparr>at_worker := Falling_asleep\<rparr>)
      | Falling_asleep \<Rightarrow> Some (m\<lparr>at_worker := Asleep\<rparr>)
      | Asleep \<Rightarrow> None
      | Awake \<Rightarrow>
          if \<not> running m then Some (m\<lparr>at_worker := Finished\<rparr>)
          else Some (begin_session env t m)
      | Capturing startTime \<Rightarrow> Some (capture_turn t startTime m)
      | Leaving startTime durationExceeded isCaptureError \<Rightarrow>
          Some ((end_session env t startTime isCaptureError m)\<lparr>at_worker := Cleaning\<rparr>)
      | Cleaning \<Rightarrow> Some (m\<lparr>helper := cleanupAlsa (helper m), at_worker := Resetting\<rparr>)
      | Resetting \<Rightarrow> Some (m\<lparr>workerState := RecordWorkerState.IDLE, at_worker := Checking\<rparr>)
      | Finished \<Rightarrow> None)"

text \<open>
  What can happen, in any order: a step of a thread, a call that begins, a wait that wakes up for no
  reason, or the main worker taking an event.
\<close>

inductive rm_step :: "rm_env \<Rightarrow> record_mgr \<Rightarrow> record_mgr \<Rightarrow> bool" for env where
  Worker: "recorder_turn env t m = Some m' \<Longrightarrow> rm_step env m m'"
| Caller: "caller_turn m = Some m' \<Longrightarrow> rm_step env m m'"
| Stopper: "stop_turn m = Some m' \<Longrightarrow> rm_step env m m'"
| Start: "start_begin env m = Some m' \<Longrightarrow> rm_step env m m'"
| Stop: "stop_begin env m = Some m' \<Longrightarrow> rm_step env m m'"
| Cancel: "cancel_begin env m = Some m' \<Longrightarrow> rm_step env m m'"
| Spurious: "at_worker m = Asleep \<Longrightarrow> rm_step env m (m\<lparr>at_worker := Checking\<rparr>)"
| Take: "popEvent (rm_queue m) = (Some e, q) \<Longrightarrow> rm_step env m (m\<lparr>rm_queue := q\<rparr>)"

definition rm_reachable :: "rm_env \<Rightarrow> record_mgr \<Rightarrow> bool" where
  "rm_reachable env m \<longleftrightarrow> (\<exists>fs. (rm_step env)\<^sup>*\<^sup>* (record_mgr_init fs) m)"

end
