(* ===== verification/RecordWorkerFacts.thy ===== *)
theory RecordWorkerFacts
  imports RecordWorker
begin

text \<open>
  What holds of the record manager's worker in every interleaving (the protocol of a session, the
  handle, the pushed files), what a session does when only the expected calls come, and the two
  moments at which a call is lost.
\<close>

section \<open>The protocol of the sessions\<close>

text \<open>
  The automaton of the worker's own notifications: a session that fails to start, or one that
  starts and ends with exactly one of stopped and cancelled.  \<open>Some True\<close> is inside a session.
\<close>

definition session_next :: "bool option \<Rightarrow> DBusCommand \<times> bool \<Rightarrow> bool option" where
  "session_next st e =
     (case (st, e) of
        (Some False, (DBusCommand.START_RECORD_NOTI, ok)) \<Rightarrow> Some ok
      | (Some True, (DBusCommand.STOP_RECORD_NOTI, ok)) \<Rightarrow> Some False
      | (Some True, (DBusCommand.CANCEL_RECORD_NOTI, True)) \<Rightarrow> Some False
      | _ \<Rightarrow> None)"

definition protocol :: "(DBusCommand \<times> bool) list \<Rightarrow> bool option" where
  "protocol notis = foldl session_next (Some False) notis"

lemma protocol_simps [simp]:
  "protocol [] = Some False"
  "protocol (notis @ [e]) = session_next (protocol notis) e"
  by (simp_all add: protocol_def)

lemma session_next_simps [simp]:
  "session_next (Some False) (DBusCommand.START_RECORD_NOTI, ok) = Some ok"
  "session_next (Some True) (DBusCommand.STOP_RECORD_NOTI, ok) = Some False"
  "session_next (Some True) (DBusCommand.CANCEL_RECORD_NOTI, True) = Some False"
  by (simp_all add: session_next_def)

definition in_session :: "worker_pc \<Rightarrow> bool" where
  "in_session p = (case p of Capturing _ \<Rightarrow> True | Leaving _ _ _ \<Rightarrow> True | _ \<Rightarrow> False)"

definition holds_handle :: "worker_pc \<Rightarrow> bool" where
  "holds_handle p = (case p of Capturing _ \<Rightarrow> True | Leaving _ _ _ \<Rightarrow> True | Cleaning \<Rightarrow> True | _ \<Rightarrow> False)"

definition stops_ok :: "(DBusCommand \<times> bool) list \<Rightarrow> nat" where
  "stops_ok notis = count_list notis (DBusCommand.STOP_RECORD_NOTI, True)"

lemma stops_ok_simps [simp]:
  "stops_ok [] = 0"
  "stops_ok (notis @ [e]) = stops_ok notis + (if e = (DBusCommand.STOP_RECORD_NOTI, True) then 1 else 0)"
  by (simp_all add: stops_ok_def)

definition rm_inv :: "record_mgr \<Rightarrow> bool" where
  "rm_inv m \<longleftrightarrow>
     protocol (session_log m) = Some (in_session (at_worker m))
     \<and> alsa_inv (helper m) \<and> pcmHandle (helper m) = holds_handle (at_worker m)
     \<and> length (saved m) = stops_ok (session_log m)
     \<and> (at_worker m = Falling_asleep \<longrightarrow> mutex_free m)
     \<and> (at_stop m = Not_stopped) = running m"

lemma in_session_simps [simp]:
  "in_session (Capturing t)" "in_session (Leaving t d e)" "\<not> in_session Checking"
  "\<not> in_session Falling_asleep" "\<not> in_session Asleep" "\<not> in_session Awake"
  "\<not> in_session Cleaning" "\<not> in_session Resetting" "\<not> in_session Finished"
  by (simp_all add: in_session_def)

lemma holds_handle_simps [simp]:
  "holds_handle (Capturing t)" "holds_handle (Leaving t d e)" "holds_handle Cleaning"
  "\<not> holds_handle Checking" "\<not> holds_handle Falling_asleep" "\<not> holds_handle Asleep"
  "\<not> holds_handle Awake" "\<not> holds_handle Resetting" "\<not> holds_handle Finished"
  by (simp_all add: holds_handle_def)

lemma rm_inv_init: "rm_inv (record_mgr_init fs)"
  using alsa_inv_init by (simp add: rm_inv_def record_mgr_init_def mutex_free_def AlsaHelper_init_def)

lemma rm_notify_inv [simp]:
  "rm_inv (rm_notify env cmd ok info m) = rm_inv m"
  by (simp add: rm_inv_def rm_notify_def mutex_free_def)

lemma notify_one_inv: "rm_inv m \<Longrightarrow> rm_inv (notify_one m)"
  by (auto simp: rm_inv_def notify_one_def mutex_free_def)

lemma worker_notify_fields [simp]:
  "running (worker_notify env cmd ok s m) = running m"
  "workerState (worker_notify env cmd ok s m) = workerState m"
  "cancelRequested (worker_notify env cmd ok s m) = cancelRequested m"
  "helper (worker_notify env cmd ok s m) = helper m"
  "disk (worker_notify env cmd ok s m) = disk m"
  "rm_queue (worker_notify env cmd ok s m) = rm_queue m"
  "at_worker (worker_notify env cmd ok s m) = at_worker m"
  "at_caller (worker_notify env cmd ok s m) = at_caller m"
  "at_stop (worker_notify env cmd ok s m) = at_stop m"
  "session_log (worker_notify env cmd ok s m) = session_log m @ [(cmd, ok)]"
  "saved (worker_notify env cmd ok s m) = saved m"
  by (simp_all add: worker_notify_def rm_notify_def)

lemma begin_session_inv:
  assumes "rm_inv m" and "at_worker m = Awake" and "running m"
  shows "rm_inv (begin_session env t m)"
proof -
  let ?h = "clearAudioBuffer (helper m)"
  have pre: "alsa_inv ?h" "\<not> pcmHandle ?h"
    using assms by (simp_all add: rm_inv_def)
  note h = initAlsa_inv [OF pre, of "microphone env" "sound t"]
  obtain ok h' where i: "initAlsa (microphone env) (sound t) ?h = (ok, h')" by fastforce
  with h have "alsa_inv h'" "ok \<Longrightarrow> pcmHandle h'" by simp_all
  then show ?thesis
    using assms cleanupAlsa_inv [of h']
    by (cases ok) (simp_all add: begin_session_def i rm_inv_def mutex_free_def)
qed

lemma capture_turn_inv:
  assumes "rm_inv m" and "at_worker m = Capturing t0"
  shows "rm_inv (capture_turn t t0 m)"
proof -
  obtain ok h' where c: "captureOnce (pcm t) (helper m) = (ok, h')" by fastforce
  have "alsa_inv h' = alsa_inv (helper m)" "pcmHandle h' = pcmHandle (helper m)"
    using alsa_inv_frame(1) [of "pcm t" "helper m"] captureOnce_frame(1) [of "pcm t" "helper m"]
    by (simp_all add: c)
  with assms show ?thesis
    by (cases ok) (simp_all add: capture_turn_def c rm_inv_def mutex_free_def)
qed

lemma end_session_inv:
  assumes "rm_inv m" and "at_worker m = Leaving t0 d err"
  shows "rm_inv ((end_session env t t0 err m)\<lparr>at_worker := Cleaning\<rparr>)"
proof -
  obtain ok h' fs where w: "saveWavFile (writing_wav t) (helper m) (disk m) = (ok, h', fs)"
    by (metis prod_cases3)
  have "alsa_inv h' = alsa_inv (helper m)" "pcmHandle h' = pcmHandle (helper m)"
    using alsa_inv_frame(2) [of "writing_wav t" "helper m" "disk m"]
      saveWavFile_frame(1) [of "writing_wav t" "helper m" "disk m"]
    by (simp_all add: w)
  with assms show ?thesis
    by (cases ok) (simp_all add: end_session_def w rm_inv_def mutex_free_def Let_def)
qed

lemma recorder_turn_inv:
  assumes "recorder_turn env t m = Some m'" and "rm_inv m"
  shows "rm_inv m'"
proof (cases "at_worker m")
  case Awake
  with assms begin_session_inv [OF assms(2) Awake] show ?thesis
    by (auto simp: recorder_turn_def rm_inv_def mutex_free_def split: if_splits)
next
  case (Capturing t0)
  with assms(1) capture_turn_inv [OF assms(2) Capturing, of t] show ?thesis
    by (simp add: recorder_turn_def)
next
  case (Leaving t0 d err)
  with assms(1) end_session_inv [OF assms(2) Leaving, of env t] show ?thesis
    by (simp add: recorder_turn_def)
qed (use assms cleanupAlsa_inv [of "helper m"] in
  \<open>auto simp: recorder_turn_def rm_inv_def mutex_free_def split: if_splits\<close>)

lemma caller_inv:
  assumes "caller_turn m = Some m'" and "rm_inv m"
  shows "rm_inv m'"
proof (cases "at_caller m")
  case Start_cleared
  have "rm_inv (m\<lparr>workerState := RecordWorkerState.RECORDING, at_caller := No_call\<rparr>)"
    using assms(2) by (simp add: rm_inv_def mutex_free_def)
  from notify_one_inv [OF this] show ?thesis
    using assms(1) Start_cleared by (simp add: caller_turn_def)
qed (use assms in \<open>auto simp: caller_turn_def rm_inv_def mutex_free_def\<close>)

lemma stopper_inv:
  assumes "stop_turn m = Some m'" and "rm_inv m"
  shows "rm_inv m'"
proof (cases "at_stop m")
  case State_cleared
  have "rm_inv (m\<lparr>at_stop := Stopped\<rparr>)"
    using assms(2) State_cleared by (simp add: rm_inv_def mutex_free_def)
  from notify_one_inv [OF this] show ?thesis
    using assms(1) State_cleared by (simp add: stop_turn_def)
qed (use assms in \<open>auto simp: stop_turn_def rm_inv_def mutex_free_def\<close>)

lemma begin_inv:
  "start_begin env m = Some m' \<Longrightarrow> rm_inv m \<Longrightarrow> rm_inv m'"
  "stop_begin env m = Some m' \<Longrightarrow> rm_inv m \<Longrightarrow> rm_inv m'"
  "cancel_begin env m = Some m' \<Longrightarrow> rm_inv m \<Longrightarrow> rm_inv m'"
  by (auto simp: start_begin_def stop_begin_def cancel_begin_def rm_inv_def rm_notify_def mutex_free_def
      split: if_splits)

lemma rm_step_inv: "rm_step env m m' \<Longrightarrow> rm_inv m \<Longrightarrow> rm_inv m'"
proof (induction rule: rm_step.induct)
  case (Worker t m m')
  then show ?case by (rule recorder_turn_inv)
next
  case (Spurious m)
  then show ?case by (simp add: rm_inv_def mutex_free_def)
next
  case (Take m e q)
  then show ?case by (simp add: rm_inv_def mutex_free_def)
qed (rule caller_inv stopper_inv begin_inv, assumption+)+

lemma rm_inv_reachable: "rm_reachable env m \<Longrightarrow> rm_inv m"
proof -
  have "(rm_step env)\<^sup>*\<^sup>* a m \<Longrightarrow> rm_inv a \<Longrightarrow> rm_inv m" for a
    by (induction rule: rtranclp_induct) (auto intro: rm_step_inv)
  then show "rm_reachable env m \<Longrightarrow> rm_inv m"
    using rm_inv_init unfolding rm_reachable_def by blast
qed

section \<open>The calls, step by step and at once\<close>

lemma start_steps:
  assumes "at_caller m = No_call" and "at_worker m \<noteq> Falling_asleep"
    and "workerState m = RecordWorkerState.IDLE"
  shows "\<exists>m1 m2. start_begin env m = Some m1 \<and> caller_turn m1 = Some m2
    \<and> caller_turn m2 = Some (startRecording env m)"
  using assms
  by (simp add: start_begin_def caller_turn_def startRecording_def notify_one_def)

lemma stop_steps:
  assumes "at_caller m = No_call" and "workerState m = RecordWorkerState.RECORDING"
  shows "\<exists>m1. stop_begin env m = Some m1 \<and> caller_turn m1 = Some (stopRecording env m)"
  using assms by (simp add: stop_begin_def caller_turn_def stopRecording_def)

lemma cancel_steps:
  assumes "at_caller m = No_call" and "workerState m = RecordWorkerState.RECORDING"
  shows "\<exists>m1 m2. cancel_begin env m = Some m1 \<and> caller_turn m1 = Some m2
    \<and> caller_turn m2 = Some (cancelRecording env m)"
  using assms by (simp add: cancel_begin_def caller_turn_def cancelRecording_def)

section \<open>Runs of the worker\<close>

fun worker_run :: "rm_env \<Rightarrow> turn list \<Rightarrow> record_mgr \<Rightarrow> record_mgr option" where
  "worker_run env [] m = Some m"
| "worker_run env (t # ts) m =
     (case recorder_turn env t m of None \<Rightarrow> None | Some m' \<Rightarrow> worker_run env ts m')"

lemma worker_run_append:
  "worker_run env (ts @ us) m =
     (case worker_run env ts m of None \<Rightarrow> None | Some m' \<Rightarrow> worker_run env us m')"
  by (induction ts arbitrary: m) (auto split: option.splits)

lemma worker_run_reachable:
  "worker_run env ts m = Some m' \<Longrightarrow> (rm_step env)\<^sup>*\<^sup>* m m'"
  by (induction ts arbitrary: m)
    (auto split: option.splits intro: rm_step.Worker converse_rtranclp_into_rtranclp)

text \<open>A read that delivers a whole answer, in time.\<close>

definition good_read :: "int \<Rightarrow> turn \<Rightarrow> bool" where
  "good_read startTime t \<longleftrightarrow>
     now_ns t - startTime \<le> max_duration_ns
     \<and> readi (pcm t) = int (length (frames_read (pcm t)))
     \<and> length (frames_read (pcm t)) \<le> FRAMES_PER_PERIOD"

lemma captureOnce_good:
  assumes "good_read t0 t" and "pcmHandle h"
  shows "captureOnce (pcm t) h = (True, h\<lparr>audioBuffer := audioBuffer h @ frames_read (pcm t)\<rparr>)"
  using assms by (simp add: captureOnce_def good_read_def EPIPE_def Let_def)

lemma capture_run:
  assumes "\<forall>t \<in> set ts. good_read t0 t" and "at_worker m = Capturing t0" and "running m"
    and "workerState m = RecordWorkerState.RECORDING" and "pcmHandle (helper m)"
  shows "worker_run env ts m =
    Some (m\<lparr>helper := (helper m)\<lparr>audioBuffer :=
      audioBuffer (helper m) @ concat (map (frames_read \<circ> pcm) ts)\<rparr>\<rparr>)"
  using assms
proof (induction ts arbitrary: m)
  case (Cons t ts)
  from Cons.prems(1) have g: "good_read t0 t" "\<forall>t \<in> set ts. good_read t0 t" by simp_all
  then have now: "\<not> max_duration_ns < now_ns t - t0" by (simp add: good_read_def)
  let ?m1 = "m\<lparr>helper := (helper m)\<lparr>audioBuffer := audioBuffer (helper m) @ frames_read (pcm t)\<rparr>\<rparr>"
  have "recorder_turn env t m = Some ?m1"
    using Cons.prems now captureOnce_good [OF g(1) Cons.prems(5)]
    by (simp add: recorder_turn_def capture_turn_def)
  with Cons.IH [of ?m1] g(2) Cons.prems show ?case by simp
qed simp

text \<open>The loop ends: the first turn after the maximal duration leaves it, whatever else happens.\<close>

lemma capture_turn_late:
  "now_ns t - t0 > max_duration_ns \<Longrightarrow> \<exists>d. at_worker (capture_turn t t0 m) = Leaving t0 d False"
  by (cases "running m \<and> workerState m = RecordWorkerState.RECORDING") (auto simp: capture_turn_def)

lemma capture_turn_pc:
  "at_worker m = Capturing t0 \<Longrightarrow>
   at_worker (capture_turn t t0 m) = Capturing t0 \<or> (\<exists>d e. at_worker (capture_turn t t0 m) = Leaving t0 d e)"
  by (auto simp: capture_turn_def split: prod.splits bool.splits)

lemma capture_ends:
  assumes "at_worker m = Capturing t0" and "t \<in> set ts" and "now_ns t - t0 > max_duration_ns"
  shows "\<exists>us vs m'. ts = us @ vs \<and> worker_run env us m = Some m' \<and> (\<exists>d e. at_worker m' = Leaving t0 d e)"
  using assms
proof (induction ts arbitrary: m)
  case (Cons u us)
  let ?m1 = "capture_turn u t0 m"
  have w: "recorder_turn env u m = Some ?m1" using Cons.prems(1) by (simp add: recorder_turn_def)
  from capture_turn_pc [OF Cons.prems(1), of u] show ?case
  proof (elim disjE)
    assume go: "at_worker ?m1 = Capturing t0"
    with capture_turn_late [where t = u and m = m and ?t0.0 = t0] Cons.prems have "t \<in> set us" by auto
    from Cons.IH [OF go this Cons.prems(3)] obtain vs ws m' where
      "us = vs @ ws" "worker_run env vs ?m1 = Some m'" "\<exists>d e. at_worker m' = Leaving t0 d e"
      by blast
    then have "u # us = (u # vs) @ ws \<and> worker_run env (u # vs) m = Some m'
        \<and> (\<exists>d e. at_worker m' = Leaving t0 d e)" using w by simp
    then show ?thesis by blast
  next
    assume "\<exists>d e. at_worker ?m1 = Leaving t0 d e"
    then have "u # us = [u] @ us \<and> worker_run env [u] m = Some ?m1
        \<and> (\<exists>d e. at_worker ?m1 = Leaving t0 d e)" using w by simp
    then show ?thesis by blast
  qed
qed simp

section \<open>A session\<close>

lemma startRecording_asleep:
  "at_worker m = Asleep \<Longrightarrow> workerState m = RecordWorkerState.IDLE \<Longrightarrow>
   startRecording env m = m\<lparr>cancelRequested := False, workerState := RecordWorkerState.RECORDING,
     at_worker := Checking\<rparr>"
  by (simp add: startRecording_def notify_one_def)

lemma session_starts:
  assumes "running m" and "at_caller m = No_call" and "at_worker m = Asleep"
    and "workerState m = RecordWorkerState.IDLE"
    and init: "initAlsa (microphone env) (sound t) (clearAudioBuffer (helper m)) = (True, h)"
    and h: "pcmHandle h" and reads: "\<forall>u \<in> set ts. good_read (now_ns t) u"
  shows "\<exists>m'. worker_run env (t' # t # ts) (startRecording env m) = Some m'
    \<and> at_worker m' = Capturing (now_ns t) \<and> workerState m' = RecordWorkerState.RECORDING
    \<and> running m' \<and> at_caller m' = No_call \<and> \<not> cancelRequested m'
    \<and> helper m' = h\<lparr>audioBuffer := concat (map (frames_read \<circ> pcm) ts)\<rparr>
    \<and> disk m' = disk m \<and> rm_queue m' = rm_queue m \<and> saved m' = saved m
    \<and> session_log m' = session_log m @ [(DBusCommand.START_RECORD_NOTI, True)]"
proof -
  let ?m0 = "m\<lparr>cancelRequested := False, workerState := RecordWorkerState.RECORDING, at_worker := Awake\<rparr>"
  let ?m1 = "begin_session env t ?m0"
  have b: "audioBuffer h = []" using initAlsa_buffer [of "microphone env" "sound t" "clearAudioBuffer (helper m)"]
    by (simp add: init)
  have turns: "worker_run env (t' # t # ts) (startRecording env m) = worker_run env ts ?m1"
    using assms(1-4) by (simp add: startRecording_asleep recorder_turn_def mutex_free_def)
  have m1: "at_worker ?m1 = Capturing (now_ns t)" "running ?m1"
    "workerState ?m1 = RecordWorkerState.RECORDING" "helper ?m1 = h" "at_caller ?m1 = No_call"
    "\<not> cancelRequested ?m1" "disk ?m1 = disk m" "rm_queue ?m1 = rm_queue m" "saved ?m1 = saved m"
    "session_log ?m1 = session_log m @ [(DBusCommand.START_RECORD_NOTI, True)]"
    using assms(1,2) by (simp_all add: begin_session_def init)
  have "pcmHandle (helper ?m1)" using h by (simp add: m1)
  from capture_run [OF reads m1(1,2,3) this, of env] show ?thesis
    unfolding turns using m1 b by (auto simp del: startRecording_def)
qed

text \<open>The four turns after the loop's last test, for a session that was stopped or cancelled.\<close>

lemma session_leaves:
  assumes "at_worker m = Capturing t0" and "at_caller m = No_call"
    and "workerState m = RecordWorkerState.IDLE"
  shows "worker_run env [u1, u2, u3, u4] m =
    (let m' = end_session env u2 t0 False (m\<lparr>at_worker := Leaving t0 False False\<rparr>)
     in Some (m'\<lparr>helper := cleanupAlsa (helper m'), workerState := RecordWorkerState.IDLE,
          at_worker := Checking\<rparr>))"
  using assms by (simp add: recorder_turn_def capture_turn_def Let_def)

lemma session_saves:
  assumes "running m" and "at_caller m = No_call" and "at_worker m = Asleep"
    and "workerState m = RecordWorkerState.IDLE"
    and "initAlsa (microphone env) (sound t) (clearAudioBuffer (helper m)) = (True, h)"
    and "pcmHandle h" and "\<forall>u \<in> set ts. good_read (now_ns t) u"
    and ne: "concat (map (frames_read \<circ> pcm) ts) \<noteq> []" and w: "can_open (writing_wav u2)"
  defines "path \<equiv> WAV_OUTPUT_DIR @ ''/record_'' @ stamp (writing_wav u2) @ ''.wav''"
  shows "\<exists>m1 m2. worker_run env (t' # t # ts) (startRecording env m) = Some m1
    \<and> worker_run env [u1, u2, u3, u4] (stopRecording env m1) = Some m2
    \<and> disk m2 = (disk m)(path \<mapsto> take (disk_room (writing_wav u2))
        (wav_bytes (concat (map (frames_read \<circ> pcm) ts))))
    \<and> eventList (rm_queue m2) = eventList (rm_queue m) @
        [make_Event RmEventTypeID.FILTER_WAV_FILE
          (Some (WavPayload path (duration_sec (now_ns u2 - now_ns t))))]
    \<and> session_log m2 = session_log m @
        [(DBusCommand.START_RECORD_NOTI, True), (DBusCommand.STOP_RECORD_NOTI, True)]
    \<and> at_worker m2 = Checking \<and> workerState m2 = RecordWorkerState.IDLE \<and> \<not> pcmHandle (helper m2)"
proof -
  from session_starts [OF assms(1-7), of t'] obtain m1 where
    run: "worker_run env (t' # t # ts) (startRecording env m) = Some m1"
    and m1: "at_worker m1 = Capturing (now_ns t)" "workerState m1 = RecordWorkerState.RECORDING"
      "at_caller m1 = No_call" "\<not> cancelRequested m1"
      "helper m1 = h\<lparr>audioBuffer := concat (map (frames_read \<circ> pcm) ts)\<rparr>"
      "disk m1 = disk m" "rm_queue m1 = rm_queue m"
      "session_log m1 = session_log m @ [(DBusCommand.START_RECORD_NOTI, True)]"
    by blast
  let ?s = "m1\<lparr>workerState := RecordWorkerState.IDLE\<rparr>"
  have stop: "stopRecording env m1 = ?s" using m1(2) by (simp add: stopRecording_def)
  have s: "at_worker ?s = Capturing (now_ns t)" "at_caller ?s = No_call"
    "workerState ?s = RecordWorkerState.IDLE" using m1 by simp_all
  let ?xs = "concat (map (frames_read \<circ> pcm) ts)"
  have wav: "saveWavFile (writing_wav u2) (h\<lparr>audioBuffer := ?xs\<rparr>) fs =
      (True, h\<lparr>audioBuffer := ?xs, outputFilePath := path\<rparr>,
       fs(path \<mapsto> take (disk_room (writing_wav u2)) (wav_bytes ?xs)))" for fs
    using ne w by (simp add: saveWavFile_def Let_def path_def)
  let ?m2 = "the (worker_run env [u1, u2, u3, u4] ?s)"
  have run2: "worker_run env [u1, u2, u3, u4] (stopRecording env m1) = Some ?m2"
    unfolding stop session_leaves [OF s] Let_def by simp
  have m2: "disk ?m2 = (disk m1)(path \<mapsto> take (disk_room (writing_wav u2)) (wav_bytes ?xs))
    \<and> eventList (rm_queue ?m2) = eventList (rm_queue m1) @
        [make_Event RmEventTypeID.FILTER_WAV_FILE
          (Some (WavPayload path (duration_sec (now_ns u2 - now_ns t))))]
    \<and> session_log ?m2 = session_log m1 @ [(DBusCommand.STOP_RECORD_NOTI, True)]
    \<and> at_worker ?m2 = Checking \<and> workerState ?m2 = RecordWorkerState.IDLE"
    unfolding session_leaves [OF s] Let_def option.sel
    using m1(4) ne
    by (simp add: end_session_def isAudioBufferEmpty_def wav Let_def m1(5) pushEvent_def)
  have "\<not> pcmHandle (helper ?m2)"
    unfolding session_leaves [OF s] Let_def option.sel by (simp add: cleanupAlsa_inv)
  with run run2 m2 m1(6-8) show ?thesis by (intro exI [of _ m1] exI [of _ ?m2]) simp
qed

lemma session_cancelled:
  assumes "at_worker m = Capturing t0" and "at_caller m = No_call"
    and "workerState m = RecordWorkerState.RECORDING"
  shows "\<exists>m'. worker_run env [u1, u2, u3, u4] (cancelRecording env m) = Some m'
    \<and> disk m' = disk m \<and> rm_queue m' = rm_queue m \<and> saved m' = saved m
    \<and> session_log m' = session_log m @ [(DBusCommand.CANCEL_RECORD_NOTI, True)]
    \<and> at_worker m' = Checking \<and> workerState m' = RecordWorkerState.IDLE"
proof -
  let ?s = "m\<lparr>cancelRequested := True, workerState := RecordWorkerState.IDLE\<rparr>"
  have s: "at_worker ?s = Capturing t0" "at_caller ?s = No_call" "workerState ?s = RecordWorkerState.IDLE"
    using assms by simp_all
  have "cancelRecording env m = ?s" using assms(3) by (simp add: cancelRecording_def)
  then have "\<exists>m'. worker_run env [u1, u2, u3, u4] (cancelRecording env m) = Some m'
    \<and> (let e = end_session env u2 t0 False (?s\<lparr>at_worker := Leaving t0 False False\<rparr>)
       in m' = e\<lparr>helper := cleanupAlsa (helper e), workerState := RecordWorkerState.IDLE,
          at_worker := Checking\<rparr>)"
    unfolding session_leaves [OF s] Let_def by (simp only: session_leaves [OF s] Let_def option.inject simp_thms)
  then show ?thesis by (simp add: end_session_def Let_def del: worker_run.simps)
qed

section \<open>A start that comes too soon\<close>

text \<open>
  Between the notification that ends a session and the store that follows \<open>cleanupAlsa\<close> the state is
  already \<open>IDLE\<close>: a start is accepted then, and the worker's store takes it back.
\<close>

lemma early_start_lost:
  assumes "at_worker m \<in> {Cleaning, Resetting}" and "at_caller m = No_call"
    and "workerState m = RecordWorkerState.IDLE" and "running m"
  shows "\<exists>n m'. n \<le> 3 \<and> worker_run env (replicate n t) (startRecording env m) = Some m'
    \<and> at_worker m' = Falling_asleep \<and> workerState m' = RecordWorkerState.IDLE
    \<and> session_log m' = session_log m \<and> rm_sender m' = rm_sender m"
proof -
  have n: "startRecording env m =
      m\<lparr>cancelRequested := False, workerState := RecordWorkerState.RECORDING\<rparr>"
    using assms by (auto simp: startRecording_def notify_one_def)
  from assms(1) consider "at_worker m = Cleaning" | "at_worker m = Resetting" by blast
  then show ?thesis
  proof cases
    case 1
    with assms show ?thesis
      by (intro exI [where x = "3 :: nat"]) (simp add: n recorder_turn_def mutex_free_def numeral_3_eq_3)
  next
    case 2
    with assms show ?thesis
      by (intro exI [where x = "2 :: nat"]) (simp add: n recorder_turn_def mutex_free_def numeral_2_eq_2)
  qed
qed

text \<open>A start that finds the worker asleep is answered within two turns.\<close>

lemma start_answered:
  assumes "at_worker m = Asleep" and "at_caller m = No_call"
    and "workerState m = RecordWorkerState.IDLE" and "running m"
  shows "\<exists>m' ok. worker_run env [t', t] (startRecording env m) = Some m'
    \<and> session_log m' = session_log m @ [(DBusCommand.START_RECORD_NOTI, ok)]"
  using assms
  by (auto simp: startRecording_asleep recorder_turn_def mutex_free_def begin_session_def
      split: prod.splits bool.splits)

section \<open>Shutting down\<close>

fun turns_left :: "worker_pc \<Rightarrow> nat" where
  "turns_left (Capturing _) = 6"
| "turns_left (Leaving _ _ _) = 5"
| "turns_left Cleaning = 4"
| "turns_left Resetting = 3"
| "turns_left Checking = 2"
| "turns_left Awake = 1"
| "turns_left Finished = 0"
| "turns_left Falling_asleep = 0"
| "turns_left Asleep = 0"

lemma end_session_frame [simp]:
  "running (end_session env t t0 err m) = running m" "at_caller (end_session env t t0 err m) = at_caller m"
  "at_stop (end_session env t t0 err m) = at_stop m"
  by (auto simp: end_session_def Let_def split: prod.splits bool.splits)

lemma shutdown_turn:
  assumes "\<not> running m" and "mutex_free m" and "at_worker m \<notin> {Falling_asleep, Asleep, Finished}"
  shows "\<exists>m'. recorder_turn env t m = Some m' \<and> \<not> running m' \<and> mutex_free m'
    \<and> at_worker m' \<notin> {Falling_asleep, Asleep} \<and> turns_left (at_worker m) = Suc (turns_left (at_worker m'))"
  using assms by (cases "at_worker m") (simp_all add: recorder_turn_def capture_turn_def mutex_free_def)

lemma shutdown_finishes:
  assumes "\<not> running m" and "mutex_free m" and "at_worker m \<notin> {Falling_asleep, Asleep}"
    and "length ts = turns_left (at_worker m)"
  shows "\<exists>m'. worker_run env ts m = Some m' \<and> at_worker m' = Finished"
  using assms
proof (induction ts arbitrary: m)
  case Nil
  then show ?case by (cases "at_worker m") simp_all
next
  case (Cons t ts)
  then have "at_worker m \<noteq> Finished" by auto
  with shutdown_turn [of m env t] Cons.prems obtain m' where
    "recorder_turn env t m = Some m'" "\<not> running m'" "mutex_free m'"
    "at_worker m' \<notin> {Falling_asleep, Asleep}" "turns_left (at_worker m) = Suc (turns_left (at_worker m'))"
    by blast
  with Cons show ?case by simp
qed

lemma stop_turns:
  assumes "at_stop m = Not_stopped"
  shows "\<exists>m1 m2. stop_turn m = Some m1 \<and> stop_turn m1 = Some m2 \<and> stop_turn m2 = Some (rm_stop m)"
  using assms by (simp add: stop_turn_def rm_stop_def)

text \<open>
  \<open>stop\<close> changes the flag and notifies without the mutex: when the worker has just found nothing to
  do, the notification comes before it sleeps, and nothing wakes it.
\<close>

lemma stop_lost:
  assumes "at_worker m = Falling_asleep"
  shows "\<exists>m'. recorder_turn env t (rm_stop m) = Some m' \<and> at_worker m' = Asleep \<and> at_stop m' = Stopped
    \<and> (\<forall>t. recorder_turn env t m' = None)"
  using assms by (simp add: rm_stop_def recorder_turn_def notify_one_def)

lemma stop_finishes:
  assumes "at_worker m \<noteq> Falling_asleep" and "at_caller m = No_call"
    and "length ts = turns_left (at_worker (rm_stop m))"
  shows "\<exists>m'. worker_run env ts (rm_stop m) = Some m' \<and> at_worker m' = Finished"
  using assms
  by (intro shutdown_finishes) (auto simp: rm_stop_def notify_one_def mutex_free_def)

lemma turns_left_le: "turns_left p \<le> 6"
  by (cases p) simp_all

end
