(* ===== verification/RecordMain.thy ===== *)
theory RecordMain
  imports RecordWorkerFacts
begin

text \<open>
  The record manager around its worker: \<open>recordmgr/src/Thread/DBusReceiver.cpp\<close>,
  \<open>recordmgr/src/Util/AudioFilter.cpp\<close> and \<open>recordmgr/src/Thread/MainWorker.cpp\<close>, with the detached
  thread that filters a recording, tells the core manager and deletes the raw file.
\<close>

section \<open>DBusReceiver\<close>

definition rm_push :: "RmEventTypeID \<Rightarrow> RmEventTypeID EventQueue \<Rightarrow> RmEventTypeID EventQueue" where
  "rm_push e q = snd (pushEvent (Some (make_Event e None)) q)"

definition RM_handleMessage ::
    "DBusCommand option \<Rightarrow> RmEventTypeID EventQueue \<Rightarrow> fault + RmEventTypeID EventQueue" where
  "RM_handleMessage cmd q =
     (case cmd of
        Some DBusCommand.START_RECORD \<Rightarrow> Inr (rm_push RmEventTypeID.START_RECORD q)
      | Some DBusCommand.STOP_RECORD \<Rightarrow> Inr (rm_push RmEventTypeID.STOP_RECORD q)
      | Some DBusCommand.CANCEL_RECORD \<Rightarrow> Inr (rm_push RmEventTypeID.CANCEL_RECORD q)
      | _ \<Rightarrow> Inr q)"

definition RM_handleMessageNoti ::
    "DBusCommand option \<Rightarrow> bool \<Rightarrow> DBusDataInfo \<Rightarrow> RmEventTypeID EventQueue
     \<Rightarrow> fault + RmEventTypeID EventQueue" where
  "RM_handleMessageNoti cmd isSuccess msgInfo q = Inr q"

definition RM_receive :: "dbus_msg \<Rightarrow> RmEventTypeID EventQueue \<Rightarrow> fault + RmEventTypeID EventQueue" where
  "RM_receive =
     receive_message (getInterfaceName record_config) (getSignalName record_config)
       (dispatchMessage RM_handleMessage RM_handleMessageNoti)"

section \<open>Files\<close>

text \<open>
  \<open>fs::path\<close>: the last component, and joining with \<open>/\<close>.
\<close>

definition path_filename :: "string \<Rightarrow> string" where
  "path_filename p = rev (takeWhile (\<lambda>c. c \<noteq> CHR ''/'') (rev p))"

definition path_append :: "string \<Rightarrow> string \<Rightarrow> string" where
  "path_append p q =
     (if q \<noteq> [] \<and> hd q = CHR ''/'' then q
      else if p = [] \<or> last p = CHR ''/'' then p @ q else p @ ''/'' @ q)"

text \<open>
  What is outside: which calls of the file system throw \<open>filesystem_error\<close>, the directory for
  temporary files, and \<open>std::system\<close>, which runs a shell command and gives its result.
\<close>

datatype fs_call =
    Exists_source | Temp_directory | Exists_profile | Remove_profile | Create_directories
  | Copy_result | Remove_temp | Exists_temp | Exists_raw | Remove_raw

record fs_env =
  fs_throws :: "fs_call \<Rightarrow> bool"
  temp_directory :: string
  system :: "string \<Rightarrow> filesystem \<Rightarrow> int \<times> filesystem"

text \<open>
  An operation on files: \<open>None\<close> when it throws, and the files afterwards in both cases.
\<close>

definition fs_return :: "'a \<Rightarrow> filesystem \<Rightarrow> 'a option \<times> filesystem" where
  "fs_return x fs = (Some x, fs)"

definition fs_bind ::
    "(filesystem \<Rightarrow> 'a option \<times> filesystem) \<Rightarrow> ('a \<Rightarrow> filesystem \<Rightarrow> 'b option \<times> filesystem)
     \<Rightarrow> filesystem \<Rightarrow> 'b option \<times> filesystem" where
  "fs_bind f g fs = (case f fs of (None, fs') \<Rightarrow> (None, fs') | (Some x, fs') \<Rightarrow> g x fs')"

definition fs_guard :: "fs_env \<Rightarrow> fs_call \<Rightarrow> (filesystem \<Rightarrow> 'a option \<times> filesystem)
    \<Rightarrow> filesystem \<Rightarrow> 'a option \<times> filesystem" where
  "fs_guard E call f fs = (if fs_throws E call then (None, fs) else f fs)"

definition fs_exists :: "fs_env \<Rightarrow> fs_call \<Rightarrow> string \<Rightarrow> filesystem \<Rightarrow> bool option \<times> filesystem" where
  "fs_exists E call p = fs_guard E call (\<lambda>fs. (Some (fs p \<noteq> None), fs))"

definition fs_remove :: "fs_env \<Rightarrow> fs_call \<Rightarrow> string \<Rightarrow> filesystem \<Rightarrow> unit option \<times> filesystem" where
  "fs_remove E call p = fs_guard E call (\<lambda>fs. (Some (), fs(p := None)))"

text \<open>\<open>copy_file\<close> throws when the source is no file, or is the target.\<close>

definition fs_copy :: "fs_env \<Rightarrow> fs_call \<Rightarrow> string \<Rightarrow> string \<Rightarrow> filesystem \<Rightarrow> unit option \<times> filesystem" where
  "fs_copy E call p q =
     fs_guard E call (\<lambda>fs. case fs p of
         None \<Rightarrow> (None, fs)
       | Some bs \<Rightarrow> if p = q then (None, fs) else (Some (), fs(q \<mapsto> bs)))"

definition fs_system :: "fs_env \<Rightarrow> string \<Rightarrow> filesystem \<Rightarrow> int option \<times> filesystem" where
  "fs_system E command fs = (case system E command fs of (r, fs') \<Rightarrow> (Some r, fs'))"

lemmas fs_defs = fs_return_def fs_bind_def fs_guard_def fs_exists_def fs_remove_def fs_copy_def
  fs_system_def

section \<open>AudioFilter\<close>

definition quote :: string where "quote = [CHR 0x22]"

definition noiseprof_command :: "string \<Rightarrow> string \<Rightarrow> string" where
  "noiseprof_command wavFilePath noiseProfilePath =
     ''sox '' @ quote @ wavFilePath @ quote @ '' -n trim 0 0.4 noiseprof '' @ quote
     @ noiseProfilePath @ quote"

definition noisered_command :: "string \<Rightarrow> string \<Rightarrow> string \<Rightarrow> string" where
  "noisered_command wavFilePath tempFilteredPath noiseProfilePath =
     ''sox '' @ quote @ wavFilePath @ quote @ '' '' @ quote @ tempFilteredPath @ quote
     @ '' highpass 100 lowpass 3000 noisered '' @ quote @ noiseProfilePath @ quote @ '' 0.21''"

definition simple_command :: "string \<Rightarrow> string \<Rightarrow> string" where
  "simple_command wavFilePath tempFilteredPath =
     ''sox '' @ quote @ wavFilePath @ quote @ '' '' @ quote @ tempFilteredPath @ quote
     @ '' highpass 100 lowpass 3000''"

text \<open>
  The body of the \<open>try\<close>: whether the filter succeeded and \<open>filteredFilePath_\<close>.
\<close>

definition filter_body :: "fs_env \<Rightarrow> string \<Rightarrow> filesystem \<Rightarrow> (bool \<times> string) option \<times> filesystem" where
  "filter_body E wavFilePath =
     fs_bind (fs_exists E Exists_source wavFilePath) (\<lambda>exists.
     if \<not> exists then fs_return (False, [])
     else
     fs_bind (fs_guard E Temp_directory (fs_return (temp_directory E))) (\<lambda>tmp.
     let fileName = path_filename wavFilePath;
         tempFilteredPath = path_append tmp (''filtered_'' @ fileName);
         noiseProfilePath = tempFilteredPath @ ''.prof'' in
     fs_bind (fs_system E (noiseprof_command wavFilePath noiseProfilePath)) (\<lambda>noiseprof_result.
     let command = (if noiseprof_result = 0
                    then noisered_command wavFilePath tempFilteredPath noiseProfilePath
                    else simple_command wavFilePath tempFilteredPath) in
     fs_bind (fs_system E command) (\<lambda>result.
     fs_bind (fs_exists E Exists_profile noiseProfilePath) (\<lambda>profile.
     fs_bind (if profile then fs_remove E Remove_profile noiseProfilePath else fs_return ()) (\<lambda>_.
     fs_bind (fs_guard E Create_directories (fs_return ())) (\<lambda>_.
     if result = 0 then
       let filteredFilePath = path_append FILTERED_AUDIO_DIR (''filtered_'' @ fileName) in
       fs_bind (fs_copy E Copy_result tempFilteredPath filteredFilePath) (\<lambda>_.
       fs_bind (fs_remove E Remove_temp tempFilteredPath) (\<lambda>_.
       fs_return (True, filteredFilePath)))
     else
       let filteredFilePath = path_append FILTERED_AUDIO_DIR fileName in
       fs_bind (fs_copy E Copy_result wavFilePath filteredFilePath) (\<lambda>_.
       fs_bind (fs_exists E Exists_temp tempFilteredPath) (\<lambda>temp.
       fs_bind (if temp then fs_remove E Remove_temp tempFilteredPath else fs_return ()) (\<lambda>_.
       fs_return (True, filteredFilePath)))))))))))"

definition applyFilter :: "fs_env \<Rightarrow> string \<Rightarrow> filesystem \<Rightarrow> (bool \<times> string) \<times> filesystem" where
  "applyFilter E wavFilePath fs =
     (case filter_body E wavFilePath fs of
        (Some r, fs') \<Rightarrow> (r, fs')
      | (None, fs') \<Rightarrow> ((False, []), fs'))"

section \<open>MainWorker\<close>

text \<open>
  \<open>processFilterWavFileEvent\<close> starts a detached thread for the recording; the constructor of
  \<open>std::thread\<close> may throw, which nothing catches.
\<close>

definition processFilterWavFileEvent ::
    "bool \<Rightarrow> Payload option \<Rightarrow> record_mgr \<Rightarrow> fault + record_mgr" where
  "processFilterWavFileEvent created payload m =
     (case payload of
        Some (WavPayload wavFilePath durationSec) \<Rightarrow>
          if wavFilePath = [] then Inr m
          else if created then Inr (m\<lparr>jobs := jobs m @ [(wavFilePath, durationSec)]\<rparr>)
          else Inl System_error
      | _ \<Rightarrow> Inr m)"

definition RM_processEvent ::
    "rm_env \<Rightarrow> bool \<Rightarrow> RmEventTypeID Event \<Rightarrow> record_mgr \<Rightarrow> fault + record_mgr" where
  "RM_processEvent env created event m =
     (case getEventTypeId event of
        RmEventTypeID.START_RECORD \<Rightarrow> Inr (startRecording env m)
      | RmEventTypeID.STOP_RECORD \<Rightarrow> Inr (stopRecording env m)
      | RmEventTypeID.CANCEL_RECORD \<Rightarrow> Inr (cancelRecording env m)
      | RmEventTypeID.FILTER_WAV_FILE \<Rightarrow> processFilterWavFileEvent created (getPayload event) m
      | _ \<Rightarrow> Inr m)"

text \<open>What the thread tells the core manager, and the whole of it.\<close>

definition filter_info :: "bool \<Rightarrow> string \<Rightarrow> int \<Rightarrow> DBusDataInfo" where
  "filter_info ret filteredFilePath durationSec =
     (if \<not> ret then DBusDataInfo_init(DBUS_DATA_MESSAGE := ''FAILED to save WAV file.'')
      else DBusDataInfo_init(DBUS_DATA_WAV_FILE_PATH := filteredFilePath,
             DBUS_DATA_WAV_FILE_DURATION_SEC := int_to_string durationSec))"

definition remove_raw :: "fs_env \<Rightarrow> string \<Rightarrow> filesystem \<Rightarrow> filesystem" where
  "remove_raw E wavFilePath fs =
     snd (fs_bind (fs_exists E Exists_raw wavFilePath) (\<lambda>exists.
       if exists then fs_remove E Remove_raw wavFilePath else fs_return ()) fs)"

definition filter_job :: "rm_env \<Rightarrow> fs_env \<Rightarrow> string \<Rightarrow> int \<Rightarrow> record_mgr \<Rightarrow> record_mgr" where
  "filter_job env E wavFilePath durationSec m =
     (case applyFilter E wavFilePath (disk m) of
        ((ret, filteredFilePath), fs) \<Rightarrow>
          (let m = rm_notify env DBusCommand.FILTER_WAV_FILE_NOTI ret
                     (filter_info ret filteredFilePath durationSec) (m\<lparr>disk := fs\<rparr>)
           in m\<lparr>disk := remove_raw E wavFilePath (disk m)\<rparr>))"

section \<open>What the filter leaves\<close>

definition temp_path :: "fs_env \<Rightarrow> string \<Rightarrow> string" where
  "temp_path E wav = path_append (temp_directory E) (''filtered_'' @ path_filename wav)"

definition profile_path :: "fs_env \<Rightarrow> string \<Rightarrow> string" where
  "profile_path E wav = temp_path E wav @ ''.prof''"

text \<open>
  What is known of sox: its commands touch no file but their outputs, and a filter command that
  succeeds writes its output.
\<close>

definition sox_ok :: "fs_env \<Rightarrow> string \<Rightarrow> bool" where
  "sox_ok E wav \<longleftrightarrow>
     (\<forall>fs c. c \<in> {noiseprof_command wav (profile_path E wav),
                noisered_command wav (temp_path E wav) (profile_path E wav),
                simple_command wav (temp_path E wav)} \<longrightarrow>
        (\<forall>p. p \<noteq> temp_path E wav \<longrightarrow> p \<noteq> profile_path E wav \<longrightarrow> snd (system E c fs) p = fs p))
     \<and> (\<forall>fs c. c \<in> {noisered_command wav (temp_path E wav) (profile_path E wav),
                simple_command wav (temp_path E wav)} \<longrightarrow>
        fst (system E c fs) = 0 \<longrightarrow> snd (system E c fs) (temp_path E wav) \<noteq> None)"

lemma path_filename_notin: "CHR ''/'' \<notin> set (path_filename p)"
  by (auto simp: path_filename_def dest: set_takeWhileD)

lemma path_filename_slash: "CHR ''/'' \<notin> set f \<Longrightarrow> path_filename (d @ ''/'' @ f) = f"
proof -
  assume f: "CHR ''/'' \<notin> set f"
  have "takeWhile (\<lambda>c. c \<noteq> CHR ''/'') (rev f @ CHR ''/'' # rev d) = rev f"
    using f by (subst takeWhile_append2) auto
  then show ?thesis by (simp add: path_filename_def)
qed

text \<open>
  The program's own directories: raw recordings and temporary files are in \<open>/tmp\<close>, so the paths of
  one recording differ.
\<close>

lemma recording_paths:
  assumes "CHR ''/'' \<notin> set f" and "temp_directory E = ''/tmp''" and "wav = WAV_OUTPUT_DIR @ ''/'' @ f"
  shows "path_filename wav = f" "temp_path E wav = ''/tmp/filtered_'' @ f"
    "profile_path E wav = ''/tmp/filtered_'' @ f @ ''.prof''"
    "path_append FILTERED_AUDIO_DIR (''filtered_'' @ f) = FILTERED_AUDIO_DIR @ ''/filtered_'' @ f"
    "f \<noteq> [] \<Longrightarrow> path_append FILTERED_AUDIO_DIR f = FILTERED_AUDIO_DIR @ ''/'' @ f"
proof -
  show n: "path_filename wav = f" unfolding assms(3) by (rule path_filename_slash [OF assms(1)])
  show "temp_path E wav = ''/tmp/filtered_'' @ f"
    by (simp add: temp_path_def n assms(2) path_append_def)
  then show "profile_path E wav = ''/tmp/filtered_'' @ f @ ''.prof''"
    by (simp add: profile_path_def)
  show "path_append FILTERED_AUDIO_DIR (''filtered_'' @ f) = FILTERED_AUDIO_DIR @ ''/filtered_'' @ f"
    by (simp add: path_append_def FILTERED_AUDIO_DIR_def)
  show "path_append FILTERED_AUDIO_DIR f = FILTERED_AUDIO_DIR @ ''/'' @ f" if "f \<noteq> []"
    using that assms(1) by (cases f) (auto simp: path_append_def FILTERED_AUDIO_DIR_def)
qed

lemma tmp_paths_distinct:
  "''/tmp/filtered_'' @ f \<noteq> ''/tmp/'' @ f" "''/tmp/filtered_'' @ f @ ''.prof'' \<noteq> ''/tmp/'' @ f"
proof -
  have "length (''/tmp/filtered_'' @ f) \<noteq> length (''/tmp/'' @ f)"
    "length (''/tmp/filtered_'' @ f @ ''.prof'') \<noteq> length (''/tmp/'' @ f)" by simp_all
  then show "''/tmp/filtered_'' @ f \<noteq> ''/tmp/'' @ f" "''/tmp/filtered_'' @ f @ ''.prof'' \<noteq> ''/tmp/'' @ f"
    by metis+
qed

text \<open>Running sox twice and cleaning up the profile leaves all but the temporary file as it was.\<close>

definition sox_runs :: "fs_env \<Rightarrow> string \<Rightarrow> filesystem \<Rightarrow> int \<times> filesystem" where
  "sox_runs E wav fs =
     (case system E (noiseprof_command wav (profile_path E wav)) fs of
        (np, fs1) \<Rightarrow>
          (case system E (if np = 0 then noisered_command wav (temp_path E wav) (profile_path E wav)
                          else simple_command wav (temp_path E wav)) fs1 of
             (r, fs2) \<Rightarrow> (r, fs2(profile_path E wav := None))))"

lemma sox_runs_ok:
  assumes "sox_ok E wav" and "sox_runs E wav fs = (r, fs')" and "temp_path E wav \<noteq> profile_path E wav"
  shows "p \<noteq> temp_path E wav \<Longrightarrow> p \<noteq> profile_path E wav \<Longrightarrow> fs' p = fs p"
    and "r = 0 \<Longrightarrow> fs' (temp_path E wav) \<noteq> None"
proof -
  let ?c1 = "noiseprof_command wav (profile_path E wav)"
  obtain np fs1 where 1: "system E ?c1 fs = (np, fs1)" by fastforce
  let ?c2 = "if np = 0 then noisered_command wav (temp_path E wav) (profile_path E wav)
    else simple_command wav (temp_path E wav)"
  obtain r2 fs2 where 2: "system E ?c2 fs1 = (r2, fs2)" by fastforce
  have e: "r = r2" "fs' = fs2(profile_path E wav := None)"
    using assms(2) by (simp_all add: sox_runs_def 1 2)
  have c: "?c2 \<in> {noisered_command wav (temp_path E wav) (profile_path E wav), simple_command wav (temp_path E wav)}"
    by simp
  show "fs' p = fs p" if "p \<noteq> temp_path E wav" "p \<noteq> profile_path E wav"
  proof -
    have "snd (system E ?c1 fs) p = fs p" "snd (system E ?c2 fs1) p = fs1 p"
      using assms(1) that c unfolding sox_ok_def by blast+
    then show ?thesis using that by (simp add: e 1 2)
  qed
  show "fs' (temp_path E wav) \<noteq> None" if "r = 0"
  proof -
    have "fst (system E ?c2 fs1) = 0" using that by (simp only: 2 e fst_conv)
    then have "snd (system E ?c2 fs1) (temp_path E wav) \<noteq> None"
      using assms(1) c unfolding sox_ok_def by blast
    then show ?thesis using assms(3) by (simp add: e 2)
  qed
qed

lemma fs_bind_Some [simp]: "f fs = (Some x, fs') \<Longrightarrow> fs_bind f g fs = g x fs'"
  by (simp add: fs_bind_def)

lemma fs_bind_None [simp]: "f fs = (None, fs') \<Longrightarrow> fs_bind f g fs = (None, fs')"
  by (simp add: fs_bind_def)

lemma fs_run [simp]:
  "\<not> fs_throws E c \<Longrightarrow> fs_exists E c p fs = (Some (fs p \<noteq> None), fs)"
  "\<not> fs_throws E c \<Longrightarrow> fs_remove E c p fs = (Some (), fs(p := None))"
  "\<not> fs_throws E c \<Longrightarrow> fs_guard E c (fs_return x) fs = (Some x, fs)"
  "fs_return x fs = (Some x, fs)"
  "fs_system E k fs = (Some (fst (system E k fs)), snd (system E k fs))"
  by (simp_all add: fs_defs case_prod_unfold)

lemma fs_clean:
  "\<not> fs_throws E c \<Longrightarrow> \<not> fs_throws E d \<Longrightarrow>
   fs_bind (fs_exists E c p) (\<lambda>e. fs_bind (if e then fs_remove E d p else fs_return ()) g) fs =
   g () (fs(p := None))"
  by (cases "fs p") (auto simp: fun_upd_idem)

text \<open>The body, when nothing but the copy can throw.\<close>

lemma filter_body_runs:
  assumes "\<forall>c. fs_throws E c \<longrightarrow> c = Copy_result" and "fs wav \<noteq> None"
    and "sox_runs E wav fs = (r, fs1)"
  shows "filter_body E wav fs =
    (if r = 0 then
       fs_bind (fs_copy E Copy_result (temp_path E wav)
           (path_append FILTERED_AUDIO_DIR (''filtered_'' @ path_filename wav))) (\<lambda>_ fs.
         (Some (True, path_append FILTERED_AUDIO_DIR (''filtered_'' @ path_filename wav)),
          fs(temp_path E wav := None))) fs1
     else
       fs_bind (fs_copy E Copy_result wav (path_append FILTERED_AUDIO_DIR (path_filename wav))) (\<lambda>_ fs.
         (Some (True, path_append FILTERED_AUDIO_DIR (path_filename wav)),
          fs(temp_path E wav := None))) fs1)"
proof -
  have t: "\<not> fs_throws E c" if "c \<noteq> Copy_result" for c using assms(1) that by blast
  have clean: "fs_bind (fs_exists E Exists_temp p)
      (\<lambda>e. fs_bind (if e then fs_remove E Remove_temp p else fs_return ()) (\<lambda>_. fs_return x)) =
      (\<lambda>fs. (Some x, fs(p := None)))" for p and x :: "bool \<times> string"
    by (rule ext) (auto simp: t fun_upd_idem)
  have rm: "fs_bind (fs_remove E Remove_temp p) (\<lambda>_. fs_return x) = (\<lambda>fs. (Some x, fs(p := None)))"
    for p and x :: "bool \<times> string"
    by (rule ext) (simp add: t)
  show ?thesis
    using assms(2,3) unfolding filter_body_def sox_runs_def
    by (auto simp: t fs_clean clean rm Let_def temp_path_def profile_path_def fun_upd_idem split: prod.splits)
qed

lemma remove_raw_run:
  assumes "\<not> fs_throws E Exists_raw" and "\<not> fs_throws E Remove_raw"
  shows "remove_raw E p fs = fs(p := None)"
  using assms by (cases "fs p") (auto simp: remove_raw_def fun_upd_idem)

text \<open>
  The job on a recording of the worker.  When nothing throws the recording is kept, filtered or as
  it was; when the copy throws it is lost.
\<close>

lemma filter_job_keeps:
  assumes f: "CHR ''/'' \<notin> set f" "f \<noteq> []" and tmp: "temp_directory E = ''/tmp''"
    and wav: "wav = WAV_OUTPUT_DIR @ ''/'' @ f" and raw: "disk m wav = Some raw"
    and sox: "sox_ok E wav" and calm: "\<forall>c. \<not> fs_throws E c"
  shows "\<exists>out bs. filter_job env E wav d m =
      (rm_notify env DBusCommand.FILTER_WAV_FILE_NOTI True (filter_info True out d) m)
        \<lparr>disk := disk (filter_job env E wav d m)\<rparr>
    \<and> out \<in> {FILTERED_AUDIO_DIR @ ''/filtered_'' @ f, FILTERED_AUDIO_DIR @ ''/'' @ f}
    \<and> disk (filter_job env E wav d m) out = Some bs \<and> disk (filter_job env E wav d m) wav = None
    \<and> (out = FILTERED_AUDIO_DIR @ ''/'' @ f \<longrightarrow> bs = raw)
    \<and> (\<forall>p. p \<notin> {out, wav, temp_path E wav, profile_path E wav} \<longrightarrow>
          disk (filter_job env E wav d m) p = disk m p)"
proof -
  note paths = recording_paths [OF f(1) tmp wav]
  have w: "wav = ''/tmp/'' @ f" using wav by (simp add: WAV_OUTPUT_DIR_def)
  have ne: "temp_path E wav \<noteq> wav" "profile_path E wav \<noteq> wav" "temp_path E wav \<noteq> profile_path E wav"
    using tmp_paths_distinct [of f] paths(2,3) w by simp_all
  obtain r fs1 where run: "sox_runs E wav (disk m) = (r, fs1)" by fastforce
  note sr = sox_runs_ok [OF sox run ne(3)]
  have calm': "\<forall>c. fs_throws E c \<longrightarrow> c = Copy_result" using calm by simp
  have "disk m wav \<noteq> None" using raw by simp
  note body = filter_body_runs [OF calm' this run, unfolded paths(1,4) paths(5) [OF f(2)]]
  have rawfs: "fs1 wav = Some raw" using sr(1) [of wav] ne raw by simp
  show ?thesis
  proof (cases "r = 0")
    case True
    obtain bs where bs: "fs1 (temp_path E wav) = Some bs" using sr(2) [OF True] by blast
    let ?out = "FILTERED_AUDIO_DIR @ ''/filtered_'' @ f"
    have o: "?out \<noteq> temp_path E wav" "?out \<noteq> wav" "?out \<noteq> FILTERED_AUDIO_DIR @ ''/'' @ f"
      unfolding paths(2) FILTERED_AUDIO_DIR_def unfolding w by simp_all
    have "applyFilter E wav (disk m) = ((True, ?out), fs1(?out \<mapsto> bs, temp_path E wav := None))"
      using True calm bs o by (simp add: applyFilter_def body fs_bind_def fs_copy_def fs_guard_def)
    then have j: "filter_job env E wav d m =
      (rm_notify env DBusCommand.FILTER_WAV_FILE_NOTI True (filter_info True ?out d) m)
        \<lparr>disk := (fs1(?out \<mapsto> bs, temp_path E wav := None))(wav := None)\<rparr>"
      using calm by (simp add: filter_job_def remove_raw_run rm_notify_def)
    show ?thesis
      by (rule exI [of _ ?out], rule exI [of _ bs]) (use j o sr(1) in \<open>auto simp: rm_notify_def\<close>)
  next
    case False
    let ?out = "FILTERED_AUDIO_DIR @ ''/'' @ f"
    have o: "?out \<noteq> temp_path E wav" "?out \<noteq> wav"
      unfolding paths(2) FILTERED_AUDIO_DIR_def unfolding w by simp_all
    have "applyFilter E wav (disk m) = ((True, ?out), fs1(?out \<mapsto> raw, temp_path E wav := None))"
      using False calm rawfs o by (simp add: applyFilter_def body fs_bind_def fs_copy_def fs_guard_def)
    then have j: "filter_job env E wav d m =
      (rm_notify env DBusCommand.FILTER_WAV_FILE_NOTI True (filter_info True ?out d) m)
        \<lparr>disk := (fs1(?out \<mapsto> raw, temp_path E wav := None))(wav := None)\<rparr>"
      using calm by (simp add: filter_job_def remove_raw_run rm_notify_def)
    show ?thesis
      by (rule exI [of _ ?out], rule exI [of _ raw]) (use j o sr(1) in \<open>auto simp: rm_notify_def\<close>)
  qed
qed

lemma filter_job_loses:
  assumes f: "CHR ''/'' \<notin> set f" "f \<noteq> []" and tmp: "temp_directory E = ''/tmp''"
    and wav: "wav = WAV_OUTPUT_DIR @ ''/'' @ f" and raw: "disk m wav \<noteq> None"
    and sox: "sox_ok E wav" and fault: "\<forall>c. fs_throws E c = (c = Copy_result)"
  shows "filter_job env E wav d m =
      (rm_notify env DBusCommand.FILTER_WAV_FILE_NOTI False (filter_info False [] d) m)
        \<lparr>disk := disk (filter_job env E wav d m)\<rparr>
    \<and> disk (filter_job env E wav d m) wav = None
    \<and> (\<forall>p. p \<notin> {wav, temp_path E wav, profile_path E wav} \<longrightarrow>
          disk (filter_job env E wav d m) p = disk m p)"
proof -
  note paths = recording_paths [OF f(1) tmp wav]
  have w: "wav = ''/tmp/'' @ f" using wav by (simp add: WAV_OUTPUT_DIR_def)
  have ne: "temp_path E wav \<noteq> wav" "profile_path E wav \<noteq> wav" "temp_path E wav \<noteq> profile_path E wav"
    using tmp_paths_distinct [of f] paths(2,3) w by simp_all
  obtain r fs1 where run: "sox_runs E wav (disk m) = (r, fs1)" by fastforce
  note sr = sox_runs_ok [OF sox run ne(3)]
  have fault': "\<forall>c. fs_throws E c \<longrightarrow> c = Copy_result" using fault by simp
  note body = filter_body_runs [OF fault' raw run]
  have "applyFilter E wav (disk m) = ((False, []), fs1)"
    using fault by (simp add: applyFilter_def body fs_bind_def fs_copy_def fs_guard_def)
  then have "filter_job env E wav d m =
      (rm_notify env DBusCommand.FILTER_WAV_FILE_NOTI False (filter_info False [] d) m)
        \<lparr>disk := fs1(wav := None)\<rparr>"
    using fault by (simp add: filter_job_def remove_raw_run rm_notify_def)
  then show ?thesis using sr(1) by (simp add: rm_notify_def)
qed

text \<open>A recording that is gone is reported as failed, and nothing is changed.\<close>

lemma filter_job_absent:
  assumes "disk m wav = None" and "\<forall>c. \<not> fs_throws E c"
  shows "filter_job env E wav d m =
    rm_notify env DBusCommand.FILTER_WAV_FILE_NOTI False (filter_info False [] d) m"
proof -
  have "filter_body E wav (disk m) = (Some (False, []), disk m)"
    unfolding filter_body_def by (subst fs_bind_def) (simp add: assms)
  then show ?thesis
    using assms by (simp add: filter_job_def applyFilter_def remove_raw_run rm_notify_def fun_upd_idem)
qed

end
