(* ===== verification/RecordInstances.thy ===== *)
theory RecordInstances
  imports RecordMain
begin

text \<open>
  A microphone, a file system and a sox without failures, for the record manager's witnesses.
\<close>

definition plain_alsa :: alsa where
  "plain_alsa =
     \<lparr>sound_cards = [0, 1], ctl_open = (\<lambda>_. 0), ctl_devices = (\<lambda>hw. if hw = 1 then [0] else []),
      ctl_pcm_info = (\<lambda>_ _. 0), pcm_open = (\<lambda>_. 0), hw_params_any = 0, hw_params_set_access = 0,
      hw_params_set_format = 0, hw_params_set_rate_near = 0, hw_params_set_channels = 0,
      hw_params = 0, pcm_prepare = 0\<rparr>"

definition plain_turn :: "int \<Rightarrow> 16 word list \<Rightarrow> turn" where
  "plain_turn now xs =
     \<lparr>now_ns = now, sound = plain_alsa,
      pcm = \<lparr>readi = int (length xs), frames_read = xs, recover = 0\<rparr>,
      writing_wav = \<lparr>stamp = ''20250101_120000'', can_open = True, disk_room = 1000000\<rparr>\<rparr>"

definition plain_rm_env :: rm_env where
  "plain_rm_env = \<lparr>rm_faults = (\<lambda>_. no_faults), microphone = ''plughw:0,0''\<rparr>"

definition plain_rm :: record_mgr where
  "plain_rm = (record_mgr_init Map.empty)\<lparr>at_worker := Asleep\<rparr>"

lemma plain_rm_run: "worker_run plain_rm_env [t, u] (record_mgr_init Map.empty) = Some plain_rm"
  by (simp add: plain_rm_def record_mgr_init_def recorder_turn_def mutex_free_def)

lemma plain_rm_reachable: "rm_reachable plain_rm_env plain_rm"
  unfolding rm_reachable_def using worker_run_reachable [OF plain_rm_run] by blast

lemma plain_rm_fields [simp]:
  "running plain_rm" "at_caller plain_rm = No_call" "at_worker plain_rm = Asleep"
  "workerState plain_rm = RecordWorkerState.IDLE" "session_log plain_rm = []"
  "rm_queue plain_rm = EventQueue_init" "rm_sender plain_rm = dbus_sender_init"
  "at_stop plain_rm = Not_stopped" "saved plain_rm = []"
  by (simp_all add: plain_rm_def record_mgr_init_def)

lemma plain_init: "fst (initAlsa mic plain_alsa h)"
  by (simp add: initAlsa_def plain_alsa_def Let_def)

text \<open>A sox whose filter commands copy nothing but a mark to their output.\<close>

definition marking_sox :: "string \<Rightarrow> string \<Rightarrow> filesystem \<Rightarrow> int \<times> filesystem" where
  "marking_sox out c fs = (0, fs(out \<mapsto> [1]))"

definition plain_fs_env :: "string \<Rightarrow> fs_env" where
  "plain_fs_env out = \<lparr>fs_throws = (\<lambda>_. False), temp_directory = ''/tmp'', system = marking_sox out\<rparr>"

definition full_fs_env :: "string \<Rightarrow> fs_env" where
  "full_fs_env out =
     \<lparr>fs_throws = (\<lambda>c. c = Copy_result), temp_directory = ''/tmp'', system = marking_sox out\<rparr>"

lemma marking_sox_ok:
  "system E = marking_sox (temp_path E wav) \<Longrightarrow> sox_ok E wav"
  by (simp add: sox_ok_def marking_sox_def)

end
