(* ===== verification/HMSenderFactory.thy ===== *)
theory HMSenderFactory
  imports DBusTransport Configs
begin

text \<open>
  \<open>hardwaremgr/src/DBus/HMSenderFactory.cpp\<close>: the notifications the hardware manager sends to the
  core manager, one definition per method.
\<close>

named_theorems HM_factory_simps \<open>the methods of HMSenderFactory\<close>

definition HM_makeMsgNoti_UpdateTemperature ::
    "faults \<Rightarrow> DBusCommand \<Rightarrow> bool \<Rightarrow> DBusDataInfo \<Rightarrow> dbus_msg option" where [HM_factory_simps]:
  "HM_makeMsgNoti_UpdateTemperature F cmd isSuccess msgInfo =
     makeMsgNotiInternal F ''/com/example/coremanager'' ''com.example.coremanager.interface''
       ''CoreSignal'' cmd isSuccess msgInfo"

definition HM_makeMsgNoti_StartScanBTDevice ::
    "faults \<Rightarrow> DBusCommand \<Rightarrow> bool \<Rightarrow> DBusDataInfo \<Rightarrow> dbus_msg option" where [HM_factory_simps]:
  "HM_makeMsgNoti_StartScanBTDevice F cmd isSuccess msgInfo =
     makeMsgNotiInternal F ''/com/example/coremanager'' ''com.example.coremanager.interface''
       ''CoreSignal'' cmd isSuccess msgInfo"

definition HM_makeMsgNoti_StopScanBTDevice ::
    "faults \<Rightarrow> DBusCommand \<Rightarrow> bool \<Rightarrow> DBusDataInfo \<Rightarrow> dbus_msg option" where [HM_factory_simps]:
  "HM_makeMsgNoti_StopScanBTDevice F cmd isSuccess msgInfo =
     makeMsgNotiInternal F ''/com/example/coremanager'' ''com.example.coremanager.interface''
       ''CoreSignal'' cmd isSuccess msgInfo"

definition HM_makeMsgNoti_ScanningBTDeviceFound ::
    "faults \<Rightarrow> DBusCommand \<Rightarrow> bool \<Rightarrow> DBusDataInfo \<Rightarrow> dbus_msg option" where [HM_factory_simps]:
  "HM_makeMsgNoti_ScanningBTDeviceFound F cmd isSuccess msgInfo =
     makeMsgNotiInternal F ''/com/example/coremanager'' ''com.example.coremanager.interface''
       ''CoreSignal'' cmd isSuccess msgInfo"

definition HM_makeMsgNoti_ScanningBTDeviceDelete ::
    "faults \<Rightarrow> DBusCommand \<Rightarrow> bool \<Rightarrow> DBusDataInfo \<Rightarrow> dbus_msg option" where [HM_factory_simps]:
  "HM_makeMsgNoti_ScanningBTDeviceDelete F cmd isSuccess msgInfo =
     makeMsgNotiInternal F ''/com/example/coremanager'' ''com.example.coremanager.interface''
       ''CoreSignal'' cmd isSuccess msgInfo"

definition HM_makeMsgNoti_BluetoothPowerOn ::
    "faults \<Rightarrow> DBusCommand \<Rightarrow> bool \<Rightarrow> DBusDataInfo \<Rightarrow> dbus_msg option" where [HM_factory_simps]:
  "HM_makeMsgNoti_BluetoothPowerOn F cmd isSuccess msgInfo =
     makeMsgNotiInternal F ''/com/example/coremanager'' ''com.example.coremanager.interface''
       ''CoreSignal'' cmd isSuccess msgInfo"

definition HM_makeMsgNoti_BluetoothPowerOff ::
    "faults \<Rightarrow> DBusCommand \<Rightarrow> bool \<Rightarrow> DBusDataInfo \<Rightarrow> dbus_msg option" where [HM_factory_simps]:
  "HM_makeMsgNoti_BluetoothPowerOff F cmd isSuccess msgInfo =
     makeMsgNotiInternal F ''/com/example/coremanager'' ''com.example.coremanager.interface''
       ''CoreSignal'' cmd isSuccess msgInfo"

definition HM_makeMsgNoti_BTDevicePropertyChange ::
    "faults \<Rightarrow> DBusCommand \<Rightarrow> bool \<Rightarrow> DBusDataInfo \<Rightarrow> dbus_msg option" where [HM_factory_simps]:
  "HM_makeMsgNoti_BTDevicePropertyChange F cmd isSuccess msgInfo =
     makeMsgNotiInternal F ''/com/example/coremanager'' ''com.example.coremanager.interface''
       ''CoreSignal'' cmd isSuccess msgInfo"

definition HM_makeMsgNoti_PairBTDevice ::
    "faults \<Rightarrow> DBusCommand \<Rightarrow> bool \<Rightarrow> DBusDataInfo \<Rightarrow> dbus_msg option" where [HM_factory_simps]:
  "HM_makeMsgNoti_PairBTDevice F cmd isSuccess msgInfo =
     makeMsgNotiInternal F ''/com/example/coremanager'' ''com.example.coremanager.interface''
       ''CoreSignal'' cmd isSuccess msgInfo"

definition HM_makeMsgNoti_UnpairBTDevice ::
    "faults \<Rightarrow> DBusCommand \<Rightarrow> bool \<Rightarrow> DBusDataInfo \<Rightarrow> dbus_msg option" where [HM_factory_simps]:
  "HM_makeMsgNoti_UnpairBTDevice F cmd isSuccess msgInfo =
     makeMsgNotiInternal F ''/com/example/coremanager'' ''com.example.coremanager.interface''
       ''CoreSignal'' cmd isSuccess msgInfo"

definition HM_makeMsgNoti_ConnectBTDevice ::
    "faults \<Rightarrow> DBusCommand \<Rightarrow> bool \<Rightarrow> DBusDataInfo \<Rightarrow> dbus_msg option" where [HM_factory_simps]:
  "HM_makeMsgNoti_ConnectBTDevice F cmd isSuccess msgInfo =
     makeMsgNotiInternal F ''/com/example/coremanager'' ''com.example.coremanager.interface''
       ''CoreSignal'' cmd isSuccess msgInfo"

definition HM_makeMsgNoti_DisconnectBTDevice ::
    "faults \<Rightarrow> DBusCommand \<Rightarrow> bool \<Rightarrow> DBusDataInfo \<Rightarrow> dbus_msg option" where [HM_factory_simps]:
  "HM_makeMsgNoti_DisconnectBTDevice F cmd isSuccess msgInfo =
     makeMsgNotiInternal F ''/com/example/coremanager'' ''com.example.coremanager.interface''
       ''CoreSignal'' cmd isSuccess msgInfo"

definition HM_makeMsgNoti_BTDeviceRequestConfirmation ::
    "faults \<Rightarrow> DBusCommand \<Rightarrow> bool \<Rightarrow> DBusDataInfo \<Rightarrow> dbus_msg option" where [HM_factory_simps]:
  "HM_makeMsgNoti_BTDeviceRequestConfirmation F cmd isSuccess msgInfo =
     makeMsgNotiInternal F ''/com/example/coremanager'' ''com.example.coremanager.interface''
       ''CoreSignal'' cmd isSuccess msgInfo"

definition HM_makeMsgNoti_PBAPPhonebookPullStart ::
    "faults \<Rightarrow> DBusCommand \<Rightarrow> bool \<Rightarrow> DBusDataInfo \<Rightarrow> dbus_msg option" where [HM_factory_simps]:
  "HM_makeMsgNoti_PBAPPhonebookPullStart F cmd isSuccess msgInfo =
     makeMsgNotiInternal F ''/com/example/coremanager'' ''com.example.coremanager.interface''
       ''CoreSignal'' cmd isSuccess msgInfo"

definition HM_makeMsgNoti_PBAPPhonebookPull ::
    "faults \<Rightarrow> DBusCommand \<Rightarrow> bool \<Rightarrow> DBusDataInfo \<Rightarrow> dbus_msg option" where [HM_factory_simps]:
  "HM_makeMsgNoti_PBAPPhonebookPull F cmd isSuccess msgInfo =
     makeMsgNotiInternal F ''/com/example/coremanager'' ''com.example.coremanager.interface''
       ''CoreSignal'' cmd isSuccess msgInfo"

definition HM_makeMsgNoti_PBAPPhonebookPullEnd ::
    "faults \<Rightarrow> DBusCommand \<Rightarrow> bool \<Rightarrow> DBusDataInfo \<Rightarrow> dbus_msg option" where [HM_factory_simps]:
  "HM_makeMsgNoti_PBAPPhonebookPullEnd F cmd isSuccess msgInfo =
     makeMsgNotiInternal F ''/com/example/coremanager'' ''com.example.coremanager.interface''
       ''CoreSignal'' cmd isSuccess msgInfo"

definition HM_makeMsgNoti_CallHistoryPullStart ::
    "faults \<Rightarrow> DBusCommand \<Rightarrow> bool \<Rightarrow> DBusDataInfo \<Rightarrow> dbus_msg option" where [HM_factory_simps]:
  "HM_makeMsgNoti_CallHistoryPullStart F cmd isSuccess msgInfo =
     makeMsgNotiInternal F ''/com/example/coremanager'' ''com.example.coremanager.interface''
       ''CoreSignal'' cmd isSuccess msgInfo"

definition HM_makeMsgNoti_CallHistoryPull ::
    "faults \<Rightarrow> DBusCommand \<Rightarrow> bool \<Rightarrow> DBusDataInfo \<Rightarrow> dbus_msg option" where [HM_factory_simps]:
  "HM_makeMsgNoti_CallHistoryPull F cmd isSuccess msgInfo =
     makeMsgNotiInternal F ''/com/example/coremanager'' ''com.example.coremanager.interface''
       ''CoreSignal'' cmd isSuccess msgInfo"

definition HM_makeMsgNoti_CallHistoryPullEnd ::
    "faults \<Rightarrow> DBusCommand \<Rightarrow> bool \<Rightarrow> DBusDataInfo \<Rightarrow> dbus_msg option" where [HM_factory_simps]:
  "HM_makeMsgNoti_CallHistoryPullEnd F cmd isSuccess msgInfo =
     makeMsgNotiInternal F ''/com/example/coremanager'' ''com.example.coremanager.interface''
       ''CoreSignal'' cmd isSuccess msgInfo"

definition HM_makeMsgNoti_PBAPSessionEnd ::
    "faults \<Rightarrow> DBusCommand \<Rightarrow> bool \<Rightarrow> DBusDataInfo \<Rightarrow> dbus_msg option" where [HM_factory_simps]:
  "HM_makeMsgNoti_PBAPSessionEnd F cmd isSuccess msgInfo =
     makeMsgNotiInternal F ''/com/example/coremanager'' ''com.example.coremanager.interface''
       ''CoreSignal'' cmd isSuccess msgInfo"

definition HM_makeMsgNoti_IncomingCall ::
    "faults \<Rightarrow> DBusCommand \<Rightarrow> bool \<Rightarrow> DBusDataInfo \<Rightarrow> dbus_msg option" where [HM_factory_simps]:
  "HM_makeMsgNoti_IncomingCall F cmd isSuccess msgInfo =
     makeMsgNotiInternal F ''/com/example/coremanager'' ''com.example.coremanager.interface''
       ''CoreSignal'' cmd isSuccess msgInfo"

definition HM_makeMsgNoti_OutgoingCall ::
    "faults \<Rightarrow> DBusCommand \<Rightarrow> bool \<Rightarrow> DBusDataInfo \<Rightarrow> dbus_msg option" where [HM_factory_simps]:
  "HM_makeMsgNoti_OutgoingCall F cmd isSuccess msgInfo =
     makeMsgNotiInternal F ''/com/example/coremanager'' ''com.example.coremanager.interface''
       ''CoreSignal'' cmd isSuccess msgInfo"

definition HM_makeMsgNoti_CallStateChanged ::
    "faults \<Rightarrow> DBusCommand \<Rightarrow> bool \<Rightarrow> DBusDataInfo \<Rightarrow> dbus_msg option" where [HM_factory_simps]:
  "HM_makeMsgNoti_CallStateChanged F cmd isSuccess msgInfo =
     makeMsgNotiInternal F ''/com/example/coremanager'' ''com.example.coremanager.interface''
       ''CoreSignal'' cmd isSuccess msgInfo"

definition HM_makeMsgNoti_CallEnded ::
    "faults \<Rightarrow> DBusCommand \<Rightarrow> bool \<Rightarrow> DBusDataInfo \<Rightarrow> dbus_msg option" where [HM_factory_simps]:
  "HM_makeMsgNoti_CallEnded F cmd isSuccess msgInfo =
     makeMsgNotiInternal F ''/com/example/coremanager'' ''com.example.coremanager.interface''
       ''CoreSignal'' cmd isSuccess msgInfo"

definition HM_makeMsgNoti_DialCall ::
    "faults \<Rightarrow> DBusCommand \<Rightarrow> bool \<Rightarrow> DBusDataInfo \<Rightarrow> dbus_msg option" where [HM_factory_simps]:
  "HM_makeMsgNoti_DialCall F cmd isSuccess msgInfo =
     makeMsgNotiInternal F ''/com/example/coremanager'' ''com.example.coremanager.interface''
       ''CoreSignal'' cmd isSuccess msgInfo"

definition HM_makeMsgNoti_HangupCall ::
    "faults \<Rightarrow> DBusCommand \<Rightarrow> bool \<Rightarrow> DBusDataInfo \<Rightarrow> dbus_msg option" where [HM_factory_simps]:
  "HM_makeMsgNoti_HangupCall F cmd isSuccess msgInfo =
     makeMsgNotiInternal F ''/com/example/coremanager'' ''com.example.coremanager.interface''
       ''CoreSignal'' cmd isSuccess msgInfo"

definition HM_makeMsgNoti_AnswerCall ::
    "faults \<Rightarrow> DBusCommand \<Rightarrow> bool \<Rightarrow> DBusDataInfo \<Rightarrow> dbus_msg option" where [HM_factory_simps]:
  "HM_makeMsgNoti_AnswerCall F cmd isSuccess msgInfo =
     makeMsgNotiInternal F ''/com/example/coremanager'' ''com.example.coremanager.interface''
       ''CoreSignal'' cmd isSuccess msgInfo"

definition HM_makeMsg ::
    "faults \<Rightarrow> DBusCommand \<Rightarrow> dbus_msg option" where
  "HM_makeMsg F cmd = None"

definition HM_makeMsgNoti ::
    "faults \<Rightarrow> DBusCommand \<Rightarrow> bool \<Rightarrow> DBusDataInfo \<Rightarrow> dbus_msg option" where
  "HM_makeMsgNoti F cmd isSuccess msgInfo =
     (case cmd of
        DBusCommand.UPDATE_TEMPERATURE_NOTI \<Rightarrow>
          HM_makeMsgNoti_UpdateTemperature F cmd isSuccess msgInfo
      | DBusCommand.START_SCAN_BTDEVICE_NOTI \<Rightarrow>
          HM_makeMsgNoti_StartScanBTDevice F cmd isSuccess msgInfo
      | DBusCommand.STOP_SCAN_BTDEVICE_NOTI \<Rightarrow>
          HM_makeMsgNoti_StopScanBTDevice F cmd isSuccess msgInfo
      | DBusCommand.SCANNING_BTDEVICE_FOUND_NOTI \<Rightarrow>
          HM_makeMsgNoti_ScanningBTDeviceFound F cmd isSuccess msgInfo
      | DBusCommand.SCANNING_BTDEVICE_DELETE_NOTI \<Rightarrow>
          HM_makeMsgNoti_ScanningBTDeviceDelete F cmd isSuccess msgInfo
      | DBusCommand.BLUETOOTH_POWER_ON_NOTI \<Rightarrow>
          HM_makeMsgNoti_BluetoothPowerOn F cmd isSuccess msgInfo
      | DBusCommand.BLUETOOTH_POWER_OFF_NOTI \<Rightarrow>
          HM_makeMsgNoti_BluetoothPowerOff F cmd isSuccess msgInfo
      | DBusCommand.BTDEVICE_PROPERTY_CHANGE_NOTI \<Rightarrow>
          HM_makeMsgNoti_BTDevicePropertyChange F cmd isSuccess msgInfo
      | DBusCommand.PAIR_BTDEVICE_NOTI \<Rightarrow>
          HM_makeMsgNoti_PairBTDevice F cmd isSuccess msgInfo
      | DBusCommand.UNPAIR_BTDEVICE_NOTI \<Rightarrow>
          HM_makeMsgNoti_UnpairBTDevice F cmd isSuccess msgInfo
      | DBusCommand.CONNECT_BTDEVICE_NOTI \<Rightarrow>
          HM_makeMsgNoti_ConnectBTDevice F cmd isSuccess msgInfo
      | DBusCommand.DISCONNECT_BTDEVICE_NOTI \<Rightarrow>
          HM_makeMsgNoti_DisconnectBTDevice F cmd isSuccess msgInfo
      | DBusCommand.BTDEVICE_REQUEST_CONFIRMATION_NOTI \<Rightarrow>
          HM_makeMsgNoti_BTDeviceRequestConfirmation F cmd isSuccess msgInfo
      | DBusCommand.PBAP_PHONEBOOK_PULL_START_NOTI \<Rightarrow>
          HM_makeMsgNoti_PBAPPhonebookPullStart F cmd isSuccess msgInfo
      | DBusCommand.PBAP_PHONEBOOK_PULL_NOTI \<Rightarrow>
          HM_makeMsgNoti_PBAPPhonebookPull F cmd isSuccess msgInfo
      | DBusCommand.PBAP_PHONEBOOK_PULL_END_NOTI \<Rightarrow>
          HM_makeMsgNoti_PBAPPhonebookPullEnd F cmd isSuccess msgInfo
      | DBusCommand.CALL_HISTORY_PULL_START_NOTI \<Rightarrow>
          HM_makeMsgNoti_CallHistoryPullStart F cmd isSuccess msgInfo
      | DBusCommand.CALL_HISTORY_PULL_NOTI \<Rightarrow>
          HM_makeMsgNoti_CallHistoryPull F cmd isSuccess msgInfo
      | DBusCommand.CALL_HISTORY_PULL_END_NOTI \<Rightarrow>
          HM_makeMsgNoti_CallHistoryPullEnd F cmd isSuccess msgInfo
      | DBusCommand.PBAP_SESSION_END_NOTI \<Rightarrow>
          HM_makeMsgNoti_PBAPSessionEnd F cmd isSuccess msgInfo
      | DBusCommand.INCOMING_CALL_NOTI \<Rightarrow>
          HM_makeMsgNoti_IncomingCall F cmd isSuccess msgInfo
      | DBusCommand.OUTGOING_CALL_NOTI \<Rightarrow>
          HM_makeMsgNoti_OutgoingCall F cmd isSuccess msgInfo
      | DBusCommand.CALL_STATE_CHANGED_NOTI \<Rightarrow>
          HM_makeMsgNoti_CallStateChanged F cmd isSuccess msgInfo
      | DBusCommand.CALL_ENDED_NOTI \<Rightarrow> HM_makeMsgNoti_CallEnded F cmd isSuccess msgInfo
      | DBusCommand.DIAL_CALL_NOTI \<Rightarrow> HM_makeMsgNoti_DialCall F cmd isSuccess msgInfo
      | DBusCommand.ANSWER_CALL_NOTI \<Rightarrow>
          HM_makeMsgNoti_AnswerCall F cmd isSuccess msgInfo
      | DBusCommand.HANGUP_CALL_NOTI \<Rightarrow>
          HM_makeMsgNoti_HangupCall F cmd isSuccess msgInfo
      | _ \<Rightarrow> None)"

text \<open>The commands the factory makes notifications for.\<close>

definition HM_notifications :: "DBusCommand list" where
  "HM_notifications =
    [DBusCommand.UPDATE_TEMPERATURE_NOTI, DBusCommand.START_SCAN_BTDEVICE_NOTI,
     DBusCommand.STOP_SCAN_BTDEVICE_NOTI, DBusCommand.SCANNING_BTDEVICE_FOUND_NOTI,
     DBusCommand.SCANNING_BTDEVICE_DELETE_NOTI, DBusCommand.BLUETOOTH_POWER_ON_NOTI,
     DBusCommand.BLUETOOTH_POWER_OFF_NOTI, DBusCommand.BTDEVICE_PROPERTY_CHANGE_NOTI,
     DBusCommand.PAIR_BTDEVICE_NOTI, DBusCommand.UNPAIR_BTDEVICE_NOTI,
     DBusCommand.CONNECT_BTDEVICE_NOTI, DBusCommand.DISCONNECT_BTDEVICE_NOTI,
     DBusCommand.BTDEVICE_REQUEST_CONFIRMATION_NOTI,
     DBusCommand.PBAP_PHONEBOOK_PULL_START_NOTI, DBusCommand.PBAP_PHONEBOOK_PULL_NOTI,
     DBusCommand.PBAP_PHONEBOOK_PULL_END_NOTI, DBusCommand.CALL_HISTORY_PULL_START_NOTI,
     DBusCommand.CALL_HISTORY_PULL_NOTI, DBusCommand.CALL_HISTORY_PULL_END_NOTI,
     DBusCommand.PBAP_SESSION_END_NOTI, DBusCommand.INCOMING_CALL_NOTI,
     DBusCommand.OUTGOING_CALL_NOTI, DBusCommand.CALL_STATE_CHANGED_NOTI,
     DBusCommand.CALL_ENDED_NOTI, DBusCommand.DIAL_CALL_NOTI, DBusCommand.ANSWER_CALL_NOTI,
     DBusCommand.HANGUP_CALL_NOTI]"

lemma HM_makeMsgNoti_offered:
  "cmd \<in> set HM_notifications \<Longrightarrow>
   HM_makeMsgNoti F cmd ok info = makeMsgNotiInternal F (getObjectPath core_config)
     (getInterfaceName core_config) (getSignalName core_config) cmd ok info"
  by (cases cmd) (simp_all add: HM_makeMsgNoti_def HM_factory_simps HM_notifications_def)

lemma HM_makeMsgNoti_other:
  "cmd \<notin> set HM_notifications \<Longrightarrow> HM_makeMsgNoti F cmd ok info = None"
  by (cases cmd) (simp_all add: HM_makeMsgNoti_def HM_notifications_def)

interpretation hm_to_core: notification_link HM_makeMsgNoti "\<lambda>cmd. cmd \<in> set HM_notifications"
  "getInterfaceName core_config" "getSignalName core_config"
proof
  show "cmd \<in> set HM_notifications \<and>
      (\<exists>p. msg = noti_msg p (getInterfaceName core_config) (getSignalName core_config) cmd ok info)"
    if "HM_makeMsgNoti F cmd ok info = Some msg" for F cmd ok info msg
    using that
    by (cases "cmd \<in> set HM_notifications")
      (auto simp: HM_makeMsgNoti_offered HM_makeMsgNoti_other makeMsgNotiInternal_Some
        simp del: config_simps)
  show "HM_makeMsgNoti no_faults cmd ok info \<noteq> None" if "cmd \<in> set HM_notifications" for cmd ok info
    using that by (simp add: HM_makeMsgNoti_offered makeMsgNotiInternal_no_faults)
qed

end
