(* ===== verification/HardwareBus.thy ===== *)
theory HardwareBus
  imports HMSenderFactory Floats "HOL-Library.List_Lexorder" "HOL-Library.Char_ord"
begin

text \<open>
  What every part of the hardware manager shares: the names of BlueZ's and oFono's services and
  interfaces (\<open>hardwaremgr/include/Configure/Config.hpp\<close>), the state the workers keep together, calls of
  methods over the system bus, the notifications to the core manager, and the reading of a message
  through libdbus iterators.
\<close>

named_theorems hm_config \<open>the constants of Config.hpp\<close>

section \<open>Config\<close>

definition HARDWAREMGR_AGENT_OBJECT_PATH :: string where [hm_config]:
  "HARDWAREMGR_AGENT_OBJECT_PATH = ''/com/example/hardwaremanager/agent''"

definition BLUEZ_SERVICE_NAME :: string where [hm_config]: "BLUEZ_SERVICE_NAME = ''org.bluez''"
definition BLUEZ_OBJECT_PATH :: string where [hm_config]: "BLUEZ_OBJECT_PATH = ''/org/bluez''"
definition BLUEZ_ADAPTER_INTERFACE :: string where [hm_config]:
  "BLUEZ_ADAPTER_INTERFACE = ''org.bluez.Adapter1''"
definition BLUEZ_DEVICE_INTERFACE :: string where [hm_config]:
  "BLUEZ_DEVICE_INTERFACE = ''org.bluez.Device1''"
definition BLUEZ_AGENT_MANAGER_INTERFACE :: string where [hm_config]:
  "BLUEZ_AGENT_MANAGER_INTERFACE = ''org.bluez.AgentManager1''"
definition BLUEZ_AGENT_INTERFACE :: string where [hm_config]:
  "BLUEZ_AGENT_INTERFACE = ''org.bluez.Agent1''"
definition BLUEZ_ERROR_REJECTED :: string where [hm_config]:
  "BLUEZ_ERROR_REJECTED = ''org.bluez.Error.Rejected''"
definition DBUS_OBJECT_MANAGER_INTERFACE :: string where [hm_config]:
  "DBUS_OBJECT_MANAGER_INTERFACE = ''org.freedesktop.DBus.ObjectManager''"
definition DBUS_PROPERTIES_INTERFACE :: string where [hm_config]:
  "DBUS_PROPERTIES_INTERFACE = ''org.freedesktop.DBus.Properties''"

definition OFONO_SERVICE_NAME :: string where [hm_config]: "OFONO_SERVICE_NAME = ''org.ofono''"
definition OFONO_MANAGER_INTERFACE :: string where [hm_config]:
  "OFONO_MANAGER_INTERFACE = ''org.ofono.Manager''"
definition OFONO_MODEM_INTERFACE :: string where [hm_config]:
  "OFONO_MODEM_INTERFACE = ''org.ofono.Modem''"
definition OFONO_PHONEBOOK_INTERFACE :: string where [hm_config]:
  "OFONO_PHONEBOOK_INTERFACE = ''org.ofono.Phonebook''"
definition OFONO_CONTACT_INTERFACE :: string where [hm_config]:
  "OFONO_CONTACT_INTERFACE = ''org.ofono.Contact''"
definition OFONO_VOICECALL_MANAGER_INTERFACE :: string where [hm_config]:
  "OFONO_VOICECALL_MANAGER_INTERFACE = ''org.ofono.VoiceCallManager''"
definition OFONO_VOICECALL_INTERFACE :: string where [hm_config]:
  "OFONO_VOICECALL_INTERFACE = ''org.ofono.VoiceCall''"
definition OFONO_CALL_HISTORY_INTERFACE :: string where [hm_config]:
  "OFONO_CALL_HISTORY_INTERFACE = ''org.ofono.CallHistory''"

section \<open>State\<close>

text \<open>
  A message the hardware manager's own connection received: its serial number, its sender when the
  bus gives one, and the rest.
\<close>

record bus_msg =
  msg_serial :: nat
  msg_sender :: "string option"
  msg_body :: dbus_msg

text \<open>What the connection was given to send: calls of methods and the agent's replies.\<close>

record method_call =
  call_dest :: string
  call_path :: string
  call_interface :: string
  call_member :: string
  call_args :: "dbus_value list"

datatype agent_reply =
    Method_return bus_msg
  | Error_reply bus_msg string string

text \<open>
  The members of \<open>BluezDBus\<close>, \<open>OfonoDBus\<close> and \<open>BluetoothAgent\<close>, the service's sender, and what went
  out: how many calls were created, the calls and the replies.  \<open>std::set\<close> and the maps keyed by
  strings are sets and partial functions.
\<close>

record hardware_mgr =
  hm_sender :: dbus_sender
  adapterPath :: string
  isInitialized :: bool
  match_rules :: "string list"
  modemPath :: string
  activeCallPaths :: "string set"
  phonebook :: "string \<rightharpoonup> string"
  pendingConfirmations :: "string \<rightharpoonup> bus_msg"
  created :: nat
  call_log :: "method_call list"
  replies :: "agent_reply list"

definition hardware_mgr_init :: hardware_mgr where
  "hardware_mgr_init =
     \<lparr>hm_sender = dbus_sender_init, adapterPath = [], isInitialized = False, match_rules = [],
      modemPath = [], activeCallPaths = {}, phonebook = Map.empty,
      pendingConfirmations = Map.empty, created = 0, call_log = [], replies = []\<rparr>"

section \<open>Calls and notifications\<close>

text \<open>
  How a call of a method ends: no message could be created, the call failed with an error's text, it
  returned values, or there is no reply and no error.
\<close>

datatype call_result =
    Not_created
  | Call_error string
  | Call_reply "dbus_value list"
  | Call_no_reply

text \<open>
  What is outside: the faults of the notifications, the result of the \<open>n\<close>-th call, which checked
  appends of arguments fail, which replies of the agent cannot be created, and the error with which a
  match rule is refused.  The code does not check the other appends of arguments; a message that lacks
  them for want of memory meets an answer like any other.  The last three fields say which of the
  parts the workers were given (\<open>main\<close> gives them all).
\<close>

record hm_env =
  hm_faults :: "nat \<Rightarrow> faults"
  answers :: "nat \<Rightarrow> method_call \<Rightarrow> call_result"
  append_fails :: "nat \<Rightarrow> bool"
  reply_fails :: "bus_msg \<Rightarrow> bool"
  match_error :: "string \<Rightarrow> string option"
  has_bluez :: bool
  has_ofono :: bool
  has_agent :: bool

definition new_method_call ::
    "string \<Rightarrow> string \<Rightarrow> string \<Rightarrow> string \<Rightarrow> dbus_value list \<Rightarrow> method_call" where
  "new_method_call destination path iface method args =
     \<lparr>call_dest = destination, call_path = c_str path, call_interface = iface,
      call_member = method, call_args = args\<rparr>"

definition call_method ::
    "hm_env \<Rightarrow> method_call \<Rightarrow> hardware_mgr \<Rightarrow> call_result \<times> hardware_mgr" where
  "call_method env c m =
     (let r = answers env (created m) c; m' = m\<lparr>created := Suc (created m)\<rparr>
      in (r, if r = Not_created then m' else m'\<lparr>call_log := call_log m' @ [c]\<rparr>))"

definition hm_notify ::
    "hm_env \<Rightarrow> DBusCommand \<Rightarrow> bool \<Rightarrow> DBusDataInfo \<Rightarrow> hardware_mgr \<Rightarrow> hardware_mgr" where
  "hm_notify env cmd ok info m =
     m\<lparr>hm_sender := snd (sendMessageNoti (hm_faults env) HM_makeMsgNoti cmd ok info (hm_sender m))\<rparr>"

definition hm_info :: "string \<Rightarrow> DBusDataInfo" where
  "hm_info s = DBusDataInfo_init(DBUS_DATA_MESSAGE := s)"

text \<open>A boolean as the notifications carry it.\<close>

definition bool_text :: "bool \<Rightarrow> string" where
  "bool_text b = (if b then ''true'' else ''false'')"

section \<open>Iterators\<close>

text \<open>
  An iterator is the list of the values that are left.  Reading a text where the message has none,
  and entering what is no container, libdbus leaves undefined.
\<close>

definition get_string :: "dbus_value list \<Rightarrow> fault + string" where
  "get_string iter =
     (case iter of
        DString s # _ \<Rightarrow> Inr s
      | DObjectPath s # _ \<Rightarrow> Inr s
      | _ \<Rightarrow> Inl Undefined_behaviour)"

definition recurse :: "dbus_value list \<Rightarrow> fault + dbus_value list" where
  "recurse iter =
     (case iter of
        DArray _ vs # _ \<Rightarrow> Inr vs
      | DVariant v # _ \<Rightarrow> Inr [v]
      | DStruct vs # _ \<Rightarrow> Inr vs
      | DDictEntry k v # _ \<Rightarrow> Inr [k, v]
      | _ \<Rightarrow> Inl Undefined_behaviour)"

text \<open>
  The loop over a dictionary \<open>a{sv}\<close>, as long as the iterator is at an entry: the key is read, the
  variant entered, and \<open>f\<close> takes the key and the variant's contents into account.
\<close>

fun parse_entries ::
    "(string \<Rightarrow> dbus_value list \<Rightarrow> 'a \<Rightarrow> 'a) \<Rightarrow> dbus_value list \<Rightarrow> 'a \<Rightarrow> fault + 'a" where
  "parse_entries f (DDictEntry k v # rest) p =
     bind_result (get_string [k]) (\<lambda>key.
     bind_result (recurse [v]) (\<lambda>variant_iter.
     parse_entries f rest (f key variant_iter p)))"
| "parse_entries f _ p = Inr p"

section \<open>Addresses and object paths\<close>

text \<open>
  \<open>std::replace\<close>; \<open>find\<close> and \<open>rfind\<close>, with what follows the first or the last place where the text is
  found.
\<close>

definition replace_char :: "char \<Rightarrow> char \<Rightarrow> string \<Rightarrow> string" where
  "replace_char a b s = map (\<lambda>c. if c = a then b else c) s"

fun after_first :: "string \<Rightarrow> string \<Rightarrow> string option" where
  "after_first pat [] = (if pat = [] then Some [] else None)"
| "after_first pat (c # s) =
     (if take (length pat) (c # s) = pat then Some (drop (length pat) (c # s)) else after_first pat s)"

fun after_last :: "string \<Rightarrow> string \<Rightarrow> string option" where
  "after_last pat [] = (if pat = [] then Some [] else None)"
| "after_last pat (c # s) =
     (case after_last pat s of
        Some r \<Rightarrow> Some r
      | None \<Rightarrow> if take (length pat) (c # s) = pat then Some (drop (length pat) (c # s)) else None)"

section \<open>What calls and notifications leave unchanged\<close>

lemma hm_notify_frame [simp]:
  "adapterPath (hm_notify env cmd ok info m) = adapterPath m"
  "isInitialized (hm_notify env cmd ok info m) = isInitialized m"
  "match_rules (hm_notify env cmd ok info m) = match_rules m"
  "modemPath (hm_notify env cmd ok info m) = modemPath m"
  "activeCallPaths (hm_notify env cmd ok info m) = activeCallPaths m"
  "phonebook (hm_notify env cmd ok info m) = phonebook m"
  "pendingConfirmations (hm_notify env cmd ok info m) = pendingConfirmations m"
  "created (hm_notify env cmd ok info m) = created m"
  "call_log (hm_notify env cmd ok info m) = call_log m"
  "replies (hm_notify env cmd ok info m) = replies m"
  by (simp_all add: hm_notify_def)

lemma call_method_frame:
  "call_method env c m = (r, m') \<Longrightarrow>
   hm_sender m' = hm_sender m \<and> adapterPath m' = adapterPath m \<and> isInitialized m' = isInitialized m
   \<and> match_rules m' = match_rules m \<and> modemPath m' = modemPath m
   \<and> activeCallPaths m' = activeCallPaths m \<and> phonebook m' = phonebook m
   \<and> pendingConfirmations m' = pendingConfirmations m \<and> replies m' = replies m
   \<and> r = answers env (created m) c"
  by (auto simp: call_method_def Let_def split: if_splits)

end
