(* ===== verification/BluezDBus.thy ===== *)
theory BluezDBus
  imports HardwareBus
begin

text \<open>
  \<open>hardwaremgr/src/BT/BluezDBus.cpp\<close>: the adapter and its devices, through BlueZ.  A method that reads
  a reply can meet one that is not what the code expects, and ends in a fault then; the others only
  change the state.
\<close>

section \<open>Parsing properties\<close>

definition adapter_property ::
    "string \<Rightarrow> dbus_value list \<Rightarrow> DBusDataInfo \<Rightarrow> DBusDataInfo" where
  "adapter_property prop_key variant_iter properties =
     (case variant_iter of
        DBoolean value # _ \<Rightarrow>
          if prop_key = ''Powered'' then properties(DBUS_DATA_BT_ADAPTER_POWERED := bool_text value)
          else if prop_key = ''Discovering''
          then properties(DBUS_DATA_BT_ADAPTER_DISCOVERING := bool_text value)
          else if prop_key = ''Discoverable''
          then properties(DBUS_DATA_BT_ADAPTER_DISCOVERABLE := bool_text value)
          else properties
      | _ \<Rightarrow> properties)"

definition parseAdapterProperties :: "dbus_value list \<Rightarrow> fault + DBusDataInfo" where
  "parseAdapterProperties properties_iter =
     bind_result (recurse properties_iter) (\<lambda>dict_entry_iter.
     parse_entries adapter_property dict_entry_iter DBusDataInfo_init)"

definition device_property ::
    "string \<Rightarrow> dbus_value list \<Rightarrow> DBusDataInfo \<Rightarrow> DBusDataInfo" where
  "device_property prop_key variant_iter properties =
     (case variant_iter of
        DString value # _ \<Rightarrow>
          if prop_key = ''Address'' then properties(DBUS_DATA_BT_DEVICE_ADDRESS := value)
          else if prop_key = ''Name'' then properties(DBUS_DATA_BT_DEVICE_NAME := value)
          else if prop_key = ''Alias''
          then (if properties DBUS_DATA_BT_DEVICE_NAME = []
                then properties(DBUS_DATA_BT_DEVICE_NAME := value) else properties)
          else if prop_key = ''Icon'' then properties(DBUS_DATA_BT_DEVICE_ICON := value)
          else properties
      | DInt16 value # _ \<Rightarrow>
          if prop_key = ''RSSI'' then properties(DBUS_DATA_BT_DEVICE_RSSI := int_to_string value)
          else properties
      | DBoolean value # _ \<Rightarrow>
          if prop_key = ''Paired'' then properties(DBUS_DATA_BT_DEVICE_PAIRED := bool_text value)
          else if prop_key = ''Connected''
          then properties(DBUS_DATA_BT_DEVICE_CONNECTED := bool_text value)
          else if prop_key = ''Trusted''
          then properties(DBUS_DATA_BT_DEVICE_TRUSTED := bool_text value)
          else properties
      | _ \<Rightarrow> properties)"

definition parseDeviceProperties :: "dbus_value list \<Rightarrow> fault + DBusDataInfo" where
  "parseDeviceProperties properties_iter =
     bind_result (recurse properties_iter) (\<lambda>dict_entry_iter.
     parse_entries device_property dict_entry_iter DBusDataInfo_init)"

section \<open>The adapter\<close>

definition isAdapterFound :: "hardware_mgr \<Rightarrow> bool" where
  "isAdapterFound m = (adapterPath m \<noteq> [])"

definition addMatchRule :: "hm_env \<Rightarrow> string \<Rightarrow> hardware_mgr \<Rightarrow> fault + hardware_mgr" where
  "addMatchRule env rule m =
     (case match_error env rule of
        Some _ \<Rightarrow> Inl (Runtime_error ''Failed to add BlueZ D-Bus match rule'')
      | None \<Rightarrow> Inr (m\<lparr>match_rules := match_rules m @ [rule]\<rparr>))"

definition startDiscovery :: "hm_env \<Rightarrow> hardware_mgr \<Rightarrow> hardware_mgr" where
  "startDiscovery env m =
     (case call_method env
             (new_method_call BLUEZ_SERVICE_NAME (adapterPath m) BLUEZ_ADAPTER_INTERFACE
                ''StartDiscovery'' []) m of
        (Not_created, m) \<Rightarrow>
          hm_notify env DBusCommand.START_SCAN_BTDEVICE_NOTI False
            (hm_info ''Failed to create D-Bus message for StartDiscovery'') m
      | (Call_error e, m) \<Rightarrow>
          hm_notify env DBusCommand.START_SCAN_BTDEVICE_NOTI False
            (hm_info (''Error starting Bluetooth discovery: '' @ e)) m
      | (_, m) \<Rightarrow> m)"

definition stopDiscovery :: "hm_env \<Rightarrow> hardware_mgr \<Rightarrow> hardware_mgr" where
  "stopDiscovery env m =
     (case call_method env
             (new_method_call BLUEZ_SERVICE_NAME (adapterPath m) BLUEZ_ADAPTER_INTERFACE
                ''StopDiscovery'' []) m of
        (Not_created, m) \<Rightarrow>
          hm_notify env DBusCommand.STOP_SCAN_BTDEVICE_NOTI False
            (hm_info ''Failed to create D-Bus message for StopDiscovery'') m
      | (Call_error e, m) \<Rightarrow>
          hm_notify env DBusCommand.STOP_SCAN_BTDEVICE_NOTI False
            (hm_info (''Error stopping Bluetooth discovery: '' @ e)) m
      | (_, m) \<Rightarrow> m)"

text \<open>\<open>org.freedesktop.DBus.Properties.Set\<close> with arguments \<open>ssv\<close>.\<close>

definition set_args :: "string \<Rightarrow> string \<Rightarrow> bool \<Rightarrow> dbus_value list" where
  "set_args iface prop b = [DString iface, DString prop, DVariant (DBoolean b)]"

definition setPower :: "hm_env \<Rightarrow> bool \<Rightarrow> hardware_mgr \<Rightarrow> hardware_mgr" where
  "setPower env on m =
     (case call_method env
             (new_method_call BLUEZ_SERVICE_NAME (adapterPath m) DBUS_PROPERTIES_INTERFACE ''Set''
                (set_args BLUEZ_ADAPTER_INTERFACE ''Powered'' on)) m of
        (Call_error e, m) \<Rightarrow>
          hm_notify env
            (if on then DBusCommand.BLUETOOTH_POWER_ON_NOTI else DBusCommand.BLUETOOTH_POWER_OFF_NOTI)
            False (hm_info (''Error setting adapter power: '' @ e)) m
      | (_, m) \<Rightarrow> m)"

definition powerOnAdapter :: "hm_env \<Rightarrow> hardware_mgr \<Rightarrow> hardware_mgr" where
  "powerOnAdapter env m = setPower env True m"

definition powerOffAdapter :: "hm_env \<Rightarrow> hardware_mgr \<Rightarrow> hardware_mgr" where
  "powerOffAdapter env m = setPower env False m"

definition setDiscoverable :: "hm_env \<Rightarrow> bool \<Rightarrow> hardware_mgr \<Rightarrow> hardware_mgr" where
  "setDiscoverable env on m =
     snd (call_method env
            (new_method_call BLUEZ_SERVICE_NAME (adapterPath m) DBUS_PROPERTIES_INTERFACE ''Set''
               (set_args BLUEZ_ADAPTER_INTERFACE ''Discoverable'' on)) m)"

definition getAllAdapterProperties ::
    "hm_env \<Rightarrow> string \<Rightarrow> hardware_mgr \<Rightarrow> fault + DBusDataInfo \<times> hardware_mgr" where
  "getAllAdapterProperties env objectPath m =
     (case call_method env
             (new_method_call BLUEZ_SERVICE_NAME objectPath DBUS_PROPERTIES_INTERFACE ''GetAll''
                [DString BLUEZ_ADAPTER_INTERFACE]) m of
        (Call_reply iter, m) \<Rightarrow>
          if iter = [] then Inr (DBusDataInfo_init, m)
          else bind_result (parseAdapterProperties iter) (\<lambda>properties. Inr (properties, m))
      | (_, m) \<Rightarrow> Inr (DBusDataInfo_init, m))"

section \<open>Initialisation\<close>

text \<open>The adapter as \<open>GetManagedObjects\<close> shows it: its state is told, and it is made discoverable.\<close>

definition managed_adapter :: "hm_env \<Rightarrow> DBusDataInfo \<Rightarrow> hardware_mgr \<Rightarrow> hardware_mgr" where
  "managed_adapter env properties m =
     (let is_powered = (properties DBUS_DATA_BT_ADAPTER_POWERED = ''true'');
          is_discovering = (properties DBUS_DATA_BT_ADAPTER_DISCOVERING = ''true'');
          is_discoverable = (properties DBUS_DATA_BT_ADAPTER_DISCOVERABLE = ''true'');
          m = (if properties DBUS_DATA_BT_ADAPTER_POWERED \<noteq> []
               then hm_notify env
                      (if is_powered then DBusCommand.BLUETOOTH_POWER_ON_NOTI
                       else DBusCommand.BLUETOOTH_POWER_OFF_NOTI) True
                      (DBusDataInfo_init
                        (DBUS_DATA_BT_ADAPTER_POWERED := properties DBUS_DATA_BT_ADAPTER_POWERED,
                         DBUS_DATA_MESSAGE :=
                           ''Initial adapter power state is '' @ (if is_powered then ''ON'' else ''OFF''))) m
               else m);
          m = (if properties DBUS_DATA_BT_ADAPTER_DISCOVERING \<noteq> []
               then hm_notify env
                      (if is_discovering then DBusCommand.START_SCAN_BTDEVICE_NOTI
                       else DBusCommand.STOP_SCAN_BTDEVICE_NOTI) True
                      (DBusDataInfo_init
                        (DBUS_DATA_BT_ADAPTER_DISCOVERING := properties DBUS_DATA_BT_ADAPTER_DISCOVERING,
                         DBUS_DATA_MESSAGE :=
                           ''Initial adapter discovery state is ''
                           @ (if is_discovering then ''ON'' else ''OFF''))) m
               else m)
      in if properties DBUS_DATA_BT_ADAPTER_DISCOVERABLE \<noteq> [] \<and> is_powered \<and> \<not> is_discoverable
         then setDiscoverable env True m else m)"

definition managed_device :: "hm_env \<Rightarrow> DBusDataInfo \<Rightarrow> hardware_mgr \<Rightarrow> hardware_mgr" where
  "managed_device env properties m =
     hm_notify env DBusCommand.SCANNING_BTDEVICE_FOUND_NOTI True
       (properties(DBUS_DATA_MESSAGE := ''Found existing Bluetooth device in managed objects.'')) m"

text \<open>The two loops: over the interfaces of an object, and over the objects.\<close>

fun managed_interfaces ::
    "hm_env \<Rightarrow> string \<Rightarrow> dbus_value list \<Rightarrow> bool \<Rightarrow> hardware_mgr \<Rightarrow> fault + bool \<times> hardware_mgr" where
  "managed_interfaces env path (DDictEntry k v # rest) adapterFound m =
     (case k of
        DString iface_str \<Rightarrow>
          if iface_str = BLUEZ_ADAPTER_INTERFACE
          then bind_result (parseAdapterProperties [v]) (\<lambda>properties.
               managed_interfaces env path rest True
                 (managed_adapter env properties (m\<lparr>adapterPath := path\<rparr>)))
          else if iface_str = BLUEZ_DEVICE_INTERFACE
          then bind_result (parseDeviceProperties [v]) (\<lambda>properties.
               managed_interfaces env path rest adapterFound (managed_device env properties m))
          else managed_interfaces env path rest adapterFound m
      | _ \<Rightarrow> managed_interfaces env path rest adapterFound m)"
| "managed_interfaces env path _ adapterFound m = Inr (adapterFound, m)"

fun managed_objects ::
    "hm_env \<Rightarrow> dbus_value list \<Rightarrow> bool \<Rightarrow> hardware_mgr \<Rightarrow> fault + bool \<times> hardware_mgr" where
  "managed_objects env (DDictEntry k v # rest) adapterFound m =
     (case k of
        DObjectPath path \<Rightarrow>
          (case v of
             DArray _ interfaces \<Rightarrow>
               bind_result (managed_interfaces env path interfaces adapterFound m)
                 (\<lambda>(adapterFound, m). managed_objects env rest adapterFound m)
           | _ \<Rightarrow> managed_objects env rest adapterFound m)
      | _ \<Rightarrow> managed_objects env rest adapterFound m)"
| "managed_objects env _ adapterFound m = Inr (adapterFound, m)"

definition parseManagedObjects ::
    "hm_env \<Rightarrow> dbus_value list \<Rightarrow> hardware_mgr \<Rightarrow> fault + bool \<times> hardware_mgr" where
  "parseManagedObjects env iter m =
     (case iter of
        DArray _ objects # _ \<Rightarrow> managed_objects env objects False m
      | _ \<Rightarrow> Inr (False, m))"

text \<open>The match rules, in the order in which they are added.\<close>

definition apostrophe :: string where "apostrophe = [CHR 0x27]"

definition signal_rule :: "string \<Rightarrow> string \<Rightarrow> string \<Rightarrow> string" where
  "signal_rule interface signal_name sender_name =
     ''type='' @ apostrophe @ ''signal'' @ apostrophe @ '',interface='' @ apostrophe @ interface
     @ apostrophe @ '',member='' @ apostrophe @ signal_name @ apostrophe @ '',sender='' @ apostrophe
     @ sender_name @ apostrophe"

definition agent_rule :: string where
  "agent_rule =
     ''type='' @ apostrophe @ ''method_call'' @ apostrophe @ '',interface='' @ apostrophe
     @ BLUEZ_AGENT_INTERFACE @ apostrophe @ '',path='' @ apostrophe @ HARDWAREMGR_AGENT_OBJECT_PATH
     @ apostrophe"

definition initial_rules :: "string list" where
  "initial_rules =
     [signal_rule DBUS_OBJECT_MANAGER_INTERFACE ''InterfacesAdded'' BLUEZ_SERVICE_NAME,
      signal_rule DBUS_OBJECT_MANAGER_INTERFACE ''InterfacesRemoved'' BLUEZ_SERVICE_NAME,
      signal_rule DBUS_PROPERTIES_INTERFACE ''PropertiesChanged'' BLUEZ_SERVICE_NAME,
      agent_rule,
      signal_rule OFONO_MANAGER_INTERFACE ''ModemAdded'' OFONO_SERVICE_NAME,
      signal_rule OFONO_MANAGER_INTERFACE ''ModemRemoved'' OFONO_SERVICE_NAME,
      signal_rule OFONO_MODEM_INTERFACE ''PropertyChanged'' OFONO_SERVICE_NAME,
      signal_rule OFONO_VOICECALL_MANAGER_INTERFACE ''CallAdded'' OFONO_SERVICE_NAME,
      signal_rule OFONO_VOICECALL_MANAGER_INTERFACE ''CallRemoved'' OFONO_SERVICE_NAME,
      signal_rule OFONO_VOICECALL_INTERFACE ''PropertyChanged'' OFONO_SERVICE_NAME,
      signal_rule DBUS_PROPERTIES_INTERFACE ''PropertiesChanged'' OFONO_SERVICE_NAME]"

definition initializeAdapter :: "hm_env \<Rightarrow> hardware_mgr \<Rightarrow> fault + hardware_mgr" where
  "initializeAdapter env m =
     (case call_method env
             (new_method_call BLUEZ_SERVICE_NAME ''/'' DBUS_OBJECT_MANAGER_INTERFACE
                ''GetManagedObjects'' []) m of
        (Not_created, m) \<Rightarrow>
          Inl (Runtime_error ''Failed to create D-Bus message for GetManagedObjects'')
      | (Call_error e, m) \<Rightarrow> Inl (Runtime_error (''Error calling GetManagedObjects: '' @ e))
      | (Call_no_reply, m) \<Rightarrow> Inl (Runtime_error ''No reply received for GetManagedObjects'')
      | (Call_reply iter, m) \<Rightarrow>
          if iter = []
          then Inl (Runtime_error ''Reply for GetManagedObjects is not in the expected format.'')
          else bind_result (parseManagedObjects env iter m) (\<lambda>(adapterFound, m).
               if \<not> adapterFound
               then Inl (Runtime_error ''BlueZ adapter (org.bluez.Adapter1) not found.'')
               else if isInitialized m then Inr m
               else (case fold_result (addMatchRule env) initial_rules m of
                       Inl (Runtime_error e) \<Rightarrow>
                         Inl (Runtime_error (''Failed to add D-Bus match rules: '' @ e))
                     | Inl e \<Rightarrow> Inl e
                     | Inr m \<Rightarrow> Inr (m\<lparr>isInitialized := True\<rparr>))))"

section \<open>Devices\<close>

definition deviceAddressToObjectPath :: "string \<Rightarrow> hardware_mgr \<Rightarrow> string" where
  "deviceAddressToObjectPath address m =
     adapterPath m @ ''/dev_'' @ replace_char CHR '':'' CHR ''_'' address"

definition address_info :: "string \<Rightarrow> string \<Rightarrow> DBusDataInfo" where
  "address_info address s =
     DBusDataInfo_init(DBUS_DATA_BT_DEVICE_ADDRESS := address, DBUS_DATA_MESSAGE := s)"

definition pairDevice :: "hm_env \<Rightarrow> string \<Rightarrow> hardware_mgr \<Rightarrow> hardware_mgr" where
  "pairDevice env address m =
     (case call_method env
             (new_method_call BLUEZ_SERVICE_NAME (deviceAddressToObjectPath address m)
                BLUEZ_DEVICE_INTERFACE ''Pair'' []) m of
        (Not_created, m) \<Rightarrow>
          hm_notify env DBusCommand.PAIR_BTDEVICE_NOTI False
            (address_info address ''Failed to create D-Bus message for Pair'') m
      | (Call_error e, m) \<Rightarrow>
          hm_notify env DBusCommand.PAIR_BTDEVICE_NOTI False
            (address_info address (''Error pairing with device: '' @ e)) m
      | (_, m) \<Rightarrow> m)"

definition connectDevice :: "hm_env \<Rightarrow> string \<Rightarrow> hardware_mgr \<Rightarrow> hardware_mgr" where
  "connectDevice env address m =
     (case call_method env
             (new_method_call BLUEZ_SERVICE_NAME (deviceAddressToObjectPath address m)
                BLUEZ_DEVICE_INTERFACE ''Connect'' []) m of
        (Not_created, m) \<Rightarrow>
          hm_notify env DBusCommand.CONNECT_BTDEVICE_NOTI False
            (address_info address ''Failed to create D-Bus message for Connect'') m
      | (Call_error e, m) \<Rightarrow>
          hm_notify env DBusCommand.CONNECT_BTDEVICE_NOTI False
            (address_info address (''Error connecting to device: '' @ e)) m
      | (_, m) \<Rightarrow> m)"

definition disconnectDevice :: "hm_env \<Rightarrow> string \<Rightarrow> hardware_mgr \<Rightarrow> hardware_mgr" where
  "disconnectDevice env address m =
     (case call_method env
             (new_method_call BLUEZ_SERVICE_NAME (deviceAddressToObjectPath address m)
                BLUEZ_DEVICE_INTERFACE ''Disconnect'' []) m of
        (Not_created, m) \<Rightarrow>
          hm_notify env DBusCommand.DISCONNECT_BTDEVICE_NOTI False
            (address_info address ''Failed to create D-Bus message for Disconnect'') m
      | (Call_error e, m) \<Rightarrow>
          hm_notify env DBusCommand.DISCONNECT_BTDEVICE_NOTI False
            (address_info address (''Error disconnecting from device: '' @ e)) m
      | (_, m) \<Rightarrow> m)"

text \<open>Setting \<open>Trusted\<close>; every failure is only logged.\<close>

definition set_trusted :: "hm_env \<Rightarrow> bool \<Rightarrow> string \<Rightarrow> hardware_mgr \<Rightarrow> hardware_mgr" where
  "set_trusted env b objectPath m =
     snd (call_method env
            (new_method_call BLUEZ_SERVICE_NAME objectPath DBUS_PROPERTIES_INTERFACE ''Set''
               (set_args BLUEZ_DEVICE_INTERFACE ''Trusted'' b)) m)"

definition trustDevice :: "hm_env \<Rightarrow> string \<Rightarrow> hardware_mgr \<Rightarrow> hardware_mgr" where
  "trustDevice env address m = set_trusted env True (deviceAddressToObjectPath address m) m"

definition getAllDeviceProperties ::
    "hm_env \<Rightarrow> string \<Rightarrow> hardware_mgr \<Rightarrow> fault + DBusDataInfo \<times> hardware_mgr" where
  "getAllDeviceProperties env objectPath m =
     (case call_method env
             (new_method_call BLUEZ_SERVICE_NAME objectPath DBUS_PROPERTIES_INTERFACE ''GetAll''
                [DString BLUEZ_DEVICE_INTERFACE]) m of
        (Call_reply iter, m) \<Rightarrow>
          if iter = [] then Inr (DBusDataInfo_init, m)
          else bind_result (parseDeviceProperties iter) (\<lambda>properties. Inr (properties, m))
      | (_, m) \<Rightarrow> Inr (DBusDataInfo_init, m))"

definition unpairDevice :: "hm_env \<Rightarrow> string \<Rightarrow> hardware_mgr \<Rightarrow> fault + hardware_mgr" where
  "unpairDevice env address m =
     (let objectPath = deviceAddressToObjectPath address m in
      bind_result (getAllDeviceProperties env objectPath m) (\<lambda>(trust_info, m).
      let m = (if trust_info DBUS_DATA_BT_DEVICE_ADDRESS = [] then m
               else if trust_info DBUS_DATA_BT_DEVICE_TRUSTED = ''true''
               then set_trusted env False objectPath m else m)
      in Inr (case call_method env
                     (new_method_call BLUEZ_SERVICE_NAME (adapterPath m) BLUEZ_ADAPTER_INTERFACE
                        ''RemoveDevice'' [DObjectPath (c_str objectPath)]) m of
                (Not_created, m) \<Rightarrow>
                  hm_notify env DBusCommand.UNPAIR_BTDEVICE_NOTI False
                    (address_info address ''Failed to create D-Bus message for RemoveDevice'') m
              | (Call_error e, m) \<Rightarrow>
                  hm_notify env DBusCommand.UNPAIR_BTDEVICE_NOTI False
                    (address_info address (''Error unpairing device: '' @ e)) m
              | (_, m) \<Rightarrow> m)))"

section \<open>The agent's registration\<close>

text \<open>
  A message that is sent without waiting for its reply, when it and its checked arguments can be
  created.
\<close>

definition send_call :: "hm_env \<Rightarrow> method_call \<Rightarrow> hardware_mgr \<Rightarrow> bool \<times> hardware_mgr" where
  "send_call env c m =
     (let n = created m; m' = m\<lparr>created := Suc n\<rparr>
      in if answers env n c = Not_created \<or> append_fails env n then (False, m')
         else (True, m'\<lparr>call_log := call_log m' @ [c]\<rparr>))"

definition registerAgent :: "hm_env \<Rightarrow> string \<Rightarrow> hardware_mgr \<Rightarrow> hardware_mgr" where
  "registerAgent env capability m =
     (case send_call env
             (new_method_call BLUEZ_SERVICE_NAME BLUEZ_OBJECT_PATH BLUEZ_AGENT_MANAGER_INTERFACE
                ''RegisterAgent''
                [DObjectPath HARDWAREMGR_AGENT_OBJECT_PATH, DString (c_str capability)]) m of
        (False, m) \<Rightarrow> m
      | (True, m) \<Rightarrow>
          snd (send_call env
                 (new_method_call BLUEZ_SERVICE_NAME BLUEZ_OBJECT_PATH BLUEZ_AGENT_MANAGER_INTERFACE
                    ''RequestDefaultAgent'' [DObjectPath HARDWAREMGR_AGENT_OBJECT_PATH]) m))"

definition unregisterAgent :: "hm_env \<Rightarrow> hardware_mgr \<Rightarrow> hardware_mgr" where
  "unregisterAgent env m =
     snd (send_call env
            (new_method_call BLUEZ_SERVICE_NAME BLUEZ_OBJECT_PATH BLUEZ_AGENT_MANAGER_INTERFACE
               ''UnregisterAgent'' [DObjectPath HARDWAREMGR_AGENT_OBJECT_PATH]) m)"

end
