(* ===== verification/OfonoDBus.thy ===== *)
theory OfonoDBus
  imports BluezDBus
begin

text \<open>
  \<open>hardwaremgr/src/BT/OfonoDBus.cpp\<close>: the phone's modem, its calls, phone book and call history,
  through oFono.  The methods that share their name with a handler of the core manager are prefixed
  with \<open>ofono_\<close>.
\<close>

section \<open>Modem and calls\<close>

definition setActiveModemPath :: "string \<Rightarrow> hardware_mgr \<Rightarrow> hardware_mgr" where
  "setActiveModemPath p m = m\<lparr>modemPath := p\<rparr>"

definition clearActiveModemPath :: "hardware_mgr \<Rightarrow> hardware_mgr" where
  "clearActiveModemPath m = m\<lparr>modemPath := [], activeCallPaths := {}, phonebook := Map.empty\<rparr>"

definition addActiveCallPath :: "string \<Rightarrow> hardware_mgr \<Rightarrow> hardware_mgr" where
  "addActiveCallPath callPath m = m\<lparr>activeCallPaths := insert callPath (activeCallPaths m)\<rparr>"

definition removeActiveCallPath :: "string \<Rightarrow> hardware_mgr \<Rightarrow> hardware_mgr" where
  "removeActiveCallPath callPath m = m\<lparr>activeCallPaths := activeCallPaths m - {callPath}\<rparr>"

definition setOfonoPhonebookStorage ::
    "hm_env \<Rightarrow> string \<Rightarrow> string \<Rightarrow> hardware_mgr \<Rightarrow> hardware_mgr" where
  "setOfonoPhonebookStorage env modem_path storage m =
     snd (call_method env
            (new_method_call OFONO_SERVICE_NAME modem_path DBUS_PROPERTIES_INTERFACE ''Set''
               [DString OFONO_PHONEBOOK_INTERFACE, DString ''Storage'', DVariant (DString storage)]) m)"

definition setOfonoModemProperty ::
    "hm_env \<Rightarrow> string \<Rightarrow> string \<Rightarrow> bool \<Rightarrow> hardware_mgr \<Rightarrow> hardware_mgr" where
  "setOfonoModemProperty env modem_path prop b m =
     snd (call_method env
            (new_method_call OFONO_SERVICE_NAME modem_path OFONO_MODEM_INTERFACE ''SetProperty''
               [DString prop, DVariant (DBoolean b)]) m)"

definition findNameByNumber :: "string \<Rightarrow> hardware_mgr \<Rightarrow> string" where
  "findNameByNumber number m = (case phonebook m number of Some name \<Rightarrow> name | None \<Rightarrow> [])"

text \<open>
  The text a variant holds, if it holds one; the properties of other types are skipped.
\<close>

definition text_value :: "dbus_value list \<Rightarrow> string option" where
  "text_value variant_iter = (case variant_iter of DString value # _ \<Rightarrow> Some value | _ \<Rightarrow> None)"

definition voice_call_property ::
    "string \<Rightarrow> dbus_value list \<Rightarrow> string \<times> DBusDataInfo \<Rightarrow> string \<times> DBusDataInfo" where
  "voice_call_property key variant_iter = (\<lambda>(number, call_info).
     case text_value variant_iter of
       Some value \<Rightarrow>
         if key = ''LineIdentification''
         then (value, call_info(DBUS_DATA_CALL_NUMBER := value))
         else if key = ''State'' then (number, call_info(DBUS_DATA_CALL_STATE := value))
         else (number, call_info)
     | None \<Rightarrow> (number, call_info))"

definition getVoiceCallProperties ::
    "hm_env \<Rightarrow> string \<Rightarrow> hardware_mgr \<Rightarrow> fault + DBusDataInfo \<times> hardware_mgr" where
  "getVoiceCallProperties env callPath m =
     (case call_method env
             (new_method_call OFONO_SERVICE_NAME callPath DBUS_PROPERTIES_INTERFACE ''GetAll''
                [DString OFONO_VOICECALL_INTERFACE]) m of
        (Call_reply iter, m) \<Rightarrow>
          bind_result (recurse iter) (\<lambda>dict_iter.
          bind_result (parse_entries voice_call_property dict_iter ([], DBusDataInfo_init))
            (\<lambda>(number, call_info).
          Inr (if number \<noteq> []
               then call_info(DBUS_DATA_CALL_NAME := findNameByNumber number m) else call_info, m)))
      | (_, m) \<Rightarrow> Inr (DBusDataInfo_init, m))"

section \<open>Phone book\<close>

definition contact_property ::
    "string \<Rightarrow> dbus_value list \<Rightarrow> DBusDataInfo \<Rightarrow> DBusDataInfo" where
  "contact_property key variant_iter contact_info =
     (case text_value variant_iter of
        Some value \<Rightarrow>
          if key = ''Name'' then contact_info(DBUS_DATA_CONTACT_NAME := value)
          else if key = ''Mobile'' then contact_info(DBUS_DATA_CONTACT_NUMBER := value)
          else contact_info
      | None \<Rightarrow> contact_info)"

definition getOfonoContactDetails ::
    "hm_env \<Rightarrow> string \<Rightarrow> hardware_mgr \<Rightarrow> fault + hardware_mgr" where
  "getOfonoContactDetails env contactPath m =
     (case call_method env
             (new_method_call OFONO_SERVICE_NAME contactPath OFONO_CONTACT_INTERFACE ''GetProperties''
                []) m of
        (Call_reply iter, m) \<Rightarrow>
          bind_result (recurse iter) (\<lambda>dict_iter.
          bind_result (parse_entries contact_property dict_iter DBusDataInfo_init) (\<lambda>contact_info.
          Inr (if contact_info DBUS_DATA_CONTACT_NAME \<noteq> []
                 \<and> contact_info DBUS_DATA_CONTACT_NUMBER \<noteq> []
               then hm_notify env DBusCommand.PBAP_PHONEBOOK_PULL_NOTI True
                      (contact_info(DBUS_DATA_MESSAGE := ''New contact pulled.''))
                      (m\<lparr>phonebook := (phonebook m)(contact_info DBUS_DATA_CONTACT_NUMBER
                           \<mapsto> contact_info DBUS_DATA_CONTACT_NAME)\<rparr>)
               else m)))
      | (_, m) \<Rightarrow> Inr m)"

text \<open>The loop over the object paths of the contacts, and the one over the phone book's properties.\<close>

fun contact_paths :: "hm_env \<Rightarrow> dbus_value list \<Rightarrow> hardware_mgr \<Rightarrow> fault + hardware_mgr" where
  "contact_paths env (DObjectPath contact_path # rest) m =
     bind_result (getOfonoContactDetails env contact_path m) (contact_paths env rest)"
| "contact_paths env _ m = Inr m"

fun phonebook_properties ::
    "hm_env \<Rightarrow> dbus_value list \<Rightarrow> hardware_mgr \<Rightarrow> fault + hardware_mgr" where
  "phonebook_properties env (DDictEntry k v # rest) m =
     bind_result (get_string [k]) (\<lambda>key.
     if key = ''Contacts''
     then bind_result (recurse [v]) (\<lambda>variant_iter.
          bind_result (recurse variant_iter) (\<lambda>array_iter. contact_paths env array_iter m))
     else phonebook_properties env rest m)"
| "phonebook_properties env _ m = Inr m"

definition getOfonoContacts :: "hm_env \<Rightarrow> string \<Rightarrow> hardware_mgr \<Rightarrow> fault + hardware_mgr" where
  "getOfonoContacts env modem_path m =
     (case call_method env
             (new_method_call OFONO_SERVICE_NAME modem_path OFONO_PHONEBOOK_INTERFACE ''GetProperties''
                []) m of
        (Call_reply iter, m) \<Rightarrow>
          bind_result (recurse iter) (\<lambda>dict_iter. phonebook_properties env dict_iter m)
      | (_, m) \<Rightarrow> Inr m)"

definition syncAllOfonoContacts :: "hm_env \<Rightarrow> string \<Rightarrow> hardware_mgr \<Rightarrow> fault + hardware_mgr" where
  "syncAllOfonoContacts env modem_path m =
     (let m = m\<lparr>phonebook := Map.empty\<rparr>;
          m = hm_notify env DBusCommand.PBAP_PHONEBOOK_PULL_START_NOTI True
                (hm_info ''Starting phonebook sync. Clear existing contacts.'') m;
          m = setOfonoPhonebookStorage env modem_path ''sm'' m in
      bind_result (getOfonoContacts env modem_path m) (\<lambda>m.
      let m = setOfonoPhonebookStorage env modem_path ''me'' m in
      bind_result (getOfonoContacts env modem_path m) (\<lambda>m.
      Inr (hm_notify env DBusCommand.PBAP_PHONEBOOK_PULL_END_NOTI True
             (hm_info ''Phonebook sync complete.'') m))))"

section \<open>Call history\<close>

definition history_property ::
    "string \<Rightarrow> dbus_value list \<Rightarrow> string \<times> DBusDataInfo \<Rightarrow> string \<times> DBusDataInfo" where
  "history_property key variant_iter = (\<lambda>(number, call_info).
     case text_value variant_iter of
       Some value \<Rightarrow>
         if key = ''LineIdentification''
         then (value, call_info(DBUS_DATA_CALL_HISTORY_NUMBER := value))
         else if key = ''StartTime''
         then (number, call_info(DBUS_DATA_CALL_HISTORY_DATETIME := value))
         else (number, call_info)
     | None \<Rightarrow> (number, call_info))"

definition getOfonoCallDetails ::
    "hm_env \<Rightarrow> string \<Rightarrow> string \<Rightarrow> hardware_mgr \<Rightarrow> fault + hardware_mgr" where
  "getOfonoCallDetails env callPath type m =
     (case call_method env
             (new_method_call OFONO_SERVICE_NAME callPath DBUS_PROPERTIES_INTERFACE ''GetAll''
                [DString ''org.ofono.Call'']) m of
        (Call_reply iter, m) \<Rightarrow>
          bind_result (recurse iter) (\<lambda>dict_iter.
          bind_result (parse_entries history_property dict_iter
              ([], DBusDataInfo_init(DBUS_DATA_CALL_HISTORY_TYPE := type)))
            (\<lambda>(number, call_info).
          Inr (if call_info DBUS_DATA_CALL_HISTORY_NUMBER \<noteq> []
               then (let name = findNameByNumber number m
                     in hm_notify env DBusCommand.CALL_HISTORY_PULL_NOTI True
                          (call_info
                            (DBUS_DATA_CALL_HISTORY_NAME := (if name = [] then ''Unknown'' else name),
                             DBUS_DATA_MESSAGE := ''New call history item pulled.'')) m)
               else m)))
      | (_, m) \<Rightarrow> Inr m)"

definition max_history_items :: nat where "max_history_items = 50"

text \<open>The loop over the calls of one kind; \<open>count\<close> is the number of calls seen before.\<close>

fun history_items ::
    "hm_env \<Rightarrow> string \<Rightarrow> nat \<Rightarrow> dbus_value list \<Rightarrow> hardware_mgr \<Rightarrow> fault + hardware_mgr" where
  "history_items env type count (DStruct struct_iter # rest) m =
     (if max_history_items < Suc count then Inr m
      else case struct_iter of
             DObjectPath item_path # _ \<Rightarrow>
               bind_result (getOfonoCallDetails env item_path type m)
                 (history_items env type (Suc count) rest)
           | _ \<Rightarrow> history_items env type (Suc count) rest m)"
| "history_items env type count _ m = Inr m"

definition getOfonoCallHistory ::
    "hm_env \<Rightarrow> string \<Rightarrow> string \<Rightarrow> hardware_mgr \<Rightarrow> fault + hardware_mgr" where
  "getOfonoCallHistory env modem_path type m =
     (case call_method env
             (new_method_call OFONO_SERVICE_NAME modem_path OFONO_CALL_HISTORY_INTERFACE ''GetHistory''
                [DString type]) m of
        (Call_reply iter, m) \<Rightarrow>
          bind_result (recurse iter) (\<lambda>array_iter. history_items env type 0 array_iter m)
      | (_, m) \<Rightarrow> Inr m)"

definition syncAllOfonoCallHistory :: "hm_env \<Rightarrow> string \<Rightarrow> hardware_mgr \<Rightarrow> fault + hardware_mgr" where
  "syncAllOfonoCallHistory env modem_path m =
     (let m = hm_notify env DBusCommand.CALL_HISTORY_PULL_START_NOTI True
                (hm_info ''Starting call history sync. Clear existing history.'') m in
      bind_result (getOfonoCallHistory env modem_path ''dialed'' m) (\<lambda>m.
      bind_result (getOfonoCallHistory env modem_path ''received'' m) (\<lambda>m.
      bind_result (getOfonoCallHistory env modem_path ''missed'' m) (\<lambda>m.
      Inr (hm_notify env DBusCommand.CALL_HISTORY_PULL_END_NOTI True
             (hm_info ''Call history sync complete.'') m)))))"

section \<open>Dial, answer, hang up\<close>

definition ofono_dialCall :: "hm_env \<Rightarrow> string \<Rightarrow> hardware_mgr \<Rightarrow> hardware_mgr" where
  "ofono_dialCall env number m =
     (if modemPath m = []
      then hm_notify env DBusCommand.DIAL_CALL_NOTI False
             (hm_info ''Cannot dial call, no active modem path set.'') m
      else case call_method env
                  (new_method_call OFONO_SERVICE_NAME (modemPath m) OFONO_VOICECALL_MANAGER_INTERFACE
                     ''Dial'' [DString (c_str number), DString '''']) m of
             (Not_created, m) \<Rightarrow>
               hm_notify env DBusCommand.DIAL_CALL_NOTI False
                 (hm_info ''Failed to create Dial message.'') m
           | (Call_error e, m) \<Rightarrow>
               hm_notify env DBusCommand.DIAL_CALL_NOTI False
                 (hm_info (''Error dialing number: '' @ e)) m
           | (_, m) \<Rightarrow>
               hm_notify env DBusCommand.DIAL_CALL_NOTI True
                 (hm_info ''Dial command sent successfully.'') m)"

text \<open>
  The search for the incoming call: the active calls in the order of the set, the first whose state
  is the right one.
\<close>

fun find_incoming ::
    "hm_env \<Rightarrow> string list \<Rightarrow> hardware_mgr \<Rightarrow> fault + string \<times> hardware_mgr" where
  "find_incoming env [] m = Inr ([], m)"
| "find_incoming env (path # paths) m =
     bind_result (getVoiceCallProperties env path m) (\<lambda>(props, m).
     if props DBUS_DATA_CALL_STATE = ''incoming'' \<or> props DBUS_DATA_CALL_STATE = ''waiting''
     then Inr (path, m) else find_incoming env paths m)"

definition ofono_answerCall :: "hm_env \<Rightarrow> hardware_mgr \<Rightarrow> fault + hardware_mgr" where
  "ofono_answerCall env m =
     (if activeCallPaths m = {}
      then Inr (hm_notify env DBusCommand.ANSWER_CALL_NOTI False
                  (hm_info ''No active calls to answer.'') m)
      else bind_result (find_incoming env (sorted_list_of_set (activeCallPaths m)) m)
             (\<lambda>(incomingCallPath, m).
           Inr (if incomingCallPath = []
                then hm_notify env DBusCommand.ANSWER_CALL_NOTI False
                       (hm_info ''No incoming call found to answer.'') m
                else case call_method env
                            (new_method_call OFONO_SERVICE_NAME incomingCallPath
                               OFONO_VOICECALL_INTERFACE ''Answer'' []) m of
                       (Not_created, m) \<Rightarrow>
                         hm_notify env DBusCommand.ANSWER_CALL_NOTI False
                           (hm_info ''Failed to create Answer message.'') m
                     | (Call_error e, m) \<Rightarrow>
                         hm_notify env DBusCommand.ANSWER_CALL_NOTI False
                           (hm_info (''Error answering call: '' @ e)) m
                     | (_, m) \<Rightarrow>
                         hm_notify env DBusCommand.ANSWER_CALL_NOTI True
                           (hm_info ''Call answered successfully.'') m)))"

definition ofono_hangupCall :: "hm_env \<Rightarrow> hardware_mgr \<Rightarrow> hardware_mgr" where
  "ofono_hangupCall env m =
     (if modemPath m = [] then m
      else case call_method env
                  (new_method_call OFONO_SERVICE_NAME (modemPath m) OFONO_VOICECALL_MANAGER_INTERFACE
                     ''HangupAll'' []) m of
             (Not_created, m) \<Rightarrow>
               hm_notify env DBusCommand.HANGUP_CALL_NOTI False
                 (hm_info ''Failed to create HangupAll message.'') m
           | (Call_error e, m) \<Rightarrow>
               hm_notify env DBusCommand.HANGUP_CALL_NOTI False
                 (hm_info (''Error hanging up calls: '' @ e)) m
           | (_, m) \<Rightarrow>
               hm_notify env DBusCommand.HANGUP_CALL_NOTI True
                 (hm_info ''All calls hung up successfully.'') m)"

end
