(* ===== verification/BluetoothAgent.thy ===== *)
theory BluetoothAgent
  imports BluezDBus
begin

text \<open>
  \<open>hardwaremgr/src/BT/BluetoothAgent.cpp\<close>: the agent BlueZ calls when a device wants to pair.  A
  request to confirm is kept until the user has answered, under the address of its device.
\<close>

definition send_reply :: "hm_env \<Rightarrow> bus_msg \<Rightarrow> agent_reply \<Rightarrow> hardware_mgr \<Rightarrow> hardware_mgr" where
  "send_reply env message reply m =
     (if reply_fails env message then m else m\<lparr>replies := replies m @ [reply]\<rparr>)"

definition sendSimpleReply :: "hm_env \<Rightarrow> bus_msg \<Rightarrow> message_type \<Rightarrow> hardware_mgr \<Rightarrow> hardware_mgr" where
  "sendSimpleReply env message type m =
     (if type = MESSAGE_TYPE_METHOD_RETURN then send_reply env message (Method_return message) m
      else if type = MESSAGE_TYPE_ERROR
      then send_reply env message
             (Error_reply message BLUEZ_ERROR_REJECTED ''Operation rejected'') m
      else m)"

definition confirmation_info :: "string \<Rightarrow> int \<Rightarrow> DBusDataInfo" where
  "confirmation_info deviceAddress passkey =
     DBusDataInfo_init
       (DBUS_DATA_BT_DEVICE_ADDRESS := deviceAddress,
        DBUS_DATA_BT_PAIRING_PASSKEY := int_to_string passkey,
        DBUS_DATA_MESSAGE := ''Please confirm the passkey on your device.'')"

definition handleRequestConfirmation :: "hm_env \<Rightarrow> bus_msg \<Rightarrow> hardware_mgr \<Rightarrow> hardware_mgr" where
  "handleRequestConfirmation env message m =
     (case msg_args (msg_body message) of
        DObjectPath devicePath # DUInt32 passkey # _ \<Rightarrow>
          (let deviceAddress = (case after_last ''dev_'' devicePath of
                                  Some rest \<Rightarrow> replace_char CHR ''_'' CHR '':'' rest
                                | None \<Rightarrow> [])
           in if deviceAddress = [] then sendSimpleReply env message MESSAGE_TYPE_ERROR m
              else hm_notify env DBusCommand.BTDEVICE_REQUEST_CONFIRMATION_NOTI True
                     (confirmation_info deviceAddress passkey)
                     (m\<lparr>pendingConfirmations := (pendingConfirmations m)(deviceAddress \<mapsto> message)\<rparr>))
      | _ \<Rightarrow> sendSimpleReply env message MESSAGE_TYPE_ERROR m)"

definition handleRequestAuthorization :: "hm_env \<Rightarrow> bus_msg \<Rightarrow> hardware_mgr \<Rightarrow> hardware_mgr" where
  "handleRequestAuthorization env message m =
     (case msg_args (msg_body message) of
        DObjectPath device_path # _ \<Rightarrow> sendSimpleReply env message MESSAGE_TYPE_METHOD_RETURN m
      | _ \<Rightarrow> sendSimpleReply env message MESSAGE_TYPE_ERROR m)"

definition handleRequestPinCode :: "hm_env \<Rightarrow> bus_msg \<Rightarrow> hardware_mgr \<Rightarrow> hardware_mgr" where
  "handleRequestPinCode env message m = sendSimpleReply env message MESSAGE_TYPE_ERROR m"

definition handleDisplayPasskey :: "hm_env \<Rightarrow> bus_msg \<Rightarrow> hardware_mgr \<Rightarrow> hardware_mgr" where
  "handleDisplayPasskey env message m = sendSimpleReply env message MESSAGE_TYPE_ERROR m"

definition handleRelease :: "hm_env \<Rightarrow> bus_msg \<Rightarrow> hardware_mgr \<Rightarrow> hardware_mgr" where
  "handleRelease env message m =
     sendSimpleReply env message MESSAGE_TYPE_ERROR (m\<lparr>pendingConfirmations := Map.empty\<rparr>)"

text \<open>As libdbus tests it: a message without interface matches any.\<close>

definition is_method_call :: "dbus_msg \<Rightarrow> string \<Rightarrow> string \<Rightarrow> bool" where
  "is_method_call m interface method =
     (msg_type m = MESSAGE_TYPE_METHOD_CALL \<and> msg_interface m \<in> {None, Some interface}
      \<and> msg_member m = Some method)"

text \<open>\<open>handleMessage\<close>; its result, which no caller uses, is left out.\<close>

definition agent_handleMessage :: "hm_env \<Rightarrow> bus_msg \<Rightarrow> hardware_mgr \<Rightarrow> hardware_mgr" where
  "agent_handleMessage env message m =
     (let called = is_method_call (msg_body message) BLUEZ_AGENT_INTERFACE
      in if called ''RequestConfirmation'' then handleRequestConfirmation env message m
         else if called ''RequestAuthorization'' then handleRequestAuthorization env message m
         else if called ''RequestPinCode'' then handleRequestPinCode env message m
         else if called ''DisplayPasskey'' then handleDisplayPasskey env message m
         else if called ''Release'' then handleRelease env message m
         else send_reply env message
                (Error_reply message ''org.bluez.Error.Rejected'' ''Unkonwn method. Will not handle.'') m)"

definition confirmRequest :: "hm_env \<Rightarrow> string \<Rightarrow> bool \<Rightarrow> hardware_mgr \<Rightarrow> hardware_mgr" where
  "confirmRequest env deviceAddress confirmed m =
     (case pendingConfirmations m deviceAddress of
        None \<Rightarrow> m
      | Some request \<Rightarrow>
          sendSimpleReply env request
            (if confirmed then MESSAGE_TYPE_METHOD_RETURN else MESSAGE_TYPE_ERROR)
            (m\<lparr>pendingConfirmations := (pendingConfirmations m)(deviceAddress := None)\<rparr>))"

end
