(* ===== verification/BluetoothWorker.thy ===== *)
theory BluetoothWorker
  imports OfonoDBus BluetoothAgent
begin

text \<open>
  \<open>hardwaremgr/src/Thread/BluetoothWorker.cpp\<close>: the thread that takes the signals of BlueZ and oFono
  and the calls of the agent's methods off the bus, one definition per handler.
\<close>

section \<open>BlueZ\<close>

text \<open>The loop over the interfaces of a new object.\<close>

fun added_interfaces ::
    "hm_env \<Rightarrow> dbus_value list \<Rightarrow> hardware_mgr \<Rightarrow> fault + hardware_mgr" where
  "added_interfaces env (DDictEntry k v # rest) m =
     bind_result (get_string [k]) (\<lambda>interface_name.
     if interface_name = BLUEZ_DEVICE_INTERFACE
     then bind_result (parseDeviceProperties [v]) (\<lambda>properties.
          added_interfaces env rest
            (if properties DBUS_DATA_BT_DEVICE_ADDRESS = [] then m
             else hm_notify env DBusCommand.SCANNING_BTDEVICE_FOUND_NOTI True
                    (properties(DBUS_DATA_MESSAGE := ''New Bluetooth device found.'')) m))
     else added_interfaces env rest m)"
| "added_interfaces env _ m = Inr m"

definition handleInterfacesAdded :: "hm_env \<Rightarrow> dbus_msg \<Rightarrow> hardware_mgr \<Rightarrow> fault + hardware_mgr" where
  "handleInterfacesAdded env msg m =
     (case msg_args msg of
        DObjectPath object_path # iter \<Rightarrow>
          bind_result (recurse iter) (\<lambda>interfaces_dict_iter.
          added_interfaces env interfaces_dict_iter m)
      | _ \<Rightarrow> Inr m)"

definition removed_info :: "string \<Rightarrow> DBusDataInfo" where
  "removed_info addr =
     DBusDataInfo_init(DBUS_DATA_BT_DEVICE_ADDRESS := addr,
       DBUS_DATA_MESSAGE := ''Bluetooth device removed from scan.'')"

fun removed_interfaces :: "hm_env \<Rightarrow> string \<Rightarrow> dbus_value list \<Rightarrow> hardware_mgr \<Rightarrow> hardware_mgr" where
  "removed_interfaces env object_path (DString interface_name # rest) m =
     removed_interfaces env object_path rest
       (if interface_name = BLUEZ_DEVICE_INTERFACE
        then (case after_first ''dev_'' object_path of
                Some addr \<Rightarrow>
                  hm_notify env DBusCommand.SCANNING_BTDEVICE_DELETE_NOTI True
                    (removed_info (replace_char CHR ''_'' CHR '':'' addr)) m
              | None \<Rightarrow> m)
        else m)"
| "removed_interfaces env object_path _ m = m"

definition handleInterfacesRemoved ::
    "hm_env \<Rightarrow> dbus_msg \<Rightarrow> hardware_mgr \<Rightarrow> fault + hardware_mgr" where
  "handleInterfacesRemoved env msg m =
     (case msg_args msg of
        DObjectPath object_path # iter \<Rightarrow>
          bind_result (recurse iter) (\<lambda>interfaces_array_iter.
          Inr (removed_interfaces env object_path interfaces_array_iter m))
      | _ \<Rightarrow> Inr m)"

text \<open>The adapter's properties: power first, which may make the adapter discoverable, then scanning.\<close>

definition adapter_changed ::
    "hm_env \<Rightarrow> string \<Rightarrow> DBusDataInfo \<Rightarrow> hardware_mgr \<Rightarrow> fault + hardware_mgr" where
  "adapter_changed env path_str properties m =
     bind_result
       (if properties DBUS_DATA_BT_ADAPTER_POWERED \<noteq> []
        then (let is_powered = (properties DBUS_DATA_BT_ADAPTER_POWERED = ''true'');
                  properties = properties(DBUS_DATA_MESSAGE :=
                    ''Adapter power state changed to '' @ (if is_powered then ''ON'' else ''OFF''))
              in if is_powered
                 then (let m = hm_notify env DBusCommand.BLUETOOTH_POWER_ON_NOTI True properties m
                       in bind_result (getAllAdapterProperties env path_str m) (\<lambda>(all_props, m).
                          Inr (if all_props DBUS_DATA_BT_ADAPTER_DISCOVERABLE \<noteq> []
                                 \<and> all_props DBUS_DATA_BT_ADAPTER_DISCOVERABLE \<noteq> ''true''
                               then setDiscoverable env True m else m)))
                 else Inr (hm_notify env DBusCommand.BLUETOOTH_POWER_OFF_NOTI True properties m))
        else Inr m)
       (\<lambda>m.
         Inr (if properties DBUS_DATA_BT_ADAPTER_DISCOVERING \<noteq> []
              then (let is_discovering = (properties DBUS_DATA_BT_ADAPTER_DISCOVERING = ''true'')
                    in hm_notify env
                         (if is_discovering then DBusCommand.START_SCAN_BTDEVICE_NOTI
                          else DBusCommand.STOP_SCAN_BTDEVICE_NOTI) True
                         (properties(DBUS_DATA_MESSAGE :=
                            ''Adapter discovery state changed to ''
                            @ (if is_discovering then ''ON'' else ''OFF''))) m)
              else m))"

definition device_changed :: "hm_env \<Rightarrow> string \<Rightarrow> hardware_mgr \<Rightarrow> fault + hardware_mgr" where
  "device_changed env path_str m =
     bind_result (getAllDeviceProperties env path_str m) (\<lambda>(all_properties, m).
     if all_properties DBUS_DATA_BT_DEVICE_ADDRESS = [] then Inr m
     else (let is_paired = (all_properties DBUS_DATA_BT_DEVICE_PAIRED = ''true'');
               is_connected = (all_properties DBUS_DATA_BT_DEVICE_CONNECTED = ''true'');
               is_trusted = (all_properties DBUS_DATA_BT_DEVICE_TRUSTED = ''true'');
               m = (if is_paired \<and> is_connected \<and> \<not> is_trusted
                    then trustDevice env (all_properties DBUS_DATA_BT_DEVICE_ADDRESS) m else m)
           in Inr (hm_notify env DBusCommand.BTDEVICE_PROPERTY_CHANGE_NOTI True
                     (all_properties(DBUS_DATA_MESSAGE := ''Bluetooth device properties updated.'')) m)))"

section \<open>oFono\<close>

text \<open>\<open>std::string\<close> of a header field that may be the null pointer.\<close>

definition need_field :: "string option \<Rightarrow> fault + string" where
  "need_field f = (case f of Some s \<Rightarrow> Inr s | None \<Rightarrow> Inl Undefined_behaviour)"

text \<open>A modem that is powered goes online, and one that is online is read out.\<close>

definition modem_property ::
    "hm_env \<Rightarrow> string option \<Rightarrow> string \<Rightarrow> dbus_value list \<Rightarrow> hardware_mgr \<Rightarrow> fault + hardware_mgr" where
  "modem_property env path key_str variant_iter m =
     (case variant_iter of
        DBoolean True # _ \<Rightarrow>
          if key_str = ''Powered''
          then bind_result (need_field path) (\<lambda>p. Inr (setOfonoModemProperty env p ''Online'' True m))
          else if key_str = ''Online''
          then bind_result (need_field path) (\<lambda>p.
               bind_result (syncAllOfonoContacts env p m) (syncAllOfonoCallHistory env p))
          else Inr m
      | _ \<Rightarrow> Inr m)"

definition handleModemAdded :: "hm_env \<Rightarrow> dbus_msg \<Rightarrow> hardware_mgr \<Rightarrow> fault + hardware_mgr" where
  "handleModemAdded env msg m =
     (case msg_args msg of
        DObjectPath modem_path # _ \<Rightarrow>
          Inr (setOfonoModemProperty env modem_path ''Powered'' True (setActiveModemPath modem_path m))
      | _ \<Rightarrow> Inr m)"

definition handleModemRemoved :: "hm_env \<Rightarrow> dbus_msg \<Rightarrow> hardware_mgr \<Rightarrow> fault + hardware_mgr" where
  "handleModemRemoved env msg m =
     (case msg_args msg of
        DObjectPath modem_path # _ \<Rightarrow>
          Inr (hm_notify env DBusCommand.PBAP_SESSION_END_NOTI True
                 (hm_info ''Phone disconnected, clearing contacts and call history.'')
                 (clearActiveModemPath m))
      | _ \<Rightarrow> Inr m)"

definition handleOfonoPropertyChanged ::
    "hm_env \<Rightarrow> dbus_msg \<Rightarrow> hardware_mgr \<Rightarrow> fault + hardware_mgr" where
  "handleOfonoPropertyChanged env msg m =
     (case msg_args msg of
        [] \<Rightarrow> Inr m
      | iter \<Rightarrow>
          bind_result (get_string iter) (\<lambda>key_str.
          bind_result (recurse (tl iter)) (\<lambda>variant_iter.
          bind_result (need_field (msg_interface msg)) (\<lambda>iface.
          if iface = OFONO_MODEM_INTERFACE
          then modem_property env (msg_path msg) key_str variant_iter m else Inr m))))"

text \<open>The loop over the call list, which takes note of the calls that were not known.\<close>

fun new_calls :: "hm_env \<Rightarrow> dbus_value list \<Rightarrow> hardware_mgr \<Rightarrow> fault + hardware_mgr" where
  "new_calls env (DObjectPath path # rest) m =
     (if path \<in> activeCallPaths m then new_calls env rest m
      else bind_result (getVoiceCallProperties env path (addActiveCallPath path m)) (\<lambda>(call_info, m).
           new_calls env rest
             (if call_info DBUS_DATA_CALL_STATE \<noteq> []
              then hm_notify env DBusCommand.CALL_STATE_CHANGED_NOTI True
                     (call_info(DBUS_DATA_MESSAGE :=
                        ''New call detected, state: '' @ call_info DBUS_DATA_CALL_STATE)) m
              else m)))"
| "new_calls env _ m = Inr m"

definition ofono_property ::
    "hm_env \<Rightarrow> string option \<Rightarrow> string \<Rightarrow> string \<Rightarrow> dbus_value list \<Rightarrow> hardware_mgr
     \<Rightarrow> fault + hardware_mgr" where
  "ofono_property env path iface_str key_str variant_iter m =
     (if iface_str = OFONO_VOICECALL_MANAGER_INTERFACE
      then (if key_str = ''Calls''
            then bind_result (recurse variant_iter) (\<lambda>array_iter. new_calls env array_iter m)
            else Inr m)
      else if iface_str = OFONO_MODEM_INTERFACE
      then modem_property env path key_str variant_iter m
      else if iface_str = OFONO_PHONEBOOK_INTERFACE
      then (if key_str = ''Contacts''
            then bind_result (need_field path) (\<lambda>p. syncAllOfonoContacts env p m) else Inr m)
      else if iface_str = OFONO_CALL_HISTORY_INTERFACE
      then (if key_str = ''DialedCount'' \<or> key_str = ''MissedCount'' \<or> key_str = ''ReceivedCount''
            then bind_result (need_field path) (\<lambda>p. syncAllOfonoCallHistory env p m) else Inr m)
      else Inr m)"

fun ofono_properties ::
    "hm_env \<Rightarrow> string option \<Rightarrow> string \<Rightarrow> dbus_value list \<Rightarrow> hardware_mgr \<Rightarrow> fault + hardware_mgr" where
  "ofono_properties env path iface_str (DDictEntry k v # rest) m =
     bind_result (get_string [k]) (\<lambda>key_str.
     bind_result (recurse [v]) (\<lambda>variant_iter.
     bind_result (ofono_property env path iface_str key_str variant_iter m)
       (ofono_properties env path iface_str rest)))"
| "ofono_properties env path iface_str _ m = Inr m"

definition handleOfonoPropertiesChanged ::
    "hm_env \<Rightarrow> dbus_msg \<Rightarrow> hardware_mgr \<Rightarrow> fault + hardware_mgr" where
  "handleOfonoPropertiesChanged env msg m =
     (case msg_args msg of
        DString iface_str # iter \<Rightarrow>
          bind_result (recurse iter) (\<lambda>dict_iter.
          ofono_properties env (msg_path msg) iface_str dict_iter m)
      | _ \<Rightarrow> Inr m)"

text \<open>\<open>PropertiesChanged\<close>, of either service.\<close>

definition handlePropertiesChanged :: "hm_env \<Rightarrow> bus_msg \<Rightarrow> hardware_mgr \<Rightarrow> fault + hardware_mgr" where
  "handlePropertiesChanged env message m =
     (let msg = msg_body message in
      case msg_path msg of
        None \<Rightarrow> Inr m
      | Some path_str \<Rightarrow>
          (case msg_args msg of
             DString iface_str # iter \<Rightarrow>
               if msg_sender message = Some OFONO_SERVICE_NAME
               then handleOfonoPropertiesChanged env msg m
               else (case iter of
                       DArray _ _ # _ \<Rightarrow>
                         if iface_str = BLUEZ_ADAPTER_INTERFACE \<and> isAdapterFound m
                            \<and> path_str = adapterPath m
                         then bind_result (parseAdapterProperties iter) (\<lambda>properties.
                              adapter_changed env path_str properties m)
                         else if iface_str = BLUEZ_DEVICE_INTERFACE
                         then bind_result (parseDeviceProperties iter) (\<lambda>change_propertys.
                              device_changed env path_str m)
                         else Inr m
                     | _ \<Rightarrow> Inr m)
           | _ \<Rightarrow> Inr m))"

section \<open>Calls\<close>

definition handleVoiceCallPropertyChanged ::
    "hm_env \<Rightarrow> dbus_msg \<Rightarrow> hardware_mgr \<Rightarrow> fault + hardware_mgr" where
  "handleVoiceCallPropertyChanged env msg m =
     (case msg_path msg of
        None \<Rightarrow> Inr m
      | Some path \<Rightarrow>
          if msg_args msg = [] then Inr m
          else bind_result (get_string (msg_args msg)) (\<lambda>key.
               if key \<noteq> ''State'' \<and> key \<noteq> ''LineIdentification'' then Inr m
               else bind_result (getVoiceCallProperties env path m) (\<lambda>(call_info, m).
                    let state = call_info DBUS_DATA_CALL_STATE in
                    Inr (if state = [] then m
                         else if state = ''disconnected''
                         then hm_notify env DBusCommand.CALL_ENDED_NOTI True
                                (call_info(DBUS_DATA_MESSAGE := ''Call ended.'')) m
                         else hm_notify env DBusCommand.CALL_STATE_CHANGED_NOTI True
                                (call_info(DBUS_DATA_MESSAGE := ''Call state updated to '' @ state)) m))))"

definition handleCallRemoved :: "hm_env \<Rightarrow> dbus_msg \<Rightarrow> hardware_mgr \<Rightarrow> fault + hardware_mgr" where
  "handleCallRemoved env msg m =
     (if msg_args msg = [] then Inr m
      else bind_result (get_string (msg_args msg)) (\<lambda>path.
           Inr (if path \<in> activeCallPaths m
                then hm_notify env DBusCommand.CALL_ENDED_NOTI True
                       (hm_info ''Call has been terminated and removed.'') (removeActiveCallPath path m)
                else m)))"

definition handleCallAdded :: "hm_env \<Rightarrow> dbus_msg \<Rightarrow> hardware_mgr \<Rightarrow> fault + hardware_mgr" where
  "handleCallAdded env msg m =
     (if msg_args msg = [] then Inr m
      else bind_result (get_string (msg_args msg)) (\<lambda>path.
           bind_result (getVoiceCallProperties env path (addActiveCallPath path m)) (\<lambda>(call_info, m).
           let state = call_info DBUS_DATA_CALL_STATE in
           Inr (if call_info DBUS_DATA_CALL_NUMBER = [] then m
                else if state = ''incoming'' \<or> state = ''waiting''
                then hm_notify env DBusCommand.INCOMING_CALL_NOTI True
                       (call_info(DBUS_DATA_MESSAGE := ''Incoming call'')) m
                else if state = ''dialing'' \<or> state = ''alerting''
                then hm_notify env DBusCommand.OUTGOING_CALL_NOTI True
                       (call_info(DBUS_DATA_MESSAGE := ''Outgoing call'')) m
                else m))))"

section \<open>Dispatch\<close>

definition bt_dispatchMessage :: "hm_env \<Rightarrow> bus_msg \<Rightarrow> hardware_mgr \<Rightarrow> fault + hardware_mgr" where
  "bt_dispatchMessage env message m =
     (let msg = msg_body message in
      if is_signal msg OFONO_MANAGER_INTERFACE ''ModemAdded'' then handleModemAdded env msg m
      else if is_signal msg OFONO_MANAGER_INTERFACE ''ModemRemoved'' then handleModemRemoved env msg m
      else if is_signal msg OFONO_MODEM_INTERFACE ''PropertyChanged''
      then handleOfonoPropertyChanged env msg m
      else if is_signal msg OFONO_VOICECALL_MANAGER_INTERFACE ''CallAdded'' then handleCallAdded env msg m
      else if is_signal msg OFONO_VOICECALL_MANAGER_INTERFACE ''CallRemoved''
      then handleCallRemoved env msg m
      else if is_signal msg OFONO_VOICECALL_INTERFACE ''PropertyChanged''
      then handleVoiceCallPropertyChanged env msg m
      else if is_signal msg DBUS_OBJECT_MANAGER_INTERFACE ''InterfacesAdded''
      then handleInterfacesAdded env msg m
      else if is_signal msg DBUS_OBJECT_MANAGER_INTERFACE ''InterfacesRemoved''
      then handleInterfacesRemoved env msg m
      else if is_signal msg DBUS_PROPERTIES_INTERFACE ''PropertiesChanged''
      then handlePropertiesChanged env message m
      else if msg_type msg = MESSAGE_TYPE_METHOD_CALL
      then bind_result (need_field (msg_path msg)) (\<lambda>path.
           Inr (if path = HARDWAREMGR_AGENT_OBJECT_PATH \<and> has_agent env
                then agent_handleMessage env message m else m))
      else Inr m)"

text \<open>
  One turn of the loop, after \<open>poll\<close> returned: with incoming data, every message that is ready is
  dispatched, the mutex of \<open>BluezDBus\<close> held throughout.
\<close>

datatype bus_poll = Bus_poll_error | Bus_poll_timeout | Bus_poll_other | Bus_poll_in "bus_msg list"

definition bluetooth_turn :: "hm_env \<Rightarrow> bus_poll \<Rightarrow> hardware_mgr \<Rightarrow> fault + hardware_mgr" where
  "bluetooth_turn env ret m =
     (if \<not> has_bluez env \<or> \<not> has_ofono env then Inr m
      else case ret of
             Bus_poll_in msgs \<Rightarrow> fold_result (bt_dispatchMessage env) msgs m
           | _ \<Rightarrow> Inr m)"

end
