(* ===== verification/HardwareMain.thy ===== *)
theory HardwareMain
  imports BluetoothWorker EventQueue
begin

text \<open>
  The hardware manager's requests: \<open>hardwaremgr/src/Thread/DBusReceiver.cpp\<close>, which turns the core
  manager's messages into events, \<open>MainWorker.cpp\<close>, which carries them out, and the start and end of
  \<open>main.cpp\<close>.
\<close>

section \<open>Events\<close>

datatype HmEventTypeID =
    NONE | INITIALIZE_BLUETOOTH | START_SCAN_BTDEVICE | STOP_SCAN_BTDEVICE | BLUETOOTH_POWER_ON
  | BLUETOOTH_POWER_OFF | PAIR_BTDEVICE | UNPAIR_BTDEVICE | CONNECT_BTDEVICE | DISCONNECT_BTDEVICE
  | REJECT_REQUEST_CONFIRMATION | ACCEPT_REQUEST_CONFIRMATION | DIAL_CALL | HANGUP_CALL
  | ANSWER_CALL | MAX

section \<open>DBusReceiver\<close>

definition hm_push ::
    "HmEventTypeID \<Rightarrow> Payload option \<Rightarrow> HmEventTypeID EventQueue \<Rightarrow> HmEventTypeID EventQueue" where
  "hm_push e payload q = snd (pushEvent (Some (make_Event e payload)) q)"

definition HM_handleMessage ::
    "DBusCommand option \<Rightarrow> HmEventTypeID EventQueue \<Rightarrow> fault + HmEventTypeID EventQueue" where
  "HM_handleMessage cmd q =
     (case cmd of
        Some DBusCommand.INITIALIZE_BLUETOOTH \<Rightarrow>
          Inr (hm_push HmEventTypeID.INITIALIZE_BLUETOOTH None q)
      | Some DBusCommand.START_SCAN_BTDEVICE \<Rightarrow>
          Inr (hm_push HmEventTypeID.START_SCAN_BTDEVICE None q)
      | Some DBusCommand.STOP_SCAN_BTDEVICE \<Rightarrow>
          Inr (hm_push HmEventTypeID.STOP_SCAN_BTDEVICE None q)
      | Some DBusCommand.BLUETOOTH_POWER_ON \<Rightarrow>
          Inr (hm_push HmEventTypeID.BLUETOOTH_POWER_ON None q)
      | Some DBusCommand.BLUETOOTH_POWER_OFF \<Rightarrow>
          Inr (hm_push HmEventTypeID.BLUETOOTH_POWER_OFF None q)
      | Some DBusCommand.HANGUP_CALL \<Rightarrow> Inr (hm_push HmEventTypeID.HANGUP_CALL None q)
      | Some DBusCommand.ANSWER_CALL \<Rightarrow> Inr (hm_push HmEventTypeID.ANSWER_CALL None q)
      | _ \<Rightarrow> Inr q)"

definition HM_handleMessageNoti ::
    "DBusCommand option \<Rightarrow> bool \<Rightarrow> DBusDataInfo \<Rightarrow> HmEventTypeID EventQueue
     \<Rightarrow> fault + HmEventTypeID EventQueue" where
  "HM_handleMessageNoti cmd isSuccess msgInfo q =
     (let address = Some (BluetoothDeviceAddressPayload (msgInfo DBUS_DATA_BT_DEVICE_ADDRESS)) in
      case cmd of
        Some DBusCommand.PAIR_BTDEVICE \<Rightarrow> Inr (hm_push HmEventTypeID.PAIR_BTDEVICE address q)
      | Some DBusCommand.UNPAIR_BTDEVICE \<Rightarrow> Inr (hm_push HmEventTypeID.UNPAIR_BTDEVICE address q)
      | Some DBusCommand.CONNECT_BTDEVICE \<Rightarrow> Inr (hm_push HmEventTypeID.CONNECT_BTDEVICE address q)
      | Some DBusCommand.DISCONNECT_BTDEVICE \<Rightarrow>
          Inr (hm_push HmEventTypeID.DISCONNECT_BTDEVICE address q)
      | Some DBusCommand.REJECT_REQUEST_CONFIRMATION \<Rightarrow>
          Inr (hm_push HmEventTypeID.REJECT_REQUEST_CONFIRMATION address q)
      | Some DBusCommand.ACCEPT_REQUEST_CONFIRMATION \<Rightarrow>
          Inr (hm_push HmEventTypeID.ACCEPT_REQUEST_CONFIRMATION address q)
      | Some DBusCommand.DIAL_CALL \<Rightarrow>
          Inr (hm_push HmEventTypeID.DIAL_CALL
                 (Some (CallPayload [] (msgInfo DBUS_DATA_CALL_NUMBER) [])) q)
      | _ \<Rightarrow> Inr q)"

definition HM_receive :: "dbus_msg \<Rightarrow> HmEventTypeID EventQueue \<Rightarrow> fault + HmEventTypeID EventQueue" where
  "HM_receive =
     receive_message (getInterfaceName hardware_config) (getSignalName hardware_config)
       (dispatchMessage HM_handleMessage HM_handleMessageNoti)"

section \<open>MainWorker\<close>

text \<open>One definition per \<open>process...Event\<close> method.\<close>

definition processInitializeBluetoothEvent :: "hm_env \<Rightarrow> hardware_mgr \<Rightarrow> fault + hardware_mgr" where
  "processInitializeBluetoothEvent env m = (if has_bluez env then initializeAdapter env m else Inr m)"

definition processStartScanBTDeviceEvent :: "hm_env \<Rightarrow> hardware_mgr \<Rightarrow> fault + hardware_mgr" where
  "processStartScanBTDeviceEvent env m = Inr (if has_bluez env then startDiscovery env m else m)"

definition processStopScanBTDeviceEvent :: "hm_env \<Rightarrow> hardware_mgr \<Rightarrow> fault + hardware_mgr" where
  "processStopScanBTDeviceEvent env m = Inr (if has_bluez env then stopDiscovery env m else m)"

definition processBluetoothPowerOnEvent :: "hm_env \<Rightarrow> hardware_mgr \<Rightarrow> fault + hardware_mgr" where
  "processBluetoothPowerOnEvent env m = Inr (if has_bluez env then powerOnAdapter env m else m)"

definition processBluetoothPowerOffEvent :: "hm_env \<Rightarrow> hardware_mgr \<Rightarrow> fault + hardware_mgr" where
  "processBluetoothPowerOffEvent env m = Inr (if has_bluez env then powerOffAdapter env m else m)"

definition processHangupCallEvent :: "hm_env \<Rightarrow> hardware_mgr \<Rightarrow> fault + hardware_mgr" where
  "processHangupCallEvent env m = Inr (if has_ofono env then ofono_hangupCall env m else m)"

definition processAnswerCallEvent :: "hm_env \<Rightarrow> hardware_mgr \<Rightarrow> fault + hardware_mgr" where
  "processAnswerCallEvent env m = (if has_ofono env then ofono_answerCall env m else Inr m)"

definition processPairBTDeviceEvent ::
    "hm_env \<Rightarrow> Payload option \<Rightarrow> hardware_mgr \<Rightarrow> fault + hardware_mgr" where
  "processPairBTDeviceEvent env payload m =
     (if \<not> has_bluez env then Inr m
      else case payload of
             Some (BluetoothDeviceAddressPayload address) \<Rightarrow> Inr (pairDevice env address m)
           | _ \<Rightarrow> Inr m)"

definition processUnpairBTDeviceEvent ::
    "hm_env \<Rightarrow> Payload option \<Rightarrow> hardware_mgr \<Rightarrow> fault + hardware_mgr" where
  "processUnpairBTDeviceEvent env payload m =
     (if \<not> has_bluez env then Inr m
      else case payload of
             Some (BluetoothDeviceAddressPayload address) \<Rightarrow> unpairDevice env address m
           | _ \<Rightarrow> Inr m)"

definition procsesConnectBTDeviceEvent ::
    "hm_env \<Rightarrow> Payload option \<Rightarrow> hardware_mgr \<Rightarrow> fault + hardware_mgr" where
  "procsesConnectBTDeviceEvent env payload m =
     (if \<not> has_bluez env then Inr m
      else case payload of
             Some (BluetoothDeviceAddressPayload address) \<Rightarrow> Inr (connectDevice env address m)
           | _ \<Rightarrow> Inr m)"

definition processDisconnectBTDeviceEvent ::
    "hm_env \<Rightarrow> Payload option \<Rightarrow> hardware_mgr \<Rightarrow> fault + hardware_mgr" where
  "processDisconnectBTDeviceEvent env payload m =
     (if \<not> has_bluez env then Inr m
      else case payload of
             Some (BluetoothDeviceAddressPayload address) \<Rightarrow> Inr (disconnectDevice env address m)
           | _ \<Rightarrow> Inr m)"

text \<open>These two test \<open>bluezDBus_\<close> but use \<open>agent_\<close>.\<close>

definition processRejectRequestConfirmationEvent ::
    "hm_env \<Rightarrow> Payload option \<Rightarrow> hardware_mgr \<Rightarrow> fault + hardware_mgr" where
  "processRejectRequestConfirmationEvent env payload m =
     (if \<not> has_bluez env then Inr m
      else case payload of
             Some (BluetoothDeviceAddressPayload address) \<Rightarrow>
               if has_agent env then Inr (confirmRequest env address False m)
               else Inl Undefined_behaviour
           | _ \<Rightarrow> Inr m)"

definition processAcceptRequestConfirmationEvent ::
    "hm_env \<Rightarrow> Payload option \<Rightarrow> hardware_mgr \<Rightarrow> fault + hardware_mgr" where
  "processAcceptRequestConfirmationEvent env payload m =
     (if \<not> has_bluez env then Inr m
      else case payload of
             Some (BluetoothDeviceAddressPayload address) \<Rightarrow>
               if has_agent env then Inr (confirmRequest env address True m)
               else Inl Undefined_behaviour
           | _ \<Rightarrow> Inr m)"

definition processDialCallEvent ::
    "hm_env \<Rightarrow> Payload option \<Rightarrow> hardware_mgr \<Rightarrow> fault + hardware_mgr" where
  "processDialCallEvent env payload m =
     (if \<not> has_ofono env then Inr m
      else case payload of
             Some (CallPayload _ number _) \<Rightarrow> Inr (ofono_dialCall env number m)
           | _ \<Rightarrow> Inr m)"

definition HM_processEvent ::
    "hm_env \<Rightarrow> HmEventTypeID Event \<Rightarrow> hardware_mgr \<Rightarrow> fault + hardware_mgr" where
  "HM_processEvent env event m =
     (case getEventTypeId event of
        HmEventTypeID.INITIALIZE_BLUETOOTH \<Rightarrow> processInitializeBluetoothEvent env m
      | HmEventTypeID.START_SCAN_BTDEVICE \<Rightarrow> processStartScanBTDeviceEvent env m
      | HmEventTypeID.STOP_SCAN_BTDEVICE \<Rightarrow> processStopScanBTDeviceEvent env m
      | HmEventTypeID.BLUETOOTH_POWER_ON \<Rightarrow> processBluetoothPowerOnEvent env m
      | HmEventTypeID.BLUETOOTH_POWER_OFF \<Rightarrow> processBluetoothPowerOffEvent env m
      | HmEventTypeID.PAIR_BTDEVICE \<Rightarrow> processPairBTDeviceEvent env (getPayload event) m
      | HmEventTypeID.UNPAIR_BTDEVICE \<Rightarrow> processUnpairBTDeviceEvent env (getPayload event) m
      | HmEventTypeID.CONNECT_BTDEVICE \<Rightarrow> procsesConnectBTDeviceEvent env (getPayload event) m
      | HmEventTypeID.DISCONNECT_BTDEVICE \<Rightarrow> processDisconnectBTDeviceEvent env (getPayload event) m
      | HmEventTypeID.REJECT_REQUEST_CONFIRMATION \<Rightarrow>
          processRejectRequestConfirmationEvent env (getPayload event) m
      | HmEventTypeID.ACCEPT_REQUEST_CONFIRMATION \<Rightarrow>
          processAcceptRequestConfirmationEvent env (getPayload event) m
      | HmEventTypeID.DIAL_CALL \<Rightarrow> processDialCallEvent env (getPayload event) m
      | HmEventTypeID.HANGUP_CALL \<Rightarrow> processHangupCallEvent env m
      | HmEventTypeID.ANSWER_CALL \<Rightarrow> processAnswerCallEvent env m
      | _ \<Rightarrow> Inr m)"

section \<open>main\<close>

text \<open>
  What \<open>main\<close> does before it starts the threads, once the connection is there: the constructor of
  \<open>BluezDBus\<close> initialises the adapter, the agent is registered.
\<close>

definition hardware_start :: "hm_env \<Rightarrow> fault + hardware_mgr" where
  "hardware_start env =
     bind_result (initializeAdapter env hardware_mgr_init) (\<lambda>m.
     Inr (registerAgent env ''DisplayYesNo'' m))"

end
