(* ===== verification/HardwareTypes.thy ===== *)
theory HardwareTypes
  imports HardwareMain
begin

text \<open>
  The types of the D-Bus messages the hardware manager reads, as BlueZ and oFono document them, and
  what they are good for: no handler reads past what a well-typed message holds.
\<close>

section \<open>Types\<close>

text \<open>The elements of an array have its element type.\<close>

fun wf_value :: "dbus_value \<Rightarrow> bool" where
  "wf_value (DArray es vs) = list_all (\<lambda>v. type_code v = es \<and> wf_value v) vs"
| "wf_value (DVariant v) = wf_value v"
| "wf_value (DStruct vs) = list_all wf_value vs"
| "wf_value (DDictEntry k v) = (wf_value k \<and> wf_value v)"
| "wf_value _ = True"

definition has_types :: "string list \<Rightarrow> dbus_value list \<Rightarrow> bool" where
  "has_types ts vs \<longleftrightarrow> map type_code vs = ts \<and> list_all wf_value vs"

text \<open>A dictionary in which the property of that name, if it is there, is a list of object paths.\<close>

definition paths_at :: "string \<Rightarrow> dbus_value list \<Rightarrow> bool" where
  "paths_at key entries \<longleftrightarrow>
     list_all (\<lambda>e. case e of
         DDictEntry (DString k) (DVariant v) \<Rightarrow> k = key \<longrightarrow> type_code v = ''ao''
       | _ \<Rightarrow> True) entries"

definition dict_paths_at :: "string \<Rightarrow> dbus_value \<Rightarrow> bool" where
  "dict_paths_at key v \<longleftrightarrow> (case v of DArray _ entries \<Rightarrow> paths_at key entries | _ \<Rightarrow> True)"

text \<open>The replies to the calls whose results are read.\<close>

definition typed_reply :: "method_call \<Rightarrow> dbus_value list \<Rightarrow> bool" where
  "typed_reply c vs \<longleftrightarrow>
     (if call_member c = ''GetManagedObjects'' then has_types [''a{oa{sa{sv}}}''] vs
      else if call_member c = ''GetHistory'' then has_types [''a(oa{sv})''] vs
      else if call_member c = ''GetAll'' \<or> call_member c = ''GetProperties''
      then has_types [''a{sv}''] vs \<and> list_all (dict_paths_at ''Contacts'') vs
      else True)"

definition typed_answers :: "hm_env \<Rightarrow> bool" where
  "typed_answers env \<longleftrightarrow> (\<forall>n c vs. answers env n c = Call_reply vs \<longrightarrow> typed_reply c vs)"

text \<open>
  A message from the bus: a signal has a path and an interface, a call of a method a path, and the
  signals that are handled have the arguments their service documents.
\<close>

definition signal_types :: "string \<Rightarrow> string list option" where
  "signal_types member =
     (if member = ''PropertyChanged'' then Some [''s'', ''v'']
      else if member = ''CallAdded'' then Some [''o'', ''a{sv}'']
      else if member = ''CallRemoved'' then Some [''o'']
      else if member = ''InterfacesAdded'' then Some [''o'', ''a{sa{sv}}'']
      else if member = ''InterfacesRemoved'' then Some [''o'', ''as'']
      else if member = ''PropertiesChanged'' then Some [''s'', ''a{sv}'', ''as'']
      else None)"

definition typed_message :: "bus_msg \<Rightarrow> bool" where
  "typed_message message \<longleftrightarrow>
     (let msg = msg_body message in
      (case msg_member msg of
         Some member \<Rightarrow>
           msg_type msg = MESSAGE_TYPE_SIGNAL \<longrightarrow>
             msg_path msg \<noteq> None \<and> msg_interface msg \<noteq> None
             \<and> (case signal_types member of Some ts \<Rightarrow> has_types ts (msg_args msg) | None \<Rightarrow> True)
             \<and> list_all (dict_paths_at ''Calls'') (msg_args msg)
       | None \<Rightarrow> True)
      \<and> (msg_type msg = MESSAGE_TYPE_METHOD_CALL \<longrightarrow> msg_path msg \<noteq> None))"

section \<open>What a type says of a value\<close>

lemma type_codeD:
  "type_code v = ''s'' \<Longrightarrow> \<exists>s. v = DString s"
  "type_code v = ''o'' \<Longrightarrow> \<exists>s. v = DObjectPath s"
  "type_code v = ''v'' \<Longrightarrow> \<exists>w. v = DVariant w"
  "type_code v = CHR ''a'' # es \<Longrightarrow> \<exists>vs. v = DArray es vs"
  "type_code v = ''{sv}'' \<Longrightarrow> \<exists>k w. v = DDictEntry (DString k) (DVariant w)"
  "type_code v = ''{sa{sv}}'' \<Longrightarrow> \<exists>k vs. v = DDictEntry (DString k) (DArray ''{sv}'' vs)"
proof -
  show "type_code v = ''s'' \<Longrightarrow> \<exists>s. v = DString s" "type_code v = ''o'' \<Longrightarrow> \<exists>s. v = DObjectPath s"
    "type_code v = ''v'' \<Longrightarrow> \<exists>w. v = DVariant w" "type_code v = CHR ''a'' # es \<Longrightarrow> \<exists>vs. v = DArray es vs" for v
    by (cases v; simp)+
  show "\<exists>k w. v = DDictEntry (DString k) (DVariant w)" if "type_code v = ''{sv}''" for v
  proof (cases v)
    case (DDictEntry k w)
    with that show ?thesis by (cases k; cases w; simp)
  qed (use that in simp_all)
  show "\<exists>k vs. v = DDictEntry (DString k) (DArray ''{sv}'' vs)" if "type_code v = ''{sa{sv}}''" for v
  proof (cases v)
    case (DDictEntry k w)
    with that show ?thesis by (cases k; cases w; simp)
  qed (use that in simp_all)
qed

lemma has_types_simps [simp]:
  "has_types [] vs \<longleftrightarrow> vs = []"
  "has_types (t # ts) vs \<longleftrightarrow> (\<exists>v vs'. vs = v # vs' \<and> type_code v = t \<and> wf_value v \<and> has_types ts vs')"
  by (auto simp: has_types_def map_eq_Cons_conv)

section \<open>No fault\<close>

definition safe :: "fault + 'a \<Rightarrow> bool" where "safe r \<longleftrightarrow> (\<exists>x. r = Inr x)"

lemma safe_Inr [simp]: "safe (Inr x)" by (simp add: safe_def)

lemma safe_bind:
  "safe r \<Longrightarrow> (\<And>x. r = Inr x \<Longrightarrow> safe (f x)) \<Longrightarrow> safe (bind_result r f)"
  by (auto simp: safe_def)

lemma safe_if: "(b \<Longrightarrow> safe x) \<Longrightarrow> (\<not> b \<Longrightarrow> safe y) \<Longrightarrow> safe (if b then x else y)"
  by simp

lemma safe_parse_entries:
  "list_all (\<lambda>v. type_code v = ''{sv}'' \<and> wf_value v) vs \<Longrightarrow> safe (parse_entries f vs p)"
proof (induction vs arbitrary: p)
  case (Cons v vs)
  then obtain k w where "v = DDictEntry (DString k) (DVariant w)" by (auto dest: type_codeD(5))
  with Cons show ?case by (simp add: get_string_def recurse_def)
qed simp

lemma recurse_dict:
  assumes "type_code v = CHR ''a'' # es" and "wf_value v"
  obtains vs where "recurse (v # vs') = Inr vs" and "list_all (\<lambda>v. type_code v = es \<and> wf_value v) vs"
    and "v = DArray es vs"
  using type_codeD(4) [OF assms(1)] assms(2) by (auto simp: recurse_def)

lemma safe_properties:
  assumes "type_code v = ''a{sv}''" and "wf_value v"
  shows "safe (parseAdapterProperties (v # vs'))" "safe (parseDeviceProperties (v # vs'))"
proof -
  obtain vs where "recurse (v # vs') = Inr vs" "list_all (\<lambda>v. type_code v = ''{sv}'' \<and> wf_value v) vs"
    by (rule recurse_dict [OF assms])
  then show "safe (parseAdapterProperties (v # vs'))" "safe (parseDeviceProperties (v # vs'))"
    by (simp_all add: parseAdapterProperties_def parseDeviceProperties_def safe_parse_entries)
qed

text \<open>A call of one of these methods is answered with what its documentation says.\<close>

lemma call_method_typed:
  assumes "typed_answers env" and "call_method env c m = (Call_reply vs, m')"
  shows "typed_reply c vs"
  using assms call_method_frame [OF assms(2)] by (auto simp: typed_answers_def)

lemma safe_call:
  assumes "typed_answers env"
    and "\<And>vs m'. typed_reply c vs \<Longrightarrow> safe (g (Call_reply vs) m')"
    and "\<And>r m'. \<forall>vs. r \<noteq> Call_reply vs \<Longrightarrow> safe (g r m')"
  shows "safe (case call_method env c m of (r, m') \<Rightarrow> g r m')"
proof (cases "call_method env c m")
  case (Pair r m')
  then show ?thesis
    using assms(2,3) call_method_typed [OF assms(1)] by (cases r) auto
qed

lemma new_method_call_member [simp]: "call_member (new_method_call d p i x args) = x"
  by (simp add: new_method_call_def)

named_theorems safe_intros \<open>operations that end without a fault\<close>

lemma typed_GetAll:
  "typed_reply c vs \<Longrightarrow> call_member c = ''GetAll'' \<Longrightarrow>
   \<exists>v. vs = [v] \<and> type_code v = ''a{sv}'' \<and> wf_value v"
  by (auto simp: typed_reply_def)

lemma safe_getAllProperties [safe_intros]:
  assumes "typed_answers env"
  shows "safe (getAllAdapterProperties env p m)" "safe (getAllDeviceProperties env p m)"
proof -
  show "safe (getAllAdapterProperties env p m)" unfolding getAllAdapterProperties_def
    by (rule safe_call [OF assms], drule typed_GetAll)
      (auto intro!: safe_bind safe_properties split: call_result.splits)
  show "safe (getAllDeviceProperties env p m)" unfolding getAllDeviceProperties_def
    by (rule safe_call [OF assms], drule typed_GetAll)
      (auto intro!: safe_bind safe_properties split: call_result.splits)
qed

lemma safe_dict_reply:
  assumes "typed_reply c vs" and "call_member c \<in> {''GetAll'', ''GetProperties''}"
  obtains entries where "recurse vs = Inr entries"
    and "list_all (\<lambda>v. type_code v = ''{sv}'' \<and> wf_value v) entries" and "paths_at ''Contacts'' entries"
proof -
  from assms obtain v where v: "vs = [v]" "type_code v = ''a{sv}''" "wf_value v" "dict_paths_at ''Contacts'' v"
    by (auto simp: typed_reply_def)
  obtain entries where "recurse [v] = Inr entries" "v = DArray ''{sv}'' entries"
    "list_all (\<lambda>v. type_code v = ''{sv}'' \<and> wf_value v) entries"
    by (rule recurse_dict [OF v(2,3)])
  with v(1,4) show ?thesis by (intro that) (simp_all add: dict_paths_at_def)
qed

lemma safe_dict_call:
  assumes "typed_answers env" and "call_member c \<in> {''GetAll'', ''GetProperties''}"
    and "\<And>vs entries m'. recurse vs = Inr entries \<Longrightarrow>
      list_all (\<lambda>v. type_code v = ''{sv}'' \<and> wf_value v) entries \<Longrightarrow> paths_at ''Contacts'' entries \<Longrightarrow>
      safe (g (Call_reply vs) m')"
    and "\<And>r m'. \<forall>vs. r \<noteq> Call_reply vs \<Longrightarrow> safe (g r m')"
  shows "safe (case call_method env c m of (r, m') \<Rightarrow> g r m')"
proof (rule safe_call [OF assms(1)])
  fix vs m' assume "typed_reply c vs"
  from this assms(2) obtain entries where "recurse vs = Inr entries"
    "list_all (\<lambda>v. type_code v = ''{sv}'' \<and> wf_value v) entries" "paths_at ''Contacts'' entries"
    by (rule safe_dict_reply)
  then show "safe (g (Call_reply vs) m')" by (rule assms(3))
qed (rule assms(4))

lemma safe_details [safe_intros]:
  assumes "typed_answers env"
  shows "safe (getVoiceCallProperties env p m)" "safe (getOfonoContactDetails env p m)"
    "safe (getOfonoCallDetails env p t m)"
proof -
  show "safe (getVoiceCallProperties env p m)" unfolding getVoiceCallProperties_def
    by (rule safe_dict_call [OF assms])
      (auto intro!: safe_bind safe_parse_entries split: prod.splits call_result.splits)
  show "safe (getOfonoContactDetails env p m)" unfolding getOfonoContactDetails_def
    by (rule safe_dict_call [OF assms])
      (auto intro!: safe_bind safe_parse_entries split: prod.splits call_result.splits)
  show "safe (getOfonoCallDetails env p t m)" unfolding getOfonoCallDetails_def
    by (rule safe_dict_call [OF assms])
      (auto intro!: safe_bind safe_parse_entries split: prod.splits call_result.splits)
qed

lemma safe_contact_paths [safe_intros]:
  "typed_answers env \<Longrightarrow> safe (contact_paths env vs m)"
  by (induction env vs m rule: contact_paths.induct) (auto intro!: safe_bind safe_intros)

lemma safe_phonebook_properties:
  "typed_answers env \<Longrightarrow> list_all (\<lambda>v. type_code v = ''{sv}'' \<and> wf_value v) vs \<Longrightarrow> paths_at ''Contacts'' vs \<Longrightarrow>
   safe (phonebook_properties env vs m)"
proof (induction vs)
  case (Cons v vs)
  then obtain k w where v: "v = DDictEntry (DString k) (DVariant w)" by (auto dest: type_codeD(5))
  have "\<exists>ps. w = DArray ''o'' ps" if "k = ''Contacts''"
    using Cons.prems(3) that type_codeD(4) [of w "''o''"] by (auto simp: v paths_at_def)
  with Cons v show ?case
    by (auto simp: get_string_def recurse_def paths_at_def intro!: safe_intros)
qed simp

lemma safe_getOfonoContacts [safe_intros]:
  assumes "typed_answers env"
  shows "safe (getOfonoContacts env p m)"
  unfolding getOfonoContacts_def
  by (rule safe_dict_call [OF assms])
    (auto intro!: safe_bind safe_phonebook_properties [OF assms] split: call_result.splits)

lemma safe_syncContacts [safe_intros]:
  "typed_answers env \<Longrightarrow> safe (syncAllOfonoContacts env p m)"
  by (auto simp: syncAllOfonoContacts_def Let_def intro!: safe_bind safe_intros)

lemma safe_history_items [safe_intros]:
  assumes "typed_answers env"
  shows "safe (history_items env type n vs m)"
proof (induction vs arbitrary: n m)
  case (Cons v vs)
  show ?case
  proof (cases v)
    case (DStruct xs)
    show ?thesis
    proof (cases xs)
      case Nil
      with Cons DStruct show ?thesis by simp
    next
      fix x ys assume "xs = x # ys"
      with Cons DStruct show ?thesis
        by (cases x) (simp_all add: safe_bind safe_details [OF assms])
    qed
  qed simp_all
qed simp

lemma safe_getOfonoCallHistory [safe_intros]:
  assumes "typed_answers env"
  shows "safe (getOfonoCallHistory env p type m)"
  unfolding getOfonoCallHistory_def
proof (rule safe_call [OF assms], goal_cases)
  case (1 vs m')
  then obtain v where v: "vs = [v]" "type_code v = ''a(oa{sv})''" "wf_value v"
    by (auto simp: typed_reply_def)
  obtain items where "recurse [v] = Inr items" by (rule recurse_dict [OF v(2,3)])
  with v(1) show ?case by (simp add: safe_history_items [OF assms])
qed (simp split: call_result.splits)

lemma safe_syncHistory [safe_intros]:
  "typed_answers env \<Longrightarrow> safe (syncAllOfonoCallHistory env p m)"
  by (auto simp: syncAllOfonoCallHistory_def Let_def intro!: safe_bind safe_intros)

section \<open>The handlers\<close>

lemma safe_added_interfaces:
  "list_all (\<lambda>v. type_code v = ''{sa{sv}}'' \<and> wf_value v) vs \<Longrightarrow> safe (added_interfaces env vs m)"
proof (induction vs arbitrary: m)
  case (Cons v vs)
  then obtain k ws where v: "v = DDictEntry (DString k) (DArray ''{sv}'' ws)" by (auto dest: type_codeD(6))
  have "safe (parseDeviceProperties [DArray ''{sv}'' ws])"
    using Cons.prems by (intro safe_properties) (simp_all add: v)
  with Cons v show ?case by (simp add: get_string_def safe_bind)
qed simp

lemma safe_handleInterfacesAdded:
  assumes "has_types [''o'', ''a{sa{sv}}''] (msg_args msg)"
  shows "safe (handleInterfacesAdded env msg m)"
proof -
  from assms obtain p v where a: "msg_args msg = [DObjectPath p, v]" "type_code v = ''a{sa{sv}}''" "wf_value v"
    by (auto dest: type_codeD(2))
  obtain vs where "recurse [v] = Inr vs" "list_all (\<lambda>v. type_code v = ''{sa{sv}}'' \<and> wf_value v) vs"
    by (rule recurse_dict [OF a(2,3)])
  then show ?thesis by (simp add: handleInterfacesAdded_def a(1) safe_added_interfaces)
qed

lemma safe_handleInterfacesRemoved:
  assumes "has_types [''o'', ''as''] (msg_args msg)"
  shows "safe (handleInterfacesRemoved env msg m)"
proof -
  from assms obtain p v where a: "msg_args msg = [DObjectPath p, v]" "type_code v = ''as''" "wf_value v"
    by (auto dest: type_codeD(2))
  obtain vs where "recurse [v] = Inr vs" by (rule recurse_dict [OF a(2,3)])
  then show ?thesis by (simp add: handleInterfacesRemoved_def a(1))
qed

lemma safe_changed [safe_intros]:
  assumes "typed_answers env"
  shows "safe (adapter_changed env p info m)" "safe (device_changed env p m)"
  by (auto simp: adapter_changed_def device_changed_def Let_def
      intro!: safe_bind safe_getAllProperties [OF assms])

lemma safe_modem_property [safe_intros]:
  assumes "typed_answers env" and "path = Some p"
  shows "safe (modem_property env path key v m)"
proof (cases "\<exists>vs. v = DBoolean True # vs")
  case True
  with assms(2) show ?thesis
    by (auto simp: modem_property_def need_field_def
        intro!: safe_bind safe_syncContacts [OF assms(1)] safe_syncHistory [OF assms(1)])
next
  case False
  have "modem_property env path key v m = Inr m"
  proof (cases v)
    case (Cons x xs)
    with False show ?thesis by (cases x) (auto simp: modem_property_def split: bool.split)
  qed (simp add: modem_property_def)
  then show ?thesis by simp
qed

lemma safe_new_calls [safe_intros]:
  "typed_answers env \<Longrightarrow> safe (new_calls env vs m)"
  by (induction env vs m rule: new_calls.induct)
    (auto intro!: safe_bind safe_details)

lemma safe_ofono_properties:
  assumes "typed_answers env" and "path = Some p"
  shows "list_all (\<lambda>v. type_code v = ''{sv}'' \<and> wf_value v) vs \<Longrightarrow> paths_at ''Calls'' vs \<Longrightarrow>
    safe (ofono_properties env path iface vs m)"
proof (induction vs arbitrary: m)
  case (Cons v vs)
  then obtain k w where v: "v = DDictEntry (DString k) (DVariant w)" by (auto dest: type_codeD(5))
  have calls: "safe (recurse [w])" if "k = ''Calls''"
    using Cons.prems(2) that type_codeD(4) [of w "''o''"] by (auto simp: v paths_at_def recurse_def)
  have field: "safe (need_field path)" by (simp add: assms(2) need_field_def)
  have "safe (ofono_property env path iface k [w] m)"
    unfolding ofono_property_def
    by (intro safe_if safe_bind safe_new_calls safe_modem_property [OF assms] safe_syncContacts
        safe_syncHistory calls field safe_Inr assms(1))
  with Cons v show ?case by (simp add: get_string_def recurse_def paths_at_def safe_bind)
qed simp

lemma safe_handlePropertiesChanged:
  assumes "typed_answers env" and "has_types [''s'', ''a{sv}'', ''as''] (msg_args (msg_body message))"
    and "list_all (dict_paths_at ''Calls'') (msg_args (msg_body message))"
  shows "safe (handlePropertiesChanged env message m)"
proof (cases "msg_path (msg_body message)")
  case (Some path)
  from assms(2) obtain s v w where a: "msg_args (msg_body message) = [DString s, v, w]"
    "type_code v = ''a{sv}''" "wf_value v"
    by (auto dest: type_codeD(1))
  obtain vs where r: "recurse (v # [w]) = Inr vs" "v = DArray ''{sv}'' vs"
    "list_all (\<lambda>v. type_code v = ''{sv}'' \<and> wf_value v) vs"
    by (rule recurse_dict [OF a(2,3)])
  have "paths_at ''Calls'' vs" using assms(3) by (simp add: a(1) r(2) dict_paths_at_def)
  then have "safe (handleOfonoPropertiesChanged env (msg_body message) m)"
    using safe_ofono_properties [OF assms(1) Some r(3)] r(1) by (simp add: handleOfonoPropertiesChanged_def a(1))
  then show ?thesis
    using safe_properties [OF a(2,3), of "[w]"]
    by (auto simp: handlePropertiesChanged_def Some a(1) r(2) Let_def intro!: safe_bind safe_changed [OF assms(1)])
qed (simp add: handlePropertiesChanged_def)

lemma safe_handleOfonoPropertyChanged:
  assumes "typed_answers env" and "has_types [''s'', ''v''] (msg_args msg)"
    and "msg_path msg \<noteq> None" and "msg_interface msg \<noteq> None"
  shows "safe (handleOfonoPropertyChanged env msg m)"
proof -
  from assms(2) obtain k w where "msg_args msg = [DString k, DVariant w]"
    by (auto dest!: type_codeD(1,3))
  with assms(3,4) show ?thesis
    by (auto simp: handleOfonoPropertyChanged_def get_string_def recurse_def need_field_def
        intro!: safe_modem_property [OF assms(1)])
qed

lemma safe_voice_handlers:
  assumes "typed_answers env"
  shows "has_types [''s'', ''v''] (msg_args msg) \<Longrightarrow> safe (handleVoiceCallPropertyChanged env msg m)"
    and "has_types [''o''] (msg_args msg) \<Longrightarrow> safe (handleCallRemoved env msg m)"
    and "has_types [''o'', ''a{sv}''] (msg_args msg) \<Longrightarrow> safe (handleCallAdded env msg m)"
  by (auto simp: handleVoiceCallPropertyChanged_def handleCallRemoved_def handleCallAdded_def
      get_string_def Let_def dest!: type_codeD(1,2) intro!: safe_bind safe_details [OF assms]
      split: option.splits)

lemma safe_modem_handlers:
  "safe (handleModemAdded env msg m)" "safe (handleModemRemoved env msg m)"
  by (auto simp: handleModemAdded_def handleModemRemoved_def split: list.splits dbus_value.splits)

lemma typed_signal:
  assumes "typed_message message" and "is_signal (msg_body message) i s"
  shows "msg_path (msg_body message) \<noteq> None" "msg_interface (msg_body message) \<noteq> None"
    "case signal_types s of Some ts \<Rightarrow> has_types ts (msg_args (msg_body message)) | None \<Rightarrow> True"
    "list_all (dict_paths_at ''Calls'') (msg_args (msg_body message))"
  using assms by (auto simp: typed_message_def is_signal_def Let_def)

lemma safe_dispatch:
  assumes "typed_answers env" and "typed_message message"
  shows "safe (bt_dispatchMessage env message m)"
proof -
  note sig = typed_signal [OF assms(2)]
  have args: "has_types ts (msg_args (msg_body message))"
    if "is_signal (msg_body message) i s" "signal_types s = Some ts" for i s ts
    using sig(3) [OF that(1)] that(2) by simp
  note a = args [where ts = "[''s'', ''v'']"] args [where ts = "[''o'', ''a{sv}'']"] args [where ts = "[''o'']"]
    args [where ts = "[''o'', ''a{sa{sv}}'']"] args [where ts = "[''o'', ''as'']"]
    args [where ts = "[''s'', ''a{sv}'', ''as'']"]
  show ?thesis
    unfolding bt_dispatchMessage_def Let_def
    by (intro safe_if safe_modem_handlers
        safe_handleOfonoPropertyChanged [OF assms(1) a(1) sig(1,2)]
        safe_voice_handlers(1) [OF assms(1) a(1)] safe_voice_handlers(2) [OF assms(1) a(3)]
        safe_voice_handlers(3) [OF assms(1) a(2)] safe_handleInterfacesAdded [OF a(4)]
        safe_handleInterfacesRemoved [OF a(5)] safe_handlePropertiesChanged [OF assms(1) a(6) sig(4)])
      (use assms(2) in \<open>auto simp: signal_types_def typed_message_def need_field_def Let_def
        intro!: safe_bind split: option.splits\<close>)
qed

lemma safe_bluetooth_turn:
  assumes "typed_answers env" and "list_all typed_message msgs"
  shows "safe (bluetooth_turn env (Bus_poll_in msgs) m)"
proof -
  have "safe (fold_result (bt_dispatchMessage env) msgs m)"
    using assms(2)
  proof (induction msgs arbitrary: m)
    case (Cons x xs)
    then have "safe (bt_dispatchMessage env x m)" by (intro safe_dispatch [OF assms(1)]) simp
    with Cons show ?case by (auto simp: safe_def)
  qed simp
  then show ?thesis by (simp add: bluetooth_turn_def)
qed

section \<open>The requests\<close>

lemma safe_unpairDevice: "typed_answers env \<Longrightarrow> safe (unpairDevice env a m)"
  by (auto simp: unpairDevice_def Let_def intro!: safe_bind safe_getAllProperties)

lemma safe_find_incoming: "typed_answers env \<Longrightarrow> safe (find_incoming env ps m)"
  by (induction ps arbitrary: m) (auto intro!: safe_bind safe_details)

lemma safe_answerCall: "typed_answers env \<Longrightarrow> safe (ofono_answerCall env m)"
  by (auto simp: ofono_answerCall_def intro!: safe_bind safe_find_incoming)

text \<open>Initialising the adapter can only end in one of its exceptions.\<close>

lemma safe_managed_interfaces:
  "list_all (\<lambda>v. type_code v = ''{sa{sv}}'' \<and> wf_value v) vs \<Longrightarrow> safe (managed_interfaces env p vs b m)"
proof (induction vs arbitrary: b m)
  case (Cons v vs)
  then obtain k ws where v: "v = DDictEntry (DString k) (DArray ''{sv}'' ws)" by (auto dest: type_codeD(6))
  have "safe (parseDeviceProperties [DArray ''{sv}'' ws])" "safe (parseAdapterProperties [DArray ''{sv}'' ws])"
    using Cons.prems by (intro safe_properties; simp add: v)+
  with Cons v show ?case by (auto intro!: safe_bind)
qed simp

lemma type_code_object:
  assumes "type_code v = ''{oa{sa{sv}}}''"
  shows "\<exists>p vs. v = DDictEntry (DObjectPath p) (DArray ''{sa{sv}}'' vs)"
proof (cases v)
  case (DDictEntry k w)
  with assms show ?thesis by (cases k; cases w; simp)
qed (use assms in simp_all)

lemma safe_managed_objects:
  "list_all (\<lambda>v. type_code v = ''{oa{sa{sv}}}'' \<and> wf_value v) vs \<Longrightarrow> safe (managed_objects env vs b m)"
proof (induction vs arbitrary: b m)
  case (Cons v vs)
  then obtain p ws where v: "v = DDictEntry (DObjectPath p) (DArray ''{sa{sv}}'' ws)"
    by (auto dest: type_code_object)
  have "safe (managed_interfaces env p ws b m)" for b m
    using Cons.prems by (intro safe_managed_interfaces) (simp add: v)
  with Cons v show ?case by (auto intro!: safe_bind)
qed simp

lemma initializeAdapter_fault:
  assumes "typed_answers env" and "initializeAdapter env m = Inl x"
  shows "\<exists>s. x = Runtime_error s"
proof -
  let ?c = "new_method_call BLUEZ_SERVICE_NAME ''/'' DBUS_OBJECT_MANAGER_INTERFACE ''GetManagedObjects'' []"
  have rules: "\<exists>s. y = Runtime_error s" if "fold_result (addMatchRule env) rs m' = Inl y" for rs m' y
    using that by (induction rs arbitrary: m') (auto simp: addMatchRule_def split: option.splits)
  obtain r m1 where c: "call_method env ?c m = (r, m1)" by fastforce
  show ?thesis
  proof (cases r)
    case (Call_reply vs)
    have "typed_reply ?c vs" using call_method_typed [OF assms(1)] c Call_reply by blast
    then obtain v where v: "vs = [v]" "type_code v = ''a{oa{sa{sv}}}''" "wf_value v"
      by (auto simp: typed_reply_def)
    obtain os where os: "v = DArray ''{oa{sa{sv}}}'' os"
      "list_all (\<lambda>v. type_code v = ''{oa{sa{sv}}}'' \<and> wf_value v) os"
      by (rule recurse_dict [OF v(2,3)])
    obtain b m2 where "managed_objects env os False m1 = Inr (b, m2)"
      using safe_managed_objects [OF os(2), of env False m1] by (auto simp: safe_def)
    with assms(2) c Call_reply v os show ?thesis
      by (auto simp: initializeAdapter_def parseManagedObjects_def split: if_splits sum.splits fault.splits
          dest!: rules)
  qed (use assms(2) c in \<open>auto simp: initializeAdapter_def\<close>)
qed

lemma HM_processEvent_fault:
  assumes "typed_answers env" and "has_agent env" and "HM_processEvent env e m = Inl x"
  shows "getEventTypeId e = HmEventTypeID.INITIALIZE_BLUETOOTH \<and> (\<exists>s. x = Runtime_error s)"
proof (cases "getEventTypeId e = HmEventTypeID.INITIALIZE_BLUETOOTH")
  case True
  with assms(3) show ?thesis
    by (auto simp: HM_processEvent_def processInitializeBluetoothEvent_def
        dest!: initializeAdapter_fault [OF assms(1)] split: if_splits)
next
  case False
  have "safe (HM_processEvent env e m)"
    using False assms(2) safe_unpairDevice [OF assms(1)] safe_answerCall [OF assms(1)]
    by (auto simp: HM_processEvent_def processStartScanBTDeviceEvent_def processStopScanBTDeviceEvent_def
        processBluetoothPowerOnEvent_def processBluetoothPowerOffEvent_def processHangupCallEvent_def
        processAnswerCallEvent_def processPairBTDeviceEvent_def processUnpairBTDeviceEvent_def
        procsesConnectBTDeviceEvent_def processDisconnectBTDeviceEvent_def
        processRejectRequestConfirmationEvent_def processAcceptRequestConfirmationEvent_def
        processDialCallEvent_def split: HmEventTypeID.split option.split Payload.split)
  with assms(3) show ?thesis by (simp add: safe_def)
qed

end
