(* ===== verification/HardwareSystem.thy ===== *)
theory HardwareSystem
  imports HardwareTypes
begin

text \<open>
  Which of the hardware manager's operations touch the agent's pending requests and its replies: only the
  agent's own, and the answers of the user.
\<close>

section \<open>The agent's part of the state\<close>

definition agent_view :: "hardware_mgr \<Rightarrow> (string \<rightharpoonup> bus_msg) \<times> agent_reply list" where
  "agent_view m = (pendingConfirmations m, replies m)"

text \<open>What holds of the result of an operation, if it has one.\<close>

definition ends :: "('a \<Rightarrow> bool) \<Rightarrow> fault + 'a \<Rightarrow> bool" where
  "ends P r \<longleftrightarrow> (\<forall>x. r = Inr x \<longrightarrow> P x)"

lemma ends_simps [simp]: "ends P (Inr x) \<longleftrightarrow> P x" "ends P (Inl e)"
  by (simp_all add: ends_def)

lemma ends_True [simp]: "ends (\<lambda>_. True) r"
  by (simp add: ends_def)

lemma ends_bind: "ends Q r \<Longrightarrow> (\<And>x. Q x \<Longrightarrow> ends P (f x)) \<Longrightarrow> ends P (bind_result r f)"
  by (cases r) auto

lemma ends_bind_any: "(\<And>x. ends P (f x)) \<Longrightarrow> ends P (bind_result r f)"
  by (cases r) auto

lemma ends_if: "(b \<Longrightarrow> ends P x) \<Longrightarrow> (\<not> b \<Longrightarrow> ends P y) \<Longrightarrow> ends P (if b then x else y)"
  by simp

lemma ends_prod: "(\<And>a b. p = (a, b) \<Longrightarrow> ends P (f a b)) \<Longrightarrow> ends P (case p of (a, b) \<Rightarrow> f a b)"
  by (cases p) auto

type_synonym agent_state = "(string \<rightharpoonup> bus_msg) \<times> agent_reply list"

abbreviation keeps :: "agent_state \<Rightarrow> hardware_mgr \<Rightarrow> bool" where
  "keeps v m \<equiv> agent_view m = v"

abbreviation keeps2 :: "agent_state \<Rightarrow> 'a \<times> hardware_mgr \<Rightarrow> bool" where
  "keeps2 v p \<equiv> agent_view (snd p) = v"

lemma agent_view_simps [simp]:
  "agent_view (hm_notify env cmd ok info m) = agent_view m"
  "agent_view (snd (call_method env c m)) = agent_view m"
  "agent_view (m\<lparr>adapterPath := p\<rparr>) = agent_view m"
  "agent_view (m\<lparr>isInitialized := b\<rparr>) = agent_view m"
  "agent_view (m\<lparr>match_rules := rs\<rparr>) = agent_view m"
  "agent_view (m\<lparr>phonebook := f\<rparr>) = agent_view m"
  "agent_view (setActiveModemPath p m) = agent_view m"
  "agent_view (clearActiveModemPath m) = agent_view m"
  "agent_view (addActiveCallPath p m) = agent_view m"
  "agent_view (removeActiveCallPath p m) = agent_view m"
  by (simp_all add: agent_view_def call_method_def Let_def setActiveModemPath_def
      clearActiveModemPath_def addActiveCallPath_def removeActiveCallPath_def)

lemma call_method_view: "call_method env c m = (r, m') \<Longrightarrow> agent_view m' = agent_view m"
  using agent_view_simps(2) [of env c m] by simp

lemma view_setters [simp]:
  "agent_view (setDiscoverable env b m) = agent_view m"
  "agent_view (set_trusted env b p m) = agent_view m"
  "agent_view (trustDevice env a m) = agent_view m"
  "agent_view (setOfonoPhonebookStorage env p s m) = agent_view m"
  "agent_view (setOfonoModemProperty env p s b m) = agent_view m"
  by (simp_all add: setDiscoverable_def set_trusted_def trustDevice_def
      setOfonoPhonebookStorage_def setOfonoModemProperty_def)

lemma view_requests [simp]:
  "agent_view (startDiscovery env m) = agent_view m"
  "agent_view (stopDiscovery env m) = agent_view m"
  "agent_view (setPower env b m) = agent_view m"
  "agent_view (pairDevice env a m) = agent_view m"
  "agent_view (connectDevice env a m) = agent_view m"
  "agent_view (disconnectDevice env a m) = agent_view m"
  "agent_view (ofono_dialCall env n m) = agent_view m"
  "agent_view (ofono_hangupCall env m) = agent_view m"
  unfolding startDiscovery_def stopDiscovery_def setPower_def pairDevice_def connectDevice_def
    disconnectDevice_def ofono_dialCall_def ofono_hangupCall_def
  by (auto simp: call_method_view split: prod.split call_result.split)

named_theorems view_intros \<open>operations that leave the agent alone\<close>

lemma view_getters [view_intros]:
  assumes "agent_view m = v"
  shows "ends (keeps2 v) (getAllAdapterProperties env p m)"
    "ends (keeps2 v) (getAllDeviceProperties env p m)"
    "ends (keeps2 v) (getVoiceCallProperties env p m)"
    "ends (keeps v) (getOfonoContactDetails env p m)"
    "ends (keeps v) (getOfonoCallDetails env p t m)"
  unfolding getAllAdapterProperties_def getAllDeviceProperties_def getVoiceCallProperties_def
    getOfonoContactDetails_def getOfonoCallDetails_def
  using assms
  by (auto simp: call_method_view Let_def split: prod.split call_result.split
      intro!: ends_bind [where Q = "\<lambda>_. True"])

lemma view_contact_paths [view_intros]:
  "agent_view m = v \<Longrightarrow> ends (keeps v) (contact_paths env vs m)"
  by (induction env vs m rule: contact_paths.induct) (auto intro: ends_bind view_getters(4))

lemma view_phonebook_properties [view_intros]:
  "agent_view m = v \<Longrightarrow> ends (keeps v) (phonebook_properties env vs m)"
  by (induction env vs m rule: phonebook_properties.induct)
    (auto intro!: ends_bind [where Q = "\<lambda>_. True"] view_intros)

lemma view_getOfonoContacts [view_intros]:
  "agent_view m = v \<Longrightarrow> ends (keeps v) (getOfonoContacts env p m)"
  unfolding getOfonoContacts_def
  by (auto simp: call_method_view split: prod.split call_result.split
      intro!: ends_bind [where Q = "\<lambda>_. True"] view_intros)

lemma view_syncContacts [view_intros]:
  "agent_view m = v \<Longrightarrow> ends (keeps v) (syncAllOfonoContacts env p m)"
  unfolding syncAllOfonoContacts_def Let_def
  by (auto intro!: ends_bind [where Q = "keeps v"] view_intros)

lemma view_history_items [view_intros]:
  "agent_view m = v \<Longrightarrow> ends (keeps v) (history_items env type n vs m)"
proof (induction vs arbitrary: n m)
  case (Cons x xs)
  show ?case
  proof (cases "\<exists>p ys. x = DStruct (DObjectPath p # ys)")
    case True
    with Cons show ?thesis by (auto intro!: ends_bind [where Q = "keeps v"] view_getters(5))
  next
    case False
    with Cons show ?thesis
    proof (cases x)
      case (DStruct zs)
      with Cons False show ?thesis
      proof (cases zs)
        fix z zs' assume "zs = z # zs'"
        with Cons False DStruct show ?thesis by (cases z) simp_all
      qed simp
    qed simp_all
  qed
qed simp

lemma view_getOfonoCallHistory [view_intros]:
  "agent_view m = v \<Longrightarrow> ends (keeps v) (getOfonoCallHistory env p t m)"
  unfolding getOfonoCallHistory_def
  by (auto simp: call_method_view split: prod.split call_result.split
      intro!: ends_bind [where Q = "\<lambda>_. True"] view_intros)

lemma view_syncHistory [view_intros]:
  "agent_view m = v \<Longrightarrow> ends (keeps v) (syncAllOfonoCallHistory env p m)"
  unfolding syncAllOfonoCallHistory_def Let_def
  by (auto intro!: ends_bind [where Q = "keeps v"] view_intros)

lemma view_find_incoming [view_intros]:
  "agent_view m = v \<Longrightarrow> ends (keeps2 v) (find_incoming env ps m)"
  by (induction ps arbitrary: m) (auto intro!: ends_bind [where Q = "keeps2 v"] view_getters(3))

lemma view_answerCall [view_intros]:
  assumes "agent_view m = v"
  shows "ends (keeps v) (ofono_answerCall env m)"
  unfolding ofono_answerCall_def
  by (intro ends_if ends_bind [where Q = "keeps2 v"] view_find_incoming assms)
    (use assms in \<open>auto simp: call_method_view split: prod.split call_result.split\<close>)

lemma view_unpairDevice [view_intros]:
  "agent_view m = v \<Longrightarrow> ends (keeps v) (unpairDevice env a m)"
  unfolding unpairDevice_def Let_def
  by (auto simp: call_method_view split: prod.split call_result.split
      intro!: ends_bind [where Q = "keeps2 v"] view_getters(2))

lemma view_managed [simp]:
  "agent_view (managed_adapter env p m) = agent_view m"
  "agent_view (managed_device env p m) = agent_view m"
  by (simp_all add: managed_adapter_def managed_device_def Let_def)

lemma view_managed_interfaces [view_intros]:
  "agent_view m = v \<Longrightarrow> ends (keeps2 v) (managed_interfaces env p vs b m)"
  by (induction env p vs b m rule: managed_interfaces.induct)
    (auto intro!: ends_bind [where Q = "\<lambda>_. True"] split: dbus_value.split)

lemma view_managed_objects [view_intros]:
  "agent_view m = v \<Longrightarrow> ends (keeps2 v) (managed_objects env vs b m)"
  by (induction env vs b m rule: managed_objects.induct)
    (auto intro!: ends_bind [where Q = "keeps2 v"] view_managed_interfaces split: dbus_value.split)

lemma view_rules: "agent_view m = v \<Longrightarrow> ends (keeps v) (fold_result (addMatchRule env) rs m)"
  by (induction rs arbitrary: m) (auto simp: addMatchRule_def split: option.split)

lemma view_initializeAdapter [view_intros]:
  assumes "agent_view m = v"
  shows "ends (keeps v) (initializeAdapter env m)"
proof -
  let ?c = "new_method_call BLUEZ_SERVICE_NAME ''/'' DBUS_OBJECT_MANAGER_INTERFACE ''GetManagedObjects'' []"
  obtain r m1 where c: "call_method env ?c m = (r, m1)" by fastforce
  then have m1: "agent_view m1 = v" using call_method_view assms by blast
  have parse: "ends (keeps2 v) (parseManagedObjects env iter m1)" for iter
    unfolding parseManagedObjects_def using m1
    by (cases iter; cases "hd iter") (simp_all add: view_managed_objects)
  have rules: "ends (keeps v) (case fold_result (addMatchRule env) initial_rules m2 of
      Inl (Runtime_error e) \<Rightarrow> Inl (Runtime_error (''Failed to add D-Bus match rules: '' @ e))
    | Inl e \<Rightarrow> Inl e | Inr m \<Rightarrow> Inr (m\<lparr>isInitialized := True\<rparr>))" if "agent_view m2 = v" for m2
    using view_rules [OF that, of env initial_rules] by (auto split: sum.split fault.split)
  show ?thesis
  proof (cases r)
    case (Call_reply iter)
    then show ?thesis
      unfolding initializeAdapter_def c prod.case
      by (simp add: c) (intro impI ends_bind [OF parse] ends_prod ends_if rules; simp)
  qed (simp_all add: initializeAdapter_def c)
qed

section \<open>What each thread does to the agent's part\<close>

text \<open>Only answers of the user, among the requests of the core manager, concern the agent.\<close>

definition agent_request :: "HmEventTypeID Event \<Rightarrow> (string \<times> bool) option" where
  "agent_request e =
     (case (getEventTypeId e, getPayload e) of
        (HmEventTypeID.ACCEPT_REQUEST_CONFIRMATION, Some (BluetoothDeviceAddressPayload a)) \<Rightarrow> Some (a, True)
      | (HmEventTypeID.REJECT_REQUEST_CONFIRMATION, Some (BluetoothDeviceAddressPayload a)) \<Rightarrow> Some (a, False)
      | _ \<Rightarrow> None)"

lemma HM_processEvent_agent:
  assumes "HM_processEvent env e m = Inr m'" and "has_bluez env"
  shows "case agent_request e of
      Some (a, b) \<Rightarrow> m' = confirmRequest env a b m
    | None \<Rightarrow> agent_view m' = agent_view m"
proof -
  have v: "ends (keeps (agent_view m)) (initializeAdapter env m)" "ends (keeps (agent_view m)) (ofono_answerCall env m)"
    "ends (keeps (agent_view m)) (unpairDevice env a m)" for a
    by (intro view_intros refl)+
  show ?thesis
    using assms v
    by (auto simp: HM_processEvent_def agent_request_def ends_def processInitializeBluetoothEvent_def
        processStartScanBTDeviceEvent_def processStopScanBTDeviceEvent_def
        processBluetoothPowerOnEvent_def processBluetoothPowerOffEvent_def processHangupCallEvent_def
        processAnswerCallEvent_def processPairBTDeviceEvent_def processUnpairBTDeviceEvent_def
        procsesConnectBTDeviceEvent_def processDisconnectBTDeviceEvent_def
        processRejectRequestConfirmationEvent_def processAcceptRequestConfirmationEvent_def
        processDialCallEvent_def powerOnAdapter_def powerOffAdapter_def
        split: HmEventTypeID.splits option.splits Payload.splits if_splits)
qed

text \<open>Of the messages from the bus, only the calls of the agent do.\<close>

lemma view_added_interfaces:
  "agent_view m = v \<Longrightarrow> ends (keeps v) (added_interfaces env vs m)"
  by (induction env vs m rule: added_interfaces.induct)
    (auto intro!: ends_bind [where Q = "\<lambda>_. True"])

lemma view_removed_interfaces: "agent_view (removed_interfaces env p vs m) = agent_view m"
  by (induction env p vs m rule: removed_interfaces.induct) (auto split: option.split)

lemma view_new_calls:
  "agent_view m = v \<Longrightarrow> ends (keeps v) (new_calls env vs m)"
  by (induction env vs m rule: new_calls.induct)
    (auto intro!: ends_bind [where Q = "keeps2 v"] view_getters(3))

lemma view_modem_property:
  "agent_view m = v \<Longrightarrow> ends (keeps v) (modem_property env path key vs m)"
proof (cases "\<exists>ws. vs = DBoolean True # ws")
  case True
  assume "agent_view m = v"
  with True show ?thesis
    by (auto simp: modem_property_def
        intro!: ends_bind [where Q = "\<lambda>_. True"] ends_bind [OF view_syncContacts] view_syncHistory)
next
  case False
  assume "agent_view m = v"
  moreover have "modem_property env path key vs m = Inr m"
  proof (cases vs)
    case (Cons x xs)
    with False show ?thesis by (cases x) (auto simp: modem_property_def split: bool.split)
  qed (simp add: modem_property_def)
  ultimately show ?thesis by simp
qed

lemma view_ofono_properties:
  "agent_view m = v \<Longrightarrow> ends (keeps v) (ofono_properties env path iface vs m)"
proof (induction env path iface vs m rule: ofono_properties.induct)
  case (1 env path iface k w rest m)
  have one: "ends (keeps v) (ofono_property env path iface key vs m)" for key vs
    unfolding ofono_property_def
    by (intro ends_if ends_bind_any view_new_calls view_modem_property view_syncContacts
        view_syncHistory 1(2)) (simp_all add: 1(2))
  show ?case
    unfolding ofono_properties.simps(1)
    by (rule ends_bind_any, rule ends_bind_any, rule ends_bind [OF one], rule 1(1))
qed simp_all

lemma ends_path_case:
  assumes "P m" and "\<And>p ys. ends P (f p ys)"
  shows "ends P (case xs of DObjectPath p # ys \<Rightarrow> f p ys | _ \<Rightarrow> Inr m)"
proof (cases xs)
  case (Cons x ys)
  with assms show ?thesis by (cases x) simp_all
qed (simp add: assms(1))

lemma view_signal_handlers:
  assumes "agent_view m = v"
  shows "ends (keeps v) (handleInterfacesAdded env msg m)" "ends (keeps v) (handleInterfacesRemoved env msg m)"
    "ends (keeps v) (handleModemAdded env msg m)" "ends (keeps v) (handleModemRemoved env msg m)"
    "ends (keeps v) (handleOfonoPropertyChanged env msg m)"
    "ends (keeps v) (handleVoiceCallPropertyChanged env msg m)"
    "ends (keeps v) (handleCallRemoved env msg m)" "ends (keeps v) (handleCallAdded env msg m)"
proof -
  show "ends (keeps v) (handleInterfacesAdded env msg m)" "ends (keeps v) (handleInterfacesRemoved env msg m)"
    "ends (keeps v) (handleModemAdded env msg m)" "ends (keeps v) (handleModemRemoved env msg m)"
    unfolding handleInterfacesAdded_def handleInterfacesRemoved_def handleModemAdded_def handleModemRemoved_def
    using assms
    by (auto intro!: ends_path_case ends_bind [where Q = "\<lambda>_. True"] view_added_interfaces
        simp: view_removed_interfaces)
  show "ends (keeps v) (handleOfonoPropertyChanged env msg m)"
    unfolding handleOfonoPropertyChanged_def
    using assms by (auto intro!: ends_bind [where Q = "\<lambda>_. True"] view_modem_property split: list.split)
  show "ends (keeps v) (handleVoiceCallPropertyChanged env msg m)"
    unfolding handleVoiceCallPropertyChanged_def Let_def
    using assms by (auto intro!: ends_bind [where Q = "\<lambda>_. True"] ends_bind [OF view_getters(3)] split: option.split)
  show "ends (keeps v) (handleCallRemoved env msg m)" "ends (keeps v) (handleCallAdded env msg m)"
    unfolding handleCallRemoved_def handleCallAdded_def Let_def
    using assms by (auto intro!: ends_bind [where Q = "\<lambda>_. True"] ends_bind [OF view_getters(3)])
qed

lemma view_changed:
  assumes "agent_view m = v"
  shows "ends (keeps v) (adapter_changed env p info m)" "ends (keeps v) (device_changed env p m)"
proof -
  show "ends (keeps v) (adapter_changed env p info m)"
    unfolding adapter_changed_def Let_def
    using assms
    by (intro ends_bind [where Q = "keeps v"] ends_if ends_bind [where Q = "keeps2 v"] view_getters(1))
      (auto simp: case_prod_unfold)
  show "ends (keeps v) (device_changed env p m)"
    unfolding device_changed_def Let_def
    using assms
    by (intro ends_bind [where Q = "keeps2 v"] view_getters(2)) (auto simp: case_prod_unfold)
qed

lemma view_handlePropertiesChanged:
  assumes "agent_view m = v"
  shows "ends (keeps v) (handlePropertiesChanged env message m)"
proof -
  let ?args = "msg_args (msg_body message)"
  have ofono: "ends (keeps v) (handleOfonoPropertiesChanged env (msg_body message) m)"
  proof (cases ?args)
    case (Cons x xs)
    then show ?thesis
      unfolding handleOfonoPropertiesChanged_def
      using assms by (cases x) (auto intro!: ends_bind_any view_ofono_properties)
  qed (simp add: handleOfonoPropertiesChanged_def assms)
  show ?thesis
  proof (cases "\<exists>path s es ds rest. msg_path (msg_body message) = Some path
      \<and> ?args = DString s # DArray es ds # rest")
    case True
    then show ?thesis
      using assms ofono
      by (auto simp: handlePropertiesChanged_def Let_def intro!: ends_bind_any view_changed)
  next
    case False
    have "ends (keeps v) (case ?args of DString iface_str # iter \<Rightarrow>
        if msg_sender message = Some OFONO_SERVICE_NAME then handleOfonoPropertiesChanged env (msg_body message) m
        else (case iter of DArray _ _ # _ \<Rightarrow> f iface_str iter | _ \<Rightarrow> Inr m) | _ \<Rightarrow> Inr m)"
      if "msg_path (msg_body message) = Some path" for path f
    proof (cases ?args)
      case (Cons x xs)
      with False that assms ofono show ?thesis
      proof (cases x)
        fix t assume x: "x = DString t"
        show ?thesis
        proof (cases xs)
          fix y ys assume "xs = y # ys"
          with x Cons False that assms ofono show ?thesis by (cases y) simp_all
        qed (use x Cons assms ofono in simp)
      qed simp_all
    qed (simp add: assms)
    then show ?thesis
      using assms by (auto simp: handlePropertiesChanged_def Let_def split: option.split)
  qed
qed

lemma bt_dispatch_agent:
  assumes "bt_dispatchMessage env message m = Inr m'"
  shows "agent_view m' = agent_view m \<or> m' = agent_handleMessage env message m"
proof -
  have v: "ends (keeps (agent_view m)) (h env (msg_body message) m)"
    if "h \<in> {handleInterfacesAdded, handleInterfacesRemoved, handleModemAdded, handleModemRemoved,
      handleOfonoPropertyChanged, handleVoiceCallPropertyChanged, handleCallRemoved, handleCallAdded}" for h
    using that view_signal_handlers [OF refl, of m env "msg_body message"] by auto
  have w: "ends (keeps (agent_view m)) (handlePropertiesChanged env message m)"
    by (rule view_handlePropertiesChanged [OF refl])
  show ?thesis
    using assms v w
    by (auto simp: bt_dispatchMessage_def Let_def ends_def bind_result_Inr split: if_splits)
qed

end
