(* ===== verification/HardwareRun.thy ===== *)
theory HardwareRun
  imports HardwareSystem
begin

text \<open>
  The runs of the hardware manager: its main worker and its \<open>BluetoothWorker\<close> exclude each other with
  the mutex of \<open>BluezDBus\<close>, which the main worker holds while it waits for the reply of a call.  The
  call of \<open>Pair\<close> is therefore two steps here, and no message is dispatched between them.
\<close>

section \<open>Steps\<close>

text \<open>
  The inbox is the connection's queue of incoming messages; \<open>arrived\<close> are the serial numbers it has
  seen.  \<open>pairing\<close> is the device whose \<open>Pair\<close> call is under way, and \<open>asked\<close> the request for
  confirmation that BlueZ sent on its behalf.
\<close>

record hm_system =
  mgr :: hardware_mgr
  inbox :: "bus_msg list"
  arrived :: "nat set"
  pairing :: "string option"
  asked :: "nat option"

definition receive_bus :: "bus_msg \<Rightarrow> hm_system \<Rightarrow> hm_system" where
  "receive_bus msg s =
     s\<lparr>inbox := inbox s @ [msg], arrived := insert (msg_serial msg) (arrived s)\<rparr>"

definition pair_call :: "string \<Rightarrow> hardware_mgr \<Rightarrow> method_call" where
  "pair_call a m =
     new_method_call BLUEZ_SERVICE_NAME (deviceAddressToObjectPath a m) BLUEZ_DEVICE_INTERFACE ''Pair'' []"

text \<open>BlueZ's request for the device: a call of the agent's method with the device's path.\<close>

definition confirmation_request :: "string \<Rightarrow> int \<Rightarrow> bus_msg \<Rightarrow> bool" where
  "confirmation_request path passkey msg \<longleftrightarrow>
     is_method_call (msg_body msg) BLUEZ_AGENT_INTERFACE ''RequestConfirmation''
     \<and> msg_path (msg_body msg) = Some HARDWAREMGR_AGENT_OBJECT_PATH
     \<and> msg_args (msg_body msg) = [DObjectPath path, DUInt32 passkey]"

text \<open>
  When the call of \<open>Pair\<close> may end: with an error at any time (libdbus gives up after a while), with a
  reply only once the agent has agreed to the request, if there was one.
\<close>

definition pair_may_end :: "call_result \<Rightarrow> hm_system \<Rightarrow> bool" where
  "pair_may_end r s \<longleftrightarrow>
     (case r of
        Call_reply _ \<Rightarrow>
          (case asked s of
             None \<Rightarrow> True
           | Some q \<Rightarrow> \<exists>b. Method_return b \<in> set (replies (mgr s)) \<and> msg_serial b = q)
      | _ \<Rightarrow> True)"

inductive hm_step :: "hm_env \<Rightarrow> hm_system \<Rightarrow> hm_system \<Rightarrow> bool" for env where
  Arrive: "msg_serial msg \<notin> arrived s \<Longrightarrow> hm_step env s (receive_bus msg s)"
| Dispatch: "pairing s = None \<Longrightarrow> inbox s = msg # rest \<Longrightarrow>
    bt_dispatchMessage env msg (mgr s) = Inr m \<Longrightarrow> hm_step env s (s\<lparr>inbox := rest, mgr := m\<rparr>)"
| Request: "pairing s = None \<Longrightarrow> getEventTypeId e \<noteq> HmEventTypeID.PAIR_BTDEVICE \<Longrightarrow>
    HM_processEvent env e (mgr s) = Inr m \<Longrightarrow> hm_step env s (s\<lparr>mgr := m\<rparr>)"
| Pair_begin: "pairing s = None \<Longrightarrow> hm_step env s (s\<lparr>pairing := Some a, asked := None\<rparr>)"
| Pair_ask: "pairing s = Some a \<Longrightarrow> asked s = None \<Longrightarrow> msg_serial msg \<notin> arrived s \<Longrightarrow>
    confirmation_request (deviceAddressToObjectPath a (mgr s)) passkey msg \<Longrightarrow>
    hm_step env s ((receive_bus msg s)\<lparr>asked := Some (msg_serial msg)\<rparr>)"
| Pair_end: "pairing s = Some a \<Longrightarrow>
    pair_may_end (answers env (created (mgr s)) (pair_call a (mgr s))) s \<Longrightarrow>
    hm_step env s (s\<lparr>mgr := pairDevice env a (mgr s), pairing := None, asked := None\<rparr>)"

inductive_cases hm_stepE: "hm_step env s s'"

definition hm_system_init :: "hardware_mgr \<Rightarrow> hm_system" where
  "hm_system_init m = \<lparr>mgr = m, inbox = [], arrived = {}, pairing = None, asked = None\<rparr>"

definition hm_reachable :: "hm_env \<Rightarrow> hm_system \<Rightarrow> bool" where
  "hm_reachable env s \<longleftrightarrow>
     has_bluez env \<and> (\<exists>m. hardware_start env = Inr m \<and> (hm_step env)\<^sup>*\<^sup>* (hm_system_init m) s)"

section \<open>The agent's requests and replies\<close>

fun replied_to :: "agent_reply \<Rightarrow> bus_msg" where
  "replied_to (Method_return b) = b"
| "replied_to (Error_reply b _ _) = b"

abbreviation reply_serial :: "agent_reply \<Rightarrow> nat" where
  "reply_serial r \<equiv> msg_serial (replied_to r)"

text \<open>
  A request is in the inbox, or pending in the agent under one address, or answered once, or forgotten.
\<close>

definition agent_ok :: "nat list \<Rightarrow> agent_state \<Rightarrow> nat set \<Rightarrow> bool" where
  "agent_ok waiting v known \<longleftrightarrow>
     distinct (waiting @ map reply_serial (snd v))
     \<and> set (waiting @ map reply_serial (snd v)) \<subseteq> known
     \<and> (\<forall>a b. fst v a = Some b \<longrightarrow>
         msg_serial b \<in> known \<and> msg_serial b \<notin> set (waiting @ map reply_serial (snd v)))
     \<and> (\<forall>a a' b b'. fst v a = Some b \<longrightarrow> fst v a' = Some b' \<longrightarrow> msg_serial b = msg_serial b' \<longrightarrow> a = a')"

definition hm_inv :: "hm_system \<Rightarrow> bool" where
  "hm_inv s \<longleftrightarrow>
     agent_ok (map msg_serial (inbox s)) (agent_view (mgr s)) (arrived s)
     \<and> (\<forall>q. asked s = Some q \<longrightarrow> pairing s \<noteq> None \<and> q \<in> msg_serial ` set (inbox s))"

lemma agent_ok_arrive:
  "agent_ok ws v known \<Longrightarrow> n \<notin> known \<Longrightarrow> agent_ok (ws @ [n]) v (insert n known)"
  by (fastforce simp: agent_ok_def)

lemma agent_ok_drop: "agent_ok (n # ws) v known \<Longrightarrow> agent_ok ws v known"
  by (auto simp: agent_ok_def)

lemma agent_ok_reply:
  "agent_ok (msg_serial b # ws) (p, rs) known \<Longrightarrow> replied_to r = b \<Longrightarrow> agent_ok ws (p, rs @ [r]) known"
  by (auto simp: agent_ok_def)

lemma agent_ok_store:
  "agent_ok (msg_serial b # ws) (p, rs) known \<Longrightarrow> agent_ok ws (p(a \<mapsto> b), rs) known"
  unfolding agent_ok_def by (simp split: if_splits) metis

lemma agent_ok_clear: "agent_ok ws (p, rs) known \<Longrightarrow> agent_ok ws (Map.empty, rs) known"
  by (auto simp: agent_ok_def)

lemma agent_ok_forget: "agent_ok ws (p, rs) known \<Longrightarrow> agent_ok ws (p(a := None), rs) known"
  by (auto simp: agent_ok_def)

lemma agent_ok_answer:
  assumes "agent_ok ws (p, rs) known" and "p a = Some b" and "replied_to r = b"
  shows "agent_ok ws (p(a := None), rs @ [r]) known"
proof -
  have "agent_ok (msg_serial b # ws) (p(a := None), rs) known"
    using assms(1,2) unfolding agent_ok_def by (simp split: if_splits) metis
  from agent_ok_reply [OF this assms(3)] show ?thesis .
qed

lemma send_reply_view:
  "agent_view (send_reply env msg r m) =
   (if reply_fails env msg then agent_view m else (fst (agent_view m), snd (agent_view m) @ [r]))"
  by (simp add: send_reply_def agent_view_def)

lemma sendSimpleReply_cases:
  obtains "sendSimpleReply env msg t m = m"
  | r where "replied_to r = msg" and "sendSimpleReply env msg t m = send_reply env msg r m"
proof (cases t)
  case MESSAGE_TYPE_METHOD_RETURN
  then show ?thesis by (intro that(2) [of "Method_return msg"]) (simp_all add: sendSimpleReply_def)
next
  case MESSAGE_TYPE_ERROR
  then show ?thesis
    by (intro that(2) [of "Error_reply msg BLUEZ_ERROR_REJECTED ''Operation rejected''"])
      (simp_all add: sendSimpleReply_def)
qed (use that(1) in \<open>simp_all add: sendSimpleReply_def\<close>)

lemma sendSimpleReply_view:
  "agent_view (sendSimpleReply env msg t m) = agent_view m
   \<or> (\<exists>r. replied_to r = msg \<and> agent_view (sendSimpleReply env msg t m) =
       (fst (agent_view m), snd (agent_view m) @ [r]))"
proof (cases rule: sendSimpleReply_cases [of env msg t m])
  case (2 r)
  then have "agent_view (sendSimpleReply env msg t m) = agent_view m
      \<or> agent_view (sendSimpleReply env msg t m) = (fst (agent_view m), snd (agent_view m) @ [r])"
    by (simp only: send_reply_view) simp
  with 2(1) show ?thesis by blast
qed simp

text \<open>A call of the agent, taken from the inbox, is answered, stored or both or neither.\<close>

lemma agent_ok_handle:
  assumes "agent_ok (msg_serial msg # ws) (agent_view m) known"
  shows "agent_ok ws (agent_view (agent_handleMessage env msg m)) known"
proof -
  obtain p rs where v: "agent_view m = (p, rs)" by fastforce
  have reply: "agent_ok ws (agent_view (sendSimpleReply env msg t m')) known"
    if "agent_ok (msg_serial msg # ws) (agent_view m') known" for t m'
  proof -
    obtain p' rs' where v': "agent_view m' = (p', rs')" by fastforce
    from sendSimpleReply_view [of env msg t m'] show ?thesis
    proof (elim disjE exE conjE)
      assume "agent_view (sendSimpleReply env msg t m') = agent_view m'"
      with agent_ok_drop [OF that] show ?thesis by simp
    next
      fix r assume "replied_to r = msg"
        "agent_view (sendSimpleReply env msg t m') = (fst (agent_view m'), snd (agent_view m') @ [r])"
      with agent_ok_reply [OF that [unfolded v']] show ?thesis by (simp add: v')
    qed
  qed
  have clear: "agent_ok (msg_serial msg # ws) (agent_view (m\<lparr>pendingConfirmations := Map.empty\<rparr>)) known"
    using agent_ok_clear [of _ p rs] assms v by (simp add: agent_view_def)
  have store: "agent_ok ws (agent_view (m\<lparr>pendingConfirmations := (pendingConfirmations m)(a \<mapsto> msg)\<rparr>)) known" for a
    using agent_ok_store [of msg ws p rs] assms v by (simp add: agent_view_def)
  have conf: "agent_ok ws (agent_view (handleRequestConfirmation env msg m)) known"
    using reply [OF assms] store by (simp add: handleRequestConfirmation_def Let_def split: list.split dbus_value.split)
  have auth: "agent_ok ws (agent_view (handleRequestAuthorization env msg m)) known"
    using reply [OF assms] by (simp add: handleRequestAuthorization_def split: list.split dbus_value.split)
  have err: "agent_ok ws (agent_view (send_reply env msg (Error_reply msg e t) m)) known" for e t
    using agent_ok_reply [of msg ws p rs known "Error_reply msg e t"] agent_ok_drop [OF assms] assms
    by (simp add: send_reply_view v)
  show ?thesis
    unfolding agent_handleMessage_def Let_def
    using conf auth err reply [OF assms] reply [OF clear]
    by (simp add: handleRequestPinCode_def handleDisplayPasskey_def handleRelease_def)
qed

lemma agent_ok_confirm:
  assumes "agent_ok ws (agent_view m) known"
  shows "agent_ok ws (agent_view (confirmRequest env a b m)) known"
proof (cases "pendingConfirmations m a")
  case (Some msg)
  let ?m = "m\<lparr>pendingConfirmations := (pendingConfirmations m)(a := None)\<rparr>"
  let ?t = "if b then MESSAGE_TYPE_METHOD_RETURN else MESSAGE_TYPE_ERROR"
  have v: "agent_view m = (pendingConfirmations m, replies m)"
    "agent_view ?m = ((pendingConfirmations m)(a := None), replies m)" by (simp_all add: agent_view_def)
  from sendSimpleReply_view [of env msg ?t ?m]
  have "agent_ok ws (agent_view (sendSimpleReply env msg ?t ?m)) known"
  proof (elim disjE exE conjE)
    assume "agent_view (sendSimpleReply env msg ?t ?m) = agent_view ?m"
    with agent_ok_forget [OF assms [unfolded v], of a] show ?thesis by (simp add: v)
  next
    fix r assume "replied_to r = msg"
      "agent_view (sendSimpleReply env msg ?t ?m) = (fst (agent_view ?m), snd (agent_view ?m) @ [r])"
    with agent_ok_answer [OF assms [unfolded v] Some] show ?thesis by (simp add: v)
  qed
  then show ?thesis by (simp add: confirmRequest_def Some)
qed (simp add: confirmRequest_def assms)

section \<open>The invariant\<close>

lemma hm_inv_step:
  assumes "hm_step env s s'" and "has_bluez env" and "hm_inv s"
  shows "hm_inv s'"
  using assms(1)
proof (cases rule: hm_step.cases)
  case (Arrive msg)
  with assms(3) show ?thesis
    by (auto simp: hm_inv_def receive_bus_def agent_ok_arrive)
next
  case (Dispatch msg rest m)
  then have ok: "agent_ok (msg_serial msg # map msg_serial rest) (agent_view (mgr s)) (arrived s)"
    and "asked s = None"
    using assms(3) by (auto simp: hm_inv_def)
  with bt_dispatch_agent [OF Dispatch(4)] agent_ok_drop [OF ok] agent_ok_handle [OF ok, of env] Dispatch(1)
  show ?thesis by (auto simp: hm_inv_def)
next
  case (Request e m)
  have ok: "agent_ok (map msg_serial (inbox s)) (agent_view (mgr s)) (arrived s)"
    using assms(3) by (simp add: hm_inv_def)
  have "agent_ok (map msg_serial (inbox s)) (agent_view m) (arrived s)"
    using HM_processEvent_agent [OF Request(4) assms(2)] ok agent_ok_confirm [OF ok]
    by (auto split: option.splits prod.splits)
  with Request(1) assms(3) show ?thesis by (simp add: hm_inv_def)
next
  case (Pair_begin a)
  with assms(3) show ?thesis by (simp add: hm_inv_def)
next
  case (Pair_ask a msg passkey)
  with assms(3) show ?thesis by (simp add: hm_inv_def receive_bus_def agent_ok_arrive)
next
  case (Pair_end a)
  with assms(3) show ?thesis by (simp add: hm_inv_def)
qed

lemma hm_inv_init:
  assumes "hardware_start env = Inr m"
  shows "hm_inv (hm_system_init m)"
proof -
  have "ends (keeps (agent_view hardware_mgr_init)) (initializeAdapter env hardware_mgr_init)"
    by (rule view_initializeAdapter [OF refl])
  moreover have "agent_view (registerAgent env c m') = agent_view m'" for c m'
    by (simp add: registerAgent_def send_call_def agent_view_def Let_def)
  ultimately have "agent_view m = agent_view hardware_mgr_init"
    using assms by (auto simp: hardware_start_def bind_result_Inr)
  then show ?thesis
    by (simp add: hm_inv_def hm_system_init_def agent_ok_def agent_view_def hardware_mgr_init_def)
qed

lemma hm_inv_reachable: "hm_reachable env s \<Longrightarrow> hm_inv s"
proof -
  assume "hm_reachable env s"
  then obtain m where m: "hardware_start env = Inr m" and h: "has_bluez env"
    and run: "(hm_step env)\<^sup>*\<^sup>* (hm_system_init m) s"
    by (auto simp: hm_reachable_def)
  from run show "hm_inv s"
    by (induction rule: rtranclp_induct) (use hm_inv_init [OF m] hm_inv_step [OF _ h] in blast)+
qed

text \<open>A \<open>Pair\<close> call that BlueZ asks about can only fail: the request stays in the inbox.\<close>

lemma asked_pair_unanswered:
  assumes "hm_inv s" and "pairing s = Some a" and "asked s = Some q"
    and "pair_may_end r s"
  shows "\<forall>vs. r \<noteq> Call_reply vs" and "q \<in> msg_serial ` set (inbox s)"
    and "q \<notin> set (map reply_serial (replies (mgr s)))"
proof -
  show q: "q \<in> msg_serial ` set (inbox s)" using assms(1,3) by (auto simp: hm_inv_def)
  with assms(1) show nr: "q \<notin> set (map reply_serial (replies (mgr s)))"
    by (auto simp: hm_inv_def agent_ok_def agent_view_def)
  show "\<forall>vs. r \<noteq> Call_reply vs"
  proof (rule allI, rule notI)
    fix vs assume "r = Call_reply vs"
    then obtain b where "Method_return b \<in> set (replies (mgr s))" "msg_serial b = q"
      using assms(3,4) by (auto simp: pair_may_end_def)
    then have "q \<in> set (map reply_serial (replies (mgr s)))" by force
    with nr show False by blast
  qed
qed

end
