(* ===== verification/Thermometer.thy ===== *)
theory Thermometer
  imports HardwareBus
begin

text \<open>
  \<open>hardwaremgr/src/Model/GPIO.cpp\<close> and \<open>Thread/MonitorWorker.cpp\<close>: the thermometer on the one-wire bus
  and the thread that reads it every 30 seconds and tells the core manager, with the \<open>float\<close>
  arithmetic on the way.
\<close>

section \<open>Floating point\<close>

definition float_of_int :: "int \<Rightarrow> float32" where
  "float_of_int n = round32 (of_int n)"

text \<open>Division by a number that is not zero.\<close>

definition float_div :: "float32 \<Rightarrow> rat \<Rightarrow> float32" where
  "float_div a y =
     (case a of
        NaN \<Rightarrow> NaN
      | Infinity s \<Rightarrow> Infinity (s \<noteq> (y < 0))
      | Finite x \<Rightarrow> round32 (x / y))"

text \<open>\<open>std::to_string\<close>: six digits after the point, the exact value rounded.\<close>

fun fixed_digits :: "nat \<Rightarrow> nat \<Rightarrow> string" where
  "fixed_digits 0 n = []"
| "fixed_digits (Suc k) n = fixed_digits k (n div 10) @ [char_of_digit (n mod 10)]"

definition float_to_string :: "float32 \<Rightarrow> string" where
  "float_to_string a =
     (case a of
        NaN \<Rightarrow> ''nan''
      | Infinity s \<Rightarrow> if s then ''-inf'' else ''inf''
      | Finite x \<Rightarrow>
          (let n = nat (round_half_even (\<bar>x\<bar> * 10 ^ 6))
           in (if x < 0 then ''-'' else []) @ nat_to_string (n div 10 ^ 6) @ ''.''
              @ fixed_digits 6 (n mod 10 ^ 6)))"

section \<open>GPIO\<close>

definition W1_DEVICES_PATH :: string where [hm_config]: "W1_DEVICES_PATH = ''/sys/bus/w1/devices/''"
definition W1_SENSOR_PREFIX :: string where [hm_config]: "W1_SENSOR_PREFIX = ''28-''"

text \<open>
  The constructor: the first entry of the directory that is a sensor gives the file, \<open>None\<close> is a
  directory that cannot be opened.
\<close>

definition findSensorFile :: "string list option \<Rightarrow> string" where
  "findSensorFile entries =
     (case entries of
        None \<Rightarrow> []
      | Some names \<Rightarrow>
          (case find (\<lambda>name. take (length W1_SENSOR_PREFIX) name = W1_SENSOR_PREFIX) names of
             Some entryName \<Rightarrow> W1_DEVICES_PATH @ entryName @ ''/w1_slave''
           | None \<Rightarrow> []))"

text \<open>
  \<open>std::getline\<close> on a line and what is left of the stream: at the end of the file (\<open>None\<close>) the line
  stays what it was.
\<close>

definition newline :: char where "newline = CHR 0x0A"

definition getline :: "string \<Rightarrow> string option \<Rightarrow> string \<times> string option" where
  "getline line stream =
     (case stream of
        None \<Rightarrow> (line, None)
      | Some s \<Rightarrow>
          (takeWhile (\<lambda>c. c \<noteq> newline) s,
           case dropWhile (\<lambda>c. c \<noteq> newline) s of [] \<Rightarrow> None | _ # rest \<Rightarrow> Some rest))"

definition readTemperatureSensor ::
    "string \<Rightarrow> (string \<Rightarrow> string option) \<Rightarrow> float32 \<Rightarrow> bool \<times> float32" where
  "readTemperatureSensor sensorFile files temperature =
     (if sensorFile = [] then (False, temperature)
      else case files sensorFile of
             None \<Rightarrow> (False, temperature)
           | Some contents \<Rightarrow>
               (case getline [] (Some contents) of (line, sensorStream) \<Rightarrow>
                  if after_first ''YES'' line = None then (False, temperature)
                  else (case after_first ''t='' (fst (getline line sensorStream)) of
                          None \<Rightarrow> (False, temperature)
                        | Some number \<Rightarrow>
                            (case stoi number of
                               Inl _ \<Rightarrow> (False, temperature)
                             | Inr temp_mC \<Rightarrow> (True, float_div (float_of_int temp_mC) 1000)))))"

section \<open>MonitorWorker\<close>

text \<open>One turn of the loop, after its sleep of \<open>INTERNAL_MONITOR_TEMPERATURE_TIMEOUT_MS\<close>.\<close>

definition temperature_info :: "float32 \<Rightarrow> DBusDataInfo" where
  "temperature_info temperature =
     DBusDataInfo_init(DBUS_DATA_TEMPERATURE_VALUE := float_to_string temperature)"

definition monitor_turn ::
    "hm_env \<Rightarrow> string \<Rightarrow> (string \<Rightarrow> string option) \<Rightarrow> float32 \<times> hardware_mgr \<Rightarrow> float32 \<times> hardware_mgr"
  where
  "monitor_turn env sensorFile files = (\<lambda>(temperature, m).
     case readTemperatureSensor sensorFile files temperature of
       (ret, temperature) \<Rightarrow>
         (temperature,
          hm_notify env DBusCommand.UPDATE_TEMPERATURE_NOTI ret (temperature_info temperature) m))"

section \<open>Rounding of small values\<close>

lemma pow2_mono: "i \<le> j \<Longrightarrow> pow2 i \<le> pow2 j"
proof -
  assume "i \<le> j"
  then consider "0 \<le> i" | "i < 0" "0 \<le> j" | "j < 0" by linarith
  then show ?thesis
  proof cases
    case 1
    with \<open>i \<le> j\<close> show ?thesis by (simp add: pow2_def power_increasing)
  next
    case 2
    then have "1 / 2 ^ nat (- i) \<le> (1 :: rat)" "(1 :: rat) \<le> 2 ^ nat j" by simp_all
    then have "1 / 2 ^ nat (- i) \<le> (2 :: rat) ^ nat j" by linarith
    with 2 show ?thesis by (simp add: pow2_def)
  next
    case 3
    with \<open>i \<le> j\<close> show ?thesis by (simp add: pow2_def frac_le power_increasing)
  qed
qed

lemma pow2_diff_nat: "pow2 (int a - int b) = 2 ^ a / 2 ^ b"
proof (cases "b \<le> a")
  case True
  then have "pow2 (int a - int b) = 2 ^ (a - b)" by (simp add: pow2_def of_nat_diff [symmetric] del: of_nat_diff)
  with True show ?thesis by (simp add: power_diff)
next
  case False
  then have "pow2 (int a - int b) = 1 / 2 ^ (b - a)"
    by (simp add: pow2_def nat_diff_distrib)
  with False show ?thesis by (simp add: power_diff)
qed

lemma rat_exponent_le:
  assumes "0 < x"
  shows "pow2 (rat_exponent x) \<le> x"
proof -
  obtain n d where q: "quotient_of x = (n, d)" by fastforce
  have d: "0 < d" using q by (rule quotient_of_denom_pos)
  have x: "x = of_int n / of_int d" using q by (rule quotient_of_div)
  with assms d have n: "0 < n" by (simp add: zero_less_divide_iff)
  let ?k = "bitlen n - bitlen d"
  have "pow2 (?k - 1) \<le> x"
  proof -
    have bn: "2 ^ nat (bitlen n - 1) \<le> n" and bd: "d < 2 ^ nat (bitlen d)"
      using bitlen_bounds [OF n] bitlen_bounds [OF d] by simp_all
    have "bitlen n - 1 = int (nat (bitlen n - 1))" "bitlen d = int (nat (bitlen d))"
      using bitlen_bounds [OF n] bitlen_nonneg [of d] n by (auto simp: bitlen_def floorlog_def)
    then have "?k - 1 = int (nat (bitlen n - 1)) - int (nat (bitlen d))" by linarith
    then have "pow2 (?k - 1) = 2 ^ nat (bitlen n - 1) / 2 ^ nat (bitlen d)"
      by (simp only: pow2_diff_nat)
    also have "\<dots> \<le> of_int n / of_int d"
    proof (rule frac_le)
      show "(0::rat) \<le> of_int n" "(0::rat) < of_int d" using n d by simp_all
      show "(2::rat) ^ nat (bitlen n - 1) \<le> of_int n"
        using bn by (metis of_int_le_iff of_int_numeral of_int_power)
      show "of_int d \<le> (2::rat) ^ nat (bitlen d)"
        using bd by (metis less_imp_le of_int_le_iff of_int_numeral of_int_power)
    qed
    finally show ?thesis by (simp add: x)
  qed
  then show ?thesis by (simp add: rat_exponent_def q Let_def)
qed

lemma rat_exponent_less:
  assumes "0 < x" and "x < pow2 k"
  shows "rat_exponent x < k"
proof (rule ccontr)
  assume "\<not> rat_exponent x < k"
  then have "pow2 k \<le> pow2 (rat_exponent x)" by (intro pow2_mono) simp
  with rat_exponent_le [OF assms(1)] assms(2) show False by linarith
qed

text \<open>Below 128 a unit in the last place is at most \<open>2^-17\<close>, and every value rounds to a finite one.\<close>

lemma ulp32_small:
  assumes "\<bar>x\<bar> < 128"
  shows "ulp32 x \<le> 1 / 2 ^ 17"
proof -
  have "max (rat_exponent \<bar>x\<bar>) (- 126) - 23 \<le> - 17"
  proof (cases "x = 0")
    case True
    then show ?thesis by (simp add: rat_exponent_def pow2_def bitlen_def floorlog_def)
  next
    case False
    then have "rat_exponent \<bar>x\<bar> < 7"
      by (intro rat_exponent_less) (use assms in \<open>simp_all add: pow2_def\<close>)
    then show ?thesis by simp
  qed
  then have "ulp32 x \<le> pow2 (- 17)" unfolding ulp32_def by (rule pow2_mono)
  then show ?thesis by (simp add: pow2_def)
qed

lemma round32_small:
  assumes "\<bar>x\<bar> < 128"
  shows "\<exists>y. round32 x = Finite y \<and> \<bar>y - x\<bar> \<le> 1 / 262144"
proof -
  have u: "0 < ulp32 x" "ulp32 x \<le> 1 / 2 ^ 17"
    using ulp32_small [OF assms] by (simp_all add: ulp32_def)
  let ?r = "round_half_even (\<bar>x\<bar> / ulp32 x)"
  have "of_int ?r \<le> \<bar>x\<bar> / ulp32 x + 1 / 2"
    using round_half_even_near [of "\<bar>x\<bar> / ulp32 x"] by linarith
  then have "of_int ?r * ulp32 x \<le> (\<bar>x\<bar> / ulp32 x + 1 / 2) * ulp32 x"
    using u by (intro mult_right_mono) simp_all
  also have "\<dots> = \<bar>x\<bar> + ulp32 x / 2" using u by (simp add: distrib_right)
  also have "\<dots> < 2 ^ 128" using assms u by simp
  finally have "\<not> 2 ^ 128 \<le> of_int ?r * ulp32 x" by linarith
  then obtain y where y: "round32 x = Finite y"
    by (cases "x = 0") (simp_all add: round32_def Let_def del: not_le)
  with round32_near [OF y] u(2) show ?thesis by auto
qed

text \<open>Multiples of one half below \<open>2^20\<close> are exact.\<close>

lemma round32_half_exact:
  assumes x: "x = of_int a / 2" and "\<bar>x\<bar> < 2 ^ 20"
  shows "round32 x = Finite x"
proof (cases "x = 0")
  case False
  let ?e = "max (rat_exponent \<bar>x\<bar>) (- 126)"
  have "rat_exponent \<bar>x\<bar> < 20"
    by (rule rat_exponent_less) (use False assms in \<open>simp_all add: pow2_def\<close>)
  then have e: "?e - 23 < 0" "\<exists>j. nat (23 - ?e) = Suc j" by (simp, intro exI [of _ "nat (22 - ?e)"]) auto
  then obtain j where j: "nat (23 - ?e) = Suc j" by blast
  have "\<not> 0 \<le> ?e - 23" "- (?e - 23) = 23 - ?e" using e(1) by simp_all
  then have u: "ulp32 x = 1 / 2 ^ Suc j" unfolding ulp32_def pow2_def by (simp only: if_False j)
  have q: "\<bar>x\<bar> / ulp32 x = of_int (\<bar>a\<bar> * 2 ^ j)" unfolding u by (simp add: x)
  have r: "of_int (round_half_even (\<bar>x\<bar> / ulp32 x)) * ulp32 x = \<bar>x\<bar>"
    unfolding q round_half_even_int unfolding u by (simp add: x)
  have "\<bar>x\<bar> < 2 ^ 128" using assms(2) by simp
  with r False show ?thesis by (simp add: round32_def Let_def)
qed (simp add: round32_def)

section \<open>Writing and reading a number\<close>

definition plain_char :: "char \<Rightarrow> bool" where
  "plain_char c \<longleftrightarrow> digit_of c \<noteq> None \<or> c = CHR ''.''"

lemma plain_char_lower:
  assumes "plain_char c"
  shows "to_lower c = c" and "c \<noteq> CHR ''i''" and "c \<noteq> CHR ''n''" and "c \<noteq> CHR ''x''"
proof -
  have k: "(of_char c :: nat) \<le> 57"
    using assms by (auto simp: plain_char_def digit_of_def Let_def split: if_splits)
  then show "to_lower c = c" by (simp add: to_lower_def Let_def)
  show "c \<noteq> CHR ''i''" "c \<noteq> CHR ''n''" "c \<noteq> CHR ''x''" using k by auto
qed

lemma fixed_digits_facts:
  "list_all (\<lambda>c. digit_of c \<noteq> None) (fixed_digits k n)" "length (fixed_digits k n) = k"
  by (induction k arbitrary: n) auto

lemma scan_fixed_digits: "scan_digits acc (fixed_digits k n) = acc * 10 ^ k + n mod 10 ^ k"
proof (induction k arbitrary: n)
  case (Suc k)
  have "n mod (10 * 10 ^ k) = 10 * (n div 10 mod 10 ^ k) + n mod 10"
    by (rule mod_mult2_eq)
  then show ?case
    by (simp add: scan_digits_append [OF fixed_digits_facts(1)] Suc.IH algebra_simps)
qed simp

lemma span_digits_append:
  "list_all (\<lambda>c. digit_of c \<noteq> None) xs \<Longrightarrow>
   span_digits digit_of 10 acc k (xs @ ys) = span_digits digit_of 10 (scan_digits acc xs) (k + length xs) ys"
  by (induction xs arbitrary: acc k) auto

definition six_places :: "nat \<Rightarrow> string" where
  "six_places n = nat_to_string (n div 10 ^ 6) @ ''.'' @ fixed_digits 6 (n mod 10 ^ 6)"

lemma digit_of_dot [simp]: "digit_of CHR ''.'' = None"
  by (simp add: digit_of_def)

lemma six_places_chars: "list_all plain_char (six_places n)"
  using nat_to_string_digits [of "n div 10 ^ 6"] fixed_digits_facts(1) [of 6 "n mod 10 ^ 6"]
  by (auto simp: six_places_def plain_char_def list_all_iff)

lemma c_str_float_to_string: "c_str (float_to_string (Finite x)) = float_to_string (Finite x)"
proof -
  let ?n = "nat (round_half_even (\<bar>x\<bar> * 10 ^ 6))"
  have t: "float_to_string (Finite x) = (if x < 0 then ''-'' else []) @ six_places ?n"
    by (simp only: float_to_string_def six_places_def Let_def float32.case)
  have "\<not> plain_char CHR 0x00" by (simp add: plain_char_def digit_of_def)
  then have "CHR 0x00 \<notin> set (six_places ?n)"
    using six_places_chars [of ?n] by (auto simp: list_all_iff)
  then have "CHR 0x00 \<notin> set (float_to_string (Finite x))" unfolding t by simp
  then show ?thesis by (rule c_str_id)
qed

lemma scan_mantissa_six_places: "scan_mantissa digit_of 10 (six_places n) = Some (n, 6, [])"
proof -
  let ?a = "nat_to_string (n div 10 ^ 6)" and ?b = "fixed_digits 6 (n mod 10 ^ 6)"
  have a: "span_digits digit_of 10 0 0 (?a @ CHR ''.'' # ?b) = (n div 10 ^ 6, length ?a, CHR ''.'' # ?b)"
    by (simp only: span_digits_append [OF nat_to_string_digits] scan_nat_to_string) simp
  have "span_digits digit_of 10 (n div 10 ^ 6) 0 (?b @ []) = (n, 6, [])"
    unfolding span_digits_append [OF fixed_digits_facts(1)] scan_fixed_digits fixed_digits_facts(2)
    by simp
  then have b: "span_digits digit_of 10 (n div 10 ^ 6) 0 ?b = (n, 6, [])" by simp
  show ?thesis
    unfolding scan_mantissa_def six_places_def append_Cons append_Nil a prod.case list.case
    by (simp only: if_True b prod.case) simp
qed

lemma take_notin: "x \<notin> set s \<Longrightarrow> x \<in> set pat \<Longrightarrow> take n s \<noteq> pat"
  by (metis in_set_takeD)

lemma scan_number_six_places: "scan_number (six_places n) = Some (Finite (of_nat n / 10 ^ 6))"
proof -
  have p: "plain_char c" if "c \<in> set (six_places n)" for c
    using that six_places_chars [of n] by (auto simp: list_all_iff)
  have l: "map to_lower (six_places n) = six_places n"
    by (rule map_idI) (rule plain_char_lower(1) [OF p])
  have ne: "take 3 (six_places n) \<noteq> ''inf''" "take 3 (six_places n) \<noteq> ''nan''"
      "take 2 (six_places n) \<noteq> ''0x''"
    by (rule take_notin [where x = "CHR ''i''"], use p plain_char_lower(2) in \<open>blast, simp\<close>)
      (rule take_notin [where x = "CHR ''n''"], use p plain_char_lower(3) in \<open>blast, simp\<close>,
       rule take_notin [where x = "CHR ''x''"], use p plain_char_lower(4) in \<open>blast, simp\<close>)
  have e: "of_nat n * scale 10 (scan_exponent CHR ''e'' [] - int 6) = of_nat n / 10 ^ 6"
    by (simp add: scan_exponent_def scale_def)
  show ?thesis
    unfolding scan_number_def Let_def l by (simp only: ne if_False scan_mantissa_six_places option.case prod.case e)
qed

lemma six_places_Cons:
  obtains d ds where "six_places n = char_of_digit d # ds" and "d < 10"
proof -
  obtain d ds where "nat_to_string (n div 10 ^ 6) = char_of_digit d # ds" "d < 10"
    by (rule nat_to_string_Cons)
  then show ?thesis by (intro that [of d "ds @ ''.'' @ fixed_digits 6 (n mod 10 ^ 6)"]) (simp_all add: six_places_def)
qed

text \<open>What \<open>stof\<close> makes of such a number with a sign: the value, rounded to a \<open>float\<close>.\<close>

lemma stof_six_places:
  assumes "round32 (if neg then - (of_nat n / 10 ^ 6) else of_nat n / 10 ^ 6) = Finite y"
    and "pow2 (- 126) \<le> \<bar>y\<bar> \<or> \<bar>y\<bar> = of_nat n / 10 ^ 6"
  shows "stof ((if neg then ''-'' else []) @ six_places n) = Inr (Finite y)"
proof -
  obtain d ds where s: "six_places n = char_of_digit d # ds" and d: "d < 10" by (rule six_places_Cons)
  have "dropWhile is_space ((if neg then ''-'' else []) @ six_places n) = (if neg then ''-'' else []) @ six_places n"
    using d by (simp add: s)
  moreover have "split_sign ((if neg then ''-'' else []) @ six_places n) = (neg, six_places n)"
    using d by (simp add: s split_sign_def char_of_digit_neq)
  ultimately show ?thesis
    using assms by (auto simp: stof_def scan_number_six_places)
qed

section \<open>From the sensor to a degree\<close>

text \<open>A value near one that is no integer is truncated to the same integer.\<close>

lemma truncate_between:
  assumes "of_int f < w" and "w < of_int f + 1"
  shows "Prelude.truncate w = (if 0 \<le> f then f else f + 1)"
proof (cases "0 \<le> f")
  case True
  then have "0 \<le> w" using assms(1) by (meson less_imp_le of_int_0_le_iff order_trans)
  moreover have "\<lfloor>w\<rfloor> = f" using assms by (intro floor_unique) simp_all
  ultimately show ?thesis using True by (simp add: Prelude.truncate_def)
next
  case False
  then have "f + 1 \<le> 0" by simp
  then have "of_int (f + 1) \<le> (0 :: rat)" by (simp only: of_int_le_0_iff)
  then have "of_int f + 1 \<le> (0 :: rat)" by simp
  then have "\<not> 0 \<le> w" using assms(2) by linarith
  moreover have "\<lfloor>- w\<rfloor> = - f - 1" using assms by (intro floor_unique) simp_all
  ultimately show ?thesis using False by (simp add: Prelude.truncate_def)
qed

definition shown_degree :: "int \<Rightarrow> int" where
  "shown_degree n = (if - 500 \<le> n then (n + 500) div 1000 else - ((- n - 500) div 1000))"

lemma truncate_near_degree:
  fixes n :: int
  assumes "w = of_int (n + 500) / 1000
    \<or> (n + 500) mod 1000 \<noteq> 0 \<and> \<bar>w - of_int (n + 500) / 1000\<bar> < 1 / 1000"
  shows "Prelude.truncate w = shown_degree n"
proof -
  let ?s = "of_int (n + 500) / 1000 :: rat"
  have s: "Prelude.truncate ?s = shown_degree n"
  proof -
    have "\<lfloor>?s\<rfloor> = (n + 500) div 1000" using floor_divide_of_int_eq [of "n + 500" 1000] by simp
    moreover have "\<lfloor>- ?s\<rfloor> = (- n - 500) div 1000"
    proof -
      have "- ?s = of_int (- n - 500) / of_int 1000"
        by (simp add: add_divide_distrib diff_divide_distrib)
      then show ?thesis by (simp only: floor_divide_of_int_eq)
    qed
    moreover have "0 \<le> ?s \<longleftrightarrow> - 500 \<le> n" by (simp add: zero_le_divide_iff) linarith
    ultimately show ?thesis by (simp add: Prelude.truncate_def shown_degree_def)
  qed
  show ?thesis
  proof (cases "w = ?s")
    case False
    let ?f = "(n + 500) div 1000" and ?r = "(n + 500) mod 1000"
    from False assms have r: "1 \<le> ?r" "?r \<le> 999" and w: "\<bar>w - ?s\<bar> < 1 / 1000"
      using pos_mod_bound [of 1000 "n + 500"] pos_mod_sign [of 1000 "n + 500"] by auto
    have e: "?s = of_int ?f + of_int ?r / 1000"
    proof -
      have "?s = of_int (?f * 1000 + ?r) / 1000" by (simp only: div_mult_mod_eq)
      also have "\<dots> = of_int ?f + of_int ?r / 1000"
        by (simp only: of_int_add of_int_mult of_int_numeral add_divide_distrib
          nonzero_mult_div_cancel_right zero_neq_numeral not_False_eq_True)
      finally show ?thesis .
    qed
    have "(1 :: rat) \<le> of_int ?r" "of_int ?r \<le> (999 :: rat)" using r by simp_all
    then have "of_int ?f < w" "w < of_int ?f + 1" "of_int ?f < ?s" "?s < of_int ?f + 1"
      using w unfolding e by linarith+
    with s show ?thesis by (simp only: truncate_between)
  next
    case True
    then show ?thesis by (simp only: s)
  qed
qed

text \<open>Every rounding on the way is near, and exact on multiples of one half.\<close>

lemma round32_near_half:
  assumes "\<bar>v\<bar> < 128"
  shows "\<exists>r. round32 v = Finite r \<and> \<bar>r - v\<bar> \<le> 1 / 262144 \<and> (\<forall>j. v = of_int j / 2 \<longrightarrow> r = v)"
proof -
  have "\<bar>v\<bar> < 2 ^ 20" by (rule less_trans [OF assms]) simp
  then have "round32 v = Finite v" if "v = of_int j / 2" for j
    using round32_half_exact [OF that] by simp
  with round32_small [OF assms] show ?thesis by (metis float32.inject(1))
qed

lemma text_number:
  assumes "\<bar>x\<bar> \<le> 126" and "x = 0 \<or> 1 / 1500 \<le> \<bar>x\<bar>"
  shows "\<exists>y. stof (float_to_string (Finite x)) = Inr (Finite y) \<and> \<bar>y - x\<bar> \<le> 1 / 200000
    \<and> (\<forall>j. x = of_int j / 2 \<longrightarrow> y = x)"
proof -
  define N where "N = nat (round_half_even (\<bar>x\<bar> * 10 ^ 6))"
  define z where "z = (if x < 0 then - (of_nat N / 10 ^ 6) else of_nat N / 10 ^ 6 :: rat)"
  have z: "\<bar>z\<bar> = of_nat N / 10 ^ 6" by (simp add: z_def)
  have t: "float_to_string (Finite x) = (if x < 0 then ''-'' else []) @ six_places N"
    by (simp only: float_to_string_def six_places_def N_def Let_def float32.case)
  have int: "of_nat N = (of_int (round_half_even (\<bar>x\<bar> * 10 ^ 6)) :: rat)"
    unfolding N_def round_half_even_def Let_def by (auto simp: le_floor_iff)
  have "\<bar>of_nat N - \<bar>x\<bar> * 10 ^ 6\<bar> \<le> 1 / 2"
    unfolding int by (rule round_half_even_near)
  then have nz: "\<bar>z - x\<bar> \<le> 1 / 2000000" by (auto simp: z_def abs_if split: if_splits)
  then have "\<bar>z\<bar> < 128" using assms(1) unfolding abs_le_iff abs_less_iff by linarith
  from round32_near_half [OF this] obtain y where y: "round32 z = Finite y"
    and ny: "\<bar>y - z\<bar> \<le> 1 / 262144" and ey: "\<And>j. z = of_int j / 2 \<Longrightarrow> y = z" by blast
  have half: "y = x" if x: "x = of_int j / 2" for j
  proof -
    have "\<bar>x\<bar> * 10 ^ 6 = of_int (\<bar>j\<bar> * 500000)" by (simp add: x)
    then have "of_nat N = \<bar>x\<bar> * 10 ^ 6" unfolding int by (simp only: round_half_even_int)
    then have "z = x" by (simp add: z_def)
    with ey [of j] x show ?thesis by simp
  qed
  have "pow2 (- 126) \<le> \<bar>y\<bar> \<or> \<bar>y\<bar> = of_nat N / 10 ^ 6"
  proof (cases "x = 0")
    case True
    with half [of 0] have "y = 0" by simp
    moreover have "N = 0" using True by (simp add: N_def round_half_even_def)
    ultimately show ?thesis by simp
  next
    case False
    with assms(2) nz ny have "1 / 2000 \<le> \<bar>y\<bar>" by linarith
    moreover have "pow2 (- 126) \<le> pow2 (- 11)" by (rule pow2_mono) simp
    ultimately show ?thesis by (simp add: pow2_def)
  qed
  with y have "stof (float_to_string (Finite x)) = Inr (Finite y)"
    unfolding t by (intro stof_six_places) (simp_all only: z_def)
  moreover have "\<bar>y - x\<bar> \<le> 1 / 200000" using nz ny unfolding abs_le_iff by linarith
  ultimately show ?thesis using half by blast
qed

text \<open>
  The whole way of a reading of \<open>n\<close> thousandths of a degree, in the range of the sensor: division,
  text, number, one half added and truncated.
\<close>

lemma degree_chain:
  fixes n :: int
  assumes "\<bar>n\<bar> \<le> 125000"
  shows "\<exists>x y w. float_div (float_of_int n) 1000 = Finite x
    \<and> stof (float_to_string (Finite x)) = Inr (Finite y)
    \<and> float_add (Finite y) (Finite (1 / 2)) = Finite w
    \<and> Prelude.truncate w = shown_degree n"
proof -
  let ?q = "of_int n / 1000 :: rat"
  have b: "\<bar>of_int n :: rat\<bar> \<le> 125000" using assms by (metis of_int_abs of_int_le_iff of_int_numeral)
  then have q: "\<bar>?q\<bar> \<le> 125" by simp
  have exact: "float_of_int n = Finite (of_int n)" unfolding float_of_int_def
    by (rule round32_half_exact [where a = "2 * n"]) (use b in auto)
  have "\<bar>?q\<bar> < 128" using q by linarith
  from round32_near_half [OF this] obtain x where x: "round32 ?q = Finite x"
    and nx: "\<bar>x - ?q\<bar> \<le> 1 / 262144" and ex: "\<And>j. ?q = of_int j / 2 \<Longrightarrow> x = ?q" by blast
  have "\<bar>x\<bar> \<le> 126" using q nx unfolding abs_le_iff by linarith
  moreover have "x = 0 \<or> 1 / 1500 \<le> \<bar>x\<bar>"
  proof (cases "n = 0")
    case False
    then have "1 \<le> \<bar>n\<bar>" by simp
    then have "(1 :: rat) \<le> \<bar>of_int n\<bar>" by (metis of_int_1 of_int_abs of_int_le_iff)
    then have "1 / 1000 \<le> \<bar>?q\<bar>" by simp
    with nx show ?thesis by linarith
  qed (use ex [of 0] in simp)
  ultimately obtain y where y: "stof (float_to_string (Finite x)) = Inr (Finite y)"
    and ny: "\<bar>y - x\<bar> \<le> 1 / 200000" and ey: "\<And>j. x = of_int j / 2 \<Longrightarrow> y = x"
    using text_number by blast
  have "\<bar>y + 1 / 2\<bar> < 128" using q nx ny unfolding abs_le_iff abs_less_iff by linarith
  from round32_near_half [OF this] obtain w where w: "round32 (y + 1 / 2) = Finite w"
    and nw: "\<bar>w - (y + 1 / 2)\<bar> \<le> 1 / 262144"
    and ew: "\<And>j. y + 1 / 2 = of_int j / 2 \<Longrightarrow> w = y + 1 / 2" by blast
  have s: "?q + 1 / 2 = of_int (n + 500) / 1000" by (simp add: add_divide_distrib)
  have near: "\<bar>w - of_int (n + 500) / 1000\<bar> < 1 / 1000"
    unfolding s [symmetric] using nx ny nw unfolding abs_le_iff abs_less_iff by linarith
  have tie: "w = of_int (n + 500) / 1000" if "(n + 500) mod 1000 = 0"
  proof -
    from that obtain k where "n + 500 = 1000 * k" by (metis mod_0_imp_dvd dvdE)
    then have "n = 500 * (2 * k - 1)" by simp
    then have qj: "?q = of_int (2 * k - 1) / 2" by simp
    have yq: "y = ?q" using ex [OF qj] ey [of "2 * k - 1"] qj by simp
    have "?q + 1 / 2 = of_int (2 * k) / 2" unfolding qj by (simp add: diff_divide_distrib)
    with ew [of "2 * k"] show ?thesis by (simp only: yq s)
  qed
  have "Prelude.truncate w = shown_degree n"
    by (rule truncate_near_degree) (cases "(n + 500) mod 1000 = 0", simp_all only: tie near simp_thms)
  then show ?thesis using x y w by (auto simp: exact float_div_def float_add_def)
qed

end
