(* ===== verification/HardwareFacts.thy ===== *)
theory HardwareFacts
  imports HardwareRun Thermometer
begin

text \<open>
  What the hardware manager's operations achieve: the commands that reach it, the notifications an
  operation makes, addresses and object paths, and the reading of the thermometer's file.
\<close>

section \<open>Commands\<close>

text \<open>The event each of the core manager's messages is to become.\<close>

definition hardware_event :: "DBusCommand \<Rightarrow> string \<Rightarrow> string \<Rightarrow> HmEventTypeID Event option" where
  "hardware_event cmd address number =
     (let device = Some (BluetoothDeviceAddressPayload address) in
      case cmd of
        DBusCommand.INITIALIZE_BLUETOOTH \<Rightarrow> Some (make_Event HmEventTypeID.INITIALIZE_BLUETOOTH None)
      | DBusCommand.START_SCAN_BTDEVICE \<Rightarrow> Some (make_Event HmEventTypeID.START_SCAN_BTDEVICE None)
      | DBusCommand.STOP_SCAN_BTDEVICE \<Rightarrow> Some (make_Event HmEventTypeID.STOP_SCAN_BTDEVICE None)
      | DBusCommand.BLUETOOTH_POWER_ON \<Rightarrow> Some (make_Event HmEventTypeID.BLUETOOTH_POWER_ON None)
      | DBusCommand.BLUETOOTH_POWER_OFF \<Rightarrow> Some (make_Event HmEventTypeID.BLUETOOTH_POWER_OFF None)
      | DBusCommand.HANGUP_CALL \<Rightarrow> Some (make_Event HmEventTypeID.HANGUP_CALL None)
      | DBusCommand.ANSWER_CALL \<Rightarrow> Some (make_Event HmEventTypeID.ANSWER_CALL None)
      | DBusCommand.PAIR_BTDEVICE \<Rightarrow> Some (make_Event HmEventTypeID.PAIR_BTDEVICE device)
      | DBusCommand.UNPAIR_BTDEVICE \<Rightarrow> Some (make_Event HmEventTypeID.UNPAIR_BTDEVICE device)
      | DBusCommand.CONNECT_BTDEVICE \<Rightarrow> Some (make_Event HmEventTypeID.CONNECT_BTDEVICE device)
      | DBusCommand.DISCONNECT_BTDEVICE \<Rightarrow> Some (make_Event HmEventTypeID.DISCONNECT_BTDEVICE device)
      | DBusCommand.REJECT_REQUEST_CONFIRMATION \<Rightarrow>
          Some (make_Event HmEventTypeID.REJECT_REQUEST_CONFIRMATION device)
      | DBusCommand.ACCEPT_REQUEST_CONFIRMATION \<Rightarrow>
          Some (make_Event HmEventTypeID.ACCEPT_REQUEST_CONFIRMATION device)
      | DBusCommand.DIAL_CALL \<Rightarrow>
          Some (make_Event HmEventTypeID.DIAL_CALL (Some (CallPayload [] number [])))
      | _ \<Rightarrow> None)"

definition hm_queue_event ::
    "HmEventTypeID Event option \<Rightarrow> HmEventTypeID EventQueue \<Rightarrow> HmEventTypeID EventQueue" where
  "hm_queue_event e q = (case e of Some x \<Rightarrow> snd (pushEvent (Some x) q) | None \<Rightarrow> q)"

section \<open>Notifications\<close>

type_synonym noti = "DBusCommand \<times> bool \<times> DBusDataInfo"

definition notify_one_noti :: "hm_env \<Rightarrow> noti \<Rightarrow> dbus_sender \<Rightarrow> dbus_sender" where
  "notify_one_noti env n s =
     (case n of (cmd, ok, info) \<Rightarrow> snd (sendMessageNoti (hm_faults env) HM_makeMsgNoti cmd ok info s))"

text \<open>The notifications an operation tries to send, in order.\<close>

definition notified :: "hm_env \<Rightarrow> noti list \<Rightarrow> hardware_mgr \<Rightarrow> hardware_mgr \<Rightarrow> bool" where
  "notified env ns m m' \<longleftrightarrow> hm_sender m' = fold (notify_one_noti env) ns (hm_sender m)"

lemma notified_nil: "hm_sender m' = hm_sender m \<Longrightarrow> notified env [] m m'"
  by (simp add: notified_def)

lemma notified_notify: "notified env ns m m1 \<Longrightarrow> notified env (ns @ [(cmd, ok, info)]) m (hm_notify env cmd ok info m1)"
  by (simp add: notified_def hm_notify_def notify_one_noti_def)

lemma notified_trans: "notified env ns m m1 \<Longrightarrow> notified env ns' m1 m2 \<Longrightarrow> notified env (ns @ ns') m m2"
  by (simp add: notified_def)

text \<open>With a connection and no faults, what is tried is what is sent.\<close>

definition hm_noti :: "noti \<Rightarrow> dbus_msg" where
  "hm_noti n =
     (case n of (cmd, ok, info) \<Rightarrow>
        noti_msg (getObjectPath core_config) (getInterfaceName core_config) (getSignalName core_config)
          cmd ok info)"

lemma send_one:
  assumes "conn s" and "F (attempts s) = no_faults" and "cmd \<in> set HM_notifications"
  shows "snd (sendMessageNoti F HM_makeMsgNoti cmd ok info s) =
    s\<lparr>attempts := Suc (attempts s), sent := sent s @ [hm_noti (cmd, ok, info)]\<rparr>"
  using assms(1,2) isMsgValid_noti_msg
  by (simp add: sendMessageNoti_def sendMessageInternal_def HM_makeMsgNoti_offered [OF assms(3)]
      makeMsgNotiInternal_no_faults hm_noti_def Let_def del: config_simps)
    (simp add: no_faults_def)

lemma sent_notified:
  assumes "notified env ns m m'" and "conn (hm_sender m)" and "\<forall>k. hm_faults env k = no_faults"
    and "\<forall>(cmd, ok, info) \<in> set ns. cmd \<in> set HM_notifications"
  shows "sent (hm_sender m') = sent (hm_sender m) @ map hm_noti ns"
proof -
  have "sent (fold (notify_one_noti env) ns s) = sent s @ map hm_noti ns" if "conn s" for s
    using assms(4) that
  proof (induction ns arbitrary: s)
    case (Cons n ns)
    obtain cmd ok info where n: "n = (cmd, ok, info)" by (cases n)
    with Cons.prems have "cmd \<in> set HM_notifications" by simp
    from send_one [of s "hm_faults env", OF Cons.prems(2) _ this] assms(3) Cons n show ?case
      by (simp add: notify_one_noti_def)
  qed simp
  with assms(1,2) show ?thesis by (simp add: notified_def)
qed

section \<open>Call history\<close>

definition history_noti :: "string \<Rightarrow> noti \<Rightarrow> bool" where
  "history_noti type n \<longleftrightarrow>
     (case n of (cmd, ok, info) \<Rightarrow>
        cmd = DBusCommand.CALL_HISTORY_PULL_NOTI \<and> ok \<and> info DBUS_DATA_CALL_HISTORY_TYPE = type
        \<and> info DBUS_DATA_CALL_HISTORY_NUMBER \<noteq> [] \<and> info DBUS_DATA_CALL_HISTORY_NAME \<noteq> [])"

lemma call_method_sender: "call_method env c m = (r, m') \<Longrightarrow> hm_sender m' = hm_sender m"
  using call_method_frame by blast

lemma parse_entries_inv:
  assumes "parse_entries f vs p = Inr p'" and "P p" and "\<And>k v p. P p \<Longrightarrow> P (f k v p)"
  shows "P p'"
  using assms(1,2)
proof (induction vs arbitrary: p)
  case (Cons v vs)
  then show ?case by (cases v) (auto simp: bind_result_Inr assms(3))
qed simp

lemma history_property_type:
  "snd p DBUS_DATA_CALL_HISTORY_TYPE = t \<Longrightarrow> snd (history_property k v p) DBUS_DATA_CALL_HISTORY_TYPE = t"
  by (cases p) (auto simp: history_property_def split: option.split)

lemma callDetails_noti:
  assumes "getOfonoCallDetails env p type m = Inr m'"
  shows "\<exists>ns. notified env ns m m' \<and> length ns \<le> 1 \<and> list_all (history_noti type) ns"
proof -
  let ?c = "new_method_call OFONO_SERVICE_NAME p DBUS_PROPERTIES_INTERFACE ''GetAll'' [DString ''org.ofono.Call'']"
  obtain r m1 where c: "call_method env ?c m = (r, m1)" by fastforce
  have none: "notified env [] m m1" by (rule notified_nil [OF call_method_sender [OF c]])
  show ?thesis
  proof (cases r)
    case (Call_reply iter)
    from assms obtain vs number info where
      p: "parse_entries history_property vs ([], DBusDataInfo_init(DBUS_DATA_CALL_HISTORY_TYPE := type))
        = Inr (number, info)"
      and m': "m' = (if info DBUS_DATA_CALL_HISTORY_NUMBER \<noteq> []
        then hm_notify env DBusCommand.CALL_HISTORY_PULL_NOTI True
          (info(DBUS_DATA_CALL_HISTORY_NAME :=
              (if findNameByNumber number m1 = [] then ''Unknown'' else findNameByNumber number m1),
            DBUS_DATA_MESSAGE := ''New call history item pulled.'')) m1
        else m1)"
      by (auto simp: getOfonoCallDetails_def c Call_reply bind_result_Inr Let_def)
    have "info DBUS_DATA_CALL_HISTORY_TYPE = type"
      using parse_entries_inv [OF p, of "\<lambda>q. snd q DBUS_DATA_CALL_HISTORY_TYPE = type"]
      by (simp add: history_property_type)
    then show ?thesis
      using notified_notify [OF none] none unfolding m'
      by (cases "info DBUS_DATA_CALL_HISTORY_NUMBER = []")
        (fastforce simp: history_noti_def intro: exI [of _ "[]"])+
  qed (use assms c none in \<open>auto simp: getOfonoCallDetails_def intro!: exI [of _ "[]"]\<close>)
qed

lemma history_items_Cons:
  assumes "history_items env type n (v # vs) m = Inr m'"
  shows "m' = m \<or> Suc n \<le> max_history_items
    \<and> (history_items env type (Suc n) vs m = Inr m'
       \<or> (\<exists>p m1. getOfonoCallDetails env p type m = Inr m1 \<and> history_items env type (Suc n) vs m1 = Inr m'))"
proof (cases v)
  case (DStruct xs)
  show ?thesis
  proof (cases xs)
    case Nil
    with assms DStruct show ?thesis by (simp split: if_splits)
  next
    fix x ys assume "xs = x # ys"
    with assms DStruct show ?thesis
      by (cases x) (simp_all add: bind_result_Inr not_less split: if_splits, blast)
  qed
qed (use assms in simp_all)

text \<open>One kind of calls: at most fifty of them.\<close>

lemma history_items_noti:
  assumes "history_items env type n vs m = Inr m'" and "n \<le> max_history_items"
  shows "\<exists>ns. notified env ns m m' \<and> length ns \<le> max_history_items - n \<and> list_all (history_noti type) ns"
  using assms
proof (induction vs arbitrary: n m)
  case Nil
  then show ?case by (auto intro!: exI [of _ "[]"] notified_nil)
next
  case (Cons v vs)
  from history_items_Cons [OF Cons.prems(1)]
  consider (stop) "m' = m" | (skip) "history_items env type (Suc n) vs m = Inr m'" "Suc n \<le> max_history_items"
    | (item) p m1 where "getOfonoCallDetails env p type m = Inr m1"
        "history_items env type (Suc n) vs m1 = Inr m'" "Suc n \<le> max_history_items"
    by blast
  then show ?case
  proof cases
    case stop
    then show ?thesis by (auto intro!: exI [of _ "[]"] notified_nil)
  next
    case skip
    from Cons.IH [OF this] show ?thesis by (meson diff_le_mono2 le_SucI le_trans order_refl)
  next
    case item
    obtain ns1 where 1: "notified env ns1 m m1" "length ns1 \<le> 1" "list_all (history_noti type) ns1"
      using callDetails_noti [OF item(1)] by blast
    obtain ns2 where 2: "notified env ns2 m1 m'" "length ns2 \<le> max_history_items - Suc n"
      "list_all (history_noti type) ns2"
      using Cons.IH [OF item(2,3)] by blast
    have "length (ns1 @ ns2) \<le> max_history_items - n" using 1(2) 2(2) item(3) by simp
    with notified_trans [OF 1(1) 2(1)] 1(3) 2(3) show ?thesis by (intro exI [of _ "ns1 @ ns2"]) simp
  qed
qed

lemma callHistory_noti:
  assumes "getOfonoCallHistory env p type m = Inr m'"
  shows "\<exists>ns. notified env ns m m' \<and> length ns \<le> max_history_items \<and> list_all (history_noti type) ns"
proof -
  let ?c = "new_method_call OFONO_SERVICE_NAME p OFONO_CALL_HISTORY_INTERFACE ''GetHistory'' [DString type]"
  obtain r m1 where c: "call_method env ?c m = (r, m1)" by fastforce
  have none: "notified env [] m m1" by (rule notified_nil [OF call_method_sender [OF c]])
  show ?thesis
  proof (cases r)
    case (Call_reply iter)
    with assms c obtain vs where h: "history_items env type 0 vs m1 = Inr m'"
      by (auto simp: getOfonoCallHistory_def bind_result_Inr)
    from history_items_noti [OF h] notified_trans [OF none] show ?thesis by auto
  qed (use assms c none in \<open>auto simp: getOfonoCallHistory_def intro!: exI [of _ "[]"]\<close>)
qed

definition history_start :: noti where
  "history_start =
     (DBusCommand.CALL_HISTORY_PULL_START_NOTI, True,
      hm_info ''Starting call history sync. Clear existing history.'')"

definition history_end :: noti where
  "history_end = (DBusCommand.CALL_HISTORY_PULL_END_NOTI, True, hm_info ''Call history sync complete.'')"

lemma syncHistory_noti:
  assumes "syncAllOfonoCallHistory env p m = Inr m'"
  shows "\<exists>ds rs ms. notified env (history_start # ds @ rs @ ms @ [history_end]) m m'
    \<and> length ds \<le> max_history_items \<and> list_all (history_noti ''dialed'') ds
    \<and> length rs \<le> max_history_items \<and> list_all (history_noti ''received'') rs
    \<and> length ms \<le> max_history_items \<and> list_all (history_noti ''missed'') ms"
proof -
  let ?m0 = "hm_notify env DBusCommand.CALL_HISTORY_PULL_START_NOTI True
    (hm_info ''Starting call history sync. Clear existing history.'') m"
  have 0: "notified env [history_start] m ?m0"
    using notified_notify [OF notified_nil [OF refl]] by (simp add: history_start_def)
  from assms obtain m1 m2 m3 where "getOfonoCallHistory env p ''dialed'' ?m0 = Inr m1"
    "getOfonoCallHistory env p ''received'' m1 = Inr m2" "getOfonoCallHistory env p ''missed'' m2 = Inr m3"
    and m': "m' = hm_notify env DBusCommand.CALL_HISTORY_PULL_END_NOTI True (hm_info ''Call history sync complete.'') m3"
    by (auto simp: syncAllOfonoCallHistory_def Let_def bind_result_Inr)
  from this(1-3) [THEN callHistory_noti] obtain ds rs ms where
    "notified env ds ?m0 m1" "notified env rs m1 m2" "notified env ms m2 m3"
    and b: "length ds \<le> max_history_items" "list_all (history_noti ''dialed'') ds"
      "length rs \<le> max_history_items" "list_all (history_noti ''received'') rs"
      "length ms \<le> max_history_items" "list_all (history_noti ''missed'') ms" by blast
  from notified_trans [OF notified_trans [OF notified_trans [OF 0 this(1)] this(2)] this(3)]
  have "notified env (history_start # ds @ rs @ ms) m m3" by simp
  from notified_notify [OF this, of DBusCommand.CALL_HISTORY_PULL_END_NOTI True "hm_info ''Call history sync complete.''"]
  have "notified env (history_start # ds @ rs @ ms @ [history_end]) m m'"
    by (simp add: m' history_end_def)
  with b show ?thesis by blast
qed

section \<open>Addresses\<close>

lemma after_last_notin:
  "p \<in> set pat \<Longrightarrow> p \<notin> set s \<Longrightarrow> after_last pat s = None"
proof (induction s)
  case (Cons c s)
  from Cons.prems have "take (length pat) (c # s) \<noteq> pat" by (intro take_notin)
  with Cons show ?case by auto
qed auto

lemma after_last_append:
  "after_last pat ys = Some r \<Longrightarrow> after_last pat (xs @ ys) = Some r"
  by (induction xs) auto

lemma after_last_dev:
  assumes "CHR ''v'' \<notin> set t"
  shows "after_last ''dev_'' (p @ ''/dev_'' @ t) = Some t"
proof -
  have "after_last ''dev_'' t = None" by (rule after_last_notin [OF _ assms]) simp
  then have "after_last ''dev_'' (''/dev_'' @ t) = Some t" by simp
  then show ?thesis by (rule after_last_append)
qed

lemma after_first_dev:
  assumes "CHR ''v'' \<notin> set p"
  shows "after_first ''dev_'' (p @ ''/dev_'' @ t) = Some t"
  using assms
proof (induction p)
  case (Cons c p)
  have "take (length ''dev_'') (c # (p @ ''/dev_'' @ t)) \<noteq> ''dev_''"
  proof
    assume "take (length ''dev_'') (c # (p @ ''/dev_'' @ t)) = ''dev_''"
    with Cons.prems show False
      by (cases p; cases "tl p"; cases "tl (tl p)") (auto simp: numeral_eq_Suc)
  qed
  then have "after_first ''dev_'' (c # (p @ ''/dev_'' @ t)) = after_first ''dev_'' (p @ ''/dev_'' @ t)"
    by (simp only: after_first.simps if_False)
  also have "\<dots> = Some t" using Cons.prems by (intro Cons.IH) simp
  finally show ?case unfolding append_Cons .
qed simp

lemma replace_char_back:
  "b \<notin> set s \<Longrightarrow> replace_char b a (replace_char a b s) = s"
  by (induction s) (auto simp: replace_char_def)

lemma set_replace_char: "x \<in> set (replace_char a b s) \<Longrightarrow> x = b \<or> x \<in> set s"
  by (auto simp: replace_char_def split: if_splits)

text \<open>An address such as \<open>AA:BB:CC:DD:EE:FF\<close>: not empty, no underscore and no \<open>v\<close>.\<close>

definition device_address :: "string \<Rightarrow> bool" where
  "device_address a \<longleftrightarrow> a \<noteq> [] \<and> CHR ''_'' \<notin> set a \<and> CHR ''v'' \<notin> set a"

lemma path_address:
  assumes "device_address a"
  shows "after_last ''dev_'' (deviceAddressToObjectPath a m) = Some (replace_char CHR '':'' CHR ''_'' a)"
    and "CHR ''v'' \<notin> set (adapterPath m) \<Longrightarrow>
      after_first ''dev_'' (deviceAddressToObjectPath a m) = Some (replace_char CHR '':'' CHR ''_'' a)"
    and "replace_char CHR ''_'' CHR '':'' (replace_char CHR '':'' CHR ''_'' a) = a"
proof -
  have "CHR ''v'' \<notin> set (replace_char CHR '':'' CHR ''_'' a)"
    using assms by (auto simp: device_address_def dest: set_replace_char)
  then show "after_last ''dev_'' (deviceAddressToObjectPath a m) = Some (replace_char CHR '':'' CHR ''_'' a)"
    unfolding deviceAddressToObjectPath_def by (rule after_last_dev)
  show "after_first ''dev_'' (deviceAddressToObjectPath a m) = Some (replace_char CHR '':'' CHR ''_'' a)"
    if "CHR ''v'' \<notin> set (adapterPath m)"
    unfolding deviceAddressToObjectPath_def by (rule after_first_dev [OF that])
  show "replace_char CHR ''_'' CHR '':'' (replace_char CHR '':'' CHR ''_'' a) = a"
    using assms by (intro replace_char_back) (simp add: device_address_def)
qed

section \<open>Failing requests\<close>

text \<open>The notification that answers each request of the core manager.\<close>

definition answer_noti :: "HmEventTypeID Event \<Rightarrow> DBusCommand option" where
  "answer_noti e =
     (case (getEventTypeId e, getPayload e) of
        (HmEventTypeID.START_SCAN_BTDEVICE, _) \<Rightarrow> Some DBusCommand.START_SCAN_BTDEVICE_NOTI
      | (HmEventTypeID.STOP_SCAN_BTDEVICE, _) \<Rightarrow> Some DBusCommand.STOP_SCAN_BTDEVICE_NOTI
      | (HmEventTypeID.BLUETOOTH_POWER_ON, _) \<Rightarrow> Some DBusCommand.BLUETOOTH_POWER_ON_NOTI
      | (HmEventTypeID.BLUETOOTH_POWER_OFF, _) \<Rightarrow> Some DBusCommand.BLUETOOTH_POWER_OFF_NOTI
      | (HmEventTypeID.HANGUP_CALL, _) \<Rightarrow> Some DBusCommand.HANGUP_CALL_NOTI
      | (HmEventTypeID.ANSWER_CALL, _) \<Rightarrow> Some DBusCommand.ANSWER_CALL_NOTI
      | (HmEventTypeID.PAIR_BTDEVICE, Some (BluetoothDeviceAddressPayload _)) \<Rightarrow>
          Some DBusCommand.PAIR_BTDEVICE_NOTI
      | (HmEventTypeID.UNPAIR_BTDEVICE, Some (BluetoothDeviceAddressPayload _)) \<Rightarrow>
          Some DBusCommand.UNPAIR_BTDEVICE_NOTI
      | (HmEventTypeID.CONNECT_BTDEVICE, Some (BluetoothDeviceAddressPayload _)) \<Rightarrow>
          Some DBusCommand.CONNECT_BTDEVICE_NOTI
      | (HmEventTypeID.DISCONNECT_BTDEVICE, Some (BluetoothDeviceAddressPayload _)) \<Rightarrow>
          Some DBusCommand.DISCONNECT_BTDEVICE_NOTI
      | (HmEventTypeID.DIAL_CALL, Some (CallPayload _ _ _)) \<Rightarrow> Some DBusCommand.DIAL_CALL_NOTI
      | _ \<Rightarrow> None)"

definition reports ::
    "hm_env \<Rightarrow> DBusCommand \<Rightarrow> (DBusDataInfo \<Rightarrow> bool) \<Rightarrow> hardware_mgr \<Rightarrow> hardware_mgr \<Rightarrow> bool" where
  "reports env cmd P m m' \<longleftrightarrow> (\<exists>info. P info \<and> notified env [(cmd, False, info)] m m')"

lemma reports_notify:
  "P info \<Longrightarrow> hm_sender m1 = hm_sender m \<Longrightarrow> reports env cmd P m (hm_notify env cmd False info m1)"
  using notified_notify [OF notified_nil, of m1 m env cmd False info] by (auto simp: reports_def)

text \<open>While BlueZ and oFono answer every call with an error.\<close>

definition bus_down :: "hm_env \<Rightarrow> bool" where
  "bus_down env \<longleftrightarrow> (\<forall>n c. \<exists>e. answers env n c = Call_error e)"

lemma bus_down_call:
  assumes "bus_down env"
  obtains e m' where "call_method env c m = (Call_error e, m')" and "hm_sender m' = hm_sender m"
    and "adapterPath m' = adapterPath m"
proof -
  obtain r m' where c: "call_method env c m = (r, m')" by fastforce
  obtain e where "answers env (created m) c = Call_error e"
    using assms unfolding bus_down_def by blast
  with call_method_frame [OF c] c show ?thesis by (intro that [of e m']) simp_all
qed

lemma reports_call:
  assumes "bus_down env" and "\<And>e m1. hm_sender m1 = hm_sender m \<Longrightarrow> reports env cmd P m (g (Call_error e) m1)"
  shows "reports env cmd P m (case call_method env c m of (r, m1) \<Rightarrow> g r m1)"
proof -
  obtain e m1 where "call_method env c m = (Call_error e, m1)" "hm_sender m1 = hm_sender m"
    by (rule bus_down_call [OF assms(1)])
  with assms(2) show ?thesis by simp
qed

definition about_device :: "string \<Rightarrow> DBusDataInfo \<Rightarrow> bool" where
  "about_device a info \<longleftrightarrow> info DBUS_DATA_BT_DEVICE_ADDRESS = a"

lemma down_requests:
  assumes "bus_down env"
  shows "reports env DBusCommand.START_SCAN_BTDEVICE_NOTI (\<lambda>_. True) m (startDiscovery env m)"
    "reports env DBusCommand.STOP_SCAN_BTDEVICE_NOTI (\<lambda>_. True) m (stopDiscovery env m)"
    "reports env (if b then DBusCommand.BLUETOOTH_POWER_ON_NOTI else DBusCommand.BLUETOOTH_POWER_OFF_NOTI)
       (\<lambda>_. True) m (setPower env b m)"
    "reports env DBusCommand.PAIR_BTDEVICE_NOTI (about_device a) m (pairDevice env a m)"
    "reports env DBusCommand.CONNECT_BTDEVICE_NOTI (about_device a) m (connectDevice env a m)"
    "reports env DBusCommand.DISCONNECT_BTDEVICE_NOTI (about_device a) m (disconnectDevice env a m)"
    "reports env DBusCommand.DIAL_CALL_NOTI (\<lambda>_. True) m (ofono_dialCall env n m)"
    "modemPath m \<noteq> [] \<Longrightarrow> reports env DBusCommand.HANGUP_CALL_NOTI (\<lambda>_. True) m (ofono_hangupCall env m)"
  unfolding startDiscovery_def stopDiscovery_def setPower_def pairDevice_def connectDevice_def
    disconnectDevice_def ofono_dialCall_def ofono_hangupCall_def
  by (auto intro!: reports_call [OF assms] reports_notify simp: about_device_def address_info_def)

lemma down_unpair:
  assumes "bus_down env"
  shows "\<exists>m'. unpairDevice env a m = Inr m' \<and> reports env DBusCommand.UNPAIR_BTDEVICE_NOTI (about_device a) m m'"
proof -
  have "\<exists>m1. getAllDeviceProperties env p m = Inr (DBusDataInfo_init, m1) \<and> hm_sender m1 = hm_sender m" for p
  proof -
    obtain e m1 where "call_method env
        (new_method_call BLUEZ_SERVICE_NAME p DBUS_PROPERTIES_INTERFACE ''GetAll'' [DString BLUEZ_DEVICE_INTERFACE]) m
        = (Call_error e, m1)" "hm_sender m1 = hm_sender m"
      by (rule bus_down_call [OF assms])
    then show ?thesis by (simp add: getAllDeviceProperties_def)
  qed
  then obtain m1 where p: "getAllDeviceProperties env (deviceAddressToObjectPath a m) m = Inr (DBusDataInfo_init, m1)"
    and s1: "hm_sender m1 = hm_sender m" by blast
  obtain e m2 where c: "call_method env
      (new_method_call BLUEZ_SERVICE_NAME (adapterPath m1) BLUEZ_ADAPTER_INTERFACE ''RemoveDevice''
        [DObjectPath (c_str (deviceAddressToObjectPath a m))]) m1 = (Call_error e, m2)"
    and s2: "hm_sender m2 = hm_sender m1"
    by (rule bus_down_call [OF assms])
  show ?thesis
    unfolding unpairDevice_def Let_def p
    by (simp add: c) (rule reports_notify, simp_all add: about_device_def address_info_def s1 s2)
qed

lemma down_answer:
  assumes "bus_down env"
  shows "\<exists>m'. ofono_answerCall env m = Inr m' \<and> reports env DBusCommand.ANSWER_CALL_NOTI (\<lambda>_. True) m m'"
proof -
  have find: "\<exists>m1. find_incoming env ps k = Inr ([], m1) \<and> hm_sender m1 = hm_sender k" for ps k
  proof (induction ps arbitrary: k)
    case (Cons p ps)
    obtain e k1 where "call_method env
        (new_method_call OFONO_SERVICE_NAME p DBUS_PROPERTIES_INTERFACE ''GetAll'' [DString OFONO_VOICECALL_INTERFACE]) k
        = (Call_error e, k1)" "hm_sender k1 = hm_sender k"
      by (rule bus_down_call [OF assms])
    with Cons [of k1] show ?case by (simp add: getVoiceCallProperties_def)
  qed simp
  obtain m1 where "find_incoming env (sorted_list_of_set (activeCallPaths m)) m = Inr ([], m1)"
    and "hm_sender m1 = hm_sender m" using find by blast
  then show ?thesis
    by (auto simp: ofono_answerCall_def intro!: reports_notify)
qed

section \<open>Found devices\<close>

text \<open>The 16-bit range of \<open>dbus_int16_t\<close>.\<close>

definition int16_entries :: "dbus_value list \<Rightarrow> bool" where
  "int16_entries vs \<longleftrightarrow>
     list_all (\<lambda>e. case e of DDictEntry _ (DVariant (DInt16 n)) \<Rightarrow> - 32768 \<le> n \<and> n < 32768 | _ \<Rightarrow> True) vs"

lemma device_rssi:
  assumes "parse_entries device_property vs info = Inr info'" and "int16_entries vs"
    and "\<exists>n. int32 n \<and> info DBUS_DATA_BT_DEVICE_RSSI = int_to_string n"
    and "list_all (\<lambda>v. type_code v = ''{sv}'') vs"
  shows "\<exists>n. int32 n \<and> info' DBUS_DATA_BT_DEVICE_RSSI = int_to_string n"
  using assms
proof (induction vs arbitrary: info)
  case (Cons v vs)
  then obtain k w where v: "v = DDictEntry (DString k) (DVariant w)" by (auto dest: type_codeD(5))
  have "\<exists>n. int32 n \<and> device_property k [w] info DBUS_DATA_BT_DEVICE_RSSI = int_to_string n"
  proof (cases w)
    case (DInt16 n)
    then have "int32 n" using Cons.prems(2) v by (simp add: int16_entries_def int32_def INT32_MIN_def INT32_MAX_def)
    with DInt16 Cons.prems(3) show ?thesis by (auto simp: device_property_def)
  qed (use Cons.prems(3) in \<open>auto simp: device_property_def\<close>)
  with Cons v show ?case
    by (auto simp: get_string_def recurse_def int16_entries_def)
qed simp

section \<open>The thermometer's file\<close>

text \<open>
  What the driver writes: a line that says whether the checksum is right, and a line that ends with the
  temperature in thousandths of a degree.
\<close>

definition sensor_text :: "string \<Rightarrow> string \<Rightarrow> int \<Rightarrow> string \<Rightarrow> string" where
  "sensor_text line1 bytes n rest =
     line1 @ [newline] @ bytes @ ''t='' @ int_to_string n @ [newline] @ rest"

lemma after_first_prefix:
  "CHR ''t'' \<notin> set p \<Longrightarrow> after_first ''t='' (p @ ''t='' @ s) = Some s"
proof (induction p)
  case (Cons c p)
  then have "take (length ''t='') (c # (p @ ''t='' @ s)) \<noteq> ''t=''" by auto
  then have "after_first ''t='' (c # (p @ ''t='' @ s)) = after_first ''t='' (p @ ''t='' @ s)"
    by (simp only: after_first.simps if_False)
  also have "\<dots> = Some s" using Cons by simp
  finally show ?case unfolding append_Cons .
qed simp

lemma int_to_string_no_newline: "newline \<notin> set (int_to_string n)"
proof
  assume "newline \<in> set (int_to_string n)"
  then have "newline \<in> set (nat_to_string (nat \<bar>n\<bar>))"
    by (auto simp: int_to_string_def newline_def split: if_splits)
  with nat_to_string_digits [of "nat \<bar>n\<bar>"] show False
    by (auto simp: list_all_iff newline_def digit_of_def)
qed

lemma getline_append: "newline \<notin> set l \<Longrightarrow> getline x (Some (l @ [newline] @ rest)) = (l, Some rest)"
proof -
  assume l: "newline \<notin> set l"
  have "takeWhile (\<lambda>c. c \<noteq> newline) (l @ newline # rest) = l" "dropWhile (\<lambda>c. c \<noteq> newline) (l @ newline # rest) = newline # rest"
    using l by (induction l) auto
  then show ?thesis by (simp add: getline_def)
qed

lemma read_sensor_text:
  assumes "sensorFile \<noteq> []" and "files sensorFile = Some (sensor_text line1 bytes n rest)"
    and "newline \<notin> set line1" and "after_first ''YES'' line1 \<noteq> None"
    and "newline \<notin> set bytes" and "CHR ''t'' \<notin> set bytes" and "int32 n"
  shows "readTemperatureSensor sensorFile files t = (True, float_div (float_of_int n) 1000)"
proof -
  have 1: "getline [] (Some (sensor_text line1 bytes n rest)) =
      (line1, Some (bytes @ ''t='' @ int_to_string n @ [newline] @ rest))"
    unfolding sensor_text_def by (rule getline_append [OF assms(3)])
  have nl: "newline \<notin> set (bytes @ ''t='' @ int_to_string n)"
    using assms(5) int_to_string_no_newline by (auto simp: newline_def)
  have 2: "getline line1 (Some (bytes @ ''t='' @ int_to_string n @ [newline] @ rest)) =
      (bytes @ ''t='' @ int_to_string n, Some rest)"
    using getline_append [OF nl, of line1 rest] by simp
  show ?thesis
    unfolding readTemperatureSensor_def assms(2) option.case 1 prod.case 2 fst_conv
      after_first_prefix [OF assms(6)] stoi_int_to_string [OF assms(7)]
    using assms(1,4) by simp
qed

end
