(* ===== verification/HardwareInstances.thy ===== *)
theory HardwareInstances
  imports HardwareFacts
begin

text \<open>
  A BlueZ and an oFono for the hardware manager's witnesses: an adapter, a phone with one call in each
  history, a \<open>Pair\<close> call that is never replied to; and two services that answer every call with an error.
\<close>

definition plain_objects :: dbus_value where
  "plain_objects =
     DArray ''{oa{sa{sv}}}''
       [DDictEntry (DObjectPath ''/org/bluez/hci0'')
          (DArray ''{sa{sv}}'' [DDictEntry (DString BLUEZ_ADAPTER_INTERFACE) (DArray ''{sv}'' [])])]"

definition plain_properties :: dbus_value where
  "plain_properties =
     DArray ''{sv}'' [DDictEntry (DString ''LineIdentification'') (DVariant (DString ''0123''))]"

definition plain_history :: dbus_value where
  "plain_history = DArray ''(oa{sv})'' [DStruct [DObjectPath ''/call/1'', DArray ''{sv}'' []]]"

definition plain_answer :: "nat \<Rightarrow> method_call \<Rightarrow> call_result" where
  "plain_answer n c =
     (if call_member c = ''GetManagedObjects'' then Call_reply [plain_objects]
      else if call_member c = ''GetHistory'' then Call_reply [plain_history]
      else if call_member c = ''GetAll'' \<or> call_member c = ''GetProperties''
      then Call_reply [plain_properties]
      else if call_member c = ''Pair'' then Call_error ''Did not receive a reply''
      else Call_reply [])"

definition plain_hm_env :: hm_env where
  "plain_hm_env =
     \<lparr>hm_faults = (\<lambda>_. no_faults), answers = plain_answer, append_fails = (\<lambda>_. False),
      reply_fails = (\<lambda>_. False), match_error = (\<lambda>_. None), has_bluez = True, has_ofono = True,
      has_agent = True\<rparr>"

definition down_hm_env :: hm_env where
  "down_hm_env = plain_hm_env\<lparr>answers := (\<lambda>_ _. Call_error ''down'')\<rparr>"

lemma plain_hm_env_simps [simp]:
  "hm_faults plain_hm_env k = no_faults" "answers plain_hm_env n c = plain_answer n c"
  "reply_fails plain_hm_env msg \<longleftrightarrow> False" "match_error plain_hm_env r = None"
  "append_fails plain_hm_env n \<longleftrightarrow> False"
  "has_bluez plain_hm_env" "has_ofono plain_hm_env" "has_agent plain_hm_env"
  "bus_down down_hm_env" "has_bluez down_hm_env" "has_ofono down_hm_env"
  by (simp_all add: plain_hm_env_def down_hm_env_def bus_down_def)

lemma plain_typed: "typed_answers plain_hm_env"
  by (auto simp: typed_answers_def typed_reply_def plain_answer_def plain_objects_def plain_history_def
      plain_properties_def dict_paths_at_def paths_at_def split: if_splits)

definition found_message :: "int \<Rightarrow> bus_msg" where
  "found_message rssi =
     \<lparr>msg_serial = 1, msg_sender = Some '':1.1'',
      msg_body = \<lparr>msg_type = MESSAGE_TYPE_SIGNAL, msg_path = Some ''/'',
        msg_interface = Some DBUS_OBJECT_MANAGER_INTERFACE, msg_member = Some ''InterfacesAdded'',
        msg_args = [DObjectPath ''/org/bluez/hci0/dev_AA'',
          DArray ''{sa{sv}}'' [DDictEntry (DString BLUEZ_DEVICE_INTERFACE)
            (DArray ''{sv}'' [DDictEntry (DString ''Address'') (DVariant (DString ''AA'')),
                            DDictEntry (DString ''RSSI'') (DVariant (DInt16 rssi))])]]\<rparr>\<rparr>"

lemma found_typed: "typed_message (found_message n)"
  by (simp add: typed_message_def found_message_def signal_types_def dict_paths_at_def paths_at_def)

definition asking_message :: "string \<Rightarrow> int \<Rightarrow> bus_msg" where
  "asking_message path passkey =
     \<lparr>msg_serial = 7, msg_sender = Some '':1.1'',
      msg_body = \<lparr>msg_type = MESSAGE_TYPE_METHOD_CALL, msg_path = Some HARDWAREMGR_AGENT_OBJECT_PATH,
        msg_interface = Some BLUEZ_AGENT_INTERFACE, msg_member = Some ''RequestConfirmation'',
        msg_args = [DObjectPath path, DUInt32 passkey]\<rparr>\<rparr>"

lemma asking_request: "confirmation_request path k (asking_message path k)"
  by (simp add: confirmation_request_def asking_message_def is_method_call_def)

lemma plain_rules: "\<exists>m. fold_result (addMatchRule plain_hm_env) rs m' = Inr m"
  by (induction rs arbitrary: m') (simp_all add: addMatchRule_def)

lemma plain_managed:
  "parseManagedObjects plain_hm_env [plain_objects] m = Inr (True, m\<lparr>adapterPath := ''/org/bluez/hci0''\<rparr>)"
  by (simp add: parseManagedObjects_def plain_objects_def managed_adapter_def parseAdapterProperties_def
      recurse_def DBusDataInfo_init_def Let_def)

lemma plain_start: "\<exists>m. hardware_start plain_hm_env = Inr m"
proof -
  define c where "c = new_method_call BLUEZ_SERVICE_NAME ''/'' DBUS_OBJECT_MANAGER_INTERFACE
    ''GetManagedObjects'' []"
  have "plain_answer n c = Call_reply [plain_objects]" for n
    by (simp add: plain_answer_def c_def new_method_call_def)
  then obtain m1 where c: "call_method plain_hm_env c hardware_mgr_init = (Call_reply [plain_objects], m1)"
    and i: "\<not> isInitialized m1"
    by (simp add: call_method_def Let_def hardware_mgr_init_def)
  obtain m2 where "fold_result (addMatchRule plain_hm_env) initial_rules
      (m1\<lparr>adapterPath := ''/org/bluez/hci0''\<rparr>) = Inr m2"
    using plain_rules by blast
  with c i show ?thesis
    by (simp add: hardware_start_def initializeAdapter_def c_def [symmetric] plain_managed)
qed

end
