(* ===== verification/Timer.thy ===== *)
theory Timer
  imports EventQueue
begin

text \<open>
  \<open>coremgr/src/Thread/Timer.cpp\<close>: the table of running timers, the allocation of timer ids, and the
  turn of the timer thread that pushes the events of the expired timers.  Times are nanoseconds of
  the steady clock.
\<close>

record 'e TimerElement =
  timerId :: int
  timeout_ms :: int
  expireTime :: int
  timer_event :: "'e Event option"

text \<open>
  \<open>timerTableMap\<close> is an unordered map: a list of keyed elements whose order means nothing.
  \<open>nextTimerId\<close> is the static variable of \<open>createNewTimerId\<close>, and \<open>has_queue\<close> tells whether
  \<open>SetEventQueue\<close> was called.
\<close>

record 'e Timer =
  timerTableMap :: "(int \<times> 'e TimerElement) list"
  nextTimerId :: int
  has_queue :: bool

definition Timer_init :: "'e Timer" where
  "Timer_init = \<lparr>timerTableMap = [], nextTimerId = 1, has_queue = False\<rparr>"

definition INTERNAL_SLEEP_TIMEOUT_MS :: int where "INTERNAL_SLEEP_TIMEOUT_MS = 2500"

definition ns_of_ms :: "int \<Rightarrow> int" where "ns_of_ms ms = ms * 1000000"

definition SetEventQueue :: "'e Timer \<Rightarrow> 'e Timer" where
  "SetEventQueue t = t\<lparr>has_queue := True\<rparr>"

section \<open>Timer ids\<close>

text \<open>The loop that looks for an id that is not in use; it may not end, hence the option.\<close>

definition succ_id :: "int \<Rightarrow> int" where
  "succ_id n = (if n + 1 = INT32_MAX then 1 else n + 1)"

partial_function (option) next_free :: "(int \<times> 'x) list \<Rightarrow> int \<Rightarrow> int option" where
  "next_free tbl n = (if map_of tbl n \<noteq> None then next_free tbl (succ_id n) else Some n)"

definition createNewTimerId :: "'e Timer \<Rightarrow> (int \<times> 'e Timer) option" where
  "createNewTimerId t =
     (if int (length (timerTableMap t)) \<ge> INT32_MAX - 1 then Some (- 1, t)
      else let n = (if nextTimerId t = INT32_MAX then 1 else nextTimerId t)
           in case next_free (timerTableMap t) n of
                None \<Rightarrow> None
              | Some newTimerId \<Rightarrow> Some (newTimerId, t\<lparr>nextTimerId := newTimerId\<rparr>))"

section \<open>Starting and stopping\<close>

text \<open>\<open>now\<close> is what the steady clock shows; the result of the outer option is the loop's.\<close>

definition makeNewTimerElement ::
    "int \<Rightarrow> int \<Rightarrow> 'e Event option \<Rightarrow> 'e Timer \<Rightarrow> ('e TimerElement option \<times> 'e Timer) option" where
  "makeNewTimerElement now ms event t =
     (case createNewTimerId t of
        None \<Rightarrow> None
      | Some (i, t) \<Rightarrow>
          if i = - 1 then Some (None, t)
          else Some (Some \<lparr>timerId = i, timeout_ms = ms, expireTime = now + ns_of_ms ms,
                           timer_event = event\<rparr>, t))"

definition startTimer ::
    "int \<Rightarrow> int \<Rightarrow> 'e Event option \<Rightarrow> 'e Timer \<Rightarrow> (int \<times> 'e Timer) option" where
  "startTimer now ms event t =
     (if \<not> has_queue t then Some (- 1, t)
      else case makeNewTimerElement now ms event t of
             None \<Rightarrow> None
           | Some (None, t) \<Rightarrow> Some (- 1, t)
           | Some (Some e, t) \<Rightarrow>
               Some (timerId e,
                 if map_of (timerTableMap t) (timerId e) \<noteq> None then t
                 else t\<lparr>timerTableMap := (timerId e, e) # timerTableMap t\<rparr>))"

definition stopTimer :: "int \<Rightarrow> 'e Timer \<Rightarrow> bool \<times> 'e Timer" where
  "stopTimer i t =
     (if map_of (timerTableMap t) i \<noteq> None
      then (True, t\<lparr>timerTableMap := AList.delete i (timerTableMap t)\<rparr>)
      else (False, t))"

section \<open>The timer thread\<close>

definition is_expired :: "int \<Rightarrow> int \<times> 'e TimerElement \<Rightarrow> bool" where
  "is_expired now p = (expireTime (snd p) \<le> now)"

text \<open>\<open>excuteIfExpiredExistAndUpdateTimerElements\<close>: first the table, then the pushes.\<close>

definition excuteIfExpired ::
    "int \<Rightarrow> 'e Timer \<times> 'e EventQueue \<Rightarrow> 'e Timer \<times> 'e EventQueue" where
  "excuteIfExpired currentTime tq =
     (case tq of (t, q) \<Rightarrow>
        let expired = map snd (filter (is_expired currentTime) (timerTableMap t));
            t = t\<lparr>timerTableMap := filter (\<lambda>p. \<not> is_expired currentTime p) (timerTableMap t)\<rparr>
        in (t, fold (\<lambda>e q. if has_queue t \<and> timer_event e \<noteq> None
                           then snd (pushEvent (timer_event e) q) else q) expired q))"

text \<open>\<open>sleepForNextItem\<close>: until when the thread waits if nothing wakes it earlier.\<close>

definition sleepForNextItem :: "int \<Rightarrow> 'e Timer \<Rightarrow> int" where
  "sleepForNextItem currentTime t =
     (let defaultTimeout = currentTime + ns_of_ms INTERNAL_SLEEP_TIMEOUT_MS
      in case timerTableMap t of
           [] \<Rightarrow> defaultTimeout
         | p # ps \<Rightarrow>
             (let nextItemTimeout =
                fold (\<lambda>p m. if expireTime (snd p) < m then expireTime (snd p) else m) (p # ps)
                  (expireTime (snd p))
              in if nextItemTimeout > defaultTimeout then defaultTimeout else nextItemTimeout))"

text \<open>One turn of \<open>threadFunction\<close>: the new state and when the thread sleeps until.\<close>

definition timer_turn ::
    "int \<Rightarrow> 'e Timer \<times> 'e EventQueue \<Rightarrow> ('e Timer \<times> 'e EventQueue) \<times> int" where
  "timer_turn currentTime tq =
     (let tq = (if timerTableMap (fst tq) \<noteq> [] then excuteIfExpired currentTime tq else tq)
      in (tq, sleepForNextItem currentTime (fst tq)))"

section \<open>The allocation ends and is fresh\<close>

definition timer_inv :: "'e Timer \<Rightarrow> bool" where
  "timer_inv t \<longleftrightarrow>
     distinct (map fst (timerTableMap t))
     \<and> (\<forall>(i, e) \<in> set (timerTableMap t). 1 \<le> i \<and> i < INT32_MAX \<and> timerId e = i)
     \<and> 1 \<le> nextTimerId t \<and> nextTimerId t < INT32_MAX"

lemma timer_inv_init: "timer_inv Timer_init"
  by (simp add: timer_inv_def Timer_init_def INT32_MAX_def)

lemma succ_id_range: "1 \<le> n \<Longrightarrow> n < INT32_MAX \<Longrightarrow> 1 \<le> succ_id n \<and> succ_id n < INT32_MAX"
  by (auto simp: succ_id_def INT32_MAX_def)

text \<open>The \<open>k\<close>-th candidate after \<open>n\<close>.\<close>

definition cyc :: "int \<Rightarrow> nat \<Rightarrow> int" where
  "cyc n k = (n - 1 + int k) mod (INT32_MAX - 1) + 1"

lemma cyc_0: "1 \<le> n \<Longrightarrow> n < INT32_MAX \<Longrightarrow> cyc n 0 = n"
  by (simp add: cyc_def INT32_MAX_def)

lemma cyc_Suc: "1 \<le> n \<Longrightarrow> n < INT32_MAX \<Longrightarrow> cyc n (Suc k) = cyc (succ_id n) k"
proof -
  assume n: "1 \<le> n" "n < INT32_MAX"
  show ?thesis
  proof (cases "n + 1 = INT32_MAX")
    case True
    then have "n - 1 + int (Suc k) = int k + (INT32_MAX - 1)" by simp
    then have "cyc n (Suc k) = int k mod (INT32_MAX - 1) + 1"
      unfolding cyc_def by (simp only: mod_add_self2)
    with True show ?thesis by (simp add: cyc_def succ_id_def)
  next
    case False
    then show ?thesis by (simp add: cyc_def succ_id_def algebra_simps)
  qed
qed

lemma next_free_cyc:
  "1 \<le> n \<Longrightarrow> n < INT32_MAX \<Longrightarrow> map_of tbl (cyc n k) = None \<Longrightarrow> (\<And>j. j < k \<Longrightarrow> map_of tbl (cyc n j) \<noteq> None)
   \<Longrightarrow> next_free tbl n = Some (cyc n k)"
proof (induction k arbitrary: n)
  case 0
  then show ?case by (subst next_free.simps) (simp add: cyc_0)
next
  case (Suc k)
  have "map_of tbl n \<noteq> None" using Suc.prems(4) [of 0] by (simp add: cyc_0 Suc.prems)
  moreover have "next_free tbl (succ_id n) = Some (cyc (succ_id n) k)"
  proof (rule Suc.IH)
    show "map_of tbl (cyc (succ_id n) k) = None"
      using Suc.prems by (simp add: cyc_Suc)
    show "map_of tbl (cyc (succ_id n) j) \<noteq> None" if "j < k" for j
      using Suc.prems(4) [of "Suc j"] that by (simp add: cyc_Suc Suc.prems)
  qed (use succ_id_range Suc.prems in auto)
  ultimately show ?case by (subst next_free.simps) (simp add: cyc_Suc Suc.prems)
qed

lemma cyc_onto:
  assumes "1 \<le> m" "m < INT32_MAX" "1 \<le> n" "n < INT32_MAX"
  shows "\<exists>k. cyc n k = m"
proof -
  let ?k = "nat ((m - n) mod (INT32_MAX - 1))"
  have "(n - 1 + (m - n) mod (INT32_MAX - 1)) mod (INT32_MAX - 1) = (n - 1 + (m - n)) mod (INT32_MAX - 1)"
    by (rule mod_add_right_eq)
  moreover have "(n - 1 + (m - n)) mod (INT32_MAX - 1) = m - 1"
    using assms by simp
  ultimately have "cyc n ?k = m"
    by (simp add: cyc_def INT32_MAX_def)
  then show ?thesis by blast
qed

lemma free_id_exists:
  assumes "distinct (map fst tbl)" and "\<forall>(i, e) \<in> set tbl. 1 \<le> i \<and> i < INT32_MAX"
    and "int (length tbl) < INT32_MAX - 1"
  shows "\<exists>m. 1 \<le> m \<and> m < INT32_MAX \<and> map_of tbl m = None"
proof (rule ccontr)
  assume none: "\<nexists>m. 1 \<le> m \<and> m < INT32_MAX \<and> map_of tbl m = None"
  have "{1..<INT32_MAX} \<subseteq> fst ` set tbl"
  proof
    fix m assume "m \<in> {1..<INT32_MAX}"
    with none have "map_of tbl m \<noteq> None" by auto
    then show "m \<in> fst ` set tbl" by (simp add: map_of_eq_None_iff)
  qed
  then have "card {1..<INT32_MAX} \<le> card (fst ` set tbl)"
    by (intro card_mono) simp_all
  also have "\<dots> \<le> length tbl"
    by (metis card_length length_map list.set_map)
  finally show False using assms(3) by simp
qed

lemma next_free_Some:
  assumes "distinct (map fst tbl)" and "\<forall>(i, e) \<in> set tbl. 1 \<le> i \<and> i < INT32_MAX"
    and "int (length tbl) < INT32_MAX - 1" and n: "1 \<le> n" "n < INT32_MAX"
  shows "\<exists>m. next_free tbl n = Some m \<and> map_of tbl m = None \<and> 1 \<le> m \<and> m < INT32_MAX"
proof -
  obtain m where m: "1 \<le> m" "m < INT32_MAX" "map_of tbl m = None"
    using free_id_exists [OF assms(1-3)] by blast
  obtain k0 where "cyc n k0 = m"
    using cyc_onto [OF m(1,2) n] by blast
  with m have ex: "\<exists>k. map_of tbl (cyc n k) = None" by metis
  define k where "k = (LEAST k. map_of tbl (cyc n k) = None)"
  have k: "map_of tbl (cyc n k) = None"
    using LeastI_ex [OF ex] by (simp add: k_def)
  have "map_of tbl (cyc n j) \<noteq> None" if "j < k" for j
    using not_less_Least that unfolding k_def by blast
  with k n have "next_free tbl n = Some (cyc n k)" by (intro next_free_cyc) auto
  moreover have "1 \<le> cyc n k" "cyc n k < INT32_MAX"
    using pos_mod_bound [of "INT32_MAX - 1" "n - 1 + int k"]
    by (simp_all add: cyc_def INT32_MAX_def)
  ultimately show ?thesis using k by blast
qed

lemma createNewTimerId_returns:
  assumes "timer_inv t"
  shows "\<exists>i t'. createNewTimerId t = Some (i, t') \<and> timer_inv t' \<and> timerTableMap t' = timerTableMap t
    \<and> has_queue t' = has_queue t
    \<and> (if int (length (timerTableMap t)) \<ge> INT32_MAX - 1 then i = - 1
       else 1 \<le> i \<and> i < INT32_MAX \<and> map_of (timerTableMap t) i = None)"
proof (cases "int (length (timerTableMap t)) \<ge> INT32_MAX - 1")
  case True
  with assms show ?thesis by (simp add: createNewTimerId_def)
next
  case False
  have "\<exists>m. next_free (timerTableMap t) (nextTimerId t) = Some m
      \<and> map_of (timerTableMap t) m = None \<and> 1 \<le> m \<and> m < INT32_MAX"
    using assms False by (intro next_free_Some) (auto simp: timer_inv_def)
  then obtain m where m: "next_free (timerTableMap t) (nextTimerId t) = Some m"
    "map_of (timerTableMap t) m = None" "1 \<le> m" "m < INT32_MAX"
    by blast
  with assms False show ?thesis
    by (auto simp: createNewTimerId_def timer_inv_def)
qed

text \<open>A start with the queue set and room in the table.\<close>

lemma startTimer_ok:
  assumes "timer_inv t" and "has_queue t" and "int (length (timerTableMap t)) < INT32_MAX - 1"
  shows "\<exists>i. startTimer now ms event t =
      Some (i, t\<lparr>nextTimerId := i,
        timerTableMap := (i, \<lparr>timerId = i, timeout_ms = ms, expireTime = now + ns_of_ms ms,
                             timer_event = event\<rparr>) # timerTableMap t\<rparr>)
      \<and> 1 \<le> i \<and> i < INT32_MAX \<and> map_of (timerTableMap t) i = None
      \<and> (map_of (timerTableMap t) (nextTimerId t) = None \<longrightarrow> i = nextTimerId t)"
proof -
  have "\<exists>m. next_free (timerTableMap t) (nextTimerId t) = Some m
      \<and> map_of (timerTableMap t) m = None \<and> 1 \<le> m \<and> m < INT32_MAX"
    using assms by (intro next_free_Some) (auto simp: timer_inv_def)
  then obtain m where m: "next_free (timerTableMap t) (nextTimerId t) = Some m"
    "map_of (timerTableMap t) m = None" "1 \<le> m" "m < INT32_MAX"
    by blast
  have "nextTimerId t \<noteq> INT32_MAX" using assms(1) by (auto simp: timer_inv_def)
  with m assms(2,3) have "startTimer now ms event t =
      Some (m, t\<lparr>nextTimerId := m,
        timerTableMap := (m, \<lparr>timerId = m, timeout_ms = ms, expireTime = now + ns_of_ms ms,
                             timer_event = event\<rparr>) # timerTableMap t\<rparr>)"
    by (simp add: startTimer_def makeNewTimerElement_def createNewTimerId_def Let_def)
  moreover have "map_of (timerTableMap t) (nextTimerId t) = None \<Longrightarrow> m = nextTimerId t"
    using m(1) by (simp add: next_free.simps)
  ultimately show ?thesis using m by (intro exI [of _ m] conjI impI) simp_all
qed

lemma startTimer_full:
  "timer_inv t \<Longrightarrow> \<not> has_queue t \<or> int (length (timerTableMap t)) \<ge> INT32_MAX - 1 \<Longrightarrow>
   startTimer now ms event t = Some (- 1, t)"
  by (auto simp: startTimer_def makeNewTimerElement_def createNewTimerId_def)

lemma timer_inv_insert:
  "timer_inv t \<Longrightarrow> map_of (timerTableMap t) i = None \<Longrightarrow> 1 \<le> i \<Longrightarrow> i < INT32_MAX \<Longrightarrow>
   1 \<le> n \<Longrightarrow> n < INT32_MAX \<Longrightarrow> timerId e = i \<Longrightarrow>
   timer_inv (t\<lparr>nextTimerId := n, timerTableMap := (i, e) # timerTableMap t\<rparr>)"
  by (auto simp: timer_inv_def map_of_eq_None_iff)

lemma timer_inv_stop: "timer_inv t \<Longrightarrow> timer_inv (snd (stopTimer i t))"
  by (auto simp: timer_inv_def stopTimer_def AList.delete_eq distinct_map_filter)

lemma timer_inv_expire: "timer_inv t \<Longrightarrow> timer_inv (fst (excuteIfExpired now (t, q)))"
  by (auto simp: timer_inv_def excuteIfExpired_def Let_def distinct_map_filter)

lemma excuteIfExpired_queue:
  assumes "has_queue t"
  shows "eventList (snd (excuteIfExpired now (t, q))) =
    eventList q @ List.map_filter (\<lambda>p. timer_event (snd p)) (filter (is_expired now) (timerTableMap t))"
proof -
  have "eventList (fold (\<lambda>e q. if has_queue t \<and> timer_event e \<noteq> None
          then snd (pushEvent (timer_event e) q) else q) (map snd ps) q) =
      eventList q @ List.map_filter (\<lambda>p. timer_event (snd p)) ps" for ps
    using assms by (induction ps arbitrary: q) (auto simp: List.map_filter_def)
  then show ?thesis by (simp add: excuteIfExpired_def Let_def)
qed

text \<open>The thread never sleeps past a timer, nor longer than the default.\<close>

lemma fold_min_le:
  "fold (\<lambda>p m. if f p < m then f p else m) ps (a :: int) \<le> a
   \<and> (\<forall>p \<in> set ps. fold (\<lambda>p m. if f p < m then f p else m) ps a \<le> f p)"
proof (induction ps arbitrary: a)
  case (Cons p ps)
  let ?b = "if f p < a then f p else a"
  have "?b \<le> a" "?b \<le> f p" by auto
  with Cons.IH [of ?b] show ?case by (auto intro: order_trans)
qed simp

lemma sleepForNextItem_bounds:
  "sleepForNextItem now t \<le> now + ns_of_ms INTERNAL_SLEEP_TIMEOUT_MS"
  "p \<in> set (timerTableMap t) \<Longrightarrow> sleepForNextItem now t \<le> expireTime (snd p)"
proof -
  show "sleepForNextItem now t \<le> now + ns_of_ms INTERNAL_SLEEP_TIMEOUT_MS"
    by (auto simp: sleepForNextItem_def Let_def split: list.splits)
  assume p: "p \<in> set (timerTableMap t)"
  then obtain p0 ps where t: "timerTableMap t = p0 # ps"
    by (cases "timerTableMap t") auto
  have "fold (\<lambda>p m. if expireTime (snd p) < m then expireTime (snd p) else m) (p0 # ps)
      (expireTime (snd p0)) \<le> expireTime (snd p)"
    by (rule conjunct2 [OF fold_min_le, THEN bspec]) (use p t in simp)
  then show "sleepForNextItem now t \<le> expireTime (snd p)"
    unfolding sleepForNextItem_def t list.case Let_def by simp
qed

section \<open>The interface\<close>

text \<open>
  What the handlers rely on: a started timer is pending until it is stopped or expires, a started
  timer gets an id that is not pending, and exactly the events of the expired timers fire.
\<close>

locale timer_service =
  fixes inv :: "'t \<Rightarrow> bool"
    and pending :: "'t \<Rightarrow> int \<Rightarrow> (int \<times> 'ev) option"
    and start :: "int \<Rightarrow> int \<Rightarrow> 'ev \<Rightarrow> 't \<Rightarrow> (int \<times> 't) option"
    and stop :: "int \<Rightarrow> 't \<Rightarrow> 't"
    and fire :: "int \<Rightarrow> 't \<Rightarrow> 't \<times> 'ev list"
  assumes start_returns: "inv t \<Longrightarrow> start now ms ev t \<noteq> None"
    and start_fails: "inv t \<Longrightarrow> start now ms ev t = Some (- 1, t') \<Longrightarrow> t' = t"
    and start_starts: "inv t \<Longrightarrow> start now ms ev t = Some (i, t') \<Longrightarrow> i \<noteq> - 1 \<Longrightarrow>
      inv t' \<and> pending t i = None \<and> pending t' = (pending t)(i \<mapsto> (now + ns_of_ms ms, ev))"
    and stop_stops: "inv t \<Longrightarrow> inv (stop i t) \<and> pending (stop i t) = (pending t)(i := None)"
    and fire_keeps: "inv t \<Longrightarrow> inv (fst (fire now t))
      \<and> pending (fst (fire now t)) i =
        (case pending t i of Some (x, ev) \<Rightarrow> if x \<le> now then None else Some (x, ev) | None \<Rightarrow> None)"
    and fire_events: "inv t \<Longrightarrow>
      set (snd (fire now t)) = {ev. \<exists>i x. pending t i = Some (x, ev) \<and> x \<le> now}"
begin

lemma not_early:
  "inv t \<Longrightarrow> start now ms ev t = Some (i, t') \<Longrightarrow> i \<noteq> - 1 \<Longrightarrow> later < now + ns_of_ms ms \<Longrightarrow>
   pending (fst (fire later t')) i = Some (now + ns_of_ms ms, ev)"
  using start_starts fire_keeps [of t' later i] by fastforce

lemma on_time:
  "inv t \<Longrightarrow> start now ms ev t = Some (i, t') \<Longrightarrow> i \<noteq> - 1 \<Longrightarrow> now + ns_of_ms ms \<le> later \<Longrightarrow>
   ev \<in> set (snd (fire later t')) \<and> pending (fst (fire later t')) i = None"
  using start_starts [of t now ms ev i t'] fire_keeps [of t' later i] fire_events [of t' later]
  by (auto intro!: exI [of _ i])

text \<open>Stopping a timer before it expired undoes its start.\<close>

lemma stop_undoes_start:
  assumes "inv t" and "start now ms ev t = Some (i, t')" and "i \<noteq> - 1"
  shows "pending (stop i t') = pending t"
    and "set (snd (fire later (stop i t'))) = set (snd (fire later t))"
proof -
  from start_starts [OF assms] have t': "inv t'" and i: "pending t i = None"
    and p: "pending t' = (pending t)(i \<mapsto> (now + ns_of_ms ms, ev))"
    by blast+
  from stop_stops [OF t', of i] show pe: "pending (stop i t') = pending t"
    using i p by (auto simp: fun_eq_iff)
  from stop_stops [OF t', of i] have "inv (stop i t')" by blast
  with pe show "set (snd (fire later (stop i t'))) = set (snd (fire later t))"
    using fire_events assms(1) by simp
qed

text \<open>A timer that fired does not fire again.\<close>

lemma fires_once:
  "inv t \<Longrightarrow> pending t i = Some (x, ev) \<Longrightarrow> x \<le> now \<Longrightarrow>
   pending (fst (fire later (fst (fire now t)))) i = None"
  using fire_keeps [of t now i] fire_keeps [of "fst (fire now t)" later i] by simp

end

definition timer_pending :: "'e Timer \<Rightarrow> int \<Rightarrow> (int \<times> 'e Event) option" where
  "timer_pending t i =
     (case map_of (timerTableMap t) i of
        None \<Rightarrow> None
      | Some e \<Rightarrow> (case timer_event e of None \<Rightarrow> None | Some ev \<Rightarrow> Some (expireTime e, ev)))"

definition timer_fire :: "int \<Rightarrow> 'e Timer \<Rightarrow> 'e Timer \<times> 'e Event list" where
  "timer_fire now t =
     (case excuteIfExpired now (t, EventQueue_init) of (t, q) \<Rightarrow> (t, eventList q))"

lemma map_of_filter_unexpired:
  "distinct (map fst tbl) \<Longrightarrow>
   map_of (filter (\<lambda>p. \<not> is_expired now p) tbl) i =
     (case map_of tbl i of Some e \<Rightarrow> if expireTime e \<le> now then None else Some e | None \<Rightarrow> None)"
  by (induction tbl) (auto simp: is_expired_def map_of_eq_None_iff split: option.splits)

lemma fst_excuteIfExpired:
  "fst (excuteIfExpired now (t, q)) =
   t\<lparr>timerTableMap := filter (\<lambda>p. \<not> is_expired now p) (timerTableMap t)\<rparr>"
  by (simp add: excuteIfExpired_def Let_def)

lemma timer_fire_events:
  assumes "timer_inv t" and "has_queue t"
  shows "set (snd (timer_fire now t)) = {ev. \<exists>i x. timer_pending t i = Some (x, ev) \<and> x \<le> now}"
proof -
  have d: "distinct (map fst (timerTableMap t))" using assms(1) by (simp add: timer_inv_def)
  have "snd (timer_fire now t) =
      List.map_filter (\<lambda>p. timer_event (snd p)) (filter (is_expired now) (timerTableMap t))"
    using excuteIfExpired_queue [OF assms(2), of now EventQueue_init]
    by (simp add: timer_fire_def EventQueue_init_def case_prod_beta)
  also have "set \<dots> = {ev. \<exists>i e. (i, e) \<in> set (timerTableMap t) \<and> expireTime e \<le> now \<and> timer_event e = Some ev}"
    by (force simp: List.map_filter_def is_expired_def)
  also have "\<dots> = {ev. \<exists>i x. timer_pending t i = Some (x, ev) \<and> x \<le> now}"
    unfolding map_of_eq_Some_iff [OF d, symmetric]
    by (force simp: timer_pending_def split: option.splits)
  finally show ?thesis .
qed

interpretation ts: timer_service "\<lambda>t. timer_inv t \<and> has_queue t" timer_pending
  "\<lambda>now ms ev. startTimer now ms (Some ev)" "\<lambda>i t. snd (stopTimer i t)" timer_fire
proof
  fix t :: "'e Timer" and now ms i later :: int and ev t'
  assume inv: "timer_inv t \<and> has_queue t"
  show "startTimer now ms (Some ev) t \<noteq> None"
    using startTimer_ok [of t now ms "Some ev"] startTimer_full [of t now ms "Some ev"] inv
    by (cases "int (length (timerTableMap t)) < INT32_MAX - 1") auto
  show "t' = t" if "startTimer now ms (Some ev) t = Some (- 1, t')"
    using startTimer_ok [of t now ms "Some ev"] startTimer_full [of t now ms "Some ev"] inv that
    by (cases "int (length (timerTableMap t)) < INT32_MAX - 1") auto
  show "(timer_inv t' \<and> has_queue t') \<and> timer_pending t i = None \<and>
      timer_pending t' = (timer_pending t)(i \<mapsto> (now + ns_of_ms ms, ev))"
    if s: "startTimer now ms (Some ev) t = Some (i, t')" and "i \<noteq> - 1"
  proof -
    have room: "int (length (timerTableMap t)) < INT32_MAX - 1"
      using startTimer_full [of t now ms "Some ev"] inv that by fastforce
    have t': "t' = t\<lparr>nextTimerId := i,
        timerTableMap := (i, \<lparr>timerId = i, timeout_ms = ms, expireTime = now + ns_of_ms ms,
                             timer_event = Some ev\<rparr>) # timerTableMap t\<rparr>"
      and r: "1 \<le> i" "i < INT32_MAX" "map_of (timerTableMap t) i = None"
      using startTimer_ok [of t now ms "Some ev"] inv room s by auto
    have "timer_inv t'" unfolding t' by (rule timer_inv_insert) (use inv r in auto)
    with inv r show ?thesis by (auto simp: t' timer_pending_def fun_eq_iff)
  qed
  show "(timer_inv (snd (stopTimer i t)) \<and> has_queue (snd (stopTimer i t))) \<and>
      timer_pending (snd (stopTimer i t)) = (timer_pending t)(i := None)"
    using timer_inv_stop [of t i] inv
    by (auto simp: stopTimer_def timer_pending_def fun_eq_iff AList.delete_conv split: option.splits)
  show "(timer_inv (fst (timer_fire now t)) \<and> has_queue (fst (timer_fire now t))) \<and>
      timer_pending (fst (timer_fire now t)) i =
        (case timer_pending t i of Some (x, ev) \<Rightarrow> if x \<le> now then None else Some (x, ev) | None \<Rightarrow> None)"
    using timer_inv_expire [of t now EventQueue_init] inv
      map_of_filter_unexpired [of "timerTableMap t" now i]
    by (auto simp: timer_fire_def case_prod_beta fst_excuteIfExpired timer_pending_def timer_inv_def
        split: option.splits)
  show "set (snd (timer_fire now t)) = {ev. \<exists>i x. timer_pending t i = Some (x, ev) \<and> x \<le> now}"
    using timer_fire_events inv by blast
qed

text \<open>An id goes back into circulation at once: the next start after a removal returns it again.\<close>

lemma id_reused:
  "has_queue t \<Longrightarrow> timerTableMap t = [] \<Longrightarrow> 1 \<le> nextTimerId t \<Longrightarrow> nextTimerId t < INT32_MAX \<Longrightarrow>
   \<exists>t'. startTimer now ms event t = Some (nextTimerId t, t')"
  by (auto simp: startTimer_def makeNewTimerElement_def createNewTimerId_def next_free.simps INT32_MAX_def)

end
