(* ===== verification/Database.thy ===== *)
theory Database
  imports Json
begin

text \<open>
  The record store of the core manager: \<open>coremgr/src/DB/SQLiteDatabase.cpp\<close> and
  \<open>coremgr/src/Thread/DBThreadPool.cpp\<close>.  SQLite is a library: an \<open>sql_engine\<close> is its interface, with
  the database file as the state it works on, and \<open>audio_engine\<close> states what SQLite documents about
  the statements this code prepares.
\<close>

section \<open>The library\<close>

datatype sql_value = SqlNull | SqlInteger int | SqlText string

datatype sqlite_rc = SQLITE_OK | SQLITE_ROW | SQLITE_DONE | SQLITE_ERROR

text \<open>
  \<open>sqlite3_run\<close> is a prepared and bound statement stepped to its end: the rows it yields, the code
  of the last step, and the database afterwards.  All changes are made by the first step.
\<close>

record 'db sql_engine =
  create_directories :: "string \<Rightarrow> bool"
  sqlite3_open :: "string \<Rightarrow> sqlite_rc"
  sqlite3_exec :: "string \<Rightarrow> 'db \<Rightarrow> sqlite_rc \<times> 'db"
  sqlite3_prepare_v2 :: "string \<Rightarrow> 'db \<Rightarrow> sqlite_rc"
  sqlite3_run :: "string \<Rightarrow> sql_value list \<Rightarrow> 'db \<Rightarrow> sql_value list list \<times> sqlite_rc \<times> 'db"
  sqlite3_last_insert_rowid :: "'db \<Rightarrow> int"
  sqlite3_column_int :: "sql_value \<Rightarrow> int"
  sqlite3_column_text :: "sql_value \<Rightarrow> string option"

text \<open>The code of the first step.\<close>

definition first_step :: "sql_value list list \<Rightarrow> sqlite_rc \<Rightarrow> sqlite_rc" where
  "first_step rows rc = (case rows of [] \<Rightarrow> rc | _ # _ \<Rightarrow> SQLITE_ROW)"

definition column :: "sql_value list \<Rightarrow> nat \<Rightarrow> sql_value" where
  "column row i = (if i < length row then row ! i else SqlNull)"

text \<open>A \<open>std::string\<close> made from a column's text; from a null pointer it is undefined.\<close>

definition column_string :: "'db sql_engine \<Rightarrow> sql_value \<Rightarrow> fault + string" where
  "column_string E v =
     (case sqlite3_column_text E v of None \<Rightarrow> Inl Undefined_behaviour | Some s \<Rightarrow> Inr (c_str s))"

section \<open>SQLiteDatabase\<close>

record AudioRecord =
  record_id :: int
  filePath :: string
  durationSec :: int

definition nl :: string where "nl = [CHR 0x0A]"

definition createTableSQL :: string where
  "createTableSQL =
     nl @ ''        CREATE TABLE IF NOT EXISTS audio_records ('' @
     nl @ ''            id INTEGER PRIMARY KEY AUTOINCREMENT,'' @
     nl @ ''            file_path TEXT NOT NULL UNIQUE,'' @
     nl @ ''            duration_sec INTEGER NOT NULL,'' @
     nl @ ''            created_at DATETIME DEFAULT CURRENT_TIMESTAMP'' @
     nl @ ''        );'' @ nl @ ''    ''"

definition insertSQL :: string where
  "insertSQL =
     nl @ ''        INSERT INTO audio_records (file_path, duration_sec)'' @
     nl @ ''        VALUES (?, ?);'' @ nl @ ''    ''"

definition querySQL :: string where
  "querySQL =
     nl @ ''        SELECT id, file_path, duration_sec FROM audio_records ORDER BY created_at DESC LIMIT 100;'' @
     nl @ ''    ''"

definition deleteSQL :: string where
  "deleteSQL = ''DELETE FROM audio_records WHERE id = ? RETURNING file_path;''"

definition executeSQL :: "'db sql_engine \<Rightarrow> string \<Rightarrow> 'db \<Rightarrow> bool \<times> 'db" where
  "executeSQL E sql db =
     (case sqlite3_exec E sql db of (rc, db) \<Rightarrow> (rc = SQLITE_OK, db))"

definition initializeSchema :: "'db sql_engine \<Rightarrow> 'db \<Rightarrow> bool \<times> 'db" where
  "initializeSchema E db = executeSQL E createTableSQL db"

definition open_database :: "'db sql_engine \<Rightarrow> string \<Rightarrow> string \<Rightarrow> 'db \<Rightarrow> bool \<times> 'db" where
  "open_database E parent_path dbFilePath db =
     (if \<not> create_directories E parent_path then (False, db)
      else if sqlite3_open E dbFilePath \<noteq> SQLITE_OK then (False, db)
      else initializeSchema E db)"

definition prepareStatement :: "'db sql_engine \<Rightarrow> string \<Rightarrow> 'db \<Rightarrow> string option" where
  "prepareStatement E sql db = (if sqlite3_prepare_v2 E sql db \<noteq> SQLITE_OK then None else Some sql)"

definition no_record :: AudioRecord where
  "no_record = \<lparr>record_id = - 1, filePath = '''', durationSec = 0\<rparr>"

definition insertAudioRecord :: "'db sql_engine \<Rightarrow> AudioRecord \<Rightarrow> 'db \<Rightarrow> AudioRecord \<times> 'db" where
  "insertAudioRecord E r db =
     (case prepareStatement E insertSQL db of
        None \<Rightarrow> (no_record, db)
      | Some stmt \<Rightarrow>
          (case sqlite3_run E stmt [SqlText (c_str (filePath r)), SqlInteger (durationSec r)] db of
             (rows, rc, db) \<Rightarrow>
               if first_step rows rc \<noteq> SQLITE_DONE then (no_record, db)
               else (r\<lparr>record_id := wrap32 (sqlite3_last_insert_rowid E db)\<rparr>, db)))"

text \<open>The loop over the rows of the query.\<close>

fun read_records :: "'db sql_engine \<Rightarrow> sql_value list list \<Rightarrow> fault + AudioRecord list" where
  "read_records E [] = Inr []"
| "read_records E (row # rows) =
     bind_result (column_string E (column row 1)) (\<lambda>path.
     bind_result (read_records E rows) (\<lambda>records.
       Inr (\<lparr>record_id = sqlite3_column_int E (column row 0), filePath = path,
             durationSec = sqlite3_column_int E (column row 2)\<rparr> # records)))"

definition getAllRecords :: "'db sql_engine \<Rightarrow> 'db \<Rightarrow> (fault + AudioRecord list) \<times> 'db" where
  "getAllRecords E db =
     (case prepareStatement E querySQL db of
        None \<Rightarrow> (Inr [], db)
      | Some stmt \<Rightarrow>
          (case sqlite3_run E stmt [] db of (rows, rc, db) \<Rightarrow> (read_records E rows, db)))"

definition removeAudioRecord :: "'db sql_engine \<Rightarrow> int \<Rightarrow> 'db \<Rightarrow> (fault + string) \<times> 'db" where
  "removeAudioRecord E recordId db =
     (case prepareStatement E deleteSQL db of
        None \<Rightarrow> (Inr '''', db)
      | Some stmt \<Rightarrow>
          (case sqlite3_run E stmt [SqlInteger recordId] db of
             (rows, rc, db) \<Rightarrow>
               (case first_step rows rc of
                  SQLITE_ROW \<Rightarrow> (column_string E (column (hd rows) 0), db)
                | _ \<Rightarrow> (Inr '''', db))))"

section \<open>DBThreadPool\<close>

text \<open>
  The threads of the pool: those that have not looked at \<open>runningFlag_\<close> yet, those that found it set
  and wait for tasks, and those that found it clear and ended.  The constructor starts its workers
  before \<open>ThreadBase::run\<close> sets the flag.
\<close>

record pool_threads =
  pool_running :: bool
  started :: nat
  serving :: nat
  ended :: nat

definition pool_constructed :: "nat \<Rightarrow> pool_threads" where
  "pool_constructed numWorkers =
     \<lparr>pool_running = False, started = numWorkers, serving = 0, ended = 0\<rparr>"

inductive pool_step :: "pool_threads \<Rightarrow> pool_threads \<Rightarrow> bool" where
  first_look: "0 < started p \<Longrightarrow>
    pool_step p (if pool_running p then p\<lparr>started := started p - 1, serving := serving p + 1\<rparr>
                 else p\<lparr>started := started p - 1, ended := ended p + 1\<rparr>)"
| run: "\<not> pool_running p \<Longrightarrow>
    pool_step p (p\<lparr>pool_running := True, started := started p + 1\<rparr>)"

text \<open>
  The tasks are the three lambdas the pool's methods wrap; a result is what their promise is set to.
\<close>

datatype db_task = Insert_task string int | GetAll_task | Remove_task int

datatype db_result =
  Insert_result AudioRecord | GetAll_result "AudioRecord list" | Remove_result string

definition run_task :: "'db sql_engine \<Rightarrow> db_task \<Rightarrow> 'db \<Rightarrow> (fault + db_result) \<times> 'db" where
  "run_task E task db =
     (case task of
        Insert_task path secs \<Rightarrow>
          (case insertAudioRecord E \<lparr>record_id = 0, filePath = path, durationSec = secs\<rparr> db of
             (newRecord, db) \<Rightarrow> (Inr (Insert_result newRecord), db))
      | GetAll_task \<Rightarrow>
          (case getAllRecords E db of
             (records, db) \<Rightarrow> (bind_result records (\<lambda>rs. Inr (GetAll_result rs)), db))
      | Remove_task recordId \<Rightarrow>
          (case removeAudioRecord E recordId db of
             (path, db) \<Rightarrow> (bind_result path (\<lambda>p. Inr (Remove_result p)), db)))"

record 'db DBThreadPool =
  database :: 'db
  threads :: pool_threads
  tasksQueue :: "db_task list"

definition enqueueTask :: "db_task \<Rightarrow> 'db DBThreadPool \<Rightarrow> bool \<times> 'db DBThreadPool" where
  "enqueueTask task p =
     (if \<not> pool_running (threads p) then (False, p)
      else (True, p\<lparr>tasksQueue := tasksQueue p @ [task]\<rparr>))"

text \<open>
  One turn of a worker's loop: nothing while the queue is empty, otherwise the oldest task is run
  and its promise set, to an exception if it raised one.
\<close>

definition worker_turn ::
    "'db sql_engine \<Rightarrow> 'db DBThreadPool \<Rightarrow> (fault + db_result) option \<times> 'db DBThreadPool" where
  "worker_turn E p =
     (if \<not> pool_running (threads p) then (None, p)
      else case tasksQueue p of
             [] \<Rightarrow> (None, p)
           | task # ts \<Rightarrow>
               (case run_task E task (database p) of
                  (r, db) \<Rightarrow> (Some r, p\<lparr>tasksQueue := ts, database := db\<rparr>)))"

text \<open>The last of a number of turns.\<close>

fun worker_turns ::
    "'db sql_engine \<Rightarrow> nat \<Rightarrow> 'db DBThreadPool \<Rightarrow> (fault + db_result) option \<times> 'db DBThreadPool"
  where
  "worker_turns E 0 p = (None, p)"
| "worker_turns E (Suc n) p =
     (case worker_turn E p of (r, p') \<Rightarrow> if n = 0 then (r, p') else worker_turns E n p')"

text \<open>
  A call of the main worker: the task is enqueued and the future waited for.  A task that is refused
  is destroyed with its promise, so the future raises an error; with no worker alive the wait never
  ends; otherwise the workers run the queue up to this task.
\<close>

definition pool_call ::
    "'db sql_engine \<Rightarrow> db_task \<Rightarrow> 'db DBThreadPool \<Rightarrow> fault + (db_result \<times> 'db DBThreadPool)" where
  "pool_call E task p =
     (case enqueueTask task p of
        (False, p) \<Rightarrow> Inl Future_error
      | (True, p) \<Rightarrow>
          if started (threads p) + serving (threads p) = 0 then Inl Blocked
          else (case worker_turns E (length (tasksQueue p)) p of
                  (Some (Inr r), p) \<Rightarrow> Inr (r, p)
                | (Some (Inl e), p) \<Rightarrow> Inl e
                | (None, p) \<Rightarrow> Inl Blocked))"

definition pool_insertAudioRecord ::
    "'db sql_engine \<Rightarrow> string \<Rightarrow> int \<Rightarrow> 'db DBThreadPool \<Rightarrow> fault + (AudioRecord \<times> 'db DBThreadPool)" where
  "pool_insertAudioRecord E path secs p =
     bind_result (pool_call E (Insert_task path secs) p) (\<lambda>(r, p).
       case r of Insert_result x \<Rightarrow> Inr (x, p) | _ \<Rightarrow> Inl Undefined_behaviour)"

definition pool_getAllAudioRecords ::
    "'db sql_engine \<Rightarrow> 'db DBThreadPool \<Rightarrow> fault + (AudioRecord list \<times> 'db DBThreadPool)" where
  "pool_getAllAudioRecords E p =
     bind_result (pool_call E GetAll_task p) (\<lambda>(r, p).
       case r of GetAll_result x \<Rightarrow> Inr (x, p) | _ \<Rightarrow> Inl Undefined_behaviour)"

definition pool_removeAudioRecord ::
    "'db sql_engine \<Rightarrow> int \<Rightarrow> 'db DBThreadPool \<Rightarrow> fault + (string \<times> 'db DBThreadPool)" where
  "pool_removeAudioRecord E recordId p =
     bind_result (pool_call E (Remove_task recordId) p) (\<lambda>(r, p).
       case r of Remove_result x \<Rightarrow> Inr (x, p) | _ \<Rightarrow> Inl Undefined_behaviour)"

definition pool_stop :: "'db DBThreadPool \<Rightarrow> 'db DBThreadPool" where
  "pool_stop p = p\<lparr>threads := (threads p)\<lparr>pool_running := False\<rparr>\<rparr>"

text \<open>A pool that serves: running, some worker alive, and nothing left in the queue.\<close>

definition pool_ok :: "'db DBThreadPool \<Rightarrow> bool" where
  "pool_ok p \<longleftrightarrow> pool_running (threads p) \<and> 0 < started (threads p) + serving (threads p) \<and> tasksQueue p = []"

lemma pool_call_ok:
  "pool_ok p \<Longrightarrow>
   pool_call E t p = (case run_task E t (database p) of (r, db) \<Rightarrow>
     bind_result r (\<lambda>x. Inr (x, p\<lparr>database := db\<rparr>)))"
  by (cases p)
    (auto simp: pool_ok_def pool_call_def enqueueTask_def worker_turn_def split: prod.splits sum.splits)

lemma pool_ok_database [simp]: "pool_ok (p\<lparr>database := db\<rparr>) = pool_ok p"
  by (simp add: pool_ok_def)

lemma read_records_Inl: "read_records E rows = Inl e \<Longrightarrow> e = Undefined_behaviour"
  by (induction E rows rule: read_records.induct)
    (auto simp: bind_result_Inl column_string_def split: option.splits)

lemma run_task_Inl: "run_task E t db = (Inl e, db') \<Longrightarrow> e = Undefined_behaviour"
  by (auto simp: run_task_def bind_result_Inl getAllRecords_def removeAudioRecord_def
      column_string_def dest: read_records_Inl split: db_task.splits prod.splits option.splits sqlite_rc.splits)

lemma worker_turns_Inl: "worker_turns E n p = (Some (Inl e), p') \<Longrightarrow> e = Undefined_behaviour"
  by (induction n arbitrary: p)
    (auto simp: worker_turn_def dest: run_task_Inl split: prod.splits if_splits list.splits)

lemma pool_call_Inl:
  "pool_call E t p = Inl e \<Longrightarrow> e = Undefined_behaviour \<or> (e \<in> {Future_error, Blocked} \<and> \<not> pool_ok p)"
proof -
  assume a: "pool_call E t p = Inl e"
  show ?thesis
  proof (cases "pool_ok p")
    case True
    with a show ?thesis
      by (auto simp: pool_call_ok bind_result_Inl dest: run_task_Inl split: prod.splits)
  next
    case False
    with a show ?thesis
      by (auto simp: pool_call_def dest: worker_turns_Inl
          split: prod.splits bool.splits if_splits option.splits sum.splits)
  qed
qed

lemma pool_call_Inr: "pool_call E t p = Inr (r, p') \<Longrightarrow> pool_ok p \<Longrightarrow> pool_ok p'"
  by (auto simp: pool_call_ok bind_result_Inr split: prod.splits)

lemma pool_Inl_insert:
  "pool_insertAudioRecord E path secs p = Inl e \<Longrightarrow> e = Undefined_behaviour \<or> (e \<in> {Future_error, Blocked} \<and> \<not> pool_ok p)"
  by (cases "pool_call E (Insert_task path secs) p")
    (auto simp: pool_insertAudioRecord_def dest: pool_call_Inl split: db_result.splits)

lemma pool_Inl_getAll:
  "pool_getAllAudioRecords E p = Inl e \<Longrightarrow> e = Undefined_behaviour \<or> (e \<in> {Future_error, Blocked} \<and> \<not> pool_ok p)"
  by (cases "pool_call E (GetAll_task) p")
    (auto simp: pool_getAllAudioRecords_def dest: pool_call_Inl split: db_result.splits)

lemma pool_Inl_remove:
  "pool_removeAudioRecord E recordId p = Inl e \<Longrightarrow> e = Undefined_behaviour \<or> (e \<in> {Future_error, Blocked} \<and> \<not> pool_ok p)"
  by (cases "pool_call E (Remove_task recordId) p")
    (auto simp: pool_removeAudioRecord_def dest: pool_call_Inl split: db_result.splits)

lemmas pool_methods_Inl = pool_Inl_insert pool_Inl_getAll pool_Inl_remove

text \<open>A pool that serves goes on serving.\<close>

lemma pool_Inr_insert:
  "pool_insertAudioRecord E path secs p = Inr (r, p') \<Longrightarrow> pool_ok p \<Longrightarrow> pool_ok p'"
  by (cases "pool_call E (Insert_task path secs) p")
    (auto simp: pool_insertAudioRecord_def dest: pool_call_Inr split: db_result.splits)

lemma pool_Inr_getAll:
  "pool_getAllAudioRecords E p = Inr (r, p') \<Longrightarrow> pool_ok p \<Longrightarrow> pool_ok p'"
  by (cases "pool_call E (GetAll_task) p")
    (auto simp: pool_getAllAudioRecords_def dest: pool_call_Inr split: db_result.splits)

lemma pool_Inr_remove:
  "pool_removeAudioRecord E recordId p = Inr (r, p') \<Longrightarrow> pool_ok p \<Longrightarrow> pool_ok p'"
  by (cases "pool_call E (Remove_task recordId) p")
    (auto simp: pool_removeAudioRecord_def dest: pool_call_Inr split: db_result.splits)

lemmas pool_methods_Inr = pool_Inr_insert pool_Inr_getAll pool_Inr_remove

section \<open>What SQLite documents\<close>

text \<open>
  \<open>tab db\<close> is the content of \<open>audio_records\<close>: path and duration by id.  An insertion is refused when
  the path is there already; otherwise it takes a positive id that is not in use.
\<close>

definition engine_inserts ::
    "'db sql_engine \<Rightarrow> ('db \<Rightarrow> int \<rightharpoonup> string \<times> int) \<Rightarrow> 'db \<Rightarrow> string \<Rightarrow> int \<Rightarrow> bool" where
  "engine_inserts E tab db p d \<longleftrightarrow>
     (case sqlite3_run E insertSQL [SqlText p, SqlInteger d] db of (rows, rc, db') \<Rightarrow>
        rows = [] \<and>
        (if \<exists>i d'. tab db i = Some (p, d') then rc = SQLITE_ERROR \<and> tab db' = tab db
         else rc = SQLITE_DONE \<and> 1 \<le> sqlite3_last_insert_rowid E db'
           \<and> tab db (sqlite3_last_insert_rowid E db') = None
           \<and> tab db' = (tab db)(sqlite3_last_insert_rowid E db' \<mapsto> (p, d))))"

definition engine_deletes ::
    "'db sql_engine \<Rightarrow> ('db \<Rightarrow> int \<rightharpoonup> string \<times> int) \<Rightarrow> 'db \<Rightarrow> int \<Rightarrow> bool" where
  "engine_deletes E tab db i \<longleftrightarrow>
     (case sqlite3_run E deleteSQL [SqlInteger i] db of (rows, rc, db') \<Rightarrow>
        rows = (case tab db i of None \<Rightarrow> [] | Some (p, _) \<Rightarrow> [[SqlText p]])
        \<and> rc = SQLITE_DONE \<and> tab db' = (tab db)(i := None))"

definition engine_queries ::
    "'db sql_engine \<Rightarrow> ('db \<Rightarrow> int \<rightharpoonup> string \<times> int) \<Rightarrow> 'db \<Rightarrow> bool" where
  "engine_queries E tab db \<longleftrightarrow>
     (case sqlite3_run E querySQL [] db of (rows, rc, db') \<Rightarrow>
        tab db' = tab db \<and> length rows \<le> 100
        \<and> (\<forall>row \<in> set rows. \<exists>i p d. row = [SqlInteger i, SqlText p, SqlInteger d]
             \<and> tab db i = Some (p, d)))"

definition audio_engine :: "'db sql_engine \<Rightarrow> ('db \<Rightarrow> int \<rightharpoonup> string \<times> int) \<Rightarrow> bool" where
  "audio_engine E tab \<longleftrightarrow>
     (\<forall>db. \<forall>sql \<in> {insertSQL, querySQL, deleteSQL}. sqlite3_prepare_v2 E sql db = SQLITE_OK)
     \<and> (\<forall>db p d. engine_inserts E tab db p d)
     \<and> (\<forall>db i. engine_deletes E tab db i)
     \<and> (\<forall>db. engine_queries E tab db)
     \<and> (\<forall>n. sqlite3_column_int E (SqlInteger n) = wrap32 n)
     \<and> (\<forall>s. sqlite3_column_text E (SqlText s) = Some s)"

lemma audio_engine_prepare:
  assumes "audio_engine E tab"
  shows "prepareStatement E insertSQL db = Some insertSQL"
    and "prepareStatement E querySQL db = Some querySQL"
    and "prepareStatement E deleteSQL db = Some deleteSQL"
  using assms by (simp_all add: audio_engine_def prepareStatement_def)

text \<open>The clauses, for a run whose result is given.\<close>

lemma audio_engine_insert:
  "audio_engine E tab \<Longrightarrow>
   sqlite3_run E insertSQL [SqlText p, SqlInteger d] db = (rows, rc, db') \<Longrightarrow>
   rows = [] \<and>
   (if \<exists>i d'. tab db i = Some (p, d') then rc = SQLITE_ERROR \<and> tab db' = tab db
    else rc = SQLITE_DONE \<and> 1 \<le> sqlite3_last_insert_rowid E db'
      \<and> tab db (sqlite3_last_insert_rowid E db') = None
      \<and> tab db' = (tab db)(sqlite3_last_insert_rowid E db' \<mapsto> (p, d)))"
proof -
  assume E: "audio_engine E tab"
    and r: "sqlite3_run E insertSQL [SqlText p, SqlInteger d] db = (rows, rc, db')"
  from E have "engine_inserts E tab db p d" by (simp add: audio_engine_def)
  with r show ?thesis unfolding engine_inserts_def by simp
qed

lemma audio_engine_delete:
  "audio_engine E tab \<Longrightarrow> sqlite3_run E deleteSQL [SqlInteger i] db = (rows, rc, db') \<Longrightarrow>
   rows = (case tab db i of None \<Rightarrow> [] | Some (p, _) \<Rightarrow> [[SqlText p]])
   \<and> rc = SQLITE_DONE \<and> tab db' = (tab db)(i := None)"
proof -
  assume E: "audio_engine E tab" and r: "sqlite3_run E deleteSQL [SqlInteger i] db = (rows, rc, db')"
  from E have "engine_deletes E tab db i" by (simp add: audio_engine_def)
  with r show ?thesis unfolding engine_deletes_def by simp
qed

lemma audio_engine_query:
  "audio_engine E tab \<Longrightarrow> sqlite3_run E querySQL [] db = (rows, rc, db') \<Longrightarrow>
   tab db' = tab db \<and> length rows \<le> 100
   \<and> (\<forall>row \<in> set rows. \<exists>i p d. row = [SqlInteger i, SqlText p, SqlInteger d] \<and> tab db i = Some (p, d))"
proof -
  assume E: "audio_engine E tab" and r: "sqlite3_run E querySQL [] db = (rows, rc, db')"
  from E have "engine_queries E tab db" by (simp add: audio_engine_def)
  with r show ?thesis unfolding engine_queries_def by simp
qed

text \<open>Inserting a new path adds one row under the id that is returned.\<close>

lemma insertAudioRecord_new:
  assumes E: "audio_engine E tab" and new: "\<nexists>i d'. tab db i = Some (c_str (filePath r), d')"
  shows "\<exists>k db'. insertAudioRecord E r db = (r\<lparr>record_id := wrap32 k\<rparr>, db') \<and> 1 \<le> k
      \<and> tab db k = None \<and> tab db' = (tab db)(k \<mapsto> (c_str (filePath r), durationSec r))"
proof -
  obtain rows rc db' where
    run: "sqlite3_run E insertSQL [SqlText (c_str (filePath r)), SqlInteger (durationSec r)] db = (rows, rc, db')"
    by (metis prod_cases3)
  from audio_engine_insert [OF E run] new show ?thesis
    by (auto simp: insertAudioRecord_def audio_engine_prepare [OF E] run first_step_def)
qed

lemma insertAudioRecord_duplicate:
  assumes E: "audio_engine E tab" and old: "tab db i = Some (c_str (filePath r), d')"
  shows "\<exists>db'. insertAudioRecord E r db = (no_record, db') \<and> tab db' = tab db"
proof -
  obtain rows rc db' where
    run: "sqlite3_run E insertSQL [SqlText (c_str (filePath r)), SqlInteger (durationSec r)] db = (rows, rc, db')"
    by (metis prod_cases3)
  from old have "\<exists>i d'. tab db i = Some (c_str (filePath r), d')" by blast
  with audio_engine_insert [OF E run] show ?thesis
    by (auto simp: insertAudioRecord_def audio_engine_prepare [OF E] run first_step_def)
qed

text \<open>Removing a row returns its path; removing what is not there returns the empty string.\<close>

lemma removeAudioRecord_spec:
  assumes E: "audio_engine E tab"
  shows "\<exists>db'. removeAudioRecord E i db =
        (Inr (case tab db i of None \<Rightarrow> '''' | Some (p, _) \<Rightarrow> c_str p), db')
      \<and> tab db' = (tab db)(i := None)"
proof -
  obtain rows rc db' where run: "sqlite3_run E deleteSQL [SqlInteger i] db = (rows, rc, db')"
    by (metis prod_cases3)
  have t: "sqlite3_column_text E (SqlText s) = Some s" for s
    using E by (simp add: audio_engine_def)
  show ?thesis
    using audio_engine_delete [OF E run]
    by (auto simp: removeAudioRecord_def audio_engine_prepare [OF E] run first_step_def
        column_def column_string_def t split: option.splits)
qed

lemma read_records_Inr:
  assumes E: "audio_engine E tab"
    and rows: "\<forall>row \<in> set rows. \<exists>i p d. row = [SqlInteger i, SqlText p, SqlInteger d] \<and> tab db i = Some (p, d)"
  shows "\<exists>rs. read_records E rows = Inr rs \<and> length rs = length rows
    \<and> (\<forall>r \<in> set rs. \<exists>i p d. tab db i = Some (p, d)
        \<and> r = \<lparr>record_id = wrap32 i, filePath = c_str p, durationSec = wrap32 d\<rparr>)"
  using rows
proof (induction rows)
  case (Cons row rows)
  have t: "sqlite3_column_text E (SqlText s) = Some s" "sqlite3_column_int E (SqlInteger n) = wrap32 n" for s n
    using E by (simp_all add: audio_engine_def)
  from Cons obtain rs where "read_records E rows = Inr rs" "length rs = length rows"
    "\<forall>r \<in> set rs. \<exists>i p d. tab db i = Some (p, d)
        \<and> r = \<lparr>record_id = wrap32 i, filePath = c_str p, durationSec = wrap32 d\<rparr>"
    by auto
  moreover from Cons.prems obtain i p d where
    "row = [SqlInteger i, SqlText p, SqlInteger d]" "tab db i = Some (p, d)"
    by auto
  ultimately show ?case
    by (auto simp: column_def column_string_def t)
qed simp

text \<open>The list of records is at most 100 rows of the table.\<close>

lemma getAllRecords_spec:
  assumes E: "audio_engine E tab"
  shows "\<exists>rs db'. getAllRecords E db = (Inr rs, db') \<and> tab db' = tab db \<and> length rs \<le> 100
      \<and> (\<forall>r \<in> set rs. \<exists>i p d. tab db i = Some (p, d)
           \<and> r = \<lparr>record_id = wrap32 i, filePath = c_str p, durationSec = wrap32 d\<rparr>)"
proof -
  obtain rows rc db' where run: "sqlite3_run E querySQL [] db = (rows, rc, db')"
    by (metis prod_cases3)
  from audio_engine_query [OF E run] have r: "tab db' = tab db" "length rows \<le> 100"
    "\<forall>row \<in> set rows. \<exists>i p d. row = [SqlInteger i, SqlText p, SqlInteger d] \<and> tab db i = Some (p, d)"
    by blast+
  with read_records_Inr [OF E r(3)] show ?thesis
    by (auto simp: getAllRecords_def audio_engine_prepare [OF E] run)
qed

section \<open>The pool serves\<close>

text \<open>
  Once \<open>run\<close> was called some worker serves or will, whatever the schedule; but every worker of the
  constructor may have ended by then.
\<close>

lemma pool_serves:
  "pool_step\<^sup>*\<^sup>* (pool_constructed n) p \<Longrightarrow> pool_running p \<Longrightarrow> 1 \<le> started p + serving p"
proof (induction rule: rtranclp_induct)
  case base
  then show ?case by (simp add: pool_constructed_def)
next
  case (step p p')
  from step.hyps(2) step.IH step.prems show ?case
    by (cases rule: pool_step.cases) (auto split: if_splits)
qed

lemma pool_workers_end:
  "pool_step\<^sup>*\<^sup>* (pool_constructed n)
     \<lparr>pool_running = False, started = 0, serving = 0, ended = n\<rparr>"
proof -
  have "k \<le> n \<Longrightarrow> pool_step\<^sup>*\<^sup>* (pool_constructed n)
      \<lparr>pool_running = False, started = n - k, serving = 0, ended = k\<rparr>" for k
  proof (induction k)
    case 0
    then show ?case by (simp add: pool_constructed_def)
  next
    case (Suc k)
    let ?p = "\<lparr>pool_running = False, started = n - k, serving = 0, ended = k\<rparr>"
    have "pool_step ?p (if pool_running ?p then ?p\<lparr>started := started ?p - 1, serving := serving ?p + 1\<rparr>
        else ?p\<lparr>started := started ?p - 1, ended := ended ?p + 1\<rparr>)"
      by (rule first_look) (use Suc.prems in simp)
    with Suc show ?case by (simp add: rtranclp.rtrancl_into_rtrancl)
  qed
  from this [of n] show ?thesis by simp
qed

lemma pool_one_worker:
  "pool_step\<^sup>*\<^sup>* (pool_constructed n)
     \<lparr>pool_running = True, started = 1, serving = 0, ended = n\<rparr>"
  using pool_workers_end [of n]
    run [of "\<lparr>pool_running = False, started = 0, serving = 0, ended = n\<rparr>"]
  by (simp add: rtranclp.rtrancl_into_rtrancl)

end
