(* ===== verification/Core.thy ===== *)
theory Core
  imports WebSocketServer Timer Database
begin

text \<open>
  The core manager as one state: \<open>coremgr/include/Configure/EventTypeId.hpp\<close>, the singletons and members
  its handlers work on, and \<open>coremgr/src/Controller/RecordHandler.cpp\<close>.
\<close>

section \<open>Events\<close>

datatype EventTypeID =
  NONE | STARTUP | START_SCAN_BTDEVICE | STOP_SCAN_BTDEVICE | BLUETOOTH_POWER_ON
    | BLUETOOTH_POWER_OFF | PAIR_BTDEVICE | UNPAIR_BTDEVICE | CONNECT_BTDEVICE
    | DISCONNECT_BTDEVICE | ACCEPT_REQUEST_CONFIRMATION | REJECT_REQUEST_CONFIRMATION
    | DIAL_CALL | HANGUP_CALL | ANSWER_CALL | UPDATE_TEMPERATURE_NOTI
    | START_SCAN_BTDEVICE_NOTI | STOP_SCAN_BTDEVICE_NOTI | SCANNING_BTDEVICE_FOUND_NOTI
    | SCANNING_BTDEVICE_DELETE_NOTI | BLUETOOTH_POWER_ON_NOTI | BLUETOOTH_POWER_OFF_NOTI
    | BTDEVICE_PROPERTY_CHANGE_NOTI | PAIR_BTDEVICE_NOTI | UNPAIR_BTDEVICE_NOTI
    | CONNECT_BTDEVICE_NOTI | DISCONNECT_BTDEVICE_NOTI | BTDEVICE_REQUEST_CONFIRMATION_NOTI
    | BTDEVICE_REQUEST_CONFIRMATION_TIMEOUT | PBAP_SESSION_END_NOTI
    | PBAP_PHONEBOOK_PULL_START_NOTI | PBAP_PHONEBOOK_PULL_NOTI | PBAP_PHONEBOOK_PULL_END_NOTI
    | CALL_HISTORY_PULL_START_NOTI | CALL_HISTORY_PULL_NOTI | CALL_HISTORY_PULL_END_NOTI
    | INCOMING_CALL_NOTI | OUTGOING_CALL_NOTI | CALL_STATE_CHANGED_NOTI | CALL_ENDED_NOTI
    | DIAL_CALL_NOTI | ANSWER_CALL_NOTI | HANGUP_CALL_NOTI | START_RECORD | STOP_RECORD
    | CANCEL_RECORD | REMOVE_RECORD | GET_ALL_RECORD | START_RECORD_NOTI | STOP_RECORD_NOTI
    | CANCEL_RECORD_NOTI | FILTER_WAV_FILE_NOTI | INSERT_WAV_FILE | MAX

section \<open>The process\<close>

text \<open>
  The state view with the rest: the D-Bus sender, the web socket server, the timer and the
  handler's map from device addresses to timer ids, the database pool (none before it is set), the
  event queue, the files that exist, and the steady clock.
\<close>

record 'db core = StateView +
  sender :: dbus_sender
  server :: WebSocketServer
  timer :: "EventTypeID Timer"
  timerIdMap :: "string \<rightharpoonup> int"
  pool :: "'db DBThreadPool option"
  eventQueue :: "EventTypeID EventQueue"
  files :: "string \<Rightarrow> bool"
  clock :: int

text \<open>
  What is outside the process: which library calls of each attempt to send fail, JSON text, SQLite,
  and for which paths the file system raises an error or refuses to delete.
\<close>

record 'db env =
  dbus_faults :: "nat \<Rightarrow> faults"
  dump :: "json \<Rightarrow> fault + string"
  parse :: "string \<Rightarrow> fault + json"
  engine :: "'db sql_engine"
  fs_error :: "string \<Rightarrow> bool"
  fs_remove :: "string \<Rightarrow> bool"

text \<open>The state when \<open>main\<close> has started the threads.\<close>

definition core_init :: "'db DBThreadPool option \<Rightarrow> (string \<Rightarrow> bool) \<Rightarrow> int \<Rightarrow> 'db core" where
  "core_init p fs now =
     \<lparr>RECORD_STATE = RecordState.STOPPED, CURRENT_TEMPERATURE = 0,
      SCANNING_BTDEVICE_STATE = ScanningBTDeviceState.IDLE,
      BLUETOOTH_POWER_STATE = BluetoothPowerState.OFF, CALL_STATE = CallState.IDLE,
      sender = dbus_sender_init, server = WebSocketServer_init, timer = SetEventQueue Timer_init,
      timerIdMap = Map.empty, pool = p,
      eventQueue = snd (pushEvent (Some (make_Event EventTypeID.STARTUP None)) EventQueue_init),
      files = fs, clock = now\<rparr>"

text \<open>
  \<open>DBUS_SENDER()->sendMessage\<close> and \<open>sendMessageNoti\<close>, whose results the handlers ignore, and
  \<open>webSocket_->getServer()->updateStateAndBroadcast\<close>.
\<close>

definition dbus_send :: "'db env \<Rightarrow> DBusCommand \<Rightarrow> 'db core \<Rightarrow> 'db core" where
  "dbus_send env cmd c =
     c\<lparr>sender := snd (sendMessage (dbus_faults env) CM_makeMsg cmd (sender c))\<rparr>"

definition dbus_send_noti ::
    "'db env \<Rightarrow> DBusCommand \<Rightarrow> bool \<Rightarrow> DBusDataInfo \<Rightarrow> 'db core \<Rightarrow> 'db core" where
  "dbus_send_noti env cmd ok info c =
     c\<lparr>sender := snd (sendMessageNoti (dbus_faults env) CM_makeMsgNoti cmd ok info (sender c))\<rparr>"

definition publish ::
    "'db env \<Rightarrow> string \<Rightarrow> string \<Rightarrow> string \<Rightarrow> string \<Rightarrow> json \<Rightarrow> 'db core \<Rightarrow> fault + 'db core" where
  "publish env status msgInfo component msgData data c =
     bind_result (updateStateAndBroadcast (dump env) status msgInfo component msgData data (server c))
       (\<lambda>w. Inr (c\<lparr>server := w\<rparr>))"

section \<open>RecordHandler\<close>

definition startRecord :: "'db env \<Rightarrow> 'db core \<Rightarrow> 'db core" where
  "startRecord env c =
     (case RECORD_STATE c of
        RecordState.STOPPED \<Rightarrow>
          dbus_send env DBusCommand.START_RECORD (c\<lparr>RECORD_STATE := RecordState.PROCESSING\<rparr>)
      | RecordState.RECORDING \<Rightarrow> c
      | RecordState.PROCESSING \<Rightarrow> c)"

definition stopRecord :: "'db env \<Rightarrow> 'db core \<Rightarrow> 'db core" where
  "stopRecord env c =
     (case RECORD_STATE c of
        RecordState.RECORDING \<Rightarrow>
          dbus_send env DBusCommand.STOP_RECORD (c\<lparr>RECORD_STATE := RecordState.PROCESSING\<rparr>)
      | RecordState.STOPPED \<Rightarrow> c
      | RecordState.PROCESSING \<Rightarrow> c)"

definition cancelRecord :: "'db env \<Rightarrow> 'db core \<Rightarrow> 'db core" where
  "cancelRecord env c =
     (case RECORD_STATE c of
        RecordState.RECORDING \<Rightarrow>
          dbus_send env DBusCommand.CANCEL_RECORD (c\<lparr>RECORD_STATE := RecordState.PROCESSING\<rparr>)
      | RecordState.STOPPED \<Rightarrow> c
      | RecordState.PROCESSING \<Rightarrow> c)"

definition startRecordNOTI :: "'db env \<Rightarrow> Payload option \<Rightarrow> 'db core \<Rightarrow> fault + 'db core" where
  "startRecordNOTI env payload c =
     (case payload of
        Some (NotiPayload isSuccess msgInfo) \<Rightarrow>
          if isSuccess = False
          then publish env ''fail'' msgInfo ''Record'' ''start_record_noti'' JNull
                 (c\<lparr>RECORD_STATE := RecordState.STOPPED\<rparr>)
          else publish env ''success'' msgInfo ''Record'' ''start_record_noti'' JNull
                 (c\<lparr>RECORD_STATE := RecordState.RECORDING\<rparr>)
      | _ \<Rightarrow> Inr c)"

definition stopRecordNOTI :: "'db env \<Rightarrow> Payload option \<Rightarrow> 'db core \<Rightarrow> fault + 'db core" where
  "stopRecordNOTI env payload c =
     (case payload of
        Some (NotiPayload isSuccess msgInfo) \<Rightarrow>
          if isSuccess = False
          then publish env ''fail'' msgInfo ''Record'' ''stop_record_noti'' JNull
                 (c\<lparr>RECORD_STATE := RecordState.STOPPED\<rparr>)
          else publish env ''success'' msgInfo ''Record'' ''stop_record_noti'' JNull
                 (c\<lparr>RECORD_STATE := RecordState.STOPPED\<rparr>)
      | _ \<Rightarrow> Inr c)"

definition cancelRecordNOTI :: "'db env \<Rightarrow> Payload option \<Rightarrow> 'db core \<Rightarrow> fault + 'db core" where
  "cancelRecordNOTI env payload c =
     (case payload of
        Some (NotiPayload isSuccess msgInfo) \<Rightarrow>
          if isSuccess = False
          then publish env ''fail'' msgInfo ''Record'' ''cancel_record_noti'' JNull
                 (c\<lparr>RECORD_STATE := RecordState.STOPPED\<rparr>)
          else publish env ''success'' msgInfo ''Record'' ''cancel_record_noti'' JNull
                 (c\<lparr>RECORD_STATE := RecordState.STOPPED\<rparr>)
      | _ \<Rightarrow> Inr c)"

definition filterWavFileNOTI :: "'db env \<Rightarrow> Payload option \<Rightarrow> 'db core \<Rightarrow> fault + 'db core" where
  "filterWavFileNOTI env payload c =
     (case payload of
        Some (NotiPayload isSuccess msgInfo) \<Rightarrow>
          if isSuccess = False
          then publish env ''fail'' msgInfo ''Record'' ''filter_wav_file_noti'' JNull c
          else publish env ''success'' msgInfo ''Record'' ''filter_wav_file_noti'' JNull c
      | _ \<Rightarrow> Inr c)"

section \<open>What sending and publishing leave alone\<close>

lemma dbus_send_simps [frame_simps, simp]:
  "RECORD_STATE (dbus_send env cmd c) = RECORD_STATE c"
  "CURRENT_TEMPERATURE (dbus_send env cmd c) = CURRENT_TEMPERATURE c"
  "SCANNING_BTDEVICE_STATE (dbus_send env cmd c) = SCANNING_BTDEVICE_STATE c"
  "BLUETOOTH_POWER_STATE (dbus_send env cmd c) = BLUETOOTH_POWER_STATE c"
  "CALL_STATE (dbus_send env cmd c) = CALL_STATE c"
  "server (dbus_send env cmd c) = server c"
  "timer (dbus_send env cmd c) = timer c"
  "timerIdMap (dbus_send env cmd c) = timerIdMap c"
  "pool (dbus_send env cmd c) = pool c"
  "eventQueue (dbus_send env cmd c) = eventQueue c"
  "files (dbus_send env cmd c) = files c"
  "clock (dbus_send env cmd c) = clock c"
  by (simp_all add: dbus_send_def)

lemma dbus_send_noti_simps [frame_simps, simp]:
  "RECORD_STATE (dbus_send_noti env cmd ok info c) = RECORD_STATE c"
  "CURRENT_TEMPERATURE (dbus_send_noti env cmd ok info c) = CURRENT_TEMPERATURE c"
  "SCANNING_BTDEVICE_STATE (dbus_send_noti env cmd ok info c) = SCANNING_BTDEVICE_STATE c"
  "BLUETOOTH_POWER_STATE (dbus_send_noti env cmd ok info c) = BLUETOOTH_POWER_STATE c"
  "CALL_STATE (dbus_send_noti env cmd ok info c) = CALL_STATE c"
  "server (dbus_send_noti env cmd ok info c) = server c"
  "timer (dbus_send_noti env cmd ok info c) = timer c"
  "timerIdMap (dbus_send_noti env cmd ok info c) = timerIdMap c"
  "pool (dbus_send_noti env cmd ok info c) = pool c"
  "eventQueue (dbus_send_noti env cmd ok info c) = eventQueue c"
  "files (dbus_send_noti env cmd ok info c) = files c"
  "clock (dbus_send_noti env cmd ok info c) = clock c"
  by (simp_all add: dbus_send_noti_def)

lemma attempts_sendMessage [simp]:
  "attempts (snd (sendMessage F mk cmd s)) = Suc (attempts s)"
  by (auto simp: sendMessage_def Let_def sendMessageInternal_frame split: option.splits)

lemma attempts_sendMessageNoti [simp]:
  "attempts (snd (sendMessageNoti F mk cmd ok info s)) = Suc (attempts s)"
  by (auto simp: sendMessageNoti_def Let_def sendMessageInternal_frame split: option.splits)

lemma attempts_dbus_send [simp]: "attempts (sender (dbus_send env cmd c)) = Suc (attempts (sender c))"
  by (simp add: dbus_send_def)

lemma attempts_dbus_send_noti [simp]:
  "attempts (sender (dbus_send_noti env cmd ok info c)) = Suc (attempts (sender c))"
  by (simp add: dbus_send_noti_def)

lemma publish_Inr:
  "publish env status msgInfo component msgData data c = Inr c' \<longleftrightarrow>
   (\<exists>j m. status_json status msgInfo component msgData data = Inr j \<and> dump env j = Inr m
      \<and> c' = c\<lparr>server := broadcast m (server c)\<rparr>)"
  by (auto simp: publish_def bind_result_Inr updateStateAndBroadcast_Inr)

lemma publish_Inl:
  "publish env status msgInfo component msgData data c = Inl e \<longleftrightarrow>
   (\<exists>j. status_json status msgInfo component msgData data = Inr j \<and> dump env j = Inl e)"
  by (auto simp: publish_def bind_result_Inl updateStateAndBroadcast_def status_json_Inr)

section \<open>Requests behind a state\<close>

text \<open>
  The handlers of requests look at a state, and when it is one in which the request makes sense
  they set it to \<open>PROCESSING\<close> and send a command; until a notification changes the state nothing more
  is sent.  \<open>tries\<close> counts the attempts to send.
\<close>

locale guarded_request =
  fixes state_of :: "'c \<Rightarrow> 's"
    and busy :: 's
    and ready :: "'s \<Rightarrow> bool"
    and request :: "'c \<Rightarrow> 'c"
    and tries :: "'c \<Rightarrow> nat"
  assumes busy_not_ready: "\<not> ready busy"
    and proceeds: "ready (state_of c) \<Longrightarrow>
      state_of (request c) = busy \<and> tries (request c) = Suc (tries c)"
    and ignores: "\<not> ready (state_of c) \<Longrightarrow> request c = c"
begin

lemma repeated: "request (request c) = request c"
proof (cases "ready (state_of c)")
  case True
  then have "\<not> ready (state_of (request c))" using proceeds busy_not_ready by simp
  then show ?thesis by (rule ignores)
qed (simp add: ignores)

lemma many: "(request ^^ Suc n) c = request c"
proof (induction n)
  case (Suc n)
  have "(request ^^ Suc (Suc n)) c = request ((request ^^ Suc n) c)" by simp
  with Suc.IH show ?case by (simp only: repeated)
qed simp

lemma sends_once: "tries ((request ^^ Suc n) c) = tries c + (if ready (state_of c) then 1 else 0)"
  unfolding many using proceeds [of c] ignores [of c] by simp

lemma once: "(request ^^ Suc n) c = request c \<and> tries (request c) \<le> Suc (tries c)"
  using many [of n c] sends_once [of 0 c] by (cases "ready (state_of c)") simp_all

end

abbreviation tries_of :: "'db core \<Rightarrow> nat" where
  "tries_of c \<equiv> attempts (sender c)"

interpretation start_record: guarded_request RECORD_STATE RecordState.PROCESSING
  "\<lambda>s. s = RecordState.STOPPED" "startRecord env" tries_of for env
  by unfold_locales (auto simp: startRecord_def split: RecordState.splits)

interpretation stop_record: guarded_request RECORD_STATE RecordState.PROCESSING
  "\<lambda>s. s = RecordState.RECORDING" "stopRecord env" tries_of for env
  by unfold_locales (auto simp: stopRecord_def split: RecordState.splits)

interpretation cancel_record: guarded_request RECORD_STATE RecordState.PROCESSING
  "\<lambda>s. s = RecordState.RECORDING" "cancelRecord env" tries_of for env
  by unfold_locales (auto simp: cancelRecord_def split: RecordState.splits)

end
