(* ===== verification/HardwareHandler.thy ===== *)
theory HardwareHandler
  imports Core
begin

text \<open>
  \<open>coremgr/src/Controller/HardwareHandler.cpp\<close>: the requests of the clients that go to the hardware
  manager, and what the core manager does with its notifications.  One definition per method; a
  payload of another class than the method expects is ignored.
\<close>

definition TIMEOUT_REQUEST_CONFIRMATION_MS :: int where
  "TIMEOUT_REQUEST_CONFIRMATION_MS = 30000"

section \<open>Requests\<close>

definition removeTimerOnTimerIdMap :: "string \<Rightarrow> 'db core \<Rightarrow> 'db core" where
  "removeTimerOnTimerIdMap key c =
     (case timerIdMap c key of
        Some i \<Rightarrow> c\<lparr>timer := snd (stopTimer i (timer c)), timerIdMap := (timerIdMap c)(key := None)\<rparr>
      | None \<Rightarrow> c)"

definition startScanBTDevice :: "'db env \<Rightarrow> 'db core \<Rightarrow> 'db core" where
  "startScanBTDevice env c =
     (case SCANNING_BTDEVICE_STATE c of
        ScanningBTDeviceState.IDLE \<Rightarrow>
          dbus_send env DBusCommand.START_SCAN_BTDEVICE (c\<lparr>SCANNING_BTDEVICE_STATE := ScanningBTDeviceState.PROCESSING\<rparr>)
      | ScanningBTDeviceState.SCANNING \<Rightarrow> c
      | ScanningBTDeviceState.PROCESSING \<Rightarrow> c)"

definition stopScanBTDevice :: "'db env \<Rightarrow> 'db core \<Rightarrow> 'db core" where
  "stopScanBTDevice env c =
     (case SCANNING_BTDEVICE_STATE c of
        ScanningBTDeviceState.SCANNING \<Rightarrow>
          (dbus_send env DBusCommand.STOP_SCAN_BTDEVICE c)\<lparr>SCANNING_BTDEVICE_STATE := ScanningBTDeviceState.PROCESSING\<rparr>
      | ScanningBTDeviceState.IDLE \<Rightarrow> c
      | ScanningBTDeviceState.PROCESSING \<Rightarrow> c)"

definition bluetoothPowerOn :: "'db env \<Rightarrow> 'db core \<Rightarrow> 'db core" where
  "bluetoothPowerOn env c =
     (case BLUETOOTH_POWER_STATE c of
        BluetoothPowerState.OFF \<Rightarrow>
          dbus_send env DBusCommand.BLUETOOTH_POWER_ON (c\<lparr>BLUETOOTH_POWER_STATE := BluetoothPowerState.PROCESSING\<rparr>)
      | BluetoothPowerState.ON \<Rightarrow> c
      | BluetoothPowerState.PROCESSING \<Rightarrow> c)"

definition bluetoothPowerOff :: "'db env \<Rightarrow> 'db core \<Rightarrow> 'db core" where
  "bluetoothPowerOff env c =
     (case BLUETOOTH_POWER_STATE c of
        BluetoothPowerState.ON \<Rightarrow>
          dbus_send env DBusCommand.BLUETOOTH_POWER_OFF (c\<lparr>BLUETOOTH_POWER_STATE := BluetoothPowerState.PROCESSING\<rparr>)
      | BluetoothPowerState.OFF \<Rightarrow> c
      | BluetoothPowerState.PROCESSING \<Rightarrow> c)"

definition pairBTDevice ::
    "'db env \<Rightarrow> Payload option \<Rightarrow> 'db core \<Rightarrow> 'db core" where
  "pairBTDevice env payload c =
     (case payload of
        Some (BluetoothDeviceAddressPayload deviceAddress) \<Rightarrow>
          (let data = DBusDataInfo_init(DBUS_DATA_BT_DEVICE_ADDRESS := deviceAddress)
           in dbus_send_noti env DBusCommand.PAIR_BTDEVICE True data c)
      | _ \<Rightarrow> c)"

definition unpairBTDevice ::
    "'db env \<Rightarrow> Payload option \<Rightarrow> 'db core \<Rightarrow> 'db core" where
  "unpairBTDevice env payload c =
     (case payload of
        Some (BluetoothDeviceAddressPayload deviceAddress) \<Rightarrow>
          (let data = DBusDataInfo_init(DBUS_DATA_BT_DEVICE_ADDRESS := deviceAddress)
           in dbus_send_noti env DBusCommand.UNPAIR_BTDEVICE True data c)
      | _ \<Rightarrow> c)"

definition connectBTDevice ::
    "'db env \<Rightarrow> Payload option \<Rightarrow> 'db core \<Rightarrow> 'db core" where
  "connectBTDevice env payload c =
     (case payload of
        Some (BluetoothDeviceAddressPayload deviceAddress) \<Rightarrow>
          (let data = DBusDataInfo_init(DBUS_DATA_BT_DEVICE_ADDRESS := deviceAddress)
           in dbus_send_noti env DBusCommand.CONNECT_BTDEVICE True data c)
      | _ \<Rightarrow> c)"

definition disconnectBTDevice ::
    "'db env \<Rightarrow> Payload option \<Rightarrow> 'db core \<Rightarrow> 'db core" where
  "disconnectBTDevice env payload c =
     (case payload of
        Some (BluetoothDeviceAddressPayload deviceAddress) \<Rightarrow>
          (let data = DBusDataInfo_init(DBUS_DATA_BT_DEVICE_ADDRESS := deviceAddress)
           in dbus_send_noti env DBusCommand.DISCONNECT_BTDEVICE True data c)
      | _ \<Rightarrow> c)"

definition rejectBTDeviceRequestConfirmation ::
    "'db env \<Rightarrow> Payload option \<Rightarrow> 'db core \<Rightarrow> 'db core" where
  "rejectBTDeviceRequestConfirmation env payload c =
     (case payload of
        Some (BluetoothDeviceAddressPayload deviceAddress) \<Rightarrow>
          (let data = DBusDataInfo_init(DBUS_DATA_BT_DEVICE_ADDRESS := deviceAddress)
           in removeTimerOnTimerIdMap deviceAddress
               (dbus_send_noti env DBusCommand.REJECT_REQUEST_CONFIRMATION True data c))
      | _ \<Rightarrow> c)"

definition acceptBTDeviceRequestConfirmation ::
    "'db env \<Rightarrow> Payload option \<Rightarrow> 'db core \<Rightarrow> 'db core" where
  "acceptBTDeviceRequestConfirmation env payload c =
     (case payload of
        Some (BluetoothDeviceAddressPayload deviceAddress) \<Rightarrow>
          (let data = DBusDataInfo_init(DBUS_DATA_BT_DEVICE_ADDRESS := deviceAddress)
           in removeTimerOnTimerIdMap deviceAddress
               (dbus_send_noti env DBusCommand.ACCEPT_REQUEST_CONFIRMATION True data c))
      | _ \<Rightarrow> c)"

definition dialCall :: "'db env \<Rightarrow> Payload option \<Rightarrow> 'db core \<Rightarrow> 'db core" where
  "dialCall env payload c =
     (case CALL_STATE c of
        CallState.IDLE \<Rightarrow>
          (case payload of
             Some (CallPayload _ phoneNumber _) \<Rightarrow>
               (let data = DBusDataInfo_init(DBUS_DATA_CALL_NUMBER := phoneNumber)
                in (dbus_send_noti env DBusCommand.DIAL_CALL True data c)
                     \<lparr>CALL_STATE := CallState.PROCESSING\<rparr>)
           | _ \<Rightarrow> c)
      | CallState.PROCESSING \<Rightarrow> c
      | CallState.INCOMING \<Rightarrow> c
      | CallState.OUTCOMING \<Rightarrow> c
      | CallState.CALLING \<Rightarrow> c)"

definition hangupCall :: "'db env \<Rightarrow> 'db core \<Rightarrow> 'db core" where
  "hangupCall env c =
     (case CALL_STATE c of
        CallState.OUTCOMING \<Rightarrow>
          (dbus_send env DBusCommand.HANGUP_CALL c)\<lparr>CALL_STATE := CallState.PROCESSING\<rparr>
      | CallState.INCOMING \<Rightarrow>
          (dbus_send env DBusCommand.HANGUP_CALL c)\<lparr>CALL_STATE := CallState.PROCESSING\<rparr>
      | CallState.CALLING \<Rightarrow>
          (dbus_send env DBusCommand.HANGUP_CALL c)\<lparr>CALL_STATE := CallState.PROCESSING\<rparr>
      | CallState.PROCESSING \<Rightarrow> c
      | CallState.IDLE \<Rightarrow> c)"

definition answerCall :: "'db env \<Rightarrow> 'db core \<Rightarrow> 'db core" where
  "answerCall env c =
     (case CALL_STATE c of
        CallState.INCOMING \<Rightarrow>
          (dbus_send env DBusCommand.ANSWER_CALL c)\<lparr>CALL_STATE := CallState.PROCESSING\<rparr>
      | CallState.PROCESSING \<Rightarrow> c
      | CallState.CALLING \<Rightarrow> c
      | CallState.IDLE \<Rightarrow> c
      | CallState.OUTCOMING \<Rightarrow> c)"

section \<open>Notifications\<close>

definition startScanBTDeviceNOTI ::
    "'db env \<Rightarrow> Payload option \<Rightarrow> 'db core \<Rightarrow> fault + 'db core" where
  "startScanBTDeviceNOTI env payload c =
     (case payload of
        Some (NotiPayload isSuccess msgInfo) \<Rightarrow>
          if \<not> isSuccess
          then publish env ''fail'' msgInfo ''Settings'' ''start_scan_btdevice_noti'' JNull
                 (c\<lparr>SCANNING_BTDEVICE_STATE := ScanningBTDeviceState.IDLE\<rparr>)
          else publish env ''success'' msgInfo ''Settings'' ''start_scan_btdevice_noti'' JNull
                 (c\<lparr>SCANNING_BTDEVICE_STATE := ScanningBTDeviceState.SCANNING\<rparr>)
      | _ \<Rightarrow> Inr c)"

definition stopScanBTDeviceNOTI ::
    "'db env \<Rightarrow> Payload option \<Rightarrow> 'db core \<Rightarrow> fault + 'db core" where
  "stopScanBTDeviceNOTI env payload c =
     (case payload of
        Some (NotiPayload isSuccess msgInfo) \<Rightarrow>
          if \<not> isSuccess
          then publish env ''fail'' msgInfo ''Settings'' ''stop_scan_btdevice_noti'' JNull
                 (c\<lparr>SCANNING_BTDEVICE_STATE := ScanningBTDeviceState.SCANNING\<rparr>)
          else publish env ''success'' msgInfo ''Settings'' ''stop_scan_btdevice_noti'' JNull
                 (c\<lparr>SCANNING_BTDEVICE_STATE := ScanningBTDeviceState.IDLE\<rparr>)
      | _ \<Rightarrow> Inr c)"

definition updateTemperatureNOTI ::
    "'db env \<Rightarrow> Payload option \<Rightarrow> 'db core \<Rightarrow> fault + 'db core" where
  "updateTemperatureNOTI env payload c =
     (case payload of
        Some (NotiTemperaturePayload isSuccess temperatureValue) \<Rightarrow>
          if \<not> isSuccess
          then publish env ''fail''
                 ''Failed to update temperature from Hardware Manager Service. Check sensor connection.''
                 ''Header'' ''update_temperature_noti'' (json_object [(''temperature'', JInt 0)]) c
          else bind_result (float32_to_int (float_add temperatureValue (Finite (1 / 2)))) (\<lambda>nextTemperature.
                 if CURRENT_TEMPERATURE c \<noteq> nextTemperature
                 then publish env ''success''
                        ''Temperature updated successfully from Hardware Manager Service.''
                        ''Header'' ''update_temperature_noti''
                        (json_object [(''temperature'', JInt nextTemperature)])
                        (c\<lparr>CURRENT_TEMPERATURE := nextTemperature\<rparr>)
                 else Inr c)
      | _ \<Rightarrow> Inr c)"

definition scanningBTDeviceFoundNOTI ::
    "'db env \<Rightarrow> Payload option \<Rightarrow> 'db core \<Rightarrow> fault + 'db core" where
  "scanningBTDeviceFoundNOTI env payload c =
     (case payload of
        Some (BluetoothDevicePayload name address rssi paired connected' icon) \<Rightarrow>
          publish env ''success'' ''Scanning Bluetooth device found.'' ''Settings'' ''scanning_btdevice_found_noti'' (json_object
                   [(''device_name'', JString name), (''device_address'', JString address),
                    (''rssi'', JInt rssi), (''is_paired'', JBool paired),
                    (''is_connected'', JBool connected'), (''icon'', JString icon)])
                 c
      | _ \<Rightarrow> Inr c)"

definition scanningBTDeviceDeleteNOTI ::
    "'db env \<Rightarrow> Payload option \<Rightarrow> 'db core \<Rightarrow> fault + 'db core" where
  "scanningBTDeviceDeleteNOTI env payload c =
     (case payload of
        Some (BluetoothDeviceAddressPayload address) \<Rightarrow>
          publish env ''success'' ''Scanning Bluetooth device deleted.'' ''Settings'' ''scanning_btdevice_delete_noti'' (json_object [(''device_address'', JString address)])
                 c
      | _ \<Rightarrow> Inr c)"

definition bluetoothPowerOnNOTI ::
    "'db env \<Rightarrow> Payload option \<Rightarrow> 'db core \<Rightarrow> fault + 'db core" where
  "bluetoothPowerOnNOTI env payload c =
     (case payload of
        Some (NotiPayload isSuccess msgInfo) \<Rightarrow>
          if isSuccess
          then publish env ''success'' msgInfo ''Settings'' ''bluetooth_power_on_noti'' JNull
                 (c\<lparr>BLUETOOTH_POWER_STATE := BluetoothPowerState.ON\<rparr>)
          else publish env ''fail'' msgInfo ''Settings'' ''bluetooth_power_on_noti'' JNull
                 (c\<lparr>BLUETOOTH_POWER_STATE := BluetoothPowerState.OFF\<rparr>)
      | _ \<Rightarrow> Inr c)"

definition bluetoothPowerOffNOTI ::
    "'db env \<Rightarrow> Payload option \<Rightarrow> 'db core \<Rightarrow> fault + 'db core" where
  "bluetoothPowerOffNOTI env payload c =
     (case payload of
        Some (NotiPayload isSuccess msgInfo) \<Rightarrow>
          if isSuccess
          then publish env ''success'' msgInfo ''Settings'' ''bluetooth_power_off_noti'' JNull
                 (c\<lparr>BLUETOOTH_POWER_STATE := BluetoothPowerState.OFF\<rparr>)
          else publish env ''fail'' msgInfo ''Settings'' ''bluetooth_power_off_noti'' JNull
                 (c\<lparr>BLUETOOTH_POWER_STATE := BluetoothPowerState.ON\<rparr>)
      | _ \<Rightarrow> Inr c)"

definition pairBTDeviceNOTI ::
    "'db env \<Rightarrow> Payload option \<Rightarrow> 'db core \<Rightarrow> fault + 'db core" where
  "pairBTDeviceNOTI env payload c =
     (case payload of
        Some (NotiPayload isSuccess msgInfo) \<Rightarrow>
          if isSuccess
          then publish env ''success'' msgInfo ''Settings'' ''pair_btdevice_noti'' JNull
                 c
          else publish env ''fail'' msgInfo ''Settings'' ''pair_btdevice_noti'' JNull
                 c
      | _ \<Rightarrow> Inr c)"

definition unpairBTDeviceNOTI ::
    "'db env \<Rightarrow> Payload option \<Rightarrow> 'db core \<Rightarrow> fault + 'db core" where
  "unpairBTDeviceNOTI env payload c =
     (case payload of
        Some (NotiPayload isSuccess msgInfo) \<Rightarrow>
          if isSuccess
          then publish env ''success'' msgInfo ''Settings'' ''unpair_btdevice_noti'' JNull
                 c
          else publish env ''fail'' msgInfo ''Settings'' ''unpair_btdevice_noti'' JNull
                 c
      | _ \<Rightarrow> Inr c)"

definition connectBTDeviceNOTI ::
    "'db env \<Rightarrow> Payload option \<Rightarrow> 'db core \<Rightarrow> fault + 'db core" where
  "connectBTDeviceNOTI env payload c =
     (case payload of
        Some (NotiBTDeviceAddressPayload isSuccess msgInfo address) \<Rightarrow>
          if isSuccess
          then publish env ''success'' msgInfo ''Settings'' ''connect_btdevice_noti'' (json_object [(''device_address'', JString address)])
                 c
          else publish env ''fail'' msgInfo ''Settings'' ''connect_btdevice_noti'' (json_object [(''device_address'', JString address)])
                 c
      | _ \<Rightarrow> Inr c)"

definition disconnectBTDeviceNOTI ::
    "'db env \<Rightarrow> Payload option \<Rightarrow> 'db core \<Rightarrow> fault + 'db core" where
  "disconnectBTDeviceNOTI env payload c =
     (case payload of
        Some (NotiBTDeviceAddressPayload isSuccess msgInfo address) \<Rightarrow>
          if isSuccess
          then publish env ''success'' msgInfo ''Settings'' ''disconnect_btdevice_noti'' (json_object [(''device_address'', JString address)])
                 c
          else publish env ''fail'' msgInfo ''Settings'' ''disconnect_btdevice_noti'' (json_object [(''device_address'', JString address)])
                 c
      | _ \<Rightarrow> Inr c)"

definition btDevicePropertyChangeNOTI ::
    "'db env \<Rightarrow> Payload option \<Rightarrow> 'db core \<Rightarrow> fault + 'db core" where
  "btDevicePropertyChangeNOTI env payload c =
     (case payload of
        Some (BluetoothDevicePayload name address rssi paired connected' icon) \<Rightarrow>
          publish env ''success'' ''Bluetooth device property changed.'' ''Settings'' ''btdevice_property_change_noti'' (json_object
                   [(''device_name'', JString name), (''device_address'', JString address),
                    (''rssi'', JInt rssi), (''is_paired'', JBool paired),
                    (''is_connected'', JBool connected'), (''icon'', JString icon)])
                 c
      | _ \<Rightarrow> Inr c)"

text \<open>
  \<open>btDeviceRequestConfirmationNOTI\<close>: the clients are asked, and a timer is started whose event makes
  the core manager reject the request.  A start that never returns is a wait without end.
\<close>

definition btDeviceRequestConfirmationNOTI ::
    "'db env \<Rightarrow> Payload option \<Rightarrow> 'db core \<Rightarrow> fault + 'db core" where
  "btDeviceRequestConfirmationNOTI env payload c =
     (case payload of
        Some (BluetoothDevicePasskeyPayload address passkey) \<Rightarrow>
          bind_result
            (publish env ''success'' ''Bluetooth device requests confirmation.'' ''Settings''
               ''btdevice_request_confirmation_noti''
               (json_object [(''device_address'', JString address), (''passkey'', JString passkey)]) c)
            (\<lambda>c.
              (let event = make_Event EventTypeID.BTDEVICE_REQUEST_CONFIRMATION_TIMEOUT
                             (Some (BluetoothDeviceAddressPayload address))
               in case startTimer (clock c) TIMEOUT_REQUEST_CONFIRMATION_MS (Some event) (timer c) of
                    None \<Rightarrow> Inl Blocked
                  | Some (i, t) \<Rightarrow>
                      (let c = c\<lparr>timer := t\<rparr>
                       in if i \<noteq> - 1 then Inr (c\<lparr>timerIdMap := (timerIdMap c)(address \<mapsto> i)\<rparr>)
                          else Inr c)))
      | _ \<Rightarrow> Inr c)"

definition handleBTDeviceRequestConfirmationTimeout ::
    "'db env \<Rightarrow> Payload option \<Rightarrow> 'db core \<Rightarrow> 'db core" where
  "handleBTDeviceRequestConfirmationTimeout env payload c =
     (case payload of
        Some (BluetoothDeviceAddressPayload address) \<Rightarrow>
          (let data = DBusDataInfo_init(DBUS_DATA_BT_DEVICE_ADDRESS := address)
           in dbus_send_noti env DBusCommand.REJECT_REQUEST_CONFIRMATION True data c)
      | _ \<Rightarrow> c)"

definition pbapSessionEndNOTI ::
    "'db env \<Rightarrow> Payload option \<Rightarrow> 'db core \<Rightarrow> fault + 'db core" where
  "pbapSessionEndNOTI env payload c =
     (case payload of
        Some (NotiPayload isSuccess msgInfo) \<Rightarrow>
          if isSuccess
          then publish env ''success'' msgInfo ''Call'' ''pbap_session_end_noti'' JNull
                 c
          else publish env ''fail'' msgInfo ''Call'' ''pbap_session_end_noti'' JNull
                 c
      | _ \<Rightarrow> Inr c)"

definition pbapPhonebookPullStartNOTI ::
    "'db env \<Rightarrow> Payload option \<Rightarrow> 'db core \<Rightarrow> fault + 'db core" where
  "pbapPhonebookPullStartNOTI env payload c =
     (case payload of
        Some (NotiPayload isSuccess msgInfo) \<Rightarrow>
          if isSuccess
          then publish env ''success'' msgInfo ''Call'' ''pbap_phonebook_pull_start_noti'' JNull
                 c
          else Inr c
      | _ \<Rightarrow> Inr c)"

definition pbapPhonebookPullNOTI ::
    "'db env \<Rightarrow> Payload option \<Rightarrow> 'db core \<Rightarrow> fault + 'db core" where
  "pbapPhonebookPullNOTI env payload c =
     (case payload of
        Some (ContactPayload name number) \<Rightarrow>
          publish env ''success'' ''PBAP contact received.'' ''Call'' ''pbap_phonebook_pull_noti'' (json_object [(''contact_name'', JString name), (''contact_number'', JString number)])
                 c
      | _ \<Rightarrow> Inr c)"

definition pbapPhonebookPullEndNOTI ::
    "'db env \<Rightarrow> Payload option \<Rightarrow> 'db core \<Rightarrow> fault + 'db core" where
  "pbapPhonebookPullEndNOTI env payload c =
     (case payload of
        Some (NotiPayload isSuccess msgInfo) \<Rightarrow>
          if isSuccess
          then publish env ''success'' msgInfo ''Call'' ''pbap_phonebook_pull_end_noti'' JNull
                 c
          else Inr c
      | _ \<Rightarrow> Inr c)"

definition callHistoryPullStartNOTI ::
    "'db env \<Rightarrow> Payload option \<Rightarrow> 'db core \<Rightarrow> fault + 'db core" where
  "callHistoryPullStartNOTI env payload c =
     (case payload of
        Some (NotiPayload isSuccess msgInfo) \<Rightarrow>
          if isSuccess
          then publish env ''success'' msgInfo ''Call'' ''call_history_pull_start_noti'' JNull
                 c
          else Inr c
      | _ \<Rightarrow> Inr c)"

definition callHistoryPullNOTI ::
    "'db env \<Rightarrow> Payload option \<Rightarrow> 'db core \<Rightarrow> fault + 'db core" where
  "callHistoryPullNOTI env payload c =
     (case payload of
        Some (CallHistoryPayload name number type dateTime) \<Rightarrow>
          publish env ''success'' ''Call history entry received.'' ''Call'' ''call_history_pull_noti'' (json_object
                   [(''call_history_name'', JString name), (''call_history_number'', JString number),
                    (''call_history_type'', JString type), (''call_history_datetime'', JString dateTime)])
                 c
      | _ \<Rightarrow> Inr c)"

definition callHistoryPullEndNOTI ::
    "'db env \<Rightarrow> Payload option \<Rightarrow> 'db core \<Rightarrow> fault + 'db core" where
  "callHistoryPullEndNOTI env payload c =
     (case payload of
        Some (NotiPayload isSuccess msgInfo) \<Rightarrow>
          if isSuccess
          then publish env ''success'' msgInfo ''Call'' ''call_history_pull_end_noti'' JNull
                 c
          else Inr c
      | _ \<Rightarrow> Inr c)"

definition incomingCallNOTI ::
    "'db env \<Rightarrow> Payload option \<Rightarrow> 'db core \<Rightarrow> fault + 'db core" where
  "incomingCallNOTI env payload c =
     (case payload of
        Some (CallPayload name number state) \<Rightarrow>
          publish env ''success'' ''Incoming call notification received.'' ''Call'' ''incoming_call_noti'' (json_object
                   [(''call_name'', JString name), (''call_number'', JString number),
                    (''call_state'', JString state)])
                 (c\<lparr>CALL_STATE := CallState.INCOMING\<rparr>)
      | _ \<Rightarrow> Inr c)"

definition outgoingCallNOTI ::
    "'db env \<Rightarrow> Payload option \<Rightarrow> 'db core \<Rightarrow> fault + 'db core" where
  "outgoingCallNOTI env payload c =
     (case payload of
        Some (CallPayload name number state) \<Rightarrow>
          publish env ''success'' ''Outgoing call notification received.'' ''Call'' ''outgoing_call_noti'' (json_object
                   [(''call_name'', JString name), (''call_number'', JString number),
                    (''call_state'', JString state)])
                 (c\<lparr>CALL_STATE := CallState.OUTCOMING\<rparr>)
      | _ \<Rightarrow> Inr c)"

text \<open>The state a notification's text stands for.\<close>

definition call_state_of :: "string \<Rightarrow> CallState" where
  "call_state_of state =
     (if state = ''incoming'' then CallState.INCOMING
      else if state = ''outgoing'' then CallState.OUTCOMING
      else if state = ''active'' then CallState.CALLING
      else if state = ''held'' \<or> state = ''waiting'' then CallState.CALLING
      else if state = ''idle'' \<or> state = ''disconnected'' then CallState.IDLE
      else CallState.IDLE)"

definition callStateChangedNOTI ::
    "'db env \<Rightarrow> Payload option \<Rightarrow> 'db core \<Rightarrow> fault + 'db core" where
  "callStateChangedNOTI env payload c =
     (case payload of
        Some (CallPayload name number state) \<Rightarrow>
          publish env ''success'' ''Call state change notification received.'' ''Call'' ''call_state_changed_noti'' (json_object
                   [(''call_name'', JString name), (''call_number'', JString number),
                    (''call_state'', JString state)])
                 (c\<lparr>CALL_STATE := call_state_of state\<rparr>)
      | _ \<Rightarrow> Inr c)"

definition callEndedNOTI ::
    "'db env \<Rightarrow> Payload option \<Rightarrow> 'db core \<Rightarrow> fault + 'db core" where
  "callEndedNOTI env payload c =
     (case payload of
        Some (CallPayload name number state) \<Rightarrow>
          publish env ''success'' ''Call ended notification received.'' ''Call'' ''call_ended_noti'' (json_object
                   [(''call_name'', JString name), (''call_number'', JString number),
                    (''call_state'', JString state)])
                 (c\<lparr>CALL_STATE := CallState.IDLE\<rparr>)
      | _ \<Rightarrow> Inr c)"

definition dialCallNOTI ::
    "'db env \<Rightarrow> Payload option \<Rightarrow> 'db core \<Rightarrow> fault + 'db core" where
  "dialCallNOTI env payload c =
     (case payload of
        Some (NotiPayload isSuccess msgInfo) \<Rightarrow>
          if isSuccess
          then publish env ''success'' msgInfo ''Call'' ''dial_call_noti'' JNull
                 (c\<lparr>CALL_STATE := CallState.IDLE\<rparr>)
          else publish env ''fail'' msgInfo ''Call'' ''dial_call_noti'' JNull
                 (c\<lparr>CALL_STATE := CallState.IDLE\<rparr>)
      | _ \<Rightarrow> Inr c)"

definition hangupCallNOTI ::
    "'db env \<Rightarrow> Payload option \<Rightarrow> 'db core \<Rightarrow> fault + 'db core" where
  "hangupCallNOTI env payload c =
     (case payload of
        Some (NotiPayload isSuccess msgInfo) \<Rightarrow>
          if isSuccess
          then publish env ''success'' msgInfo ''Call'' ''hangup_call_noti'' JNull
                 (c\<lparr>CALL_STATE := CallState.IDLE\<rparr>)
          else publish env ''fail'' msgInfo ''Call'' ''hangup_call_noti'' JNull
                 (c\<lparr>CALL_STATE := CallState.IDLE\<rparr>)
      | _ \<Rightarrow> Inr c)"

definition answerCallNOTI ::
    "'db env \<Rightarrow> Payload option \<Rightarrow> 'db core \<Rightarrow> fault + 'db core" where
  "answerCallNOTI env payload c =
     (case payload of
        Some (NotiPayload isSuccess msgInfo) \<Rightarrow>
          if isSuccess
          then publish env ''success'' msgInfo ''Call'' ''answer_call_noti'' JNull
                 (c\<lparr>CALL_STATE := CallState.IDLE\<rparr>)
          else publish env ''fail'' msgInfo ''Call'' ''answer_call_noti'' JNull
                 (c\<lparr>CALL_STATE := CallState.IDLE\<rparr>)
      | _ \<Rightarrow> Inr c)"

section \<open>The guarded requests\<close>

interpretation start_scan: guarded_request SCANNING_BTDEVICE_STATE ScanningBTDeviceState.PROCESSING
  "\<lambda>s. s = ScanningBTDeviceState.IDLE" "startScanBTDevice env" tries_of for env
  by unfold_locales (auto simp: startScanBTDevice_def split: ScanningBTDeviceState.splits)

interpretation stop_scan: guarded_request SCANNING_BTDEVICE_STATE ScanningBTDeviceState.PROCESSING
  "\<lambda>s. s = ScanningBTDeviceState.SCANNING" "stopScanBTDevice env" tries_of for env
  by unfold_locales (auto simp: stopScanBTDevice_def split: ScanningBTDeviceState.splits)

interpretation power_on: guarded_request BLUETOOTH_POWER_STATE BluetoothPowerState.PROCESSING
  "\<lambda>s. s = BluetoothPowerState.OFF" "bluetoothPowerOn env" tries_of for env
  by unfold_locales (auto simp: bluetoothPowerOn_def split: BluetoothPowerState.splits)

interpretation power_off: guarded_request BLUETOOTH_POWER_STATE BluetoothPowerState.PROCESSING
  "\<lambda>s. s = BluetoothPowerState.ON" "bluetoothPowerOff env" tries_of for env
  by unfold_locales (auto simp: bluetoothPowerOff_def split: BluetoothPowerState.splits)

interpretation hang_up: guarded_request CALL_STATE CallState.PROCESSING
  "\<lambda>s. s \<in> {CallState.OUTCOMING, CallState.INCOMING, CallState.CALLING}" "hangupCall env" tries_of
  for env
  by unfold_locales (auto simp: hangupCall_def split: CallState.splits)

interpretation answer: guarded_request CALL_STATE CallState.PROCESSING
  "\<lambda>s. s = CallState.INCOMING" "answerCall env" tries_of for env
  by unfold_locales (auto simp: answerCall_def split: CallState.splits)

interpretation dial: guarded_request CALL_STATE CallState.PROCESSING
  "\<lambda>s. s = CallState.IDLE" "dialCall env (Some (CallPayload name number state))" tries_of
  for env name number state
  by unfold_locales (auto simp: dialCall_def split: CallState.splits)

end
