(* ===== verification/SQLiteDBHandler.thy ===== *)
theory SQLiteDBHandler
  imports Core
begin

text \<open>
  \<open>coremgr/src/Controller/SQLiteDBHandler.cpp\<close>: the list of the records, and what happens when one is
  added or removed.  The handler waits for the pool's future, so a call is one step of the main
  worker; without a pool it does nothing.
\<close>

definition record_json :: "AudioRecord \<Rightarrow> fault + json" where
  "record_json r =
     bind_result (json_set ''id'' (JInt (record_id r)) JNull) (\<lambda>recordJson.
     bind_result (json_set ''file_path'' (JString (filePath r)) recordJson) (\<lambda>recordJson.
       json_set ''duration_sec'' (JInt (durationSec r)) recordJson))"

fun records_json :: "AudioRecord list \<Rightarrow> fault + json list" where
  "records_json [] = Inr []"
| "records_json (r # rs) =
     bind_result (record_json r) (\<lambda>j. bind_result (records_json rs) (\<lambda>js. Inr (j # js)))"

definition db_getAllAudioRecords :: "'db env \<Rightarrow> 'db core \<Rightarrow> fault + 'db core" where
  "db_getAllAudioRecords env c =
     (case pool c of
        None \<Rightarrow> Inr c
      | Some p \<Rightarrow>
          bind_result (pool_getAllAudioRecords (engine env) p) (\<lambda>(vec, p).
            let c = c\<lparr>pool := Some p\<rparr> in
          bind_result (records_json vec) (\<lambda>jsonVec.
            publish env ''success'' ''Fetched audio records'' ''Record'' ''get_all_record_noti''
              (json_object [(''records'', JArray jsonVec)]) c)))"

definition db_insertAudioRecord :: "'db env \<Rightarrow> Payload option \<Rightarrow> 'db core \<Rightarrow> fault + 'db core" where
  "db_insertAudioRecord env payload c =
     (case payload of
        Some (WavPayload path secs) \<Rightarrow>
          (case pool c of
             None \<Rightarrow> Inr c
           | Some p \<Rightarrow>
               bind_result (pool_insertAudioRecord (engine env) path secs p) (\<lambda>(newRecord, p).
                 let c = c\<lparr>pool := Some p\<rparr> in
                 if record_id newRecord \<noteq> - 1
                 then bind_result (record_json newRecord) (\<lambda>recordJson.
                        publish env ''success'' ''Record inserted successfully'' ''Record''
                          ''insert_record_noti'' (json_object [(''record'', recordJson)]) c)
                 else publish env ''fail'' ''Failed to insert record to DB'' ''Record''
                        ''insert_record_noti'' JNull c))
      | _ \<Rightarrow> Inr c)"

text \<open>Deleting the file: an error of the file system is logged and the removal still succeeds.\<close>

definition delete_file :: "'db env \<Rightarrow> string \<Rightarrow> 'db core \<Rightarrow> 'db core" where
  "delete_file env path c =
     (if fs_error env path then c
      else if files c path
           then (if fs_remove env path then c\<lparr>files := (files c)(path := False)\<rparr> else c)
           else c)"

definition db_removeAudioRecord :: "'db env \<Rightarrow> Payload option \<Rightarrow> 'db core \<Rightarrow> fault + 'db core" where
  "db_removeAudioRecord env payload c =
     (case payload of
        Some (RemoveRecordPayload recordId) \<Rightarrow>
          (case pool c of
             None \<Rightarrow> Inr c
           | Some p \<Rightarrow>
               bind_result (pool_removeAudioRecord (engine env) recordId p) (\<lambda>(path, p).
                 let c = c\<lparr>pool := Some p\<rparr> in
                 if path \<noteq> [] then
                   publish env ''success'' ''Record removed successfully'' ''Record''
                     ''remove_record_noti'' (json_object [(''id'', JInt recordId)])
                     (delete_file env path c)
                 else publish env ''fail'' ''Failed to remove record from DB'' ''Record''
                        ''remove_record_noti'' (json_object [(''id'', JInt recordId)]) c))
      | _ \<Rightarrow> Inr c)"

lemma record_json_Inr:
  "record_json r = Inr (JObject
     [(''duration_sec'', JInt (durationSec r)), (''file_path'', JString (filePath r)),
      (''id'', JInt (record_id r))])"
  by (simp add: record_json_def json_set_def)

lemma records_json_Inr: "\<exists>js. records_json rs = Inr js \<and> length js = length rs"
  by (induction rs) (auto simp: record_json_Inr)

text \<open>The record store behind a pool that serves.\<close>

definition store :: "('db \<Rightarrow> int \<rightharpoonup> string \<times> int) \<Rightarrow> 'db core \<Rightarrow> int \<rightharpoonup> string \<times> int" where
  "store tab c = (case pool c of None \<Rightarrow> Map.empty | Some p \<Rightarrow> tab (database p))"

definition pool_serving :: "'db core \<Rightarrow> bool" where
  "pool_serving c \<longleftrightarrow> (\<exists>p. pool c = Some p \<and> pool_ok p)"

text \<open>
  Removing a record that is there takes its row and its file away and tells the clients; the
  file system's errors do not matter to the store.
\<close>

lemma db_removeAudioRecord_present:
  assumes E: "audio_engine (engine env) tab" and p: "pool_serving c"
    and row: "store tab c i = Some (path, d)" and path: "c_str path \<noteq> []"
  shows "\<exists>c1. store tab c1 = (store tab c)(i := None) \<and> server c1 = server c \<and> pool_serving c1
      \<and> files c1 = files c
      \<and> db_removeAudioRecord env (Some (RemoveRecordPayload i)) c =
          publish env ''success'' ''Record removed successfully'' ''Record'' ''remove_record_noti''
            (json_object [(''id'', JInt i)]) (delete_file env (c_str path) c1)"
proof -
  from p obtain q where q: "pool c = Some q" "pool_ok q"
    by (auto simp: pool_serving_def)
  with row have t: "tab (database q) i = Some (path, d)" by (simp add: store_def)
  obtain db' where rm: "removeAudioRecord (engine env) i (database q) = (Inr (c_str path), db')"
    and tab: "tab db' = (tab (database q))(i := None)"
    using removeAudioRecord_spec [OF E, of i "database q"] t by auto
  let ?c1 = "c\<lparr>pool := Some (q\<lparr>database := db'\<rparr>)\<rparr>"
  have "store tab ?c1 = (store tab c)(i := None)" "pool_serving ?c1"
    using q tab by (simp_all add: store_def pool_serving_def)
  moreover have "db_removeAudioRecord env (Some (RemoveRecordPayload i)) c =
      publish env ''success'' ''Record removed successfully'' ''Record'' ''remove_record_noti''
        (json_object [(''id'', JInt i)]) (delete_file env (c_str path) ?c1)"
    using q rm path
    by (simp add: db_removeAudioRecord_def pool_removeAudioRecord_def pool_call_ok run_task_def)
  ultimately show ?thesis by (intro exI [of _ ?c1]) simp
qed

lemma db_removeAudioRecord_absent:
  assumes E: "audio_engine (engine env) tab" and p: "pool_serving c" and row: "store tab c i = None"
  shows "\<exists>c1. store tab c1 = store tab c \<and> server c1 = server c \<and> pool_serving c1 \<and> files c1 = files c
      \<and> db_removeAudioRecord env (Some (RemoveRecordPayload i)) c =
          publish env ''fail'' ''Failed to remove record from DB'' ''Record'' ''remove_record_noti''
            (json_object [(''id'', JInt i)]) c1"
proof -
  from p obtain q where q: "pool c = Some q" "pool_ok q"
    by (auto simp: pool_serving_def)
  with row have t: "tab (database q) i = None" by (simp add: store_def)
  obtain db' where rm: "removeAudioRecord (engine env) i (database q) = (Inr '''', db')"
    and tab: "tab db' = (tab (database q))(i := None)"
    using removeAudioRecord_spec [OF E, of i "database q"] t by auto
  let ?c1 = "c\<lparr>pool := Some (q\<lparr>database := db'\<rparr>)\<rparr>"
  have "store tab ?c1 = store tab c" "pool_serving ?c1"
    using q tab t by (auto simp: store_def pool_serving_def)
  moreover have "db_removeAudioRecord env (Some (RemoveRecordPayload i)) c =
      publish env ''fail'' ''Failed to remove record from DB'' ''Record'' ''remove_record_noti''
        (json_object [(''id'', JInt i)]) ?c1"
    using q rm
    by (simp add: db_removeAudioRecord_def pool_removeAudioRecord_def pool_call_ok run_task_def)
  ultimately show ?thesis by (intro exI [of _ ?c1]) simp
qed

text \<open>Inserting a path that is new and whose id fits \<open>int\<close> tells the clients the new record.\<close>

lemma db_insertAudioRecord_new:
  assumes E: "audio_engine (engine env) tab" and p: "pool_serving c"
    and new: "\<nexists>i d'. store tab c i = Some (c_str path, d')"
  shows "\<exists>k c1. store tab c1 = (store tab c)(k \<mapsto> (c_str path, d)) \<and> store tab c k = None \<and> 1 \<le> k
      \<and> server c1 = server c \<and> pool_serving c1
      \<and> (wrap32 k \<noteq> - 1 \<longrightarrow> db_insertAudioRecord env (Some (WavPayload path d)) c =
          publish env ''success'' ''Record inserted successfully'' ''Record'' ''insert_record_noti''
            (json_object [(''record'', JObject [(''duration_sec'', JInt d),
               (''file_path'', JString path), (''id'', JInt (wrap32 k))])]) c1)"
proof -
  from p obtain q where q: "pool c = Some q" "pool_ok q"
    by (auto simp: pool_serving_def)
  let ?r = "\<lparr>record_id = 0, filePath = path, durationSec = d\<rparr>"
  have "\<nexists>i d'. tab (database q) i = Some (c_str (filePath ?r), d')"
    using new q by (simp add: store_def)
  from insertAudioRecord_new [OF E this] obtain k db' where
    ins: "insertAudioRecord (engine env) ?r (database q) = (?r\<lparr>record_id := wrap32 k\<rparr>, db')"
    and k: "1 \<le> k" "tab (database q) k = None"
    and tab: "tab db' = (tab (database q))(k \<mapsto> (c_str path, d))"
    by auto
  let ?c1 = "c\<lparr>pool := Some (q\<lparr>database := db'\<rparr>)\<rparr>"
  have "store tab ?c1 = (store tab c)(k \<mapsto> (c_str path, d))" "store tab c k = None" "pool_serving ?c1"
    using q tab k by (auto simp: store_def pool_serving_def)
  moreover have "db_insertAudioRecord env (Some (WavPayload path d)) c =
      publish env ''success'' ''Record inserted successfully'' ''Record'' ''insert_record_noti''
        (json_object [(''record'', JObject [(''duration_sec'', JInt d),
           (''file_path'', JString path), (''id'', JInt (wrap32 k))])]) ?c1" if "wrap32 k \<noteq> - 1"
    using q ins that
    by (simp add: db_insertAudioRecord_def pool_insertAudioRecord_def pool_call_ok run_task_def record_json_Inr)
  ultimately show ?thesis using k(1) by (intro exI [of _ k] exI [of _ ?c1]) simp
qed

end
