(* ===== verification/CoreWorker.thy ===== *)
theory CoreWorker
  imports HardwareHandler SQLiteDBHandler
begin

text \<open>
  What feeds and what drains the core manager's event queue: \<open>coremgr/src/Thread/DBusReceiver.cpp\<close>,
  \<open>coremgr/src/Thread/WebSocket.cpp\<close> and \<open>coremgr/src/Thread/MainWorker.cpp\<close>.
\<close>

section \<open>DBusReceiver\<close>

definition push_event ::
    "EventTypeID \<Rightarrow> Payload option \<Rightarrow> EventTypeID EventQueue \<Rightarrow> EventTypeID EventQueue" where
  "push_event i p q = snd (pushEvent (Some (make_Event i p)) q)"

definition CM_handleMessage ::
    "DBusCommand option \<Rightarrow> EventTypeID EventQueue \<Rightarrow> fault + EventTypeID EventQueue" where
  "CM_handleMessage cmd q = Inr q"

text \<open>
  The payloads of the commands with the same fields.  \<open>std::stoi\<close> and \<open>std::stof\<close> raise exceptions
  that nothing catches.
\<close>

definition CM_handleMessageNoti ::
    "DBusCommand option \<Rightarrow> bool \<Rightarrow> DBusDataInfo \<Rightarrow> EventTypeID EventQueue
     \<Rightarrow> fault + EventTypeID EventQueue" where
  "CM_handleMessageNoti cmd isSuccess dataInfo q =
     (case cmd of
        None \<Rightarrow> Inr q
      | Some cmd \<Rightarrow>
     (case cmd of
        DBusCommand.UPDATE_TEMPERATURE_NOTI \<Rightarrow>
          bind_result (stof (dataInfo DBUS_DATA_TEMPERATURE_VALUE)) (\<lambda>t.
            Inr (push_event EventTypeID.UPDATE_TEMPERATURE_NOTI
              (Some (NotiTemperaturePayload isSuccess t)) q))
      | DBusCommand.START_SCAN_BTDEVICE_NOTI \<Rightarrow>
          Inr (push_event EventTypeID.START_SCAN_BTDEVICE_NOTI
            (Some (NotiPayload isSuccess (dataInfo DBUS_DATA_MESSAGE))) q)
      | DBusCommand.STOP_SCAN_BTDEVICE_NOTI \<Rightarrow>
          Inr (push_event EventTypeID.STOP_SCAN_BTDEVICE_NOTI
            (Some (NotiPayload isSuccess (dataInfo DBUS_DATA_MESSAGE))) q)
      | DBusCommand.SCANNING_BTDEVICE_FOUND_NOTI \<Rightarrow>
          if \<not> isSuccess then Inr q
          else bind_result (stoi (dataInfo DBUS_DATA_BT_DEVICE_RSSI)) (\<lambda>rssi.
               Inr (push_event EventTypeID.SCANNING_BTDEVICE_FOUND_NOTI
                 (Some (BluetoothDevicePayload (dataInfo DBUS_DATA_BT_DEVICE_NAME)
                   (dataInfo DBUS_DATA_BT_DEVICE_ADDRESS) rssi
                   (dataInfo DBUS_DATA_BT_DEVICE_PAIRED = ''true'')
                   (dataInfo DBUS_DATA_BT_DEVICE_CONNECTED = ''true'')
                   (dataInfo DBUS_DATA_BT_DEVICE_ICON))) q))
      | DBusCommand.SCANNING_BTDEVICE_DELETE_NOTI \<Rightarrow>
          if \<not> isSuccess then Inr q
          else Inr (push_event EventTypeID.SCANNING_BTDEVICE_DELETE_NOTI
            (Some (BluetoothDeviceAddressPayload (dataInfo DBUS_DATA_BT_DEVICE_ADDRESS))) q)
      | DBusCommand.BLUETOOTH_POWER_ON_NOTI \<Rightarrow>
          Inr (push_event EventTypeID.BLUETOOTH_POWER_ON_NOTI
            (Some (NotiPayload isSuccess (dataInfo DBUS_DATA_MESSAGE))) q)
      | DBusCommand.BLUETOOTH_POWER_OFF_NOTI \<Rightarrow>
          Inr (push_event EventTypeID.BLUETOOTH_POWER_OFF_NOTI
            (Some (NotiPayload isSuccess (dataInfo DBUS_DATA_MESSAGE))) q)
      | DBusCommand.BTDEVICE_PROPERTY_CHANGE_NOTI \<Rightarrow>
          if \<not> isSuccess then Inr q
          else bind_result (stoi (dataInfo DBUS_DATA_BT_DEVICE_RSSI)) (\<lambda>rssi.
               Inr (push_event EventTypeID.BTDEVICE_PROPERTY_CHANGE_NOTI
                 (Some (BluetoothDevicePayload (dataInfo DBUS_DATA_BT_DEVICE_NAME)
                   (dataInfo DBUS_DATA_BT_DEVICE_ADDRESS) rssi
                   (dataInfo DBUS_DATA_BT_DEVICE_PAIRED = ''true'')
                   (dataInfo DBUS_DATA_BT_DEVICE_CONNECTED = ''true'')
                   (dataInfo DBUS_DATA_BT_DEVICE_ICON))) q))
      | DBusCommand.PAIR_BTDEVICE_NOTI \<Rightarrow>
          Inr (push_event EventTypeID.PAIR_BTDEVICE_NOTI
            (Some (NotiPayload isSuccess (dataInfo DBUS_DATA_MESSAGE))) q)
      | DBusCommand.UNPAIR_BTDEVICE_NOTI \<Rightarrow>
          Inr (push_event EventTypeID.UNPAIR_BTDEVICE_NOTI
            (Some (NotiPayload isSuccess (dataInfo DBUS_DATA_MESSAGE))) q)
      | DBusCommand.CONNECT_BTDEVICE_NOTI \<Rightarrow>
          Inr (push_event EventTypeID.CONNECT_BTDEVICE_NOTI
            (Some (NotiBTDeviceAddressPayload isSuccess (dataInfo DBUS_DATA_MESSAGE)
               (dataInfo DBUS_DATA_BT_DEVICE_ADDRESS))) q)
      | DBusCommand.DISCONNECT_BTDEVICE_NOTI \<Rightarrow>
          Inr (push_event EventTypeID.DISCONNECT_BTDEVICE_NOTI
            (Some (NotiBTDeviceAddressPayload isSuccess (dataInfo DBUS_DATA_MESSAGE)
               (dataInfo DBUS_DATA_BT_DEVICE_ADDRESS))) q)
      | DBusCommand.BTDEVICE_REQUEST_CONFIRMATION_NOTI \<Rightarrow>
          if \<not> isSuccess then Inr q
          else Inr (push_event EventTypeID.BTDEVICE_REQUEST_CONFIRMATION_NOTI
            (Some (BluetoothDevicePasskeyPayload (dataInfo DBUS_DATA_BT_DEVICE_ADDRESS)
               (dataInfo DBUS_DATA_BT_PAIRING_PASSKEY))) q)
      | DBusCommand.PBAP_SESSION_END_NOTI \<Rightarrow>
          Inr (push_event EventTypeID.PBAP_SESSION_END_NOTI
            (Some (NotiPayload isSuccess (dataInfo DBUS_DATA_MESSAGE))) q)
      | DBusCommand.PBAP_PHONEBOOK_PULL_START_NOTI \<Rightarrow>
          Inr (push_event EventTypeID.PBAP_PHONEBOOK_PULL_START_NOTI
            (Some (NotiPayload isSuccess (dataInfo DBUS_DATA_MESSAGE))) q)
      | DBusCommand.PBAP_PHONEBOOK_PULL_END_NOTI \<Rightarrow>
          Inr (push_event EventTypeID.PBAP_PHONEBOOK_PULL_END_NOTI
            (Some (NotiPayload isSuccess (dataInfo DBUS_DATA_MESSAGE))) q)
      | DBusCommand.CALL_HISTORY_PULL_START_NOTI \<Rightarrow>
          Inr (push_event EventTypeID.CALL_HISTORY_PULL_START_NOTI
            (Some (NotiPayload isSuccess (dataInfo DBUS_DATA_MESSAGE))) q)
      | DBusCommand.CALL_HISTORY_PULL_END_NOTI \<Rightarrow>
          Inr (push_event EventTypeID.CALL_HISTORY_PULL_END_NOTI
            (Some (NotiPayload isSuccess (dataInfo DBUS_DATA_MESSAGE))) q)
      | DBusCommand.PBAP_PHONEBOOK_PULL_NOTI \<Rightarrow>
          if \<not> isSuccess then Inr q
          else Inr (push_event EventTypeID.PBAP_PHONEBOOK_PULL_NOTI
            (Some (ContactPayload (dataInfo DBUS_DATA_CONTACT_NAME)
               (dataInfo DBUS_DATA_CONTACT_NUMBER))) q)
      | DBusCommand.CALL_HISTORY_PULL_NOTI \<Rightarrow>
          if \<not> isSuccess then Inr q
          else Inr (push_event EventTypeID.CALL_HISTORY_PULL_NOTI
            (Some (CallHistoryPayload (dataInfo DBUS_DATA_CALL_HISTORY_NAME)
               (dataInfo DBUS_DATA_CALL_HISTORY_NUMBER) (dataInfo DBUS_DATA_CALL_HISTORY_TYPE)
               (dataInfo DBUS_DATA_CALL_HISTORY_DATETIME))) q)
      | DBusCommand.INCOMING_CALL_NOTI \<Rightarrow>
          if \<not> isSuccess then Inr q
          else Inr (push_event EventTypeID.INCOMING_CALL_NOTI
            (Some (CallPayload (dataInfo DBUS_DATA_CALL_NAME)
               (dataInfo DBUS_DATA_CALL_NUMBER) (dataInfo DBUS_DATA_CALL_STATE))) q)
      | DBusCommand.OUTGOING_CALL_NOTI \<Rightarrow>
          if \<not> isSuccess then Inr q
          else Inr (push_event EventTypeID.OUTGOING_CALL_NOTI
            (Some (CallPayload (dataInfo DBUS_DATA_CALL_NAME)
               (dataInfo DBUS_DATA_CALL_NUMBER) (dataInfo DBUS_DATA_CALL_STATE))) q)
      | DBusCommand.CALL_STATE_CHANGED_NOTI \<Rightarrow>
          if \<not> isSuccess then Inr q
          else Inr (push_event EventTypeID.CALL_STATE_CHANGED_NOTI
            (Some (CallPayload (dataInfo DBUS_DATA_CALL_NAME)
               (dataInfo DBUS_DATA_CALL_NUMBER) (dataInfo DBUS_DATA_CALL_STATE))) q)
      | DBusCommand.CALL_ENDED_NOTI \<Rightarrow>
          if \<not> isSuccess then Inr q
          else Inr (push_event EventTypeID.CALL_ENDED_NOTI
            (Some (CallPayload (dataInfo DBUS_DATA_CALL_NAME)
               (dataInfo DBUS_DATA_CALL_NUMBER) (dataInfo DBUS_DATA_CALL_STATE))) q)
      | DBusCommand.DIAL_CALL_NOTI \<Rightarrow>
          Inr (push_event EventTypeID.DIAL_CALL_NOTI
            (Some (NotiPayload isSuccess (dataInfo DBUS_DATA_MESSAGE))) q)
      | DBusCommand.ANSWER_CALL_NOTI \<Rightarrow>
          Inr (push_event EventTypeID.ANSWER_CALL_NOTI
            (Some (NotiPayload isSuccess (dataInfo DBUS_DATA_MESSAGE))) q)
      | DBusCommand.HANGUP_CALL_NOTI \<Rightarrow>
          Inr (push_event EventTypeID.HANGUP_CALL_NOTI
            (Some (NotiPayload isSuccess (dataInfo DBUS_DATA_MESSAGE))) q)
      | DBusCommand.START_RECORD_NOTI \<Rightarrow>
          Inr (push_event EventTypeID.START_RECORD_NOTI
            (Some (NotiPayload isSuccess (dataInfo DBUS_DATA_MESSAGE))) q)
      | DBusCommand.STOP_RECORD_NOTI \<Rightarrow>
          Inr (push_event EventTypeID.STOP_RECORD_NOTI
            (Some (NotiPayload isSuccess (dataInfo DBUS_DATA_MESSAGE))) q)
      | DBusCommand.CANCEL_RECORD_NOTI \<Rightarrow>
          Inr (push_event EventTypeID.CANCEL_RECORD_NOTI
            (Some (NotiPayload isSuccess (dataInfo DBUS_DATA_MESSAGE))) q)
      | DBusCommand.FILTER_WAV_FILE_NOTI \<Rightarrow>
          (let event = Some (NotiPayload isSuccess (dataInfo DBUS_DATA_MESSAGE))
           in if isSuccess
              then bind_result (stoi (dataInfo DBUS_DATA_WAV_FILE_DURATION_SEC)) (\<lambda>secs.
                     Inr (push_event EventTypeID.FILTER_WAV_FILE_NOTI event
                       (push_event EventTypeID.INSERT_WAV_FILE
                         (Some (WavPayload (dataInfo DBUS_DATA_WAV_FILE_PATH) secs)) q)))
              else Inr (push_event EventTypeID.FILTER_WAV_FILE_NOTI event q))
      | _ \<Rightarrow> Inr q))"

text \<open>The commands the receiver handles.\<close>

definition CM_handled :: "DBusCommand list" where
  "CM_handled =
    [DBusCommand.UPDATE_TEMPERATURE_NOTI,
     DBusCommand.START_SCAN_BTDEVICE_NOTI,
     DBusCommand.STOP_SCAN_BTDEVICE_NOTI,
     DBusCommand.SCANNING_BTDEVICE_FOUND_NOTI,
     DBusCommand.SCANNING_BTDEVICE_DELETE_NOTI,
     DBusCommand.BLUETOOTH_POWER_ON_NOTI,
     DBusCommand.BLUETOOTH_POWER_OFF_NOTI,
     DBusCommand.BTDEVICE_PROPERTY_CHANGE_NOTI,
     DBusCommand.PAIR_BTDEVICE_NOTI,
     DBusCommand.UNPAIR_BTDEVICE_NOTI,
     DBusCommand.CONNECT_BTDEVICE_NOTI,
     DBusCommand.DISCONNECT_BTDEVICE_NOTI,
     DBusCommand.BTDEVICE_REQUEST_CONFIRMATION_NOTI,
     DBusCommand.PBAP_SESSION_END_NOTI,
     DBusCommand.PBAP_PHONEBOOK_PULL_START_NOTI,
     DBusCommand.PBAP_PHONEBOOK_PULL_END_NOTI,
     DBusCommand.CALL_HISTORY_PULL_START_NOTI,
     DBusCommand.CALL_HISTORY_PULL_END_NOTI,
     DBusCommand.PBAP_PHONEBOOK_PULL_NOTI,
     DBusCommand.CALL_HISTORY_PULL_NOTI,
     DBusCommand.INCOMING_CALL_NOTI,
     DBusCommand.OUTGOING_CALL_NOTI,
     DBusCommand.CALL_STATE_CHANGED_NOTI,
     DBusCommand.CALL_ENDED_NOTI,
     DBusCommand.DIAL_CALL_NOTI,
     DBusCommand.ANSWER_CALL_NOTI,
     DBusCommand.HANGUP_CALL_NOTI,
     DBusCommand.START_RECORD_NOTI,
     DBusCommand.STOP_RECORD_NOTI,
     DBusCommand.CANCEL_RECORD_NOTI,
     DBusCommand.FILTER_WAV_FILE_NOTI]"

definition CM_receive :: "dbus_msg \<Rightarrow> EventTypeID EventQueue \<Rightarrow> fault + EventTypeID EventQueue" where
  "CM_receive =
     receive_message (getInterfaceName core_config) (getSignalName core_config)
       (dispatchMessage CM_handleMessage CM_handleMessageNoti)"

section \<open>WebSocket\<close>

datatype CommandType =
  START_SCAN_BTDEVICE | STOP_SCAN_BTDEVICE | BLUETOOTH_POWER_ON | BLUETOOTH_POWER_OFF
  | PAIR_BTDEVICE | UNPAIR_BTDEVICE | CONNECT_BTDEVICE | DISCONNECT_BTDEVICE
  | ACCEPT_REQUEST_CONFIRMATION | REJECT_REQUEST_CONFIRMATION | DIAL_CALL | HANGUP_CALL
  | ANSWER_CALL | START_RECORD | STOP_RECORD | CANCEL_RECORD
  | REMOVE_RECORD | GET_ALL_RECORD | UNKNOWN

definition stringToCommand :: "string \<Rightarrow> CommandType" where
  "stringToCommand commandStr =
     (if commandStr = ''start_scan_btdevice'' then CommandType.START_SCAN_BTDEVICE
      else if commandStr = ''stop_scan_btdevice'' then CommandType.STOP_SCAN_BTDEVICE
      else if commandStr = ''bluetooth_power_on'' then CommandType.BLUETOOTH_POWER_ON
      else if commandStr = ''bluetooth_power_off'' then CommandType.BLUETOOTH_POWER_OFF
      else if commandStr = ''pair_btdevice'' then CommandType.PAIR_BTDEVICE
      else if commandStr = ''unpair_btdevice'' then CommandType.UNPAIR_BTDEVICE
      else if commandStr = ''connect_btdevice'' then CommandType.CONNECT_BTDEVICE
      else if commandStr = ''disconnect_btdevice'' then CommandType.DISCONNECT_BTDEVICE
      else if commandStr = ''accept_request_confirmation'' then CommandType.ACCEPT_REQUEST_CONFIRMATION
      else if commandStr = ''reject_request_confirmation'' then CommandType.REJECT_REQUEST_CONFIRMATION
      else if commandStr = ''dial_call'' then CommandType.DIAL_CALL
      else if commandStr = ''hangup_call'' then CommandType.HANGUP_CALL
      else if commandStr = ''answer_call'' then CommandType.ANSWER_CALL
      else if commandStr = ''start_record'' then CommandType.START_RECORD
      else if commandStr = ''stop_record'' then CommandType.STOP_RECORD
      else if commandStr = ''cancel_record'' then CommandType.CANCEL_RECORD
      else if commandStr = ''remove_record'' then CommandType.REMOVE_RECORD
      else if commandStr = ''get_all_record'' then CommandType.GET_ALL_RECORD
      else CommandType.UNKNOWN)"

definition translateMsg :: "string \<Rightarrow> json \<Rightarrow> fault + EventTypeID Event option" where
  "translateMsg message data =
     (case stringToCommand message of
        CommandType.START_SCAN_BTDEVICE \<Rightarrow> Inr (Some (make_Event EventTypeID.START_SCAN_BTDEVICE None))
      | CommandType.STOP_SCAN_BTDEVICE \<Rightarrow> Inr (Some (make_Event EventTypeID.STOP_SCAN_BTDEVICE None))
      | CommandType.BLUETOOTH_POWER_ON \<Rightarrow> Inr (Some (make_Event EventTypeID.BLUETOOTH_POWER_ON None))
      | CommandType.BLUETOOTH_POWER_OFF \<Rightarrow> Inr (Some (make_Event EventTypeID.BLUETOOTH_POWER_OFF None))
      | CommandType.PAIR_BTDEVICE \<Rightarrow>
          bind_result (getStringField data ''device_address'') (\<lambda>addressOpt.
            case addressOpt of
              Some address \<Rightarrow>
                Inr (Some (make_Event EventTypeID.PAIR_BTDEVICE
                  (Some (BluetoothDeviceAddressPayload address))))
            | None \<Rightarrow> Inr None)
      | CommandType.UNPAIR_BTDEVICE \<Rightarrow>
          bind_result (getStringField data ''device_address'') (\<lambda>addressOpt.
            case addressOpt of
              Some address \<Rightarrow>
                Inr (Some (make_Event EventTypeID.UNPAIR_BTDEVICE
                  (Some (BluetoothDeviceAddressPayload address))))
            | None \<Rightarrow> Inr None)
      | CommandType.CONNECT_BTDEVICE \<Rightarrow>
          bind_result (getStringField data ''device_address'') (\<lambda>addressOpt.
            case addressOpt of
              Some address \<Rightarrow>
                Inr (Some (make_Event EventTypeID.CONNECT_BTDEVICE
                  (Some (BluetoothDeviceAddressPayload address))))
            | None \<Rightarrow> Inr None)
      | CommandType.DISCONNECT_BTDEVICE \<Rightarrow>
          bind_result (getStringField data ''device_address'') (\<lambda>addressOpt.
            case addressOpt of
              Some address \<Rightarrow>
                Inr (Some (make_Event EventTypeID.DISCONNECT_BTDEVICE
                  (Some (BluetoothDeviceAddressPayload address))))
            | None \<Rightarrow> Inr None)
      | CommandType.ACCEPT_REQUEST_CONFIRMATION \<Rightarrow>
          bind_result (getStringField data ''device_address'') (\<lambda>addressOpt.
            case addressOpt of
              Some address \<Rightarrow>
                Inr (Some (make_Event EventTypeID.ACCEPT_REQUEST_CONFIRMATION
                  (Some (BluetoothDeviceAddressPayload address))))
            | None \<Rightarrow> Inr None)
      | CommandType.REJECT_REQUEST_CONFIRMATION \<Rightarrow>
          bind_result (getStringField data ''device_address'') (\<lambda>addressOpt.
            case addressOpt of
              Some address \<Rightarrow>
                Inr (Some (make_Event EventTypeID.REJECT_REQUEST_CONFIRMATION
                  (Some (BluetoothDeviceAddressPayload address))))
            | None \<Rightarrow> Inr None)
      | CommandType.DIAL_CALL \<Rightarrow>
          bind_result (getStringField data ''number'') (\<lambda>numberOpt.
            case numberOpt of
              Some number \<Rightarrow>
                Inr (Some (make_Event EventTypeID.DIAL_CALL (Some (CallPayload [] number []))))
            | None \<Rightarrow> Inr None)
      | CommandType.HANGUP_CALL \<Rightarrow> Inr (Some (make_Event EventTypeID.HANGUP_CALL None))
      | CommandType.ANSWER_CALL \<Rightarrow> Inr (Some (make_Event EventTypeID.ANSWER_CALL None))
      | CommandType.START_RECORD \<Rightarrow> Inr (Some (make_Event EventTypeID.START_RECORD None))
      | CommandType.STOP_RECORD \<Rightarrow> Inr (Some (make_Event EventTypeID.STOP_RECORD None))
      | CommandType.CANCEL_RECORD \<Rightarrow> Inr (Some (make_Event EventTypeID.CANCEL_RECORD None))
      | CommandType.REMOVE_RECORD \<Rightarrow>
          bind_result (getIntField data ''id'') (\<lambda>recordIdOpt.
            case recordIdOpt of
              Some recordId \<Rightarrow>
                Inr (Some (make_Event EventTypeID.REMOVE_RECORD (Some (RemoveRecordPayload recordId))))
            | None \<Rightarrow> Inr None)
      | CommandType.GET_ALL_RECORD \<Rightarrow> Inr (Some (make_Event EventTypeID.GET_ALL_RECORD None))
      | CommandType.UNKNOWN \<Rightarrow> Inr None)"

text \<open>
  \<open>handleMessageFromClient\<close>: every exception is caught and logged, so only behaviour that is undefined
  is a fault of the whole.
\<close>

definition client_event :: "(string \<Rightarrow> fault + json) \<Rightarrow> string \<Rightarrow> fault + EventTypeID Event option" where
  "client_event parse' message =
     bind_result (parse' message) (\<lambda>jsonMsg.
       if json_contains jsonMsg ''command''
       then bind_result (json_get_string (json_at jsonMsg ''command'')) (\<lambda>commandStr.
            bind_result (json_value jsonMsg ''data'' (JObject [])) (\<lambda>jsonData.
              translateMsg commandStr jsonData))
       else Inr None)"

definition handleMessageFromClient ::
    "(string \<Rightarrow> fault + json) \<Rightarrow> string \<Rightarrow> EventTypeID EventQueue \<Rightarrow> fault + EventTypeID EventQueue"
  where
  "handleMessageFromClient parse' message q =
     (case client_event parse' message of
        Inr (Some event) \<Rightarrow> Inr (snd (pushEvent (Some event) q))
      | Inr None \<Rightarrow> Inr q
      | Inl Undefined_behaviour \<Rightarrow> Inl Undefined_behaviour
      | Inl _ \<Rightarrow> Inr q)"

section \<open>MainWorker\<close>

definition processEvent :: "'db env \<Rightarrow> EventTypeID Event \<Rightarrow> 'db core \<Rightarrow> fault + 'db core" where
  "processEvent env event c =
     (case getEventTypeId event of
        EventTypeID.STARTUP \<Rightarrow> Inr c
      | EventTypeID.START_SCAN_BTDEVICE \<Rightarrow> Inr (startScanBTDevice env c)
      | EventTypeID.STOP_SCAN_BTDEVICE \<Rightarrow> Inr (stopScanBTDevice env c)
      | EventTypeID.BLUETOOTH_POWER_ON \<Rightarrow> Inr (bluetoothPowerOn env c)
      | EventTypeID.BLUETOOTH_POWER_OFF \<Rightarrow> Inr (bluetoothPowerOff env c)
      | EventTypeID.PAIR_BTDEVICE \<Rightarrow> Inr (pairBTDevice env (getPayload event) c)
      | EventTypeID.UNPAIR_BTDEVICE \<Rightarrow> Inr (unpairBTDevice env (getPayload event) c)
      | EventTypeID.CONNECT_BTDEVICE \<Rightarrow> Inr (connectBTDevice env (getPayload event) c)
      | EventTypeID.DISCONNECT_BTDEVICE \<Rightarrow> Inr (disconnectBTDevice env (getPayload event) c)
      | EventTypeID.ACCEPT_REQUEST_CONFIRMATION \<Rightarrow> Inr (acceptBTDeviceRequestConfirmation env (getPayload event) c)
      | EventTypeID.REJECT_REQUEST_CONFIRMATION \<Rightarrow> Inr (rejectBTDeviceRequestConfirmation env (getPayload event) c)
      | EventTypeID.DIAL_CALL \<Rightarrow> Inr (dialCall env (getPayload event) c)
      | EventTypeID.HANGUP_CALL \<Rightarrow> Inr (hangupCall env c)
      | EventTypeID.ANSWER_CALL \<Rightarrow> Inr (answerCall env c)
      | EventTypeID.UPDATE_TEMPERATURE_NOTI \<Rightarrow> updateTemperatureNOTI env (getPayload event) c
      | EventTypeID.START_SCAN_BTDEVICE_NOTI \<Rightarrow> startScanBTDeviceNOTI env (getPayload event) c
      | EventTypeID.STOP_SCAN_BTDEVICE_NOTI \<Rightarrow> stopScanBTDeviceNOTI env (getPayload event) c
      | EventTypeID.SCANNING_BTDEVICE_FOUND_NOTI \<Rightarrow> scanningBTDeviceFoundNOTI env (getPayload event) c
      | EventTypeID.SCANNING_BTDEVICE_DELETE_NOTI \<Rightarrow> scanningBTDeviceDeleteNOTI env (getPayload event) c
      | EventTypeID.BLUETOOTH_POWER_ON_NOTI \<Rightarrow> bluetoothPowerOnNOTI env (getPayload event) c
      | EventTypeID.BLUETOOTH_POWER_OFF_NOTI \<Rightarrow> bluetoothPowerOffNOTI env (getPayload event) c
      | EventTypeID.BTDEVICE_PROPERTY_CHANGE_NOTI \<Rightarrow> btDevicePropertyChangeNOTI env (getPayload event) c
      | EventTypeID.PAIR_BTDEVICE_NOTI \<Rightarrow> pairBTDeviceNOTI env (getPayload event) c
      | EventTypeID.UNPAIR_BTDEVICE_NOTI \<Rightarrow> unpairBTDeviceNOTI env (getPayload event) c
      | EventTypeID.CONNECT_BTDEVICE_NOTI \<Rightarrow> connectBTDeviceNOTI env (getPayload event) c
      | EventTypeID.DISCONNECT_BTDEVICE_NOTI \<Rightarrow> disconnectBTDeviceNOTI env (getPayload event) c
      | EventTypeID.BTDEVICE_REQUEST_CONFIRMATION_NOTI \<Rightarrow> btDeviceRequestConfirmationNOTI env (getPayload event) c
      | EventTypeID.BTDEVICE_REQUEST_CONFIRMATION_TIMEOUT \<Rightarrow> Inr (handleBTDeviceRequestConfirmationTimeout env (getPayload event) c)
      | EventTypeID.PBAP_SESSION_END_NOTI \<Rightarrow> pbapSessionEndNOTI env (getPayload event) c
      | EventTypeID.PBAP_PHONEBOOK_PULL_START_NOTI \<Rightarrow> pbapPhonebookPullStartNOTI env (getPayload event) c
      | EventTypeID.PBAP_PHONEBOOK_PULL_NOTI \<Rightarrow> pbapPhonebookPullNOTI env (getPayload event) c
      | EventTypeID.PBAP_PHONEBOOK_PULL_END_NOTI \<Rightarrow> pbapPhonebookPullEndNOTI env (getPayload event) c
      | EventTypeID.CALL_HISTORY_PULL_START_NOTI \<Rightarrow> callHistoryPullStartNOTI env (getPayload event) c
      | EventTypeID.CALL_HISTORY_PULL_NOTI \<Rightarrow> callHistoryPullNOTI env (getPayload event) c
      | EventTypeID.CALL_HISTORY_PULL_END_NOTI \<Rightarrow> callHistoryPullEndNOTI env (getPayload event) c
      | EventTypeID.INCOMING_CALL_NOTI \<Rightarrow> incomingCallNOTI env (getPayload event) c
      | EventTypeID.OUTGOING_CALL_NOTI \<Rightarrow> outgoingCallNOTI env (getPayload event) c
      | EventTypeID.CALL_STATE_CHANGED_NOTI \<Rightarrow> callStateChangedNOTI env (getPayload event) c
      | EventTypeID.CALL_ENDED_NOTI \<Rightarrow> callEndedNOTI env (getPayload event) c
      | EventTypeID.DIAL_CALL_NOTI \<Rightarrow> dialCallNOTI env (getPayload event) c
      | EventTypeID.ANSWER_CALL_NOTI \<Rightarrow> answerCallNOTI env (getPayload event) c
      | EventTypeID.HANGUP_CALL_NOTI \<Rightarrow> hangupCallNOTI env (getPayload event) c
      | EventTypeID.START_RECORD \<Rightarrow> Inr (startRecord env c)
      | EventTypeID.STOP_RECORD \<Rightarrow> Inr (stopRecord env c)
      | EventTypeID.CANCEL_RECORD \<Rightarrow> Inr (cancelRecord env c)
      | EventTypeID.REMOVE_RECORD \<Rightarrow> db_removeAudioRecord env (getPayload event) c
      | EventTypeID.GET_ALL_RECORD \<Rightarrow> db_getAllAudioRecords env c
      | EventTypeID.INSERT_WAV_FILE \<Rightarrow> db_insertAudioRecord env (getPayload event) c
      | EventTypeID.START_RECORD_NOTI \<Rightarrow> startRecordNOTI env (getPayload event) c
      | EventTypeID.STOP_RECORD_NOTI \<Rightarrow> stopRecordNOTI env (getPayload event) c
      | EventTypeID.CANCEL_RECORD_NOTI \<Rightarrow> cancelRecordNOTI env (getPayload event) c
      | EventTypeID.FILTER_WAV_FILE_NOTI \<Rightarrow> filterWavFileNOTI env (getPayload event) c
      | _ \<Rightarrow> Inr c)"

section \<open>Facts\<close>

text \<open>The receiver reacts to the commands of its list and to no others.\<close>

lemma push_event_neq: "push_event i p q \<noteq> q" "q \<noteq> push_event i p q"
  by (auto simp: push_event_def pushEvent_def dest: arg_cong [of _ _ "length \<circ> eventList"])

lemma CM_not_handled: "cmd \<notin> set CM_handled \<Longrightarrow> CM_handleMessageNoti (Some cmd) ok info q = Inr q"
  by (cases cmd) (simp_all add: CM_handled_def CM_handleMessageNoti_def)

lemma CM_handles:
  "cmd \<in> set CM_handled \<Longrightarrow> CM_handleMessageNoti (Some cmd) True info q \<noteq> Inr q"
  by (cases cmd)
    (auto simp: CM_handled_def CM_handleMessageNoti_def push_event_neq Let_def
      push_event_def pushEvent_def bind_result_Inr dest: arg_cong [of _ _ "length \<circ> eventList"])

lemma CM_handles_iff:
  "(\<exists>ok info q. CM_handleMessageNoti (Some cmd) ok info q \<noteq> Inr q) \<longleftrightarrow> cmd \<in> set CM_handled"
  using CM_handles CM_not_handled by blast

text \<open>Only a record id that is a floating point number can make a client's request undefined.\<close>

lemma translateMsg_Inl:
  assumes "translateMsg message data = Inl e"
  shows "message = ''remove_record'' \<and> getIntField data ''id'' = Inl e"
proof -
  have "getStringField data key \<noteq> Inl e'" for key e'
    using getStringField_total [of data key] by auto
  with assms show ?thesis
    by (auto simp: translateMsg_def stringToCommand_def bind_result_Inl
        split: option.split_asm if_split_asm)
qed

lemma getIntField_Inl:
  "getIntField data key = Inl e \<Longrightarrow>
   e = Undefined_behaviour \<and> (\<exists>y. json_at data key = JFloat y \<and> float_to_int y = None)"
  by (auto simp: getIntField_def json_is_number_def json_get_int_def Let_def
      split: json.splits if_splits option.splits)

lemma client_event_undefined:
  assumes "client_event parse' text = Inl Undefined_behaviour" and "parse' text \<noteq> Inl Undefined_behaviour"
  shows "\<exists>j y. parse' text = Inr j \<and> json_at j ''command'' = JString ''remove_record''
    \<and> json_at (json_at j ''data'') ''id'' = JFloat y \<and> float_to_int y = None"
proof -
  from assms obtain j where j: "parse' text = Inr j" and c: "json_contains j ''command''"
    and r: "bind_result (json_get_string (json_at j ''command'')) (\<lambda>commandStr.
            bind_result (json_value j ''data'' (JObject [])) (\<lambda>jsonData.
              translateMsg commandStr jsonData)) = Inl Undefined_behaviour"
    by (auto simp: client_event_def bind_result_Inl split: if_splits)
  have "json_get_string v \<noteq> Inl Undefined_behaviour" for v
    by (simp add: json_get_string_def split: json.splits)
  moreover obtain kvs where kvs: "j = JObject kvs"
    using c by (cases j) (simp_all add: json_contains_def)
  ultimately obtain cmd d where cmd: "json_at j ''command'' = JString cmd"
    and d: "json_value j ''data'' (JObject []) = Inr d"
    and t: "translateMsg cmd d = Inl Undefined_behaviour"
    using r by (auto simp: bind_result_Inl json_get_string_def json_value_def split: json.splits)
  from translateMsg_Inl [OF t] have rr: "cmd = ''remove_record''"
    and "getIntField d ''id'' = Inl Undefined_behaviour" by blast+
  from getIntField_Inl [OF this(2)] obtain y where y: "json_at d ''id'' = JFloat y" "float_to_int y = None"
    by blast
  have "d = json_at j ''data''"
  proof (cases "map_of kvs ''data''")
    case None
    with d kvs y show ?thesis by (auto simp: json_value_def json_at_def)
  next
    case (Some v)
    with d kvs show ?thesis by (simp add: json_value_def json_at_def)
  qed
  with j cmd rr y show ?thesis by auto
qed

end
