(* ===== verification/CoreSpec.thy ===== *)
theory CoreSpec
  imports CoreWorker
begin

text \<open>
  What the core manager promises, stated without its mechanism: four automata over the events for
  the four states of the view, and what one event can do to the clients, the bus and the timer.
\<close>

section \<open>The automata\<close>

definition noti_result :: "EventTypeID Event \<Rightarrow> bool option" where
  "noti_result e = (case getPayload e of Some (NotiPayload ok _) \<Rightarrow> Some ok | _ \<Rightarrow> None)"

definition record_next :: "RecordState \<Rightarrow> EventTypeID Event \<Rightarrow> RecordState" where
  "record_next s e =
     (case getEventTypeId e of
        EventTypeID.START_RECORD \<Rightarrow> if s = RecordState.STOPPED then RecordState.PROCESSING else s
      | EventTypeID.STOP_RECORD \<Rightarrow> if s = RecordState.RECORDING then RecordState.PROCESSING else s
      | EventTypeID.CANCEL_RECORD \<Rightarrow> if s = RecordState.RECORDING then RecordState.PROCESSING else s
      | EventTypeID.START_RECORD_NOTI \<Rightarrow>
          (case noti_result e of
             Some True \<Rightarrow> RecordState.RECORDING | Some False \<Rightarrow> RecordState.STOPPED | None \<Rightarrow> s)
      | EventTypeID.STOP_RECORD_NOTI \<Rightarrow> if noti_result e = None then s else RecordState.STOPPED
      | EventTypeID.CANCEL_RECORD_NOTI \<Rightarrow> if noti_result e = None then s else RecordState.STOPPED
      | _ \<Rightarrow> s)"

definition scan_next :: "ScanningBTDeviceState \<Rightarrow> EventTypeID Event \<Rightarrow> ScanningBTDeviceState" where
  "scan_next s e =
     (case getEventTypeId e of
        EventTypeID.START_SCAN_BTDEVICE \<Rightarrow>
          if s = ScanningBTDeviceState.IDLE then ScanningBTDeviceState.PROCESSING else s
      | EventTypeID.STOP_SCAN_BTDEVICE \<Rightarrow>
          if s = ScanningBTDeviceState.SCANNING then ScanningBTDeviceState.PROCESSING else s
      | EventTypeID.START_SCAN_BTDEVICE_NOTI \<Rightarrow>
          (case noti_result e of
             Some True \<Rightarrow> ScanningBTDeviceState.SCANNING
           | Some False \<Rightarrow> ScanningBTDeviceState.IDLE
           | None \<Rightarrow> s)
      | EventTypeID.STOP_SCAN_BTDEVICE_NOTI \<Rightarrow>
          (case noti_result e of
             Some True \<Rightarrow> ScanningBTDeviceState.IDLE
           | Some False \<Rightarrow> ScanningBTDeviceState.SCANNING
           | None \<Rightarrow> s)
      | _ \<Rightarrow> s)"

definition power_next :: "BluetoothPowerState \<Rightarrow> EventTypeID Event \<Rightarrow> BluetoothPowerState" where
  "power_next s e =
     (case getEventTypeId e of
        EventTypeID.BLUETOOTH_POWER_ON \<Rightarrow>
          if s = BluetoothPowerState.OFF then BluetoothPowerState.PROCESSING else s
      | EventTypeID.BLUETOOTH_POWER_OFF \<Rightarrow>
          if s = BluetoothPowerState.ON then BluetoothPowerState.PROCESSING else s
      | EventTypeID.BLUETOOTH_POWER_ON_NOTI \<Rightarrow>
          (case noti_result e of
             Some True \<Rightarrow> BluetoothPowerState.ON | Some False \<Rightarrow> BluetoothPowerState.OFF | None \<Rightarrow> s)
      | EventTypeID.BLUETOOTH_POWER_OFF_NOTI \<Rightarrow>
          (case noti_result e of
             Some True \<Rightarrow> BluetoothPowerState.OFF | Some False \<Rightarrow> BluetoothPowerState.ON | None \<Rightarrow> s)
      | _ \<Rightarrow> s)"

definition call_of :: "EventTypeID Event \<Rightarrow> (string \<times> string \<times> string) option" where
  "call_of e = (case getPayload e of Some (CallPayload n p s) \<Rightarrow> Some (n, p, s) | _ \<Rightarrow> None)"

definition call_next :: "CallState \<Rightarrow> EventTypeID Event \<Rightarrow> CallState" where
  "call_next s e =
     (case getEventTypeId e of
        EventTypeID.DIAL_CALL \<Rightarrow>
          if s = CallState.IDLE \<and> call_of e \<noteq> None then CallState.PROCESSING else s
      | EventTypeID.HANGUP_CALL \<Rightarrow>
          if s \<in> {CallState.OUTCOMING, CallState.INCOMING, CallState.CALLING}
          then CallState.PROCESSING else s
      | EventTypeID.ANSWER_CALL \<Rightarrow> if s = CallState.INCOMING then CallState.PROCESSING else s
      | EventTypeID.INCOMING_CALL_NOTI \<Rightarrow> if call_of e = None then s else CallState.INCOMING
      | EventTypeID.OUTGOING_CALL_NOTI \<Rightarrow> if call_of e = None then s else CallState.OUTCOMING
      | EventTypeID.CALL_STATE_CHANGED_NOTI \<Rightarrow>
          (case call_of e of None \<Rightarrow> s | Some (_, _, st) \<Rightarrow> call_state_of st)
      | EventTypeID.CALL_ENDED_NOTI \<Rightarrow> if call_of e = None then s else CallState.IDLE
      | EventTypeID.DIAL_CALL_NOTI \<Rightarrow> if noti_result e = None then s else CallState.IDLE
      | EventTypeID.ANSWER_CALL_NOTI \<Rightarrow> if noti_result e = None then s else CallState.IDLE
      | EventTypeID.HANGUP_CALL_NOTI \<Rightarrow> if noti_result e = None then s else CallState.IDLE
      | _ \<Rightarrow> s)"

section \<open>The handlers, one by one\<close>

lemmas request_defs =
  startRecord_def stopRecord_def cancelRecord_def startScanBTDevice_def stopScanBTDevice_def
  bluetoothPowerOn_def bluetoothPowerOff_def pairBTDevice_def unpairBTDevice_def
  connectBTDevice_def disconnectBTDevice_def acceptBTDeviceRequestConfirmation_def
  rejectBTDeviceRequestConfirmation_def dialCall_def hangupCall_def answerCall_def
  handleBTDeviceRequestConfirmationTimeout_def removeTimerOnTimerIdMap_def

lemmas noti_defs =
  startRecordNOTI_def stopRecordNOTI_def cancelRecordNOTI_def filterWavFileNOTI_def
  startScanBTDeviceNOTI_def stopScanBTDeviceNOTI_def updateTemperatureNOTI_def
  scanningBTDeviceFoundNOTI_def scanningBTDeviceDeleteNOTI_def bluetoothPowerOnNOTI_def
  bluetoothPowerOffNOTI_def pairBTDeviceNOTI_def unpairBTDeviceNOTI_def connectBTDeviceNOTI_def
  disconnectBTDeviceNOTI_def btDevicePropertyChangeNOTI_def
  pbapSessionEndNOTI_def pbapPhonebookPullStartNOTI_def pbapPhonebookPullNOTI_def
  pbapPhonebookPullEndNOTI_def callHistoryPullStartNOTI_def callHistoryPullNOTI_def
  callHistoryPullEndNOTI_def incomingCallNOTI_def outgoingCallNOTI_def callStateChangedNOTI_def
  callEndedNOTI_def dialCallNOTI_def answerCallNOTI_def hangupCallNOTI_def

lemmas database_defs =
  db_getAllAudioRecords_def db_insertAudioRecord_def db_removeAudioRecord_def delete_file_def

lemmas event_splits =
  option.splits Payload.splits RecordState.splits ScanningBTDeviceState.splits
  BluetoothPowerState.splits CallState.splits bool.splits

text \<open>The one handler that starts a timer.\<close>

definition timeout_event :: "string \<Rightarrow> EventTypeID Event" where
  "timeout_event address =
     make_Event EventTypeID.BTDEVICE_REQUEST_CONFIRMATION_TIMEOUT
       (Some (BluetoothDeviceAddressPayload address))"

lemma btDeviceRequestConfirmationNOTI_Inr:
  assumes "btDeviceRequestConfirmationNOTI env p c = Inr c'"
  shows "c' = c \<or>
    (\<exists>address passkey m i t. p = Some (BluetoothDevicePasskeyPayload address passkey)
       \<and> startTimer (clock c) TIMEOUT_REQUEST_CONFIRMATION_MS (Some (timeout_event address)) (timer c)
           = Some (i, t)
       \<and> c' = c\<lparr>server := broadcast m (server c), timer := t,
               timerIdMap := (if i \<noteq> - 1 then (timerIdMap c)(address \<mapsto> i) else timerIdMap c)\<rparr>)"
proof (cases p)
  case None
  with assms show ?thesis by (simp add: btDeviceRequestConfirmationNOTI_def)
next
  case (Some pl)
  show ?thesis
  proof (cases pl)
    case (BluetoothDevicePasskeyPayload address passkey)
    with Some assms obtain c1 where
      c1: "publish env ''success'' ''Bluetooth device requests confirmation.'' ''Settings''
            ''btdevice_request_confirmation_noti''
            (json_object [(''device_address'', JString address), (''passkey'', JString passkey)]) c
          = Inr c1"
      and rest: "(case startTimer (clock c1) TIMEOUT_REQUEST_CONFIRMATION_MS
            (Some (timeout_event address)) (timer c1) of
          None \<Rightarrow> Inl Blocked
        | Some (i, t) \<Rightarrow>
            let c = c1\<lparr>timer := t\<rparr>
            in if i \<noteq> - 1 then Inr (c\<lparr>timerIdMap := (timerIdMap c)(address \<mapsto> i)\<rparr>)
               else Inr c) = Inr c'"
      by (auto simp: btDeviceRequestConfirmationNOTI_def bind_result_Inr Let_def timeout_event_def)
    from c1 obtain m where m: "c1 = c\<lparr>server := broadcast m (server c)\<rparr>"
      by (auto simp: publish_Inr)
    from rest m obtain r where r: "startTimer (clock c) TIMEOUT_REQUEST_CONFIRMATION_MS
        (Some (timeout_event address)) (timer c) = Some r"
      by (cases "startTimer (clock c) TIMEOUT_REQUEST_CONFIRMATION_MS
        (Some (timeout_event address)) (timer c)") simp_all
    with rest m have "c' = c\<lparr>server := broadcast m (server c), timer := snd r,
        timerIdMap := (if fst r \<noteq> - 1 then (timerIdMap c)(address \<mapsto> fst r) else timerIdMap c)\<rparr>"
      by (cases r) (auto simp: Let_def split: if_splits)
    with Some BluetoothDevicePasskeyPayload r show ?thesis by (metis prod.collapse)
  qed (use Some assms in \<open>simp_all add: btDeviceRequestConfirmationNOTI_def\<close>)
qed

lemmas event_cases =
  processEvent_def request_defs noti_defs database_defs publish_Inr bind_result_Inr Let_def

section \<open>The view follows the automata\<close>

lemma processEvent_record:
  assumes "processEvent env e c = Inr c'"
  shows "RECORD_STATE c' = record_next (RECORD_STATE c) e"
  using assms
  by (cases "getEventTypeId e")
    (auto simp: event_cases record_next_def noti_result_def
      dest!: btDeviceRequestConfirmationNOTI_Inr split: event_splits if_splits prod.splits)

lemma processEvent_scan:
  assumes "processEvent env e c = Inr c'"
  shows "SCANNING_BTDEVICE_STATE c' = scan_next (SCANNING_BTDEVICE_STATE c) e"
  using assms
  by (cases "getEventTypeId e")
    (auto simp: event_cases scan_next_def noti_result_def
      dest!: btDeviceRequestConfirmationNOTI_Inr split: event_splits if_splits prod.splits)

lemma processEvent_power:
  assumes "processEvent env e c = Inr c'"
  shows "BLUETOOTH_POWER_STATE c' = power_next (BLUETOOTH_POWER_STATE c) e"
  using assms
  by (cases "getEventTypeId e")
    (auto simp: event_cases power_next_def noti_result_def
      dest!: btDeviceRequestConfirmationNOTI_Inr split: event_splits if_splits prod.splits)

lemma processEvent_call:
  assumes "processEvent env e c = Inr c'"
  shows "CALL_STATE c' = call_next (CALL_STATE c) e"
  using assms
  by (cases "getEventTypeId e")
    (auto simp: event_cases call_next_def noti_result_def call_of_def
      dest!: btDeviceRequestConfirmationNOTI_Inr split: event_splits if_splits prod.splits)

section \<open>One event, one effect\<close>

text \<open>An event tells the clients at most one thing, and everyone the same.\<close>

lemma processEvent_server:
  assumes "processEvent env e c = Inr c'"
  shows "server c' = server c \<or> (\<exists>m. server c' = broadcast m (server c))"
  using assms
  by (cases "getEventTypeId e")
    (auto simp: event_cases
      dest!: btDeviceRequestConfirmationNOTI_Inr split: event_splits if_splits prod.splits)

lemma processEvent_queue:
  assumes "processEvent env e c = Inr c'"
  shows "eventQueue c' = eventQueue c \<and> clock c' = clock c"
  using assms
  by (cases "getEventTypeId e")
    (auto simp: event_cases
      dest!: btDeviceRequestConfirmationNOTI_Inr split: event_splits if_splits prod.splits)

lemma processEvent_tries:
  assumes "processEvent env e c = Inr c'"
  shows "tries_of c' \<le> Suc (tries_of c)"
  using assms
  by (cases "getEventTypeId e")
    (auto simp: event_cases
      dest!: btDeviceRequestConfirmationNOTI_Inr split: event_splits if_splits prod.splits)

end
