(* ===== verification/CoreSystem.thy ===== *)
theory CoreSystem
  imports CoreSpec
begin

text \<open>
  The core manager as a whole: what its threads do to the shared state, one step each, the
  invariant of every reachable state, and how an event can fail.
\<close>

section \<open>The invariant\<close>

definition core_inv :: "'db core \<Rightarrow> bool" where
  "core_inv c \<longleftrightarrow> timer_inv (timer c) \<and> has_queue (timer c) \<and> server_inv (server c) \<and> conn (sender c)"

lemma core_inv_init: "core_inv (core_init p fs now)"
  using timer_inv_init server_inv_init
  by (simp add: core_inv_def core_init_def SetEventQueue_def timer_inv_def dbus_sender_init_def)

lemma conn_sendMessage [simp]: "conn (snd (sendMessage F mk cmd s)) = conn s"
  by (auto simp: sendMessage_def Let_def sendMessageInternal_frame split: option.splits)

lemma conn_sendMessageNoti [simp]: "conn (snd (sendMessageNoti F mk cmd ok info s)) = conn s"
  by (auto simp: sendMessageNoti_def Let_def sendMessageInternal_frame split: option.splits)

lemma conn_dbus [simp]:
  "conn (sender (dbus_send env cmd c)) = conn (sender c)"
  "conn (sender (dbus_send_noti env cmd ok info c)) = conn (sender c)"
  by (simp_all add: dbus_send_def dbus_send_noti_def)

lemma has_queue_stopTimer [simp]: "has_queue (snd (stopTimer i t)) = has_queue t"
  by (simp add: stopTimer_def)

lemma startTimer_inv:
  assumes "timer_inv t" and "has_queue t" and "startTimer now ms (Some ev) t = Some (i, t')"
  shows "timer_inv t' \<and> has_queue t'"
proof (cases "i = - 1")
  case True
  with ts.start_fails [of t now ms ev t'] assms show ?thesis by simp
next
  case False
  with ts.start_starts [of t now ms ev i t'] assms show ?thesis by simp
qed

lemma processEvent_timer_inv:
  assumes "processEvent env e c = Inr c'" and "timer_inv (timer c)" and "has_queue (timer c)"
  shows "timer_inv (timer c') \<and> has_queue (timer c')"
  using assms
  by (cases "getEventTypeId e")
    (auto simp: event_cases timer_inv_stop dest: startTimer_inv
      dest!: btDeviceRequestConfirmationNOTI_Inr split: event_splits if_splits prod.splits)

lemma processEvent_conn:
  assumes "processEvent env e c = Inr c'"
  shows "conn (sender c') = conn (sender c)"
  using assms
  by (cases "getEventTypeId e")
    (auto simp: event_cases
      dest!: btDeviceRequestConfirmationNOTI_Inr split: event_splits if_splits prod.splits)

lemma processEvent_inv: "processEvent env e c = Inr c' \<Longrightarrow> core_inv c \<Longrightarrow> core_inv c'"
  using processEvent_server [of env e c c'] processEvent_timer_inv [of env e c c']
    processEvent_conn [of env e c c']
  by (auto simp: core_inv_def server_inv_broadcast)

section \<open>How an event can fail\<close>

definition uses_db :: "EventTypeID Event \<Rightarrow> bool" where
  "uses_db e \<longleftrightarrow>
     getEventTypeId e \<in> {EventTypeID.REMOVE_RECORD, EventTypeID.GET_ALL_RECORD, EventTypeID.INSERT_WAV_FILE}"

lemma startTimer_total:
  "timer_inv t \<Longrightarrow> has_queue t \<Longrightarrow> startTimer now ms (Some ev) t \<noteq> None"
  using ts.start_returns by blast

lemma btDeviceRequestConfirmationNOTI_Inl:
  assumes "btDeviceRequestConfirmationNOTI env p c = Inl x" and "core_inv c"
  shows "\<exists>j. dump env j = Inl x"
proof (cases p)
  case None
  with assms show ?thesis by (simp add: btDeviceRequestConfirmationNOTI_def)
next
  case (Some pl)
  show ?thesis
  proof (cases pl)
    case (BluetoothDevicePasskeyPayload address passkey)
    let ?publish = "publish env ''success'' ''Bluetooth device requests confirmation.'' ''Settings''
      ''btdevice_request_confirmation_noti''
      (json_object [(''device_address'', JString address), (''passkey'', JString passkey)]) c"
    show ?thesis
    proof (cases ?publish)
      case (Inl y)
      with Some BluetoothDevicePasskeyPayload assms(1) have "?publish = Inl x"
        by (simp add: btDeviceRequestConfirmationNOTI_def)
      then show ?thesis by (auto simp: publish_Inl)
    next
      case (Inr c1)
      then obtain m where m: "c1 = c\<lparr>server := broadcast m (server c)\<rparr>"
        by (auto simp: publish_Inr)
      obtain r where "startTimer (clock c) TIMEOUT_REQUEST_CONFIRMATION_MS
          (Some (timeout_event address)) (timer c) = Some r"
        using assms(2) startTimer_total [of "timer c"] unfolding core_inv_def by blast
      with Inr m Some BluetoothDevicePasskeyPayload assms(1) show ?thesis
        by (cases r) (auto simp: btDeviceRequestConfirmationNOTI_def Let_def timeout_event_def split: if_splits)
    qed
  qed (use Some assms in \<open>simp_all add: btDeviceRequestConfirmationNOTI_def\<close>)
qed

lemma float32_to_int_Inl: "float32_to_int x = Inl e \<Longrightarrow> e = Undefined_behaviour"
  by (auto simp: float32_to_int_def split: float32.splits option.splits)

lemma records_json_not_Inl [simp]: "records_json rs \<noteq> Inl e"
  using records_json_Inr [of rs] by auto

lemma db_Inl:
  assumes "db_getAllAudioRecords env c = Inl x \<or> db_insertAudioRecord env p c = Inl x
      \<or> db_removeAudioRecord env p c = Inl x"
  shows "(\<exists>j. dump env j = Inl x) \<or> x = Undefined_behaviour
    \<or> (x \<in> {Future_error, Blocked} \<and> \<not> pool_serving c)"
  using assms
  by (auto simp: db_getAllAudioRecords_def db_insertAudioRecord_def db_removeAudioRecord_def
      bind_result_Inl publish_Inl record_json_Inr Let_def pool_serving_def
      dest!: pool_methods_Inl
      split: option.splits Payload.splits prod.splits if_splits)

lemma db_faults:
  assumes "r = Inl x"
    and "r \<in> {db_getAllAudioRecords env c, db_insertAudioRecord env p c, db_removeAudioRecord env p c}"
  shows "(\<exists>j. dump env j = Inl x) \<or> x = Undefined_behaviour
    \<or> (x \<in> {Future_error, Blocked} \<and> \<not> pool_serving c)"
  by (rule db_Inl [of env c x p]) (use assms in auto)

lemma processEvent_fault:
  assumes "processEvent env e c = Inl x" and "core_inv c"
  shows "(\<exists>j. dump env j = Inl x)
    \<or> (getEventTypeId e = EventTypeID.UPDATE_TEMPERATURE_NOTI \<and> x = Undefined_behaviour)
    \<or> (uses_db e \<and> (x = Undefined_behaviour \<or> x \<in> {Future_error, Blocked} \<and> \<not> pool_serving c))"
proof (cases "uses_db e")
  case True
  have "(\<exists>j. dump env j = Inl x) \<or> x = Undefined_behaviour
      \<or> (x \<in> {Future_error, Blocked} \<and> \<not> pool_serving c)"
    by (rule db_faults [OF assms(1), of env c "getPayload e"])
      (use True in \<open>auto simp: uses_db_def processEvent_def\<close>)
  with True show ?thesis by blast
next
  case False
  with assms show ?thesis
    by (cases "getEventTypeId e")
      (auto simp: processEvent_def noti_defs publish_Inl bind_result_Inl uses_db_def
        dest: btDeviceRequestConfirmationNOTI_Inl float32_to_int_Inl
        split: event_splits if_splits)
qed

text \<open>Handlers leave a pool that serves serving.\<close>

lemma processEvent_pool:
  assumes "processEvent env e c = Inr c'" and "pool_serving c"
  shows "pool_serving c'"
  using assms
  by (cases "getEventTypeId e")
    (auto simp: event_cases pool_serving_def dest: pool_methods_Inr
      dest!: btDeviceRequestConfirmationNOTI_Inr split: event_splits if_splits prod.splits)

section \<open>The threads\<close>

definition core_timer_turn :: "int \<Rightarrow> 'db core \<Rightarrow> 'db core" where
  "core_timer_turn now c =
     (case timer_turn now (timer c, eventQueue c) of
        ((t, q), _) \<Rightarrow> c\<lparr>timer := t, eventQueue := q, clock := now\<rparr>)"

definition new_session :: "nat \<Rightarrow> WebSocketServer \<Rightarrow> WebSocketServer" where
  "new_session s w = w\<lparr>session_at := (session_at w)(s := WebSocketSession_init)\<rparr>"

text \<open>
  One step of one thread: the main worker takes an event; a D-Bus signal or a client's message is
  turned into events; a client connects, its writes are started and completed, or it goes; the timer
  thread wakes up.
\<close>

inductive core_step :: "'db env \<Rightarrow> 'db core \<Rightarrow> 'db core \<Rightarrow> bool" for env where
  Worker: "popEvent (eventQueue c) = (Some e, q) \<Longrightarrow>
    processEvent env e (c\<lparr>eventQueue := q\<rparr>) = Inr c' \<Longrightarrow> core_step env c c'"
| Bus: "CM_receive msg (eventQueue c) = Inr q \<Longrightarrow> core_step env c (c\<lparr>eventQueue := q\<rparr>)"
| Client: "handleMessageFromClient (parse env) text (eventQueue c) = Inr q \<Longrightarrow>
    core_step env c (c\<lparr>eventQueue := q\<rparr>)"
| Connect: "s \<notin> set (sessions (server c)) \<Longrightarrow>
    session_doAccept (dbus_faults env) (dump env) c has_peer s (new_session s (server c), sender c)
      = Inr (w, snd') \<Longrightarrow>
    core_step env c (c\<lparr>server := w, sender := snd'\<rparr>)"
| Write: "0 < posted (session_at (server c) s) \<Longrightarrow>
    session_doWrite (session_at (server c) s) = Inr x \<Longrightarrow>
    core_step env c (c\<lparr>server := (server c)\<lparr>session_at := (session_at (server c))(s := x)\<rparr>\<rparr>)"
| Written: "0 < inflight (session_at (server c) s) \<Longrightarrow>
    server_write_done s ec (server c) = Inr w \<Longrightarrow> core_step env c (c\<lparr>server := w\<rparr>)"
| Gone: "core_step env c (c\<lparr>server := leave s (server c)\<rparr>)"
| Tick: "clock c \<le> now \<Longrightarrow> core_step env c (core_timer_turn now c)"

inductive_cases core_stepE: "core_step env c c'"

definition core_reachable :: "'db env \<Rightarrow> 'db core \<Rightarrow> bool" where
  "core_reachable env c \<longleftrightarrow> (\<exists>p fs now. (core_step env)\<^sup>*\<^sup>* (core_init p fs now) c)"

lemma server_inv_new_session: "server_inv w \<Longrightarrow> server_inv (new_session s w)"
  by (simp add: server_inv_def new_session_def session_inv_init)

lemma server_inv_fold_send: "server_inv w \<Longrightarrow> server_inv (fold (server_send s) ms w)"
  by (induction ms arbitrary: w) (simp_all add: server_inv_server_send)

lemma session_doAccept_inv:
  assumes "session_doAccept F d view has_peer s (w, snd1) = Inr (w', snd2)" and "server_inv w"
  shows "server_inv w' \<and> conn snd2 = conn snd1"
proof -
  let ?w = "w\<lparr>sessions := (if s \<in> set (sessions w) then sessions w else insort s (sessions w))\<rparr>"
  have "server_inv ?w"
    using assms(2) by (auto simp: server_inv_def sorted_insort distinct_insort)
  with assms(1) show ?thesis
    by (auto simp: session_doAccept_def join_def bind_result_Inr sendInitStateToClient_Inr Let_def
        server_inv_fold_send split: if_splits)
qed

lemma core_timer_turn_fields:
  "timer (core_timer_turn now c) = fst (fst (timer_turn now (timer c, eventQueue c)))"
  "eventQueue (core_timer_turn now c) = snd (fst (timer_turn now (timer c, eventQueue c)))"
  "server (core_timer_turn now c) = server c" "sender (core_timer_turn now c) = sender c"
  "timerIdMap (core_timer_turn now c) = timerIdMap c" "clock (core_timer_turn now c) = now"
  by (simp_all add: core_timer_turn_def split: prod.splits)

lemma timer_turn_inv:
  "timer_inv t \<Longrightarrow> timer_inv (fst (fst (timer_turn now (t, q))))"
  "has_queue (fst (fst (timer_turn now (t, q)))) = has_queue t"
  using timer_inv_expire [of t now q]
  by (auto simp: timer_turn_def Let_def fst_excuteIfExpired)

lemma core_step_inv: "core_step env c c' \<Longrightarrow> core_inv c \<Longrightarrow> core_inv c'"
proof (erule core_stepE)
  fix s x
  assume c: "core_inv c" and p: "0 < posted (session_at (server c) s)"
    and x: "session_doWrite (session_at (server c) s) = Inr x"
    and c': "c' = c\<lparr>server := (server c)\<lparr>session_at := (session_at (server c))(s := x)\<rparr>\<rparr>"
  have "session_inv x"
    using c x p session_inv_doWrite by (auto simp: core_inv_def server_inv_def)
  with c show "core_inv c'" by (simp add: c' core_inv_def server_inv_def)
next
  fix s has_peer w snd'
  assume c: "core_inv c" and c': "c' = c\<lparr>server := w, sender := snd'\<rparr>"
    and a: "session_doAccept (dbus_faults env) (dump env) c has_peer s
      (new_session s (server c), sender c) = Inr (w, snd')"
  from c have "server_inv (new_session s (server c))"
    by (simp add: core_inv_def server_inv_new_session)
  from session_doAccept_inv [OF a this] c show "core_inv c'"
    by (simp add: c' core_inv_def)
next
  fix e q assume "core_inv c" and "processEvent env e (c\<lparr>eventQueue := q\<rparr>) = Inr c'"
  then show "core_inv c'" using processEvent_inv by (fastforce simp: core_inv_def)
qed (auto simp: core_inv_def server_inv_leave server_inv_write_done core_timer_turn_fields timer_turn_inv)

lemma core_inv_reachable: "core_reachable env c \<Longrightarrow> core_inv c"
proof -
  assume "core_reachable env c"
  then obtain p fs now where "(core_step env)\<^sup>*\<^sup>* (core_init p fs now) c"
    by (auto simp: core_reachable_def)
  then show "core_inv c"
    by (induction rule: rtranclp_induct) (auto intro: core_inv_init core_step_inv)
qed

section \<open>Requests for confirmation\<close>

definition confirmation_event :: "string \<Rightarrow> string \<Rightarrow> EventTypeID Event" where
  "confirmation_event address passkey =
     make_Event EventTypeID.BTDEVICE_REQUEST_CONFIRMATION_NOTI
       (Some (BluetoothDevicePasskeyPayload address passkey))"

definition accept_event :: "string \<Rightarrow> EventTypeID Event" where
  "accept_event address =
     make_Event EventTypeID.ACCEPT_REQUEST_CONFIRMATION (Some (BluetoothDeviceAddressPayload address))"

definition reject_event :: "string \<Rightarrow> EventTypeID Event" where
  "reject_event address =
     make_Event EventTypeID.REJECT_REQUEST_CONFIRMATION (Some (BluetoothDeviceAddressPayload address))"

definition room :: "'db core \<Rightarrow> bool" where
  "room c \<longleftrightarrow> int (length (timerTableMap (timer c))) < INT32_MAX - 1"

text \<open>A request starts a timer of its own, known under the device's address.\<close>

lemma confirmation_starts_timer:
  assumes "processEvent env (confirmation_event a k) c = Inr c'" and "core_inv c" and "room c"
  shows "\<exists>i. timerIdMap c' = (timerIdMap c)(a \<mapsto> i) \<and> timer_pending (timer c) i = None
    \<and> timer_pending (timer c') =
        (timer_pending (timer c))(i \<mapsto> (clock c + ns_of_ms 30000, timeout_event a))
    \<and> timerTableMap (timer c') = (i, \<lparr>timerId = i, timeout_ms = 30000,
         expireTime = clock c + ns_of_ms 30000, timer_event = Some (timeout_event a)\<rparr>) # timerTableMap (timer c)
    \<and> 1 \<le> i \<and> i < INT32_MAX \<and> nextTimerId (timer c') = i
    \<and> (map_of (timerTableMap (timer c)) (nextTimerId (timer c)) = None \<longrightarrow> i = nextTimerId (timer c))"
proof -
  have bt: "btDeviceRequestConfirmationNOTI env (Some (BluetoothDevicePasskeyPayload a k)) c = Inr c'"
    using assms(1) by (simp add: processEvent_def confirmation_event_def)
  have pre: "timer_inv (timer c)" "has_queue (timer c)"
    "int (length (timerTableMap (timer c))) < INT32_MAX - 1"
    using assms(2,3) by (simp_all add: core_inv_def room_def)
  from startTimer_ok [OF pre, of "clock c" TIMEOUT_REQUEST_CONFIRMATION_MS "Some (timeout_event a)"]
  obtain i where st: "startTimer (clock c) TIMEOUT_REQUEST_CONFIRMATION_MS (Some (timeout_event a)) (timer c) =
      Some (i, (timer c)\<lparr>nextTimerId := i,
        timerTableMap := (i, \<lparr>timerId = i, timeout_ms = TIMEOUT_REQUEST_CONFIRMATION_MS,
          expireTime = clock c + ns_of_ms TIMEOUT_REQUEST_CONFIRMATION_MS,
          timer_event = Some (timeout_event a)\<rparr>) # timerTableMap (timer c)\<rparr>)"
    and i: "1 \<le> i" "i < INT32_MAX" "map_of (timerTableMap (timer c)) i = None"
      "map_of (timerTableMap (timer c)) (nextTimerId (timer c)) = None \<longrightarrow> i = nextTimerId (timer c)"
    by (elim exE conjE) (rule that, assumption+)
  obtain m where "c' = c\<lparr>server := broadcast m (server c), timer := snd (the (startTimer (clock c)
      TIMEOUT_REQUEST_CONFIRMATION_MS (Some (timeout_event a)) (timer c))),
      timerIdMap := (timerIdMap c)(a \<mapsto> i)\<rparr>"
    using bt i(1) st
    by (auto simp: btDeviceRequestConfirmationNOTI_def bind_result_Inr publish_Inr Let_def
        timeout_event_def)
  with st i show ?thesis
    by (auto simp: timer_pending_def fun_eq_iff TIMEOUT_REQUEST_CONFIRMATION_MS_def)
qed

text \<open>An answer of the client stops the timer that is known under the address.\<close>

lemma answer_stops_timer:
  assumes "e \<in> {accept_event a, reject_event a}" and "processEvent env e c = Inr c'"
    and "timerIdMap c a = Some i" and "timer_inv (timer c)" and "has_queue (timer c)"
  shows "timer_pending (timer c') = (timer_pending (timer c))(i := None)
    \<and> timerIdMap c' = (timerIdMap c)(a := None)"
  using assms ts.stop_stops [of "timer c" i]
  by (auto simp: processEvent_def accept_event_def reject_event_def Let_def
      acceptBTDeviceRequestConfirmation_def rejectBTDeviceRequestConfirmation_def
      removeTimerOnTimerIdMap_def)

lemma core_timer_turn_pending:
  assumes "timer_inv (timer c)" and "has_queue (timer c)"
  shows "timer_pending (timer (core_timer_turn now c)) i =
      (case timer_pending (timer c) i of
         Some (x, ev) \<Rightarrow> if x \<le> now then None else Some (x, ev) | None \<Rightarrow> None)
    \<and> (timer_pending (timer c) i = Some (x, ev) \<and> x \<le> now \<longrightarrow>
       ev \<in> set (eventList (eventQueue (core_timer_turn now c))))"
proof (cases "timerTableMap (timer c) = []")
  case True
  then show ?thesis
    by (simp add: core_timer_turn_fields timer_turn_def Let_def timer_pending_def)
next
  case False
  have t: "timer (core_timer_turn now c) = fst (timer_fire now (timer c))"
    using False by (simp add: core_timer_turn_fields timer_turn_def Let_def timer_fire_def
        fst_excuteIfExpired case_prod_beta)
  have "eventList (eventQueue (core_timer_turn now c)) =
      eventList (eventQueue c) @ snd (timer_fire now (timer c))"
    using False excuteIfExpired_queue [OF assms(2), of now "eventQueue c"]
      excuteIfExpired_queue [OF assms(2), of now EventQueue_init]
    by (simp add: core_timer_turn_fields timer_turn_def Let_def timer_fire_def case_prod_beta
        EventQueue_init_def)
  then have "set (snd (timer_fire now (timer c))) \<subseteq> set (eventList (eventQueue (core_timer_turn now c)))"
    by simp
  with t ts.fire_keeps [of "timer c" now i] ts.fire_events [of "timer c" now] assms show ?thesis
    by auto
qed

text \<open>
  The entry under the address stays when the timer has fired, and ids are reused: an answer that
  comes after the timeout stops whatever timer has that id by then.
\<close>

lemma late_answer:
  assumes inv: "core_inv c" and empty: "timerTableMap (timer c) = []"
    and c1: "processEvent env (confirmation_event a k) c = Inr c1"
    and now: "clock c + ns_of_ms 30000 \<le> now"
    and c3: "processEvent env (timeout_event a) (core_timer_turn now c1) = Inr c3"
    and c4: "processEvent env (confirmation_event b k') c3 = Inr c4" and ab: "a \<noteq> b"
    and c5: "processEvent env (accept_event a) c4 = Inr c5"
  shows "(\<exists>i. timerIdMap c5 b = Some i) \<and> timer_pending (timer c5) = Map.empty"
proof -
  have room: "room c" using empty by (simp add: room_def INT32_MAX_def)
  obtain i where i: "timerIdMap c1 a = Some i"
    and t1: "timerTableMap (timer c1) = [(i, \<lparr>timerId = i, timeout_ms = 30000,
         expireTime = clock c + ns_of_ms 30000, timer_event = Some (timeout_event a)\<rparr>)]"
    and n1: "nextTimerId (timer c1) = i"
    using confirmation_starts_timer [OF c1 inv room] empty by auto
  have inv1: "core_inv c1" using processEvent_inv [OF c1 inv] .
  define c2 where "c2 = core_timer_turn now c1"
  have t2: "timerTableMap (timer c2) = []" and n2: "nextTimerId (timer c2) = i"
    and m2: "timerIdMap c2 = timerIdMap c1"
    using t1 n1 now by (simp_all add: c2_def core_timer_turn_fields timer_turn_def Let_def
        fst_excuteIfExpired is_expired_def)
  have inv2: "core_inv c2"
    using inv1 by (auto simp: c2_def core_inv_def core_timer_turn_fields timer_turn_inv)
  have c3': "timer c3 = timer c2" "timerIdMap c3 = timerIdMap c2"
    using c3 by (auto simp: c2_def processEvent_def timeout_event_def
        handleBTDeviceRequestConfirmationTimeout_def Let_def)
  have inv3: "core_inv c3" using processEvent_inv [OF c3] inv2 by (simp add: c2_def)
  have room3: "room c3" using t2 c3' by (simp add: room_def INT32_MAX_def)
  have j: "timerIdMap c4 = (timerIdMap c3)(b \<mapsto> i)"
    and p4: "timer_pending (timer c4) =
        (timer_pending (timer c3))(i \<mapsto> (clock c3 + ns_of_ms 30000, timeout_event b))"
    using confirmation_starts_timer [OF c4 inv3 room3] t2 n2 c3' by auto
  have inv4: "core_inv c4" using processEvent_inv [OF c4 inv3] .
  have "timerIdMap c4 a = Some i" using j ab i m2 c3' by simp
  from answer_stops_timer [OF _ c5 this] inv4
  have "timer_pending (timer c5) = (timer_pending (timer c4))(i := None)"
    and m5: "timerIdMap c5 = (timerIdMap c4)(a := None)"
    by (auto simp: core_inv_def)
  moreover have "timer_pending (timer c3) = Map.empty"
    using t2 c3' by (auto simp: timer_pending_def)
  ultimately show ?thesis using p4 j m5 ab by auto
qed

end
