(* ===== verification/Instances.thy ===== *)
theory Instances
  imports CoreSystem
begin

text \<open>
  Concrete instances of the model's parameters: a record store that behaves as SQLite documents, a
  JSON writer and an environment without failures.  The properties hold for every instance; these
  show that their hypotheses can be met.
\<close>

section \<open>A record store\<close>

type_synonym rows = "(int \<times> string \<times> int) list"

definition next_row_id :: "rows \<Rightarrow> int" where
  "next_row_id rows = fold max (map fst rows) 0 + 1"

definition store_run ::
    "string \<Rightarrow> sql_value list \<Rightarrow> rows \<Rightarrow> sql_value list list \<times> sqlite_rc \<times> rows" where
  "store_run sql binds rows =
     (if sql = insertSQL then
        (case binds of
           [SqlText p, SqlInteger d] \<Rightarrow>
             if p \<in> set (map (fst \<circ> snd) (AList.clearjunk rows)) then ([], SQLITE_ERROR, rows)
             else ([], SQLITE_DONE, (next_row_id rows, p, d) # rows)
         | _ \<Rightarrow> ([], SQLITE_ERROR, rows))
      else if sql = deleteSQL then
        (case binds of
           [SqlInteger i] \<Rightarrow>
             ((case map_of rows i of None \<Rightarrow> [] | Some (p, _) \<Rightarrow> [[SqlText p]]), SQLITE_DONE,
              AList.delete i rows)
         | _ \<Rightarrow> ([], SQLITE_ERROR, rows))
      else if sql = querySQL then
        (map (\<lambda>(i, p, d). [SqlInteger i, SqlText p, SqlInteger d]) (take 100 (AList.clearjunk rows)),
         SQLITE_DONE, rows)
      else ([], SQLITE_ERROR, rows))"

definition store_engine :: "rows sql_engine" where
  "store_engine =
     \<lparr>create_directories = (\<lambda>_. True), sqlite3_open = (\<lambda>_. SQLITE_OK),
      sqlite3_exec = (\<lambda>_ db. (SQLITE_OK, db)), sqlite3_prepare_v2 = (\<lambda>_ _. SQLITE_OK),
      sqlite3_run = store_run,
      sqlite3_last_insert_rowid = (\<lambda>db. case db of [] \<Rightarrow> 0 | (i, _) # _ \<Rightarrow> i),
      sqlite3_column_int = (\<lambda>v. case v of SqlInteger n \<Rightarrow> wrap32 n | _ \<Rightarrow> 0),
      sqlite3_column_text = (\<lambda>v. case v of SqlText s \<Rightarrow> Some s | _ \<Rightarrow> None)\<rparr>"

lemma fold_max_ge: "(\<forall>x \<in> set xs. x \<le> fold max xs a) \<and> (a :: int) \<le> fold max xs a"
proof (induction xs arbitrary: a)
  case (Cons x xs)
  from Cons.IH [of "max x a"] show ?case by auto
qed simp

lemma next_row_id: "1 \<le> next_row_id rows" "map_of rows (next_row_id rows) = None"
proof -
  have g: "\<forall>x \<in> set (map fst rows). x \<le> fold max (map fst rows) 0" "0 \<le> fold max (map fst rows) 0"
    using fold_max_ge [of "map fst rows" 0] by blast+
  then show "1 \<le> next_row_id rows" by (simp add: next_row_id_def)
  have "next_row_id rows \<notin> fst ` set rows"
    using g by (force simp: next_row_id_def)
  then show "map_of rows (next_row_id rows) = None" by (simp add: map_of_eq_None_iff)
qed

lemma sql_distinct [simp]:
  "deleteSQL \<noteq> insertSQL" "querySQL \<noteq> insertSQL" "querySQL \<noteq> deleteSQL"
  by (simp_all add: insertSQL_def deleteSQL_def querySQL_def nl_def)

lemma clearjunk_paths:
  "p \<in> set (map (fst \<circ> snd) (AList.clearjunk rows)) \<longleftrightarrow> (\<exists>i d. map_of rows i = Some (p, d))"
proof -
  have "map_of rows i = Some (p, d) \<longleftrightarrow> (i, p, d) \<in> set (AList.clearjunk rows)" for i d
    using map_of_eq_Some_iff [OF distinct_clearjunk, of rows i "(p, d)"] by (simp add: map_of_clearjunk)
  then show ?thesis by force
qed

lemma store_engine_ok: "audio_engine store_engine map_of"
proof -
  have "engine_inserts store_engine map_of rows p d" for rows p d
    using next_row_id [of rows]
    by (auto simp: engine_inserts_def store_engine_def store_run_def clearjunk_paths
        simp del: set_map)
  moreover have "engine_deletes store_engine map_of rows i" for rows i
    by (auto simp: engine_deletes_def store_engine_def store_run_def delete_conv')
  moreover have "engine_queries store_engine map_of rows" for rows
  proof -
    have "map_of rows i = Some (p, d)" if "(i, p, d) \<in> set (take 100 (AList.clearjunk rows))" for i p d
      using map_of_is_SomeI [OF distinct_clearjunk in_set_takeD [OF that]]
      by (simp only: map_of_clearjunk)
    then have "\<forall>row \<in> set (map (\<lambda>(i, p, d). [SqlInteger i, SqlText p, SqlInteger d])
        (take 100 (AList.clearjunk rows))).
        \<exists>i p d. row = [SqlInteger i, SqlText p, SqlInteger d] \<and> map_of rows i = Some (p, d)"
      by auto
    moreover have "sqlite3_run store_engine querySQL [] rows =
        (map (\<lambda>(i, p, d). [SqlInteger i, SqlText p, SqlInteger d]) (take 100 (AList.clearjunk rows)),
         SQLITE_DONE, rows)"
      by (simp add: store_engine_def store_run_def)
    ultimately show ?thesis
      unfolding engine_queries_def by (simp del: set_map)
  qed
  ultimately show ?thesis
    by (simp add: audio_engine_def) (simp add: store_engine_def)
qed

section \<open>An environment\<close>

definition plain_dump :: "json \<Rightarrow> fault + string" where
  "plain_dump j = Inr ''message''"

text \<open>A client's text is the name of a command, with the record or the device it is about.\<close>

definition plain_parse :: "string \<Rightarrow> fault + json" where
  "plain_parse s =
     (if s = [] then Inl Json_error
      else Inr (JObject [(''command'', JString s),
                         (''data'', JObject [(''device_address'', JString ''AA''), (''id'', JInt 4294967297)])]))"

definition plain_env :: "rows env" where
  "plain_env =
     \<lparr>dbus_faults = (\<lambda>_. no_faults), dump = plain_dump, parse = plain_parse, engine = store_engine,
      fs_error = (\<lambda>_. False), fs_remove = (\<lambda>_. True)\<rparr>"

definition plain_pool :: "rows DBThreadPool" where
  "plain_pool =
     \<lparr>database = [(1, ''/var/a.wav'', 3)],
      threads = \<lparr>pool_running = True, started = 0, serving = 1, ended = 5\<rparr>, tasksQueue = []\<rparr>"

definition plain_core :: "rows core" where
  "plain_core = core_init (Some plain_pool) (\<lambda>p. p = ''/var/a.wav'') 0"

lemma dump_plain_env [simp]: "dump plain_env = plain_dump"
  by (simp add: plain_env_def)

lemma plain_publish [simp]:
  "publish plain_env status msgInfo component msgData data c = Inr (c\<lparr>server := broadcast ''message'' (server c)\<rparr>)"
  by (simp add: publish_def updateStateAndBroadcast_def status_json_Inr plain_dump_def)

lemma plain_core_inv [simp]: "core_inv plain_core"
  by (simp add: plain_core_def core_inv_init)

lemma plain_core_reachable [simp]: "core_reachable plain_env plain_core"
  by (auto simp: core_reachable_def plain_core_def)

lemma plain_core_view [simp]:
  "RECORD_STATE plain_core = RecordState.STOPPED" "CURRENT_TEMPERATURE plain_core = 0"
  "SCANNING_BTDEVICE_STATE plain_core = ScanningBTDeviceState.IDLE"
  "BLUETOOTH_POWER_STATE plain_core = BluetoothPowerState.OFF" "CALL_STATE plain_core = CallState.IDLE"
  "sessions (server plain_core) = []" "timerTableMap (timer plain_core) = []" "clock plain_core = 0"
  "pool plain_core = Some plain_pool" "nextTimerId (timer plain_core) = 1"
  by (simp_all add: plain_core_def core_init_def WebSocketServer_init_def SetEventQueue_def Timer_init_def)

lemma plain_pool_ok [simp]: "pool_ok plain_pool"
  by (simp add: pool_ok_def plain_pool_def)

text \<open>In this environment a request for confirmation is always answered by a new timer.\<close>

lemma plain_confirmation:
  assumes "core_inv c"
  shows "\<exists>c1. processEvent plain_env (confirmation_event a k) c = Inr c1"
proof -
  obtain i t where "startTimer (clock c) TIMEOUT_REQUEST_CONFIRMATION_MS
      (Some (make_Event EventTypeID.BTDEVICE_REQUEST_CONFIRMATION_TIMEOUT
        (Some (BluetoothDeviceAddressPayload a)))) (timer c) = Some (i, t)"
    using startTimer_total [of "timer c"] assms unfolding core_inv_def by (metis not_None_eq surj_pair)
  then show ?thesis
    by (simp add: processEvent_def confirmation_event_def btDeviceRequestConfirmationNOTI_def Let_def)
qed

end
