(* ===== verification/HardwareLink.thy ===== *)
theory HardwareLink
  imports HardwareInstances Instances RecordMain
begin

text \<open>
  The hardware manager and the core manager together: the core manager's commands on their way, what
  the core manager's receiver makes of the notifications, the devices that are found, and the
  temperature.
\<close>

section \<open>Commands\<close>

lemma hardware_command_arrives:
  assumes "cmd \<in> set CM_hardware_commands" and "CM_makeMsg F cmd = Some msg"
  shows "HM_receive msg h = Inr (hm_queue_event (hardware_event cmd a n) h)" and "RM_receive msg r = Inr r"
proof -
  have "HM_receive msg h = HM_handleMessage (Some cmd) h"
    unfolding HM_receive_def by (rule cm_to_hm_cmd.delivered [OF assms])
  with assms(1) show "HM_receive msg h = Inr (hm_queue_event (hardware_event cmd a n) h)"
    by (auto simp: CM_hardware_commands_def HM_handleMessage_def hardware_event_def hm_queue_event_def
        hm_push_def)
  have "getInterfaceName record_config \<noteq> getInterfaceName hardware_config" by simp
  from cm_to_hm_cmd.not_for_others [OF assms this]
  show "RM_receive msg r = Inr r" unfolding RM_receive_def .
qed

lemma hardware_notification_arrives:
  assumes "CM_makeMsgNoti F cmd ok info = Some msg"
  shows "HM_receive msg h = Inr (hm_queue_event (hardware_event cmd
      (c_str (info DBUS_DATA_BT_DEVICE_ADDRESS)) (c_str (info DBUS_DATA_CALL_NUMBER))) h)"
    and "RM_receive msg r = Inr r" and "cmd \<in> set CM_notifications"
proof -
  have "HM_receive msg h = HM_handleMessageNoti (Some cmd) ok (\<lambda>t. c_str (info t)) h"
    unfolding HM_receive_def by (rule cm_to_hm.delivered [OF assms])
  moreover show c: "cmd \<in> set CM_notifications" using cm_to_hm.made [OF assms] by simp
  ultimately show "HM_receive msg h = Inr (hm_queue_event (hardware_event cmd
      (c_str (info DBUS_DATA_BT_DEVICE_ADDRESS)) (c_str (info DBUS_DATA_CALL_NUMBER))) h)"
    by (auto simp: CM_notifications_def HM_handleMessageNoti_def hardware_event_def hm_queue_event_def
        hm_push_def)
  have "getInterfaceName record_config \<noteq> getInterfaceName hardware_config" by simp
  from cm_to_hm.not_for_others [OF assms this]
  show "RM_receive msg r = Inr r" unfolding RM_receive_def .
qed

lemma record_command_arrives:
  assumes "cmd \<in> set CM_record_commands" and "CM_makeMsg F cmd = Some msg"
  shows "RM_receive msg r = RM_handleMessage (Some cmd) r" and "HM_receive msg h = Inr h"
proof -
  show "RM_receive msg r = RM_handleMessage (Some cmd) r"
    unfolding RM_receive_def by (rule cm_to_rm_cmd.delivered [OF assms])
  have "getInterfaceName hardware_config \<noteq> getInterfaceName record_config" by simp
  from cm_to_rm_cmd.not_for_others [OF assms this]
  show "HM_receive msg h = Inr h" unfolding HM_receive_def .
qed

section \<open>Notifications\<close>

lemma hm_noti_received:
  "CM_receive (hm_noti (cmd, ok, info)) q = CM_handleMessageNoti (Some cmd) ok (\<lambda>t. c_str (info t)) q"
  unfolding CM_receive_def hm_noti_def
  by (simp add: receive_message_def is_signal_def dispatch_noti_msg) (simp add: noti_msg_def)

lemma sent_notify:
  fixes m m1 :: hardware_mgr
  assumes "hm_sender m1 = hm_sender m" and "conn (hm_sender m)" and "\<forall>k. hm_faults env k = no_faults"
    and "cmd \<in> set HM_notifications"
  shows "sent (hm_sender (hm_notify env cmd ok info m1)) = sent (hm_sender m) @ [hm_noti (cmd, ok, info)]"
  using sent_notified [OF notified_notify [OF notified_nil [OF assms(1)], of env cmd ok info] assms(2,3)] assms(4)
  by simp

section \<open>Found devices\<close>

text \<open>A dictionary of properties as the bus carries it, and the values it has for a name.\<close>

definition dict_value :: "(string \<times> dbus_value) list \<Rightarrow> dbus_value" where
  "dict_value ps = DArray ''{sv}'' (map (\<lambda>(k, w). DDictEntry (DString k) (DVariant w)) ps)"

definition text_at :: "(string \<times> dbus_value) list \<Rightarrow> string \<Rightarrow> string" where
  "text_at ps k = (case map_of ps k of Some (DString s) \<Rightarrow> s | _ \<Rightarrow> [])"

definition flag_at :: "(string \<times> dbus_value) list \<Rightarrow> string \<Rightarrow> bool" where
  "flag_at ps k \<longleftrightarrow> map_of ps k = Some (DBoolean True)"

definition rssi_at :: "(string \<times> dbus_value) list \<Rightarrow> int" where
  "rssi_at ps = (case map_of ps ''RSSI'' of Some (DInt16 n) \<Rightarrow> n | _ \<Rightarrow> 0)"

definition name_at :: "(string \<times> dbus_value) list \<Rightarrow> string" where
  "name_at ps = (if text_at ps ''Name'' \<noteq> [] then text_at ps ''Name'' else text_at ps ''Alias'')"

text \<open>What the parser leaves in the data block, field by field.\<close>

definition device_block :: "DBusDataInfo \<Rightarrow> (string \<times> dbus_value) list \<Rightarrow> DBusDataInfo" where
  "device_block info ps = fold (\<lambda>(k, w). device_property k [w]) ps info"

lemma parse_dict_value: "parseDeviceProperties [dict_value ps] = Inr (device_block DBusDataInfo_init ps)"
proof -
  have "parse_entries device_property (map (\<lambda>(k, w). DDictEntry (DString k) (DVariant w)) ps) info
    = Inr (device_block info ps)" for info
    by (induction ps arbitrary: info) (auto simp: device_block_def get_string_def recurse_def)
  then show ?thesis by (simp add: parseDeviceProperties_def dict_value_def recurse_def)
qed

lemma device_property_local: "I t = J t \<Longrightarrow> device_property k [w] I t = device_property k [w] J t"
  by (cases w; cases t; simp add: device_property_def)

lemma device_block_field:
  assumes "\<And>k w info. k \<noteq> key \<Longrightarrow> device_property k [w] info t = info t" and "distinct (map fst ps)"
  shows "device_block info ps t =
    (case map_of ps key of Some w \<Rightarrow> device_property key [w] info t | None \<Rightarrow> info t)"
  using assms(2)
proof (induction ps arbitrary: info)
  case (Cons p ps)
  obtain k w where p: "p = (k, w)" by (cases p)
  have "device_block info (p # ps) t = device_block (device_property k [w] info) ps t"
    by (simp add: device_block_def p)
  also have "\<dots> = (case map_of ps key of Some v \<Rightarrow> device_property key [v] (device_property k [w] info) t
      | None \<Rightarrow> device_property k [w] info t)"
    using Cons by simp
  finally have eq: "device_block info (p # ps) t = \<dots>" .
  show ?case
  proof (cases "k = key")
    case True
    with Cons.prems p have "map_of ps key = None" by (auto simp: map_of_eq_None_iff)
    with eq True p show ?thesis by simp
  next
    case False
    have "device_property key [v] (device_property k [w] info) t = device_property key [v] info t" for v
      by (rule device_property_local) (rule assms(1) [OF False])
    with eq False p assms(1) show ?thesis by (auto split: option.splits)
  qed
qed (simp add: device_block_def)

lemma device_property_field:
  "k \<noteq> ''Address'' \<Longrightarrow> device_property k [w] info DBUS_DATA_BT_DEVICE_ADDRESS = info DBUS_DATA_BT_DEVICE_ADDRESS"
  "k \<noteq> ''Icon'' \<Longrightarrow> device_property k [w] info DBUS_DATA_BT_DEVICE_ICON = info DBUS_DATA_BT_DEVICE_ICON"
  "k \<noteq> ''RSSI'' \<Longrightarrow> device_property k [w] info DBUS_DATA_BT_DEVICE_RSSI = info DBUS_DATA_BT_DEVICE_RSSI"
  "k \<noteq> ''Paired'' \<Longrightarrow> device_property k [w] info DBUS_DATA_BT_DEVICE_PAIRED = info DBUS_DATA_BT_DEVICE_PAIRED"
  "k \<noteq> ''Connected'' \<Longrightarrow>
    device_property k [w] info DBUS_DATA_BT_DEVICE_CONNECTED = info DBUS_DATA_BT_DEVICE_CONNECTED"
  by (cases w; simp add: device_property_def)+

lemma bool_text_c_str: "c_str [] = []" "c_str (bool_text b) = ''true'' \<longleftrightarrow> b"
  by (simp_all add: bool_text_def c_str_def)

lemma int_to_string_0: "int_to_string 0 = ''0''"
  by code_simp

lemma device_block_simple_fields:
  assumes "distinct (map fst ps)"
  shows "device_block DBusDataInfo_init ps DBUS_DATA_BT_DEVICE_ADDRESS = text_at ps ''Address''"
    "device_block DBusDataInfo_init ps DBUS_DATA_BT_DEVICE_ICON = text_at ps ''Icon''"
    "device_block DBusDataInfo_init ps DBUS_DATA_BT_DEVICE_RSSI = int_to_string (rssi_at ps)"
    "c_str (device_block DBusDataInfo_init ps DBUS_DATA_BT_DEVICE_PAIRED) = ''true'' \<longleftrightarrow> flag_at ps ''Paired''"
    "c_str (device_block DBusDataInfo_init ps DBUS_DATA_BT_DEVICE_CONNECTED) = ''true'' \<longleftrightarrow> flag_at ps ''Connected''"
proof -
  have f: "device_block DBusDataInfo_init ps t =
      (case map_of ps k of Some w \<Rightarrow> device_property k [w] DBusDataInfo_init t | None \<Rightarrow> DBusDataInfo_init t)"
    if "(k, t) \<in> {(''Address'', DBUS_DATA_BT_DEVICE_ADDRESS), (''Icon'', DBUS_DATA_BT_DEVICE_ICON),
      (''RSSI'', DBUS_DATA_BT_DEVICE_RSSI), (''Paired'', DBUS_DATA_BT_DEVICE_PAIRED),
      (''Connected'', DBUS_DATA_BT_DEVICE_CONNECTED)}" for k t
    by (rule device_block_field [OF _ assms]) (use that in \<open>auto simp only: insert_iff prod.inject empty_iff intro: device_property_field\<close>)
  show "device_block DBusDataInfo_init ps DBUS_DATA_BT_DEVICE_ADDRESS = text_at ps ''Address''"
    "device_block DBusDataInfo_init ps DBUS_DATA_BT_DEVICE_ICON = text_at ps ''Icon''"
    "device_block DBusDataInfo_init ps DBUS_DATA_BT_DEVICE_RSSI = int_to_string (rssi_at ps)"
    "c_str (device_block DBusDataInfo_init ps DBUS_DATA_BT_DEVICE_PAIRED) = ''true'' \<longleftrightarrow> flag_at ps ''Paired''"
    "c_str (device_block DBusDataInfo_init ps DBUS_DATA_BT_DEVICE_CONNECTED) = ''true'' \<longleftrightarrow> flag_at ps ''Connected''"
    by (simp_all add: f [of "''Address''"] f [of "''Icon''"] f [of "''RSSI''"] f [of "''Paired''"]
        f [of "''Connected''"] text_at_def rssi_at_def flag_at_def device_property_def bool_text_c_str
        int_to_string_0 split: option.split dbus_value.split)
qed

lemma device_property_name:
  "device_property k [w] info DBUS_DATA_BT_DEVICE_NAME =
    (case w of
       DString s \<Rightarrow> if k = ''Name'' \<or> k = ''Alias'' \<and> info DBUS_DATA_BT_DEVICE_NAME = [] then s
         else info DBUS_DATA_BT_DEVICE_NAME
     | _ \<Rightarrow> info DBUS_DATA_BT_DEVICE_NAME)"
  by (cases w; simp add: device_property_def)

lemma device_block_name:
  assumes "distinct (map fst ps)" and "map_of ps ''Name'' \<noteq> Some (DString [])"
  shows "device_block info ps DBUS_DATA_BT_DEVICE_NAME =
    (if text_at ps ''Name'' \<noteq> [] then text_at ps ''Name''
     else if info DBUS_DATA_BT_DEVICE_NAME \<noteq> [] then info DBUS_DATA_BT_DEVICE_NAME
     else text_at ps ''Alias'')"
  using assms
proof (induction ps arbitrary: info)
  case (Cons p ps)
  obtain k w where p: "p = (k, w)" by (cases p)
  have step: "device_block info (p # ps) t = device_block (device_property k [w] info) ps t" for t
    by (simp add: device_block_def p)
  have fresh: "map_of ps k = None" using Cons.prems p by (auto simp: map_of_eq_None_iff)
  then have "map_of ps ''Name'' \<noteq> Some (DString [])" using Cons.prems(2) p by (auto split: if_splits)
  note IH = Cons.IH [OF _ this, of "device_property k [w] info"]
  have "distinct (map fst ps)" using Cons.prems(1) by simp
  from IH [OF this] show ?case
    unfolding step device_property_name using Cons.prems(2) fresh
    by (cases w) (auto simp: p text_at_def)
qed (simp add: device_block_def text_at_def)

text \<open>The signal for a new device, and what the core manager is to hear of it.\<close>

definition found_signal :: "string \<Rightarrow> (string \<times> dbus_value) list \<Rightarrow> dbus_msg \<Rightarrow> bool" where
  "found_signal path ps msg \<longleftrightarrow>
     msg_type msg = MESSAGE_TYPE_SIGNAL \<and> msg_interface msg = Some DBUS_OBJECT_MANAGER_INTERFACE
     \<and> msg_member msg = Some ''InterfacesAdded''
     \<and> msg_args msg = [DObjectPath path,
         DArray ''{sa{sv}}'' [DDictEntry (DString BLUEZ_DEVICE_INTERFACE) (dict_value ps)]]"

definition device_payload :: "(string \<times> dbus_value) list \<Rightarrow> Payload" where
  "device_payload ps =
     BluetoothDevicePayload (c_str (name_at ps)) (c_str (text_at ps ''Address'')) (rssi_at ps)
       (flag_at ps ''Paired'') (flag_at ps ''Connected'') (c_str (text_at ps ''Icon''))"

text \<open>The properties of a device as BlueZ documents them.\<close>

definition device_properties :: "(string \<times> dbus_value) list \<Rightarrow> bool" where
  "device_properties ps \<longleftrightarrow>
     distinct (map fst ps) \<and> text_at ps ''Address'' \<noteq> [] \<and> map_of ps ''Name'' \<noteq> Some (DString [])
     \<and> - 32768 \<le> rssi_at ps \<and> rssi_at ps < 32768"

definition found_info :: "(string \<times> dbus_value) list \<Rightarrow> DBusDataInfo" where
  "found_info ps =
     (device_block DBusDataInfo_init ps)(DBUS_DATA_MESSAGE := ''New Bluetooth device found.'')"

lemma found_signal_dispatch:
  assumes "found_signal path ps (msg_body msg)" and "device_properties ps"
  shows "bt_dispatchMessage env msg m =
    Inr (hm_notify env DBusCommand.SCANNING_BTDEVICE_FOUND_NOTI True (found_info ps) m)"
proof -
  have "handleInterfacesAdded env (msg_body msg) m =
      Inr (hm_notify env DBusCommand.SCANNING_BTDEVICE_FOUND_NOTI True (found_info ps) m)"
    using assms
    by (simp add: found_signal_def handleInterfacesAdded_def recurse_def get_string_def parse_dict_value
        device_properties_def device_block_simple_fields found_info_def)
  with assms(1) show ?thesis
    by (simp add: bt_dispatchMessage_def is_signal_def found_signal_def hm_config)
qed

lemma found_received:
  assumes "device_properties ps"
  shows "CM_receive (hm_noti (DBusCommand.SCANNING_BTDEVICE_FOUND_NOTI, True, found_info ps)) q =
    Inr (push_event EventTypeID.SCANNING_BTDEVICE_FOUND_NOTI (Some (device_payload ps)) q)"
proof -
  have d: "distinct (map fst ps)" "map_of ps ''Name'' \<noteq> Some (DString [])" and r: "int32 (rssi_at ps)"
    using assms by (auto simp: device_properties_def int32_def INT32_MIN_def INT32_MAX_def)
  have "device_block DBusDataInfo_init ps DBUS_DATA_BT_DEVICE_NAME = name_at ps"
    using device_block_name [OF d] by (simp add: name_at_def)
  with stoi_int_to_string [OF r] show ?thesis
    by (simp add: hm_noti_received CM_handleMessageNoti_def found_info_def device_payload_def
        device_block_simple_fields [OF d(1)])
qed

section \<open>Temperature\<close>

text \<open>What the core manager does when it hears of a temperature that is shown as \<open>d\<close>.\<close>

definition show_temperature :: "'db env \<Rightarrow> int \<Rightarrow> 'db core \<Rightarrow> fault + 'db core" where
  "show_temperature env d c =
     (if CURRENT_TEMPERATURE c = d then Inr c
      else publish env ''success'' ''Temperature updated successfully from Hardware Manager Service.''
             ''Header'' ''update_temperature_noti'' (json_object [(''temperature'', JInt d)])
             (c\<lparr>CURRENT_TEMPERATURE := d\<rparr>))"

lemma temperature_event:
  assumes "float_add (Finite y) (Finite (1 / 2)) = Finite w" and "int32 (Prelude.truncate w)"
  shows "processEvent env (make_Event EventTypeID.UPDATE_TEMPERATURE_NOTI
        (Some (NotiTemperaturePayload True (Finite y)))) c = show_temperature env (Prelude.truncate w) c"
  using assms
  by (simp add: processEvent_def updateTemperatureNOTI_def float32_to_int_def float_to_int_def show_temperature_def)

lemma shown_degree_int32: "\<bar>n\<bar> \<le> 125000 \<Longrightarrow> int32 (shown_degree n)"
  by (auto simp: shown_degree_def int32_def INT32_MIN_def INT32_MAX_def)

lemma reading_received:
  assumes "\<bar>n\<bar> \<le> 125000"
  shows "\<exists>y. CM_receive (hm_noti (DBusCommand.UPDATE_TEMPERATURE_NOTI, True,
        temperature_info (float_div (float_of_int n) 1000))) q =
      Inr (push_event EventTypeID.UPDATE_TEMPERATURE_NOTI (Some (NotiTemperaturePayload True y)) q)
    \<and> (\<forall>env c. processEvent env (make_Event EventTypeID.UPDATE_TEMPERATURE_NOTI
          (Some (NotiTemperaturePayload True y))) c = show_temperature env (shown_degree n) c)"
proof -
  obtain x y w where c: "float_div (float_of_int n) 1000 = Finite x"
    "stof (float_to_string (Finite x)) = Inr (Finite y)"
    "float_add (Finite y) (Finite (1 / 2)) = Finite w" "Prelude.truncate w = shown_degree n"
    using degree_chain [OF assms] by blast
  have "processEvent env (make_Event EventTypeID.UPDATE_TEMPERATURE_NOTI
        (Some (NotiTemperaturePayload True (Finite y)))) c = show_temperature env (shown_degree n) c"
    for env :: "'a env" and c
    using temperature_event [OF c(3)] shown_degree_int32 [OF assms] c(4) by simp
  with c(1,2) show ?thesis
    by (intro exI [of _ "Finite y"])
      (simp add: hm_noti_received CM_handleMessageNoti_def temperature_info_def c_str_float_to_string)
qed

section \<open>Confirming a pairing\<close>

lemma confirmation_dispatch:
  assumes "confirmation_request (deviceAddressToObjectPath a m) k msg" and "device_address a"
    and "has_agent env"
  shows "bt_dispatchMessage env msg m =
    Inr (hm_notify env DBusCommand.BTDEVICE_REQUEST_CONFIRMATION_NOTI True (confirmation_info a k)
      (m\<lparr>pendingConfirmations := (pendingConfirmations m)(a \<mapsto> msg)\<rparr>))"
proof -
  have "a \<noteq> []" using assms(2) by (simp add: device_address_def)
  with assms path_address(1) [OF assms(2), of m] path_address(3) [OF assms(2)]
  have "agent_handleMessage env msg m =
    hm_notify env DBusCommand.BTDEVICE_REQUEST_CONFIRMATION_NOTI True (confirmation_info a k)
      (m\<lparr>pendingConfirmations := (pendingConfirmations m)(a \<mapsto> msg)\<rparr>)"
    by (simp add: agent_handleMessage_def confirmation_request_def handleRequestConfirmation_def)
  with assms(1,3) show ?thesis
    by (simp add: bt_dispatchMessage_def is_signal_def confirmation_request_def is_method_call_def need_field_def)
qed

lemma confirmation_received:
  "CM_receive (hm_noti (DBusCommand.BTDEVICE_REQUEST_CONFIRMATION_NOTI, True, confirmation_info a k)) q =
    Inr (push_event EventTypeID.BTDEVICE_REQUEST_CONFIRMATION_NOTI
      (Some (BluetoothDevicePasskeyPayload (c_str a) (int_to_string k))) q)"
  by (simp add: hm_noti_received CM_handleMessageNoti_def confirmation_info_def)

text \<open>The event for the user's answer.\<close>

definition hm_answer :: "string \<Rightarrow> bool \<Rightarrow> HmEventTypeID Event" where
  "hm_answer a b =
     make_Event (if b then HmEventTypeID.ACCEPT_REQUEST_CONFIRMATION
                 else HmEventTypeID.REJECT_REQUEST_CONFIRMATION) (Some (BluetoothDeviceAddressPayload a))"

definition agent_answer :: "bus_msg \<Rightarrow> bool \<Rightarrow> agent_reply" where
  "agent_answer msg b =
     (if b then Method_return msg else Error_reply msg BLUEZ_ERROR_REJECTED ''Operation rejected'')"

lemma answer_event:
  assumes "has_bluez env" and "has_agent env"
  shows "HM_processEvent env (hm_answer a b) m = Inr (confirmRequest env a b m)"
  using assms
  by (simp add: hm_answer_def HM_processEvent_def processAcceptRequestConfirmationEvent_def
      processRejectRequestConfirmationEvent_def)

lemma confirmRequest_pending:
  assumes "pendingConfirmations m a = Some msg" and "\<not> reply_fails env msg"
  shows "confirmRequest env a b m =
    m\<lparr>pendingConfirmations := (pendingConfirmations m)(a := None),
      replies := replies m @ [agent_answer msg b]\<rparr>"
  using assms by (simp add: confirmRequest_def sendSimpleReply_def send_reply_def agent_answer_def)

lemma confirmRequest_none: "pendingConfirmations m a = None \<Longrightarrow> confirmRequest env a b m = m"
  by (simp add: confirmRequest_def)

section \<open>Requests that fail\<close>

lemma answer_noti_offered: "answer_noti e = Some cmd \<Longrightarrow> cmd \<in> set HM_notifications"
  by (auto simp: answer_noti_def HM_notifications_def split: HmEventTypeID.splits option.splits Payload.splits)

lemma down_event:
  assumes "bus_down env" and "has_bluez env" and "has_ofono env" and "answer_noti e = Some cmd"
    and "cmd = DBusCommand.HANGUP_CALL_NOTI \<longrightarrow> modemPath m \<noteq> []"
  shows "\<exists>m' info. HM_processEvent env e m = Inr m' \<and> notified env [(cmd, False, info)] m m'"
proof -
  note simps = HM_processEvent_def processStartScanBTDeviceEvent_def processStopScanBTDeviceEvent_def
    processBluetoothPowerOnEvent_def processBluetoothPowerOffEvent_def processHangupCallEvent_def
    processAnswerCallEvent_def processPairBTDeviceEvent_def processUnpairBTDeviceEvent_def
    procsesConnectBTDeviceEvent_def processDisconnectBTDeviceEvent_def processDialCallEvent_def
    powerOnAdapter_def powerOffAdapter_def
  have p: "\<exists>info. notified env [(c, False, info)] m m'" if "reports env c P m m'" for c P m'
    using that by (auto simp: reports_def)
  note down = down_requests(1,2) [OF assms(1), of m, THEN p]
    down_requests(3) [OF assms(1), where b = True and m = m, simplified, THEN p]
    down_requests(3) [OF assms(1), where b = False and m = m, simplified, THEN p]
    down_requests(4,5,6,7) [OF assms(1), where m = m, THEN p] down_requests(8) [OF assms(1), of m, THEN p]
  have u: "\<exists>m'. unpairDevice env a m = Inr m' \<and> (\<exists>info. notified env [(DBusCommand.UNPAIR_BTDEVICE_NOTI, False, info)] m m')" for a
    using down_unpair [OF assms(1), of a m] p by blast
  have n: "\<exists>m'. ofono_answerCall env m = Inr m' \<and> (\<exists>info. notified env [(DBusCommand.ANSWER_CALL_NOTI, False, info)] m m')"
    using down_answer [OF assms(1), of m] p by blast
  obtain t pl where e: "e = make_Event t pl" by (cases e) (auto simp: make_Event_def)
  show ?thesis
  proof (cases pl)
    case None
    with assms(2-5) e show ?thesis
      by (cases t) (simp_all add: answer_noti_def simps down n)
  next
    case (Some x)
    with assms(2-5) e show ?thesis
      by (cases t; cases x) (auto simp add: answer_noti_def simps down n u)
  qed
qed

lemma hangup_without_modem:
  "modemPath m = [] \<Longrightarrow> HM_processEvent env (make_Event HmEventTypeID.HANGUP_CALL p) m = Inr m"
  by (simp add: HM_processEvent_def processHangupCallEvent_def ofono_hangupCall_def)

section \<open>A pairing with a question\<close>

definition asking_state :: "hardware_mgr \<Rightarrow> hm_system" where
  "asking_state m =
     \<lparr>mgr = m, inbox = [asking_message (deviceAddressToObjectPath ''AA'' m) 123456], arrived = {7},
      pairing = Some ''AA'', asked = Some 7\<rparr>"

lemma plain_asking:
  assumes "hardware_start plain_hm_env = Inr m"
  shows "hm_reachable plain_hm_env (asking_state m)"
proof -
  let ?s = "hm_system_init m" and ?msg = "asking_message (deviceAddressToObjectPath ''AA'' m) 123456"
  have serial: "msg_serial ?msg = 7" by (simp add: asking_message_def)
  have 1: "hm_step plain_hm_env ?s (?s\<lparr>pairing := Some ''AA'', asked := None\<rparr>)"
    by (rule hm_step.Pair_begin) (simp add: hm_system_init_def)
  have "hm_step plain_hm_env (?s\<lparr>pairing := Some ''AA'', asked := None\<rparr>)
    ((receive_bus ?msg (?s\<lparr>pairing := Some ''AA'', asked := None\<rparr>))\<lparr>asked := Some (msg_serial ?msg)\<rparr>)"
    by (rule hm_step.Pair_ask [where a = "''AA''" and passkey = 123456])
      (simp_all add: hm_system_init_def asking_request)
  then have 2: "hm_step plain_hm_env (?s\<lparr>pairing := Some ''AA'', asked := None\<rparr>) (asking_state m)"
    by (simp add: asking_state_def receive_bus_def hm_system_init_def serial)
  from 1 2 have "(hm_step plain_hm_env)\<^sup>*\<^sup>* ?s (asking_state m)" by (meson rtranclp.simps)
  with assms show ?thesis by (auto simp: hm_reachable_def)
qed

lemma plain_pair_fails:
  "answers plain_hm_env n (pair_call a m) = Call_error ''Did not receive a reply''"
  by (simp add: plain_answer_def pair_call_def new_method_call_def)

lemma plain_pair_end:
  "hm_step plain_hm_env (asking_state m)
    ((asking_state m)\<lparr>mgr := pairDevice plain_hm_env ''AA'' m, pairing := None, asked := None\<rparr>)"
proof -
  have "pair_may_end (answers plain_hm_env (created (mgr (asking_state m)))
      (pair_call ''AA'' (mgr (asking_state m)))) (asking_state m)"
    unfolding plain_pair_fails by (simp add: pair_may_end_def)
  from hm_step.Pair_end [OF _ this] show ?thesis by (simp add: asking_state_def)
qed

end
