(* ===== verification/Threads.thy ===== *)
theory Threads
  imports Prelude
begin

text \<open>
  The life of a service thread, \<open>common/src/Thread/ThreadBase.cpp\<close>: the running flag the thread's
  loop polls, and whether \<open>threadObj\<close> holds a thread that was started and not joined.
\<close>

record ThreadBase =
  runningFlag :: bool
  threadObj :: bool

definition ThreadBase_init :: ThreadBase where
  "ThreadBase_init = \<lparr>runningFlag = False, threadObj = False\<rparr>"

text \<open>
  \<open>created\<close>: the constructor of \<open>std::thread\<close> did not throw.  Assigning a thread to a \<open>std::thread\<close>
  that still holds one calls \<open>std::terminate\<close>.
\<close>

definition thread_run :: "bool \<Rightarrow> ThreadBase \<Rightarrow> fault + ThreadBase" where
  "thread_run created t =
     (if \<not> runningFlag t
      then if \<not> created then Inr (t\<lparr>runningFlag := False\<rparr>)
           else if threadObj t then Inl Terminate
           else Inr (t\<lparr>runningFlag := True, threadObj := True\<rparr>)
      else Inr t)"

definition thread_join :: "ThreadBase \<Rightarrow> ThreadBase" where
  "thread_join t = (if threadObj t then t\<lparr>threadObj := False\<rparr> else t)"

definition thread_stop :: "ThreadBase \<Rightarrow> ThreadBase" where
  "thread_stop t = (if runningFlag t then t\<lparr>runningFlag := False\<rparr> else t)"

lemmas thread_defs = ThreadBase_init_def thread_run_def thread_join_def thread_stop_def

text \<open>A running thread exists; starting and stopping keep it so.\<close>

definition thread_inv :: "ThreadBase \<Rightarrow> bool" where
  "thread_inv t \<longleftrightarrow> (runningFlag t \<longrightarrow> threadObj t)"

lemma thread_inv_init: "thread_inv ThreadBase_init"
  by (simp add: thread_inv_def thread_defs)

lemma thread_inv_run: "thread_run c t = Inr t' \<Longrightarrow> thread_inv t \<Longrightarrow> thread_inv t'"
  by (auto simp: thread_inv_def thread_defs split: if_splits)

lemma thread_inv_stop: "thread_inv t \<Longrightarrow> thread_inv (thread_stop t)"
  by (simp add: thread_inv_def thread_defs)

text \<open>Stopping and joining makes the object ready for another run; stopping alone does not.\<close>

lemma thread_restart:
  "thread_run True (thread_join (thread_stop t)) = Inr \<lparr>runningFlag = True, threadObj = True\<rparr>"
  by (cases t) (simp add: thread_defs)

lemma thread_restart_without_join:
  "thread_inv t \<Longrightarrow> runningFlag t \<Longrightarrow> thread_run True (thread_stop t) = Inl Terminate"
  by (simp add: thread_inv_def thread_defs)

end
