(* ===== verification/ServiceMain.thy ===== *)
theory ServiceMain
  imports Threads
begin

text \<open>
  The \<open>main\<close> function of a service, which is the same in \<open>coremgr\<close>, \<open>recordmgr\<close> and \<open>hardwaremgr\<close> but for the objects it
  starts and stops: prepare, set the flag, feed the watchdog until a signal clears the flag, stop the
  threads, join them.  The signal handler and the threads run between any two steps of it.
\<close>

section \<open>Programs\<close>

text \<open>What \<open>main\<close> does before and after its loop.  \<open>Create\<close> is the constructor of the object of a thread.\<close>

datatype 'th main_act =
    Notify_ready
  | Connect_bluez | Register_agent | Unregister_agent
  | Create 'th
  | Run_thread 'th
  | Push_startup
  | Stop_thread 'th
  | Join_thread 'th

text \<open>
  The two lists are the code before and after the loop.  \<open>effect\<close> is what an action does to the objects
  beside the flags of \<open>ThreadBase\<close>; a fault is an exception that leaves \<open>main\<close>.  \<open>work\<close> is a step of the body of a thread, given
  the running flags, \<open>others\<close> a step of a thread that is no \<open>ThreadBase\<close>; \<open>at_end\<close> says that the body returns
  when it sees its flag cleared, \<open>crashes\<close> that an exception leaves it.
\<close>

record ('th, 'x) service_code =
  startup :: "'th main_act list"
  ending :: "'th main_act list"
  effect :: "'th main_act \<Rightarrow> 'x \<Rightarrow> fault + 'x"
  work :: "'th \<Rightarrow> ('th \<Rightarrow> bool) \<Rightarrow> 'x \<Rightarrow> 'x \<Rightarrow> bool"
  others :: "('th \<Rightarrow> bool) \<Rightarrow> 'x \<Rightarrow> 'x \<Rightarrow> bool"
  at_end :: "'th \<Rightarrow> 'x \<Rightarrow> bool"
  crashes :: "'th \<Rightarrow> ('th \<Rightarrow> bool) \<Rightarrow> 'x \<Rightarrow> bool"

section \<open>State\<close>

text \<open>
  Where \<open>main\<close> is: before the loop, at its test, in \<open>wait_for\<close>, after it, after the loop, or the process has
  ended, by returning or by \<open>std::terminate\<close>.
\<close>

datatype 'th main_at =
    Startup "'th main_act list"
  | Loop_test | Waiting | Woken
  | Ending "'th main_act list"
  | Returned int
  | Terminated

text \<open>
  \<open>base\<close> are the \<open>ThreadBase\<close> parts of the objects, \<open>alive\<close> says whose \<open>threadFunction\<close> is being executed.  \<open>signals\<close>
  counts the signals handled since \<open>main\<close> set its flag and \<open>watchdog\<close> the messages to systemd; they steer nothing.
\<close>

record ('th, 'x) service =
  at_main :: "'th main_at"
  g_runningFlag :: bool
  base :: "'th \<Rightarrow> ThreadBase"
  alive :: "'th \<Rightarrow> bool"
  objects :: 'x
  signals :: nat
  watchdog :: nat

definition service_init :: "('th, 'x) service_code \<Rightarrow> 'x \<Rightarrow> ('th, 'x) service" where
  "service_init P x =
     \<lparr>at_main = Startup (startup P), g_runningFlag = False, base = (\<lambda>_. ThreadBase_init),
      alive = (\<lambda>_. False), objects = x, signals = 0, watchdog = 0\<rparr>"

definition flags :: "('th, 'x) service \<Rightarrow> 'th \<Rightarrow> bool" where
  "flags s th = runningFlag (base s th)"

definition signalHandler :: "('th, 'x) service \<Rightarrow> ('th, 'x) service" where
  "signalHandler s = s\<lparr>g_runningFlag := False, signals := Suc (signals s)\<rparr>"

section \<open>Actions\<close>

text \<open>
  What an action does to the flags: \<open>None\<close> while it has to wait.  \<open>created\<close>: the constructor of \<open>std::thread\<close> succeeds.
\<close>

definition thread_action ::
    "bool \<Rightarrow> 'th main_act \<Rightarrow> ('th, 'x) service \<Rightarrow> (fault + ('th, 'x) service) option" where
  "thread_action created a s =
     (case a of
        Run_thread th \<Rightarrow>
          Some (bind_result (thread_run created (base s th)) (\<lambda>b.
            Inr (s\<lparr>base := (base s)(th := b),
              alive := (alive s)(th := alive s th \<or> (created \<and> \<not> runningFlag (base s th)))\<rparr>)))
      | Stop_thread th \<Rightarrow> Some (Inr (s\<lparr>base := (base s)(th := thread_stop (base s th))\<rparr>))
      | Join_thread th \<Rightarrow>
          if threadObj (base s th) \<and> alive s th then None
          else Some (Inr (s\<lparr>base := (base s)(th := thread_join (base s th))\<rparr>))
      | _ \<Rightarrow> Some (Inr s))"

text \<open>An exception in \<open>main\<close>, or the assignment to a thread that was not joined, ends the process.\<close>

definition main_action ::
    "('th, 'x) service_code \<Rightarrow> bool \<Rightarrow> 'th main_act \<Rightarrow> 'th main_at \<Rightarrow> ('th, 'x) service
     \<Rightarrow> ('th, 'x) service option" where
  "main_action P created a pc s =
     (case thread_action created a s of
        None \<Rightarrow> None
      | Some (Inl e) \<Rightarrow> Some (s\<lparr>at_main := Terminated\<rparr>)
      | Some (Inr s') \<Rightarrow>
          (case effect P a (objects s') of
             Inl e \<Rightarrow> Some (s\<lparr>at_main := Terminated\<rparr>)
           | Inr x \<Rightarrow> Some (s'\<lparr>at_main := pc, objects := x\<rparr>)))"

text \<open>A step of \<open>main\<close> itself.  \<open>wait_for\<close> returns on the notification, on the time-out and for no reason.\<close>

definition main_turn :: "('th, 'x) service_code \<Rightarrow> bool \<Rightarrow> ('th, 'x) service \<Rightarrow> ('th, 'x) service option" where
  "main_turn P created s =
     (case at_main s of
        Startup (a # as) \<Rightarrow> main_action P created a (Startup as) s
      | Startup [] \<Rightarrow> Some (s\<lparr>g_runningFlag := True, signals := 0, at_main := Loop_test\<rparr>)
      | Loop_test \<Rightarrow>
          Some (if g_runningFlag s then s\<lparr>at_main := Waiting\<rparr> else s\<lparr>at_main := Ending (ending P)\<rparr>)
      | Waiting \<Rightarrow> Some (s\<lparr>at_main := Woken\<rparr>)
      | Woken \<Rightarrow>
          Some (if \<not> g_runningFlag s then s\<lparr>at_main := Ending (ending P)\<rparr>
                else s\<lparr>watchdog := Suc (watchdog s), at_main := Loop_test\<rparr>)
      | Ending (a # as) \<Rightarrow> main_action P created a (Ending as) s
      | Ending [] \<Rightarrow> Some (s\<lparr>at_main := Returned 0\<rparr>)
      | Returned _ \<Rightarrow> None
      | Terminated \<Rightarrow> None)"

definition over :: "('th, 'x) service \<Rightarrow> bool" where
  "over s \<longleftrightarrow> (case at_main s of Returned _ \<Rightarrow> True | Terminated \<Rightarrow> True | _ \<Rightarrow> False)"

text \<open>A turn of one of the threads of the process, and what else can happen: a signal.\<close>

inductive turn_step :: "('th, 'x) service_code \<Rightarrow> ('th, 'x) service \<Rightarrow> ('th, 'x) service \<Rightarrow> bool" for P where
  Main_turn: "main_turn P created s = Some s' \<Longrightarrow> turn_step P s s'"
| Work_turn: "\<not> over s \<Longrightarrow> alive s th \<Longrightarrow> work P th (flags s) (objects s) x \<Longrightarrow>
    turn_step P s (s\<lparr>objects := x\<rparr>)"
| Other_turn: "\<not> over s \<Longrightarrow> others P (flags s) (objects s) x \<Longrightarrow> turn_step P s (s\<lparr>objects := x\<rparr>)"
| End_turn: "\<not> over s \<Longrightarrow> alive s th \<Longrightarrow> \<not> flags s th \<Longrightarrow> at_end P th (objects s) \<Longrightarrow>
    turn_step P s (s\<lparr>alive := (alive s)(th := False)\<rparr>)"
| Crash_turn: "\<not> over s \<Longrightarrow> alive s th \<Longrightarrow> crashes P th (flags s) (objects s) \<Longrightarrow>
    turn_step P s (s\<lparr>at_main := Terminated\<rparr>)"

inductive service_step :: "('th, 'x) service_code \<Rightarrow> ('th, 'x) service \<Rightarrow> ('th, 'x) service \<Rightarrow> bool" for P where
  Turn: "turn_step P s s' \<Longrightarrow> service_step P s s'"
| Signal: "\<not> over s \<Longrightarrow> service_step P s (signalHandler s)"

inductive_cases turn_stepE: "turn_step P s s'"
inductive_cases service_stepE: "service_step P s s'"

definition service_reachable :: "('th, 'x) service_code \<Rightarrow> 'x \<Rightarrow> ('th, 'x) service \<Rightarrow> bool" where
  "service_reachable P x s \<longleftrightarrow> (service_step P)\<^sup>*\<^sup>* (service_init P x) s"

lemma main_turn_cases:
  assumes "main_turn P created s = Some s'"
  obtains a pc where "main_action P created a pc s = Some s'"
  | "base s' = base s" "alive s' = alive s" "objects s' = objects s"
  using assms by (auto simp: main_turn_def split: main_at.splits list.splits if_splits)

text \<open>\<open>main\<close> alone for a number of turns.\<close>

fun main_turns :: "('th, 'x) service_code \<Rightarrow> nat \<Rightarrow> ('th, 'x) service \<Rightarrow> ('th, 'x) service option" where
  "main_turns P 0 s = Some s"
| "main_turns P (Suc n) s =
     (case main_turn P True s of None \<Rightarrow> None | Some s' \<Rightarrow> main_turns P n s')"

lemma main_turns_steps: "main_turns P n s = Some t \<Longrightarrow> (service_step P)\<^sup>*\<^sup>* s t"
proof (induction n arbitrary: s)
  case (Suc n)
  then obtain s' where s': "main_turn P True s = Some s'" and t: "main_turns P n s' = Some t"
    by (auto split: option.splits)
  from s' have "service_step P s s'" by (intro service_step.Turn turn_step.Main_turn)
  then show ?case using Suc.IH [OF t] by (rule converse_rtranclp_into_rtranclp)
qed simp

lemma service_reachable_trans:
  "service_reachable P x s \<Longrightarrow> (service_step P)\<^sup>*\<^sup>* s t \<Longrightarrow> service_reachable P x t"
  unfolding service_reachable_def by (rule rtranclp_trans)

lemma service_reachable_step:
  "service_reachable P x s \<Longrightarrow> service_step P s t \<Longrightarrow> service_reachable P x t"
  unfolding service_reachable_def by (rule rtranclp.rtrancl_into_rtrancl)

text \<open>Turns of a state that is reachable lead to one.\<close>

lemma turns_reachable:
  assumes "service_reachable P x s" and "(turn_step P ^^ n) s t"
  shows "service_reachable P x t"
  using assms(2)
proof (induction n arbitrary: t)
  case 0
  with assms(1) show ?case by simp
next
  case (Suc n)
  then show ?case unfolding service_reachable_def by (auto intro: rtranclp.rtrancl_into_rtrancl service_step.Turn)
qed

lemma thread_action_alive_mono:
  "thread_action created a s = Some (Inr s') \<Longrightarrow> alive s th \<Longrightarrow> alive s' th"
  by (cases a) (auto simp: thread_action_def bind_result_Inr split: if_splits)

text \<open>
  An orderly end: after the loop a signal has been handled, and \<open>main\<close> returns 0, when every thread was told to
  stop, has ended and was joined.
\<close>

definition orderly :: "('th, 'x) service \<Rightarrow> bool" where
  "orderly s \<longleftrightarrow>
     (\<forall>as n. at_main s = Ending as \<or> at_main s = Returned n \<longrightarrow> 0 < signals s)
     \<and> (\<forall>n. at_main s = Returned n \<longrightarrow>
          n = 0 \<and> (\<forall>th. \<not> runningFlag (base s th) \<and> \<not> alive s th \<and> \<not> threadObj (base s th)))"

section \<open>A signal that comes too early\<close>

text \<open>Until \<open>main\<close> has set its flag, the handler's work is undone by that assignment.\<close>

lemma thread_action_signal:
  "thread_action created a (signalHandler s) = map_option (map_sum id signalHandler) (thread_action created a s)"
  by (cases s; cases a)
    (auto simp: thread_action_def signalHandler_def bind_result_def split: sum.splits)

lemma main_action_signal:
  "main_action P created a pc (signalHandler s) = map_option signalHandler (main_action P created a pc s)"
  by (cases s)
    (auto simp: main_action_def thread_action_signal split: option.splits sum.splits, auto simp: signalHandler_def)

lemma main_turns_startup:
  "at_main s = Startup (a # as) \<Longrightarrow> main_turns P (Suc n) s =
     (case main_action P True a (Startup as) s of None \<Rightarrow> None | Some s' \<Rightarrow> main_turns P n s')"
  by (simp add: main_turn_def)

lemma signalHandler_at [simp]: "at_main (signalHandler s) = at_main s"
  by (simp add: signalHandler_def)

lemma early_signal:
  "at_main s = Startup as \<Longrightarrow> main_turns P (Suc (length as)) (signalHandler s) = main_turns P (Suc (length as)) s"
proof (induction as arbitrary: s)
  case Nil
  then show ?case by (simp add: main_turn_def signalHandler_def)
next
  case (Cons a as)
  have start: "at_main (signalHandler s) = Startup (a # as)" using Cons.prems by simp
  show ?case
  proof (cases "main_action P True a (Startup as) s")
    case None
    then show ?thesis
      unfolding length_Cons main_turns_startup [OF start] main_turns_startup [OF Cons.prems]
      by (simp add: main_action_signal)
  next
    case (Some s')
    then have "at_main s' = Startup as \<or> at_main s' = Terminated"
      by (auto simp: main_action_def split: option.splits sum.splits)
    then have "main_turns P (Suc (length as)) (signalHandler s') = main_turns P (Suc (length as)) s'"
      using Cons.IH [of s'] by (auto simp: main_turn_def)
    with Some show ?thesis
      unfolding length_Cons main_turns_startup [OF start] main_turns_startup [OF Cons.prems]
      by (simp add: main_action_signal del: main_turns.simps(2))
  qed
qed

section \<open>What holds in every service\<close>

text \<open>
  The interface between a service and the facts below: each of its threads is stopped and joined and none is
  started after the loop, joining changes no object, and once all the flags are cleared the bodies have only
  finitely much left to do.
\<close>

locale service_threads =
  fixes P :: "('th, 'x) service_code" and left :: "'x \<Rightarrow> nat" and names :: "'th list"
  assumes all_names: "th \<in> set names"
    and stops: "Stop_thread th \<in> set (ending P)"
    and joins: "Join_thread th \<in> set (ending P)"
    and no_run: "Run_thread th \<notin> set (ending P)"
    and join_effect: "effect P (Join_thread th) x = Inr x"
    and work_left: "\<forall>th. \<not> fl th \<Longrightarrow> work P th fl x x' \<Longrightarrow> left x' < left x"
    and others_left: "\<forall>th. \<not> fl th \<Longrightarrow> others P fl x x' \<Longrightarrow> left x' < left x"
begin

definition inv :: "('th, 'x) service \<Rightarrow> bool" where
  "inv s \<longleftrightarrow>
     (\<forall>th. alive s th \<longrightarrow> threadObj (base s th))
     \<and> (case at_main s of
          Startup as \<Rightarrow> True
        | Ending as \<Rightarrow> 0 < signals s \<and> \<not> g_runningFlag s \<and> set as \<subseteq> set (ending P)
            \<and> (\<forall>th. flags s th \<longrightarrow> Stop_thread th \<in> set as)
            \<and> (\<forall>th. threadObj (base s th) \<longrightarrow> Join_thread th \<in> set as)
        | Returned n \<Rightarrow> n = 0 \<and> 0 < signals s \<and> (\<forall>th. \<not> flags s th \<and> \<not> threadObj (base s th))
        | Terminated \<Rightarrow> True
        | _ \<Rightarrow> g_runningFlag s \<longleftrightarrow> signals s = 0)"

lemma inv_init: "inv (service_init P x)"
  by (simp add: inv_def service_init_def)

lemma thread_action_alive:
  assumes "thread_action created a s = Some (Inr s')"
    and "\<forall>th. alive s th \<longrightarrow> threadObj (base s th)"
  shows "\<forall>th. alive s' th \<longrightarrow> threadObj (base s' th)"
  using assms
  by (cases a) (auto simp: thread_action_def thread_defs bind_result_Inr split: if_splits)

lemma thread_action_frame:
  assumes "thread_action created a s = Some (Inr s')"
  shows "at_main s' = at_main s" "g_runningFlag s' = g_runningFlag s" "signals s' = signals s"
    "objects s' = objects s" "watchdog s' = watchdog s"
  using assms by (cases a; auto simp: thread_action_def bind_result_Inr split: if_splits)+

lemma thread_action_ending:
  assumes "thread_action created a s = Some (Inr s')" and "a \<in> set (ending P)"
  shows "flags s' th \<Longrightarrow> flags s th \<and> a \<noteq> Stop_thread th"
    and "threadObj (base s' th) \<Longrightarrow> threadObj (base s th) \<and> a \<noteq> Join_thread th"
  using assms no_run
  by (cases a; auto simp: thread_action_def thread_defs flags_def bind_result_Inr split: if_splits)+

lemma main_action_cases:
  assumes "main_action P created a pc s = Some s'"
  obtains "s' = s\<lparr>at_main := Terminated\<rparr>"
  | s1 x where "thread_action created a s = Some (Inr s1)" "effect P a (objects s) = Inr x"
      "s' = s1\<lparr>at_main := pc, objects := x\<rparr>"
proof (cases "thread_action created a s")
  case None
  with assms show ?thesis by (simp add: main_action_def)
next
  case (Some r)
  show ?thesis
  proof (cases r)
    case (Inl e)
    with Some assms that(1) show ?thesis by (simp add: main_action_def)
  next
    case (Inr s1)
    with Some have s1: "thread_action created a s = Some (Inr s1)" by simp
    show ?thesis
    proof (cases "effect P a (objects s)")
      case (Inl e)
      with s1 assms that(1) show ?thesis by (simp add: main_action_def thread_action_frame(4) [OF s1])
    next
      case (Inr x)
      with s1 assms that(2) show ?thesis by (simp add: main_action_def thread_action_frame(4) [OF s1])
    qed
  qed
qed

lemma inv_main_turn: "main_turn P created s = Some s' \<Longrightarrow> inv s \<Longrightarrow> inv s'"
proof (cases "at_main s")
  case (Startup as)
  assume t: "main_turn P created s = Some s'" and i: "inv s"
  show ?thesis
  proof (cases as)
    case Nil
    with t Startup i show ?thesis by (auto simp: main_turn_def inv_def)
  next
    case (Cons a as')
    with t Startup have "main_action P created a (Startup as') s = Some s'" by (simp add: main_turn_def)
    then show ?thesis
    proof (cases rule: main_action_cases)
      case (2 s1 x)
      from thread_action_alive [OF 2(1)] i show ?thesis by (simp add: 2(3) inv_def)
    qed (use i in \<open>simp add: inv_def\<close>)
  qed
next
  case (Ending as)
  assume t: "main_turn P created s = Some s'" and i: "inv s"
  show ?thesis
  proof (cases as)
    case Nil
    with t Ending i show ?thesis by (auto simp: main_turn_def inv_def flags_def)
  next
    case (Cons a as')
    with t Ending have "main_action P created a (Ending as') s = Some s'" by (simp add: main_turn_def)
    then show ?thesis
    proof (cases rule: main_action_cases)
      case 1
      with i show ?thesis by (simp add: inv_def)
    next
      case (2 s1 x)
      have a: "a \<in> set (ending P)" using i Ending Cons by (simp add: inv_def)
      note f = thread_action_frame [OF 2(1)]
      have "\<forall>th. alive s1 th \<longrightarrow> threadObj (base s1 th)"
        using thread_action_alive [OF 2(1)] i by (simp add: inv_def)
      moreover have "\<forall>th. flags s1 th \<longrightarrow> Stop_thread th \<in> set as'"
        using thread_action_ending(1) [OF 2(1) a] i Ending Cons by (fastforce simp: inv_def)
      moreover have "\<forall>th. threadObj (base s1 th) \<longrightarrow> Join_thread th \<in> set as'"
        using thread_action_ending(2) [OF 2(1) a] i Ending Cons by (fastforce simp: inv_def)
      ultimately show ?thesis
        using i Ending Cons f by (simp add: inv_def 2(3) flags_def)
    qed
  qed
qed (auto simp: main_turn_def inv_def flags_def stops joins split: if_splits)

lemma flags_update [simp]:
  "flags (s\<lparr>objects := x\<rparr>) = flags s" "flags (s\<lparr>alive := a\<rparr>) = flags s" "flags (s\<lparr>at_main := pc\<rparr>) = flags s"
  "flags (s\<lparr>g_runningFlag := r\<rparr>) = flags s" "flags (s\<lparr>signals := n\<rparr>) = flags s"
  by (simp_all add: flags_def fun_eq_iff)

lemma inv_objects: "inv (s\<lparr>objects := x\<rparr>) \<longleftrightarrow> inv s"
  by (simp add: inv_def cong: main_at.case_cong)

lemma inv_dead: "inv s \<Longrightarrow> inv (s\<lparr>alive := (alive s)(th := False)\<rparr>)"
  by (simp add: inv_def cong: main_at.case_cong)

lemma inv_terminated: "inv s \<Longrightarrow> inv (s\<lparr>at_main := Terminated\<rparr>)"
  by (simp add: inv_def)

lemma inv_signal: "inv s \<Longrightarrow> \<not> over s \<Longrightarrow> inv (signalHandler s)"
  by (cases "at_main s") (simp_all add: inv_def signalHandler_def over_def)

lemma inv_turn: "turn_step P s s' \<Longrightarrow> inv s \<Longrightarrow> inv s'"
  by (erule turn_stepE) (auto simp: inv_objects intro: inv_main_turn inv_dead inv_terminated)

lemma inv_step: "service_step P s s' \<Longrightarrow> inv s \<Longrightarrow> inv s'"
  by (erule service_stepE) (auto intro: inv_turn inv_signal)

lemma inv_reachable: "service_reachable P x s \<Longrightarrow> inv s"
  unfolding service_reachable_def
  by (induction rule: rtranclp_induct) (auto intro: inv_init inv_step)

text \<open>
  \<open>main\<close> leaves its loop only for a signal that came after it set the flag, returns only 0, and only when
  every thread has been joined.
\<close>

lemma orderly_reachable: "service_reachable P x s \<Longrightarrow> orderly s"
  using inv_reachable [of x s] by (auto simp: orderly_def inv_def flags_def)

subsection \<open>The joins\<close>

definition joining :: "('th, 'x) service \<Rightarrow> bool" where
  "joining s \<longleftrightarrow> (\<exists>ths. at_main s = Ending (map Join_thread ths)) \<and> (\<forall>th. \<not> flags s th)"

lemma joining_reachable:
  assumes "service_reachable P x s" and "at_main s = Ending (map Join_thread ths)"
  shows "joining s"
  using inv_reachable [OF assms(1)] assms(2) by (fastforce simp: inv_def joining_def)

definition to_do :: "('th, 'x) service \<Rightarrow> nat" where
  "to_do s = (case at_main s of Ending as \<Rightarrow> Suc (length as) | _ \<Rightarrow> 0) + left (objects s)
     + length (filter (alive s) names)"

lemma filter_alive:
  "alive s th \<Longrightarrow> length (filter ((alive s)(th := False)) names) < length (filter (alive s) names)"
proof -
  have "th \<in> set ns \<Longrightarrow> alive s th \<Longrightarrow>
      length (filter ((alive s)(th := False)) ns) < length (filter (alive s) ns)"
    "length (filter ((alive s)(th := False)) ns) \<le> length (filter (alive s) ns)" for ns
    by (induction ns) auto
  then show "alive s th \<Longrightarrow> ?thesis" using all_names by blast
qed

lemma joining_main_turn:
  assumes "joining s" and "main_turn P created s = Some s'"
  shows "(joining s' \<or> over s') \<and> to_do s' < to_do s"
proof -
  obtain ths where e: "at_main s = Ending (map Join_thread ths)" and f: "\<forall>th. \<not> flags s th"
    using assms(1) by (auto simp: joining_def)
  show ?thesis
  proof (cases ths)
    case Nil
    with assms(2) e show ?thesis by (auto simp: main_turn_def to_do_def over_def)
  next
    case (Cons th ths')
    with assms(2) e have "main_action P created (Join_thread th) (Ending (map Join_thread ths')) s = Some s'"
      by (simp add: main_turn_def)
    then have "s' = s\<lparr>base := (base s)(th := thread_join (base s th)), at_main := Ending (map Join_thread ths'),
        objects := objects s\<rparr>"
      by (auto simp: main_action_def thread_action_def join_effect split: if_splits)
    then show ?thesis
      using e f Cons by (auto simp: to_do_def joining_def flags_def thread_join_def)
  qed
qed

lemma joining_turn:
  assumes "joining s" and "turn_step P s s'"
  shows "(joining s' \<or> over s') \<and> to_do s' < to_do s"
  using assms(2)
proof cases
  case (Main_turn created)
  then show ?thesis using joining_main_turn assms(1) by blast
next
  case (Work_turn th x)
  with work_left [of "flags s"] assms(1) show ?thesis
    by (auto simp: joining_def to_do_def)
next
  case (Other_turn x)
  with others_left [of "flags s"] assms(1) show ?thesis
    by (auto simp: joining_def to_do_def)
next
  case (End_turn th)
  with filter_alive [of s th] assms(1) show ?thesis
    by (auto simp: joining_def to_do_def)
next
  case Crash_turn
  with assms(1) show ?thesis by (auto simp: joining_def to_do_def over_def)
qed

lemma over_stuck: "over s \<Longrightarrow> \<not> turn_step P s s'"
  by (auto simp: over_def main_turn_def elim!: turn_stepE split: main_at.splits)

lemma joining_ends:
  assumes "(turn_step P ^^ n) s s'" and "joining s"
  shows "n + to_do s' \<le> to_do s \<and> (joining s' \<or> over s')"
  using assms
proof (induction n arbitrary: s')
  case 0
  then show ?case by simp
next
  case (Suc n)
  then obtain t where run: "(turn_step P ^^ n) s t" and last: "turn_step P t s'" by auto
  with Suc.IH [OF run Suc.prems(2)] over_stuck have "joining t" "n + to_do t \<le> to_do s" by blast+
  with joining_turn [OF _ last] show ?case by fastforce
qed

text \<open>The only way not to end is a body that the join waits for and that has no way on.\<close>

lemma joining_stuck:
  assumes "joining s" and "\<And>s'. \<not> turn_step P s s'"
  shows "\<exists>th as. at_main s = Ending (Join_thread th # as) \<and> alive s th \<and> \<not> at_end P th (objects s)
    \<and> (\<forall>x. \<not> work P th (flags s) (objects s) x) \<and> (\<forall>x. \<not> others P (flags s) (objects s) x)"
proof -
  obtain ths where e: "at_main s = Ending (map Join_thread ths)" and f: "\<forall>th. \<not> flags s th"
    using assms(1) by (auto simp: joining_def)
  have no: "main_turn P True s = None" using assms(2) Main_turn [of P True s] by (cases "main_turn P True s") auto
  have o: "\<not> over s" using e by (simp add: over_def)
  obtain th as where ths: "ths = th # as" using no e by (cases ths) (auto simp: main_turn_def)
  with no e have "alive s th"
    by (auto simp: main_turn_def main_action_def thread_action_def join_effect split: if_splits)
  moreover from this have "\<not> at_end P th (objects s)" using assms(2) End_turn [of s th P] f o by blast
  ultimately show ?thesis
    using e ths o assms(2) Work_turn [of s th P] Other_turn [of s P] by auto
qed

end

end
