(* ===== verification/DBusClient.thy ===== *)
theory DBusClient
  imports Configs
begin

text \<open>
  Connecting to the system bus: \<open>common/src/DBus/DBusClient.cpp\<close> and the constructors of
  \<open>DBusSenderBase\<close> and \<open>DBusReceiverBase\<close>.  What libdbus answers is a parameter; a constructor that
  throws is a fault.
\<close>

record bus_answers =
  get_error :: bool
  get_null :: bool
  name_error :: bool
  name_reply :: int
  rule_error :: bool

definition DBUS_REQUEST_NAME_REPLY_PRIMARY_OWNER :: int where
  "DBUS_REQUEST_NAME_REPLY_PRIMARY_OWNER = 1"

definition bus_ready :: bus_answers where
  "bus_ready = \<lparr>get_error = False, get_null = False, name_error = False,
     name_reply = DBUS_REQUEST_NAME_REPLY_PRIMARY_OWNER, rule_error = False\<rparr>"

text \<open>A connected client, with the rules it has added on the bus.\<close>

record DBusClient =
  client_service :: string
  client_path :: string
  client_interface :: string
  client_rules :: "string list"

text \<open>An error of \<open>dbus_bus_get\<close> or of the name request is only logged; the results decide.\<close>

definition DBusClient_new :: "bus_answers \<Rightarrow> string \<Rightarrow> string \<Rightarrow> string \<Rightarrow> fault + DBusClient" where
  "DBusClient_new A service path iface =
     (if get_null A
      then Inl (Runtime_error ''Failed to connect to the D-Bus system bus'')
      else if name_reply A \<noteq> DBUS_REQUEST_NAME_REPLY_PRIMARY_OWNER
      then Inl (Runtime_error (''Failed to acquire D-Bus name: '' @ service))
      else Inr \<lparr>client_service = service, client_path = path, client_interface = iface, client_rules = []\<rparr>)"

definition match_rule :: "string \<Rightarrow> string \<Rightarrow> string \<Rightarrow> string" where
  "match_rule iface signalName from =
     ''type='' @ [CHR 0x27] @ ''signal'' @ [CHR 0x27] @ '',interface='' @ [CHR 0x27] @ iface @ [CHR 0x27]
     @ '',member='' @ [CHR 0x27] @ signalName @ [CHR 0x27]
     @ (if from \<noteq> [] then '',sender='' @ [CHR 0x27] @ from @ [CHR 0x27] else [])"

definition DBusClient_addMatchRule ::
    "bus_answers \<Rightarrow> string \<Rightarrow> string \<Rightarrow> DBusClient \<Rightarrow> fault + DBusClient" where
  "DBusClient_addMatchRule A signalName from cl =
     (if rule_error A then Inl (Runtime_error ''Failed to add D-Bus match rule'')
      else Inr (cl\<lparr>client_rules := client_rules cl @ [match_rule (client_interface cl) signalName from]\<rparr>))"

text \<open>\<open>DBusReceiverBase\<close> connects and asks for the signals of its own interface, from any sender.\<close>

definition DBusReceiverBase_new :: "bus_answers \<Rightarrow> IConfig \<Rightarrow> fault + DBusClient" where
  "DBusReceiverBase_new A cfg =
     bind_result (DBusClient_new A (getServiceName cfg) (getObjectPath cfg) (getInterfaceName cfg)) (\<lambda>cl.
       DBusClient_addMatchRule A (getSignalName cfg) [] cl)"

text \<open>\<open>DBusSenderBase\<close>, where an error of \<open>dbus_bus_get\<close> is fatal by itself.\<close>

definition DBusSenderBase_new :: "bus_answers \<Rightarrow> fault + unit" where
  "DBusSenderBase_new A =
     (if get_error A then Inl (Runtime_error ''DBusSenderBase failed to connect to system bus'')
      else if get_null A then Inl (Runtime_error ''DBusSenderBase connection is NULL'')
      else Inr ())"

lemmas bus_client_defs = DBusClient_new_def DBusClient_addMatchRule_def DBusReceiverBase_new_def
  DBusSenderBase_new_def

text \<open>
  A receiver exists exactly when the bus is there, the name is its own (a second instance of a service
  gets another reply) and the rule was taken.
\<close>

lemma receiver_connects:
  "(\<exists>cl. DBusReceiverBase_new A cfg = Inr cl) \<longleftrightarrow>
     \<not> get_null A \<and> name_reply A = DBUS_REQUEST_NAME_REPLY_PRIMARY_OWNER \<and> \<not> rule_error A"
  by (simp add: bus_client_defs)

lemma receiver_rules:
  "DBusReceiverBase_new A cfg = Inr cl \<Longrightarrow>
     client_rules cl = [match_rule (getInterfaceName cfg) (getSignalName cfg) []]"
  by (auto simp: bus_client_defs split: if_splits)

text \<open>A rule determines the interface it is for, so no service asks for the signals of another.\<close>

lemma quoted_inj:
  "CHR 0x27 \<notin> set a \<Longrightarrow> CHR 0x27 \<notin> set b \<Longrightarrow>
   a @ CHR 0x27 # s = b @ CHR 0x27 # t \<longleftrightarrow> a = b \<and> s = t"
proof (induction a arbitrary: b)
  case Nil
  then show ?case by (cases b) auto
next
  case (Cons x a)
  then show ?case by (cases b) auto
qed

lemma match_rule_inj:
  assumes "CHR 0x27 \<notin> set i" and "CHR 0x27 \<notin> set j" and "CHR 0x27 \<notin> set m" and "CHR 0x27 \<notin> set n"
  shows "match_rule i m [] = match_rule j n [] \<longleftrightarrow> i = j \<and> m = n"
  using assms by (simp add: match_rule_def quoted_inj)

end
