(* ===== verification/CoreMain.thy ===== *)
theory CoreMain
  imports ServiceMain DBusClient Core
begin

text \<open>
  The core manager's \<open>main\<close>, \<open>coremgr/src/main.cpp\<close>, with as much of its threads as decides how it ends: the
  main worker, which can wait for the database pool, and the loop of the pool's workers.
\<close>

section \<open>The threads\<close>

datatype core_thread = Main_worker | Dbus_receiver | Web_socket | Db_pool | Timer_thread

text \<open>
  Where a worker of the pool is: at the test of its loop, in the wait, executing a task, or at its end.
  Worker number \<open>SQLiteDBWorkerThreads\<close> is the thread that \<open>ThreadBase::run\<close> starts, the others are started by
  the constructor.
\<close>

datatype pool_pc = Not_started | At_flag_test | At_wait | Executing | Ended

text \<open>
  \<open>inside\<close>: the body of the thread is between two tests of its flag; \<open>awaiting\<close>: the main worker is in \<open>get\<close> of a
  future, whose task is in the queue or being executed.
\<close>

record core_objects =
  events :: "EventTypeID EventQueue"
  inside :: "core_thread \<Rightarrow> bool"
  awaiting :: bool
  tasks :: nat
  pool_at :: "nat \<Rightarrow> pool_pc"

definition core_objects_init :: core_objects where
  "core_objects_init =
     \<lparr>events = EventQueue_init, inside = (\<lambda>_. False), awaiting = False, tasks = 0,
      pool_at = (\<lambda>i. if i = SQLiteDBWorkerThreads then At_flag_test else Not_started)\<rparr>"

definition startUpCoreMgr :: "EventTypeID EventQueue \<Rightarrow> EventTypeID EventQueue" where
  "startUpCoreMgr q = snd (pushEvent (Some (make_Event EventTypeID.STARTUP None)) q)"

text \<open>
  The constructors: the receiver connects to the bus, the server binds its port (\<open>bind_ok\<close>), the pool
  starts its workers; their failures are exceptions that leave \<open>main\<close>.
\<close>

definition core_effect ::
    "bus_answers \<Rightarrow> bool \<Rightarrow> core_thread main_act \<Rightarrow> core_objects \<Rightarrow> fault + core_objects" where
  "core_effect bus bind_ok a x =
     (case a of
        Create Dbus_receiver \<Rightarrow> bind_result (DBusReceiverBase_new bus core_config) (\<lambda>_. Inr x)
      | Create Web_socket \<Rightarrow> if bind_ok then Inr x else Inl System_error
      | Create Db_pool \<Rightarrow>
          Inr (x\<lparr>pool_at := (\<lambda>i. if i < SQLiteDBWorkerThreads \<and> pool_at x i = Not_started then At_flag_test
            else pool_at x i)\<rparr>)
      | Push_startup \<Rightarrow> Inr (x\<lparr>events := startUpCoreMgr (events x)\<rparr>)
      | _ \<Rightarrow> Inr x)"

text \<open>
  \<open>DBThreadPool::threadFunction\<close>, one look or one task at a time.  The wait ends when there is a task or the flag
  is cleared; the flag is looked at first.
\<close>

inductive pool_worker :: "bool \<Rightarrow> nat \<Rightarrow> core_objects \<Rightarrow> core_objects \<Rightarrow> bool" for flag i where
  look: "pool_at x i = At_flag_test \<Longrightarrow>
    pool_worker flag i x (x\<lparr>pool_at := (pool_at x)(i := if flag then At_wait else Ended)\<rparr>)"
| leave_wait: "pool_at x i = At_wait \<Longrightarrow> \<not> flag \<Longrightarrow>
    pool_worker flag i x (x\<lparr>pool_at := (pool_at x)(i := Ended)\<rparr>)"
| take_task: "pool_at x i = At_wait \<Longrightarrow> flag \<Longrightarrow> 0 < tasks x \<Longrightarrow>
    pool_worker flag i x (x\<lparr>pool_at := (pool_at x)(i := Executing), tasks := tasks x - 1\<rparr>)"
| finish_task: "pool_at x i = Executing \<Longrightarrow>
    pool_worker flag i x (x\<lparr>pool_at := (pool_at x)(i := At_flag_test), awaiting := False\<rparr>)"

text \<open>
  The bodies.  The main worker takes an event, handles it, and may call the pool on the way; the other
  threads push events.
\<close>

inductive core_work :: "core_thread \<Rightarrow> (core_thread \<Rightarrow> bool) \<Rightarrow> core_objects \<Rightarrow> core_objects \<Rightarrow> bool" for th fl where
  take_event: "th = Main_worker \<Longrightarrow> fl th \<Longrightarrow> \<not> inside x th \<Longrightarrow>
    core_work th fl x (x\<lparr>inside := (inside x)(th := True), events := snd (popEvent (events x))\<rparr>)"
| call_pool: "th = Main_worker \<Longrightarrow> inside x th \<Longrightarrow> \<not> awaiting x \<Longrightarrow> fl Db_pool \<Longrightarrow>
    core_work th fl x (x\<lparr>awaiting := True, tasks := Suc (tasks x)\<rparr>)"
| handled: "th = Main_worker \<Longrightarrow> inside x th \<Longrightarrow> \<not> awaiting x \<Longrightarrow>
    core_work th fl x (x\<lparr>inside := (inside x)(th := False)\<rparr>)"
| enter: "th \<in> {Dbus_receiver, Web_socket, Timer_thread} \<Longrightarrow> fl th \<Longrightarrow> \<not> inside x th \<Longrightarrow>
    core_work th fl x (x\<lparr>inside := (inside x)(th := True)\<rparr>)"
| push: "th \<in> {Dbus_receiver, Web_socket, Timer_thread} \<Longrightarrow> inside x th \<Longrightarrow>
    core_work th fl x (x\<lparr>inside := (inside x)(th := False), events := push_all es (events x)\<rparr>)"
| serve: "th = Db_pool \<Longrightarrow> pool_worker (fl Db_pool) SQLiteDBWorkerThreads x x' \<Longrightarrow> core_work th fl x x'"

definition core_others :: "(core_thread \<Rightarrow> bool) \<Rightarrow> core_objects \<Rightarrow> core_objects \<Rightarrow> bool" where
  "core_others fl x x' \<longleftrightarrow> (\<exists>i < SQLiteDBWorkerThreads. pool_worker (fl Db_pool) i x x')"

definition core_at_end :: "core_thread \<Rightarrow> core_objects \<Rightarrow> bool" where
  "core_at_end th x \<longleftrightarrow>
     (if th = Db_pool then pool_at x SQLiteDBWorkerThreads = Ended else \<not> inside x th)"

text \<open>
  A pool that was stopped refuses a task and destroys its promise: the future's exception leaves the handler
  and the main worker's thread.
\<close>

definition core_crashes :: "core_thread \<Rightarrow> (core_thread \<Rightarrow> bool) \<Rightarrow> core_objects \<Rightarrow> bool" where
  "core_crashes th fl x \<longleftrightarrow> th = Main_worker \<and> inside x th \<and> \<not> awaiting x \<and> \<not> fl Db_pool"

text \<open>The first access to the timer creates it and runs its thread, so the later call of \<open>run\<close> finds it running.\<close>

definition core_main :: "bus_answers \<Rightarrow> bool \<Rightarrow> (core_thread, core_objects) service_code" where
  "core_main bus bind_ok =
     \<lparr>startup = [Notify_ready, Create Main_worker, Create Dbus_receiver, Create Web_socket, Create Db_pool,
        Create Timer_thread, Run_thread Timer_thread, Run_thread Main_worker, Run_thread Dbus_receiver, Run_thread Web_socket,
        Run_thread Db_pool, Run_thread Timer_thread, Push_startup],
      ending = [Stop_thread Main_worker, Stop_thread Dbus_receiver, Stop_thread Web_socket, Stop_thread Db_pool,
        Stop_thread Timer_thread, Join_thread Main_worker, Join_thread Dbus_receiver, Join_thread Web_socket,
        Join_thread Db_pool, Join_thread Timer_thread],
      effect = core_effect bus bind_ok, work = core_work, others = core_others, at_end = core_at_end,
      crashes = core_crashes\<rparr>"

inductive_cases pool_workerE: "pool_worker flag i x x'"
inductive_cases core_workE: "core_work th fl x x'"

section \<open>How it ends\<close>

primrec pool_left :: "pool_pc \<Rightarrow> nat" where
  "pool_left Not_started = 0"
| "pool_left At_flag_test = 1"
| "pool_left At_wait = 1"
| "pool_left Executing = 2"
| "pool_left Ended = 0"

definition core_left :: "core_objects \<Rightarrow> nat" where
  "core_left x = (\<Sum>th \<in> {Main_worker, Dbus_receiver, Web_socket, Timer_thread}. if inside x th then 1 else 0)
     + (\<Sum>i \<le> SQLiteDBWorkerThreads. pool_left (pool_at x i))"

lemma pool_left_sum:
  assumes "i \<le> SQLiteDBWorkerThreads" and "pool_left p < pool_left (f i)"
  shows "(\<Sum>j \<le> SQLiteDBWorkerThreads. pool_left ((f(i := p)) j)) < (\<Sum>j \<le> SQLiteDBWorkerThreads. pool_left (f j))"
  by (rule sum_strict_mono_ex1) (use assms in auto)

lemma pool_worker_left:
  assumes "pool_worker False i x x'" and "i \<le> SQLiteDBWorkerThreads"
  shows "core_left x' < core_left x"
  using assms(1)
  by cases (use assms(2) pool_left_sum [of i _ "pool_at x"] in \<open>auto simp: core_left_def simp del: fun_upd_apply\<close>)

lemma core_work_left:
  assumes "core_work th fl x x'" and "\<forall>th. \<not> fl th"
  shows "core_left x' < core_left x"
  using assms(1)
  by cases (use assms(2) in \<open>auto simp: core_left_def dest: pool_worker_left\<close>)

interpretation cmain: service_threads "core_main bus bind_ok" core_left
  "[Main_worker, Dbus_receiver, Web_socket, Db_pool, Timer_thread]"
proof unfold_locales
  fix th :: core_thread
  show "th \<in> set [Main_worker, Dbus_receiver, Web_socket, Db_pool, Timer_thread]" by (cases th) simp_all
  show "Stop_thread th \<in> set (ending (core_main bus bind_ok))" by (cases th) (simp_all add: core_main_def)
  show "Join_thread th \<in> set (ending (core_main bus bind_ok))" by (cases th) (simp_all add: core_main_def)
  show "Run_thread th \<notin> set (ending (core_main bus bind_ok))" by (simp add: core_main_def)
next
  fix fl :: "core_thread \<Rightarrow> bool" and th x x'
  assume f: "\<forall>th. \<not> fl th"
  show "work (core_main bus bind_ok) th fl x x' \<Longrightarrow> core_left x' < core_left x"
    using f core_work_left by (simp add: core_main_def)
  show "others (core_main bus bind_ok) fl x x' \<Longrightarrow> core_left x' < core_left x"
    using f pool_worker_left by (auto simp: core_main_def core_others_def)
qed (simp add: core_main_def core_effect_def)


lemma core_left_le: "core_left x \<le> 16"
proof -
  have "pool_left p \<le> 2" for p by (cases p) simp_all
  then have "(\<Sum>i \<le> SQLiteDBWorkerThreads. pool_left (pool_at x i)) \<le> (\<Sum>i \<le> SQLiteDBWorkerThreads. 2)"
    by (intro sum_mono)
  then show ?thesis by (simp add: core_left_def SQLiteDBWorkerThreads_def)
qed

text \<open>A future that is waited for belongs to the one task that is queued or being executed.\<close>

definition executing :: "core_objects \<Rightarrow> nat" where
  "executing x = (\<Sum>i \<le> SQLiteDBWorkerThreads. if pool_at x i = Executing then 1 else 0)"

definition tasks_inv :: "core_objects \<Rightarrow> bool" where
  "tasks_inv x \<longleftrightarrow> executing x + tasks x = (if awaiting x then 1 else 0)
     \<and> (awaiting x \<longrightarrow> inside x Main_worker) \<and> pool_at x SQLiteDBWorkerThreads \<noteq> Not_started"

definition core_main_inv :: "(core_thread, core_objects) service \<Rightarrow> bool" where
  "core_main_inv s \<longleftrightarrow> tasks_inv (objects s)
     \<and> (pool_at (objects s) SQLiteDBWorkerThreads \<in> {At_wait, Executing} \<longrightarrow> alive s Db_pool)"

lemma executing_upd:
  assumes "i \<le> SQLiteDBWorkerThreads"
  shows "executing (x\<lparr>pool_at := (pool_at x)(i := p)\<rparr>) + (if pool_at x i = Executing then 1 else 0)
    = executing x + (if p = Executing then 1 else 0)"
  using assms by (simp add: executing_def sum.remove [of "{..SQLiteDBWorkerThreads}" i] cong: if_cong)

lemma executing_frame [simp]:
  "executing (x\<lparr>awaiting := a\<rparr>) = executing x" "executing (x\<lparr>tasks := n\<rparr>) = executing x"
  "executing (x\<lparr>inside := f\<rparr>) = executing x" "executing (x\<lparr>events := q\<rparr>) = executing x"
  by (simp_all add: executing_def)

lemma tasks_inv_init: "tasks_inv core_objects_init"
  by (simp add: tasks_inv_def core_objects_init_def executing_def)

lemma pool_worker_inv:
  assumes "pool_worker flag i x x'" and "i \<le> SQLiteDBWorkerThreads" and "tasks_inv x"
  shows "tasks_inv x'"
  using assms(1)
proof cases
  case look
  then show ?thesis using assms(3) executing_upd [OF assms(2), of x "if flag then At_wait else Ended"]
    by (auto simp: tasks_inv_def)
next
  case leave_wait
  then show ?thesis using assms(3) executing_upd [OF assms(2), of x Ended] by (auto simp: tasks_inv_def)
next
  case take_task
  then show ?thesis using assms(3) executing_upd [OF assms(2), of x Executing]
    by (auto simp: tasks_inv_def split: if_splits)
next
  case finish_task
  then show ?thesis using assms(3) executing_upd [OF assms(2), of x At_flag_test]
    by (auto simp: tasks_inv_def split: if_splits)
qed

lemma core_work_inv:
  assumes "core_work th fl x x'" and "tasks_inv x"
  shows "tasks_inv x'"
  using assms(1)
proof cases
  case serve
  then show ?thesis using pool_worker_inv [OF _ order_refl] assms(2) by blast
qed (use assms(2) in \<open>auto simp: tasks_inv_def\<close>)

lemma core_work_pool_at:
  "core_work th fl x x' \<Longrightarrow> th \<noteq> Db_pool \<Longrightarrow> pool_at x' = pool_at x"
  by (erule core_workE) auto

lemma core_effect_inv:
  assumes "core_effect bus bind_ok a x = Inr x'" and "tasks_inv x"
  shows "tasks_inv x' \<and> pool_at x' SQLiteDBWorkerThreads = pool_at x SQLiteDBWorkerThreads"
proof -
  have "executing x' = executing x"
    unfolding executing_def
    by (rule sum.cong) (use assms(1) in \<open>auto simp: core_effect_def bind_result_Inr
      split: main_act.splits core_thread.splits if_splits\<close>)
  then show ?thesis
    using assms by (auto simp: core_effect_def tasks_inv_def bind_result_Inr
      split: main_act.splits core_thread.splits if_splits)
qed

lemma core_main_inv_step:
  assumes "service_step (core_main bus bind_ok) s s'" and "core_main_inv s"
  shows "core_main_inv s'"
  using assms(1)
proof cases
  case Signal
  then show ?thesis using assms(2) by (simp add: core_main_inv_def signalHandler_def)
next
  case Turn
  then show ?thesis
  proof cases
    case (Main_turn created)
    have act: "core_main_inv s'" if m: "main_action (core_main bus bind_ok) created a pc s = Some s'" for a pc
      using m
    proof (rule cmain.main_action_cases)
      fix s1 x
      assume t: "thread_action created a s = Some (Inr s1)"
        and e: "effect (core_main bus bind_ok) a (objects s) = Inr x"
        and s': "s' = s1\<lparr>at_main := pc, objects := x\<rparr>"
      from e have "core_effect bus bind_ok a (objects s) = Inr x" by (simp add: core_main_def)
      from core_effect_inv [OF this] thread_action_alive_mono [OF t] assms(2)
      show ?thesis by (auto simp: s' core_main_inv_def)
    qed (use assms(2) in \<open>simp add: core_main_inv_def\<close>)
    from Main_turn show ?thesis
    proof (rule main_turn_cases)
      assume "alive s' = alive s" and "objects s' = objects s"
      with assms(2) show ?thesis by (simp add: core_main_inv_def)
    qed (rule act)
  next
    case (Work_turn th x)
    then have w: "core_work th (flags s) (objects s) x" by (simp add: core_main_def)
    have "pool_at x SQLiteDBWorkerThreads \<in> {At_wait, Executing} \<longrightarrow> alive s Db_pool"
      using w core_work_pool_at [OF w] Work_turn(3) assms(2) by (cases "th = Db_pool") (auto simp: core_main_inv_def)
    with core_work_inv [OF w] assms(2) Work_turn show ?thesis by (simp add: core_main_inv_def)
  next
    case (Other_turn x)
    then obtain i where i: "i < SQLiteDBWorkerThreads" and w: "pool_worker (flags s Db_pool) i (objects s) x"
      by (auto simp: core_main_def core_others_def)
    from w i have "pool_at x SQLiteDBWorkerThreads = pool_at (objects s) SQLiteDBWorkerThreads"
      by cases auto
    with pool_worker_inv [OF w] i assms(2) Other_turn show ?thesis by (simp add: core_main_inv_def)
  next
    case (End_turn th)
    then show ?thesis using assms(2)
      by (auto simp: core_main_inv_def core_main_def core_at_end_def split: if_splits)
  next
    case Crash_turn
    then show ?thesis using assms(2) by (simp add: core_main_inv_def)
  qed
qed

lemma core_main_inv_reachable:
  "service_reachable (core_main bus bind_ok) core_objects_init s \<Longrightarrow> core_main_inv s"
  unfolding service_reachable_def
proof (induction rule: rtranclp_induct)
  case base
  show ?case using tasks_inv_init by (simp add: core_main_inv_def service_init_def core_objects_init_def)
qed (rule core_main_inv_step)

section \<open>The shutdown\<close>

text \<open>
  The main worker waits for a task that is in the queue, and every worker of the pool has ended: \<open>main\<close> waits
  in the join for a thread that waits for ever.
\<close>

definition core_hung :: "(core_thread, core_objects) service \<Rightarrow> bool" where
  "core_hung s \<longleftrightarrow> (\<exists>as. at_main s = Ending (Join_thread Main_worker # as)) \<and> (\<forall>th. \<not> flags s th)
     \<and> threadObj (base s Main_worker) \<and> alive s Main_worker
     \<and> inside (objects s) Main_worker \<and> awaiting (objects s) \<and> tasks (objects s) = 1
     \<and> (\<forall>i < SQLiteDBWorkerThreads. pool_at (objects s) i \<in> {Not_started, Ended})
     \<and> (alive s Db_pool \<longrightarrow> pool_at (objects s) SQLiteDBWorkerThreads = Ended)"

lemma core_hung_turn:
  assumes "turn_step (core_main bus bind_ok) s t" and "core_hung s"
  shows "core_hung t"
  using assms(1)
proof cases
  case (Main_turn created)
  with assms(2) show ?thesis
    by (auto simp: core_hung_def main_turn_def main_action_def thread_action_def)
next
  case (Work_turn th x)
  then have "core_work th (flags s) (objects s) x" by (simp add: core_main_def)
  then show ?thesis
    by cases (use Work_turn assms(2) in \<open>auto simp: core_hung_def elim: pool_workerE\<close>)
next
  case (Other_turn x)
  then show ?thesis using assms(2)
    by (auto simp: core_hung_def core_main_def core_others_def elim!: pool_workerE)
next
  case (End_turn th)
  then show ?thesis using assms(2)
    by (auto simp: core_hung_def core_main_def core_at_end_def split: if_splits)
next
  case (Crash_turn th)
  then show ?thesis using assms(2) by (auto simp: core_hung_def core_main_def core_crashes_def)
qed

lemma core_hung_for_ever:
  assumes "(service_step (core_main bus bind_ok))\<^sup>*\<^sup>* s t" and "core_hung s"
  shows "core_hung t"
  using assms
proof (induction rule: rtranclp_induct)
  case (step t u)
  from step.hyps(2) show ?case
  proof cases
    case Turn
    with step core_hung_turn show ?thesis by blast
  next
    case Signal
    with step show ?thesis by (simp add: core_hung_def signalHandler_def)
  qed
qed simp

lemma core_stuck:
  assumes r: "service_reachable (core_main bus bind_ok) core_objects_init s" and j: "cmain.joining s"
    and no: "\<And>t. \<not> turn_step (core_main bus bind_ok) s t"
  shows "core_hung s"
proof -
  obtain th as where e: "at_main s = Ending (Join_thread th # as)" and a: "alive s th"
    and n: "\<not> core_at_end th (objects s)" and w: "\<And>x. \<not> core_work th (flags s) (objects s) x"
    and o: "\<And>x. \<not> core_others (flags s) (objects s) x"
    using cmain.joining_stuck [OF j no] by (auto simp: core_main_def)
  have f: "\<not> flags s t" for t using j by (simp add: cmain.joining_def)
  have inv: "core_main_inv s" using r by (rule core_main_inv_reachable)
  have idle: "pool_at x i \<in> {Not_started, Ended}" if "\<And>x'. \<not> pool_worker False i x x'" for x i
    using that by (cases "pool_at x i") (auto intro: pool_worker.intros)
  have lt: "\<forall>i < SQLiteDBWorkerThreads. pool_at (objects s) i \<in> {Not_started, Ended}"
    using o f idle by (simp add: core_others_def)
  have th: "th = Main_worker \<and> awaiting (objects s)"
  proof (cases "th = Db_pool")
    case True
    then have "\<not> pool_worker False SQLiteDBWorkerThreads (objects s) x" for x
      using w [of x] core_work.serve [OF True, of "flags s" "objects s" x] f by auto
    then have "pool_at (objects s) SQLiteDBWorkerThreads \<in> {Not_started, Ended}" by (rule idle)
    with True n inv show ?thesis by (auto simp: core_at_end_def core_main_inv_def tasks_inv_def)
  next
    case False
    then have i: "inside (objects s) th" using n by (simp add: core_at_end_def)
    with w have "th \<notin> {Dbus_receiver, Web_socket, Timer_thread}" by (blast intro: core_work.push)
    with False have th: "th = Main_worker" by (cases th) auto
    with i w show ?thesis by (blast intro: core_work.handled)
  qed
  have "pool_at (objects s) SQLiteDBWorkerThreads \<noteq> Executing"
  proof
    assume x: "pool_at (objects s) SQLiteDBWorkerThreads = Executing"
    then have "alive s Db_pool" using inv by (simp add: core_main_inv_def)
    moreover have "\<exists>y. core_work Db_pool (flags s) (objects s) y"
      using x by (blast intro: core_work.serve pool_worker.finish_task)
    ultimately show False
      using no Work_turn [of s Db_pool "core_main bus bind_ok"] e by (auto simp: over_def core_main_def)
  qed
  then have "executing (objects s) = 0"
    using lt by (fastforce simp: executing_def le_less)
  then have "tasks (objects s) = 1" using inv th by (simp add: core_main_inv_def tasks_inv_def)
  moreover have "pool_at (objects s) SQLiteDBWorkerThreads = Ended" if "alive s Db_pool"
  proof -
    have "\<not> pool_worker False SQLiteDBWorkerThreads (objects s) x" for x
      using no Work_turn [of s Db_pool "core_main bus bind_ok" x] that e f
        core_work.serve [of Db_pool "flags s" "objects s" x]
      by (auto simp: over_def core_main_def)
    then have "pool_at (objects s) SQLiteDBWorkerThreads \<in> {Not_started, Ended}" by (rule idle)
    with inv show ?thesis by (simp add: core_main_inv_def tasks_inv_def)
  qed
  moreover have "inside (objects s) Main_worker" using inv th by (simp add: core_main_inv_def tasks_inv_def)
  moreover have "threadObj (base s Main_worker)"
    using cmain.inv_reachable [OF r] a th by (auto simp: cmain.inv_def)
  ultimately show ?thesis using e a th lt f by (auto simp: core_hung_def)
qed

lemma core_joining_run:
  assumes "service_reachable (core_main bus bind_ok) core_objects_init s"
    and "at_main s = Ending (map Join_thread ths)" and "(turn_step (core_main bus bind_ok) ^^ n) s t"
  shows "n \<le> length ths + 22"
    and "(\<And>u. \<not> turn_step (core_main bus bind_ok) t u) \<Longrightarrow> over t \<or> core_hung t"
proof -
  have j: "cmain.joining s" using cmain.joining_reachable [OF assms(1,2)] .
  have "length (filter (alive s) [Main_worker, Dbus_receiver, Web_socket, Db_pool, Timer_thread]) \<le> 5"
    by (rule order_trans [OF length_filter_le]) simp
  with cmain.joining_ends [OF assms(3) j] core_left_le [of "objects s"] assms(2)
  show "n \<le> length ths + 22" by (simp add: cmain.to_do_def del: filter.simps)
  assume "\<And>u. \<not> turn_step (core_main bus bind_ok) t u"
  with cmain.joining_ends [OF assms(3) j] core_stuck [OF turns_reachable [OF assms(1,3)]]
  show "over t \<or> core_hung t" by blast
qed

text \<open>When the main worker is not in a handler any more, the joins end and \<open>main\<close> returns.\<close>

lemma core_quiet_turn:
  assumes "turn_step (core_main bus bind_ok) s t" and "cmain.joining s" and "\<not> inside (objects s) Main_worker"
  shows "\<not> inside (objects t) Main_worker \<and> at_main t \<noteq> Terminated"
proof -
  have f: "\<not> flags s th" for th using assms(2) by (simp add: cmain.joining_def)
  have frame: "pool_worker b i x y \<Longrightarrow> inside y = inside x" for b i x y by (erule pool_workerE) auto
  from assms(1) show ?thesis
  proof cases
    case (Main_turn created)
    with assms(2,3) show ?thesis
      by (auto simp: cmain.joining_def main_turn_def main_action_def thread_action_def core_main_def core_effect_def
          split: list.splits if_splits)
  next
    case (Work_turn th x)
    then have "core_work th (flags s) (objects s) x" by (simp add: core_main_def)
    then show ?thesis
      by cases (use Work_turn assms f frame in \<open>auto simp: over_def\<close>)
  next
    case (Other_turn x)
    then show ?thesis using assms(3) frame by (auto simp: core_main_def core_others_def over_def)
  next
    case (End_turn th)
    then show ?thesis using assms(3) by (auto simp: over_def)
  next
    case (Crash_turn th)
    then show ?thesis using assms(3) by (auto simp: core_main_def core_crashes_def)
  qed
qed

lemma core_quiet_run:
  assumes "(turn_step (core_main bus bind_ok) ^^ n) s t" and "cmain.joining s"
    and "\<not> inside (objects s) Main_worker"
  shows "\<not> inside (objects t) Main_worker \<and> at_main t \<noteq> Terminated"
  using assms
proof (induction n arbitrary: t)
  case 0
  then show ?case by (auto simp: cmain.joining_def)
next
  case (Suc n)
  then obtain u where run: "(turn_step (core_main bus bind_ok) ^^ n) s u"
    and last: "turn_step (core_main bus bind_ok) u t" by auto
  from cmain.joining_ends [OF run Suc.prems(2)] cmain.over_stuck last have "cmain.joining u" by blast
  with Suc.IH [OF run Suc.prems(2,3)] core_quiet_turn [OF last] show ?case by blast
qed

section \<open>A run that hangs\<close>

lemma all_core_threads:
  "(\<forall>th. P th) \<longleftrightarrow> P Main_worker \<and> P Dbus_receiver \<and> P Web_socket \<and> P Db_pool \<and> P Timer_thread"
  by (metis core_thread.exhaust)

lemma core_started:
  "\<exists>s. main_turns (core_main bus_ready True) 14 (service_init (core_main bus_ready True) core_objects_init) = Some s
     \<and> at_main s = Loop_test \<and> g_runningFlag s \<and> signals s = 0
     \<and> (\<forall>th. base s th = \<lparr>runningFlag = True, threadObj = True\<rparr> \<and> alive s th)
     \<and> objects s = core_objects_init\<lparr>pool_at := (\<lambda>i. if i \<le> SQLiteDBWorkerThreads then At_flag_test else Not_started),
         events := startUpCoreMgr EventQueue_init\<rparr>"
  by (simp add: eval_nat_numeral main_turn_def main_action_def thread_action_def thread_run_def service_init_def
      core_main_def core_effect_def DBusReceiverBase_new_def DBusClient_new_def DBusClient_addMatchRule_def
      bus_ready_def ThreadBase_init_def core_objects_init_def all_core_threads fun_eq_iff SQLiteDBWorkerThreads_def)

lemma core_stopping:
  "\<exists>s. service_reachable (core_main bus_ready True) core_objects_init s
     \<and> at_main s = Ending (map Join_thread [Main_worker, Dbus_receiver, Web_socket, Db_pool, Timer_thread])
     \<and> \<not> inside (objects s) Main_worker"
proof -
  let ?P = "core_main bus_ready True"
  obtain s where r: "main_turns ?P 14 (service_init ?P core_objects_init) = Some s" and m: "at_main s = Loop_test"
    and x: "objects s = core_objects_init\<lparr>pool_at := (\<lambda>i. if i \<le> SQLiteDBWorkerThreads then At_flag_test else Not_started),
         events := startUpCoreMgr EventQueue_init\<rparr>"
    using core_started by blast
  have "service_step ?P s (signalHandler s)" by (rule service_step.Signal) (simp add: over_def m)
  moreover obtain t where t: "main_turns ?P 6 (signalHandler s) = Some t"
      "at_main t = Ending (map Join_thread [Main_worker, Dbus_receiver, Web_socket, Db_pool, Timer_thread])"
      "objects t = objects s"
    using m by (simp add: eval_nat_numeral main_turn_def main_action_def thread_action_def
        signalHandler_def core_main_def core_effect_def)
  ultimately have "service_reachable ?P core_objects_init t"
    using main_turns_steps [OF r] main_turns_steps [OF t(1)] unfolding service_reachable_def
    by (meson rtranclp.rtrancl_into_rtrancl rtranclp_trans)
  with t x show ?thesis by (auto simp: core_objects_init_def)
qed

text \<open>With the flag cleared, workers that are at the test of their loop end.\<close>

lemma core_workers_end:
  assumes "\<not> flags s Db_pool" and "\<not> over s" and "k \<le> SQLiteDBWorkerThreads"
    and "\<forall>i < SQLiteDBWorkerThreads. pool_at (objects s) i = At_flag_test"
  shows "(service_step (core_main bus bind_ok))\<^sup>*\<^sup>* s
    (s\<lparr>objects := (objects s)\<lparr>pool_at := (\<lambda>i. if i < k then Ended else pool_at (objects s) i)\<rparr>\<rparr>)"
  using assms(3)
proof (induction k)
  case (Suc k)
  let ?x = "(objects s)\<lparr>pool_at := (\<lambda>i. if i < k then Ended else pool_at (objects s) i)\<rparr>"
  let ?y = "(objects s)\<lparr>pool_at := (\<lambda>i. if i < Suc k then Ended else pool_at (objects s) i)\<rparr>"
  have "pool_worker False k ?x (?x\<lparr>pool_at := (pool_at ?x)(k := if False then At_wait else Ended)\<rparr>)"
    by (rule pool_worker.look) (use Suc.prems assms(4) in simp)
  moreover have "?x\<lparr>pool_at := (pool_at ?x)(k := if False then At_wait else Ended)\<rparr> = ?y"
    by (auto simp: fun_eq_iff less_Suc_eq)
  ultimately have "pool_worker False k ?x ?y" by metis
  then have "core_others (flags s) ?x ?y"
    unfolding core_others_def using Suc.prems assms(1) by (intro exI [of _ k]) (simp del: fun_upd_apply)
  then have "turn_step (core_main bus bind_ok) (s\<lparr>objects := ?x\<rparr>) (s\<lparr>objects := ?x\<rparr>\<lparr>objects := ?y\<rparr>)"
    by (intro turn_step.Other_turn) (use assms(2) in \<open>simp_all add: core_main_def over_def\<close>)
  then show ?case using Suc by (auto intro: rtranclp.rtrancl_into_rtrancl service_step.Turn)
qed simp

lemma core_hang_reachable:
  "\<exists>s. service_reachable (core_main bus_ready True) core_objects_init s \<and> core_hung s"
proof -
  let ?P = "core_main bus_ready True"
  obtain s where r: "main_turns ?P 14 (service_init ?P core_objects_init) = Some s"
    and m: "at_main s = Loop_test" and b: "\<forall>th. base s th = \<lparr>runningFlag = True, threadObj = True\<rparr> \<and> alive s th"
    and x: "objects s = core_objects_init\<lparr>pool_at := (\<lambda>i. if i \<le> SQLiteDBWorkerThreads then At_flag_test else Not_started),
         events := startUpCoreMgr EventQueue_init\<rparr>"
    using core_started by blast
  have r0: "service_reachable ?P core_objects_init s"
    using main_turns_steps [OF r] by (simp add: service_reachable_def)
  define x1 where "x1 = (objects s)\<lparr>inside := (inside (objects s))(Main_worker := True),
    events := snd (popEvent (events (objects s)))\<rparr>"
  have "core_work Main_worker (flags s) (objects s) x1"
    unfolding x1_def by (rule core_work.take_event) (simp_all add: flags_def b x core_objects_init_def)
  then have s1: "turn_step ?P s (s\<lparr>objects := x1\<rparr>)"
    by (intro turn_step.Work_turn) (auto simp: core_main_def over_def m b)
  define x2 where "x2 = x1\<lparr>awaiting := True, tasks := Suc (tasks x1)\<rparr>"
  have "core_work Main_worker (flags (s\<lparr>objects := x1\<rparr>)) x1 x2"
    unfolding x2_def by (rule core_work.call_pool) (simp_all add: flags_def b x x1_def core_objects_init_def)
  then have s2: "turn_step ?P (s\<lparr>objects := x1\<rparr>) (s\<lparr>objects := x1\<rparr>\<lparr>objects := x2\<rparr>)"
    by (intro turn_step.Work_turn) (auto simp: core_main_def over_def m b)
  define s3 where "s3 = signalHandler (s\<lparr>objects := x2\<rparr>)"
  have s3: "service_step ?P (s\<lparr>objects := x2\<rparr>) (signalHandler (s\<lparr>objects := x2\<rparr>))"
    by (rule service_step.Signal) (simp add: over_def m)
  have "service_reachable ?P core_objects_init (s\<lparr>objects := x2\<rparr>)"
    using service_reachable_step [OF service_reachable_step [OF r0 service_step.Turn [OF s1]] service_step.Turn [OF s2]]
    by simp
  then have r3: "service_reachable ?P core_objects_init s3"
    unfolding s3_def using s3 by (rule service_reachable_step)
  obtain s4 where t4: "main_turns ?P 6 s3 = Some s4" and m4: "at_main s4 = Ending [Join_thread Main_worker,
      Join_thread Dbus_receiver, Join_thread Web_socket, Join_thread Db_pool, Join_thread Timer_thread]"
    and b4: "\<forall>th. base s4 th = \<lparr>runningFlag = False, threadObj = True\<rparr> \<and> alive s4 th" and x4: "objects s4 = x2"
    using m b by (simp add: eval_nat_numeral main_turn_def main_action_def thread_action_def thread_stop_def
        s3_def signalHandler_def core_main_def core_effect_def all_core_threads)
  let ?s5 = "s4\<lparr>objects := x2\<lparr>pool_at := (\<lambda>i. if i < SQLiteDBWorkerThreads then Ended else pool_at x2 i)\<rparr>\<rparr>"
  have p4: "pool_at x2 i = (if i \<le> SQLiteDBWorkerThreads then At_flag_test else Not_started)" for i
    by (simp add: x2_def x1_def x)
  have f4: "\<not> flags s4 th" for th using b4 by (simp add: flags_def)
  have "(service_step ?P)\<^sup>*\<^sup>* s4
      (s4\<lparr>objects := (objects s4)\<lparr>pool_at := (\<lambda>i. if i < SQLiteDBWorkerThreads then Ended
         else pool_at (objects s4) i)\<rparr>\<rparr>)"
    by (rule core_workers_end [OF f4]) (simp_all add: m4 over_def x4 p4)
  then have "(service_step ?P)\<^sup>*\<^sup>* s4 ?s5" unfolding x4 .
  with service_reachable_trans [OF r3 main_turns_steps [OF t4]]
  have r5: "service_reachable ?P core_objects_init ?s5" by (rule service_reachable_trans)
  define x6 where "x6 = (objects ?s5)\<lparr>pool_at := (pool_at (objects ?s5))(SQLiteDBWorkerThreads :=
      if flags ?s5 Db_pool then At_wait else Ended)\<rparr>"
  have "core_work Db_pool (flags ?s5) (objects ?s5) x6"
    unfolding x6_def by (rule core_work.serve, simp, rule pool_worker.look) (simp add: p4)
  then have "turn_step ?P ?s5 (?s5\<lparr>objects := x6\<rparr>)"
    by (intro turn_step.Work_turn) (use m4 b4 in \<open>auto simp: core_main_def over_def\<close>)
  then have "service_reachable ?P core_objects_init (?s5\<lparr>objects := x6\<rparr>)"
    using r5 by (blast intro: service_reachable_step service_step.Turn)
  moreover have "core_hung (?s5\<lparr>objects := x6\<rparr>)"
    using m4 b4 f4 by (auto simp: core_hung_def x6_def x2_def x1_def x core_objects_init_def)
  ultimately show ?thesis by blast
qed

end
