(* ===== verification/RecordService.thy ===== *)
theory RecordService
  imports ServiceMain DBusClient RecordInstances CMSenderFactory
begin

text \<open>
  The record manager's \<open>main\<close>, \<open>recordmgr/src/main.cpp\<close>, around the threads of \<open>RecordWorker\<close> and \<open>RecordMain\<close>: how the service
  ends, and what that means for a recording that is in progress.
\<close>

section \<open>The threads\<close>

datatype rm_thread = Rm_recorder | Rm_main_worker | Rm_receiver

text \<open>\<open>rm_taken\<close>: the event the main worker has popped and not yet begun; \<open>rm_receiving\<close>: the receiver is between two looks at its flag.\<close>

record rm_objects =
  rm_mgr :: record_mgr
  rm_taken :: "RmEventTypeID Event option"
  rm_receiving :: bool

definition rm_objects_init :: "filesystem \<Rightarrow> rm_objects" where
  "rm_objects_init fs = \<lparr>rm_mgr = record_mgr_init fs, rm_taken = None, rm_receiving = False\<rparr>"

text \<open>The first access of \<open>processEvent\<close> for an event; \<open>caller_turn\<close> are the further ones.\<close>

definition rm_handle :: "rm_env \<Rightarrow> RmEventTypeID Event \<Rightarrow> record_mgr \<Rightarrow> record_mgr option" where
  "rm_handle env e m =
     (case getEventTypeId e of
        RmEventTypeID.START_RECORD \<Rightarrow> start_begin env m
      | RmEventTypeID.STOP_RECORD \<Rightarrow> stop_begin env m
      | RmEventTypeID.CANCEL_RECORD \<Rightarrow> cancel_begin env m
      | RmEventTypeID.FILTER_WAV_FILE \<Rightarrow>
          (case processFilterWavFileEvent True (getPayload e) m of Inl x \<Rightarrow> None | Inr m' \<Rightarrow> Some m')
      | _ \<Rightarrow> Some m)"

text \<open>The \<open>running\<close> of the worker is the flag of its \<open>ThreadBase\<close>.\<close>

inductive rm_work ::
    "rm_env \<Rightarrow> rm_thread \<Rightarrow> (rm_thread \<Rightarrow> bool) \<Rightarrow> rm_objects \<Rightarrow> rm_objects \<Rightarrow> bool" for env th fl where
  recorder: "th = Rm_recorder \<Longrightarrow> recorder_turn env t ((rm_mgr x)\<lparr>running := fl Rm_recorder\<rparr>) = Some m \<Longrightarrow>
    rm_work env th fl x (x\<lparr>rm_mgr := m\<rparr>)"
| rm_take: "th = Rm_main_worker \<Longrightarrow> fl th \<Longrightarrow> rm_taken x = None \<Longrightarrow> at_caller (rm_mgr x) = No_call \<Longrightarrow>
    popEvent (rm_queue (rm_mgr x)) = (Some e, q) \<Longrightarrow>
    rm_work env th fl x (x\<lparr>rm_mgr := (rm_mgr x)\<lparr>rm_queue := q\<rparr>, rm_taken := Some e\<rparr>)"
| rm_begin: "th = Rm_main_worker \<Longrightarrow> rm_taken x = Some e \<Longrightarrow> rm_handle env e (rm_mgr x) = Some m \<Longrightarrow>
    rm_work env th fl x (x\<lparr>rm_mgr := m, rm_taken := None\<rparr>)"
| rm_go_on: "th = Rm_main_worker \<Longrightarrow> caller_turn (rm_mgr x) = Some m \<Longrightarrow>
    rm_work env th fl x (x\<lparr>rm_mgr := m\<rparr>)"
| rm_poll: "th = Rm_receiver \<Longrightarrow> fl th \<Longrightarrow> \<not> rm_receiving x \<Longrightarrow>
    rm_work env th fl x (x\<lparr>rm_receiving := True\<rparr>)"
| rm_received: "th = Rm_receiver \<Longrightarrow> rm_receiving x \<Longrightarrow>
    fold_result RM_receive msgs (rm_queue (rm_mgr x)) = Inr q \<Longrightarrow>
    rm_work env th fl x (x\<lparr>rm_mgr := (rm_mgr x)\<lparr>rm_queue := q\<rparr>, rm_receiving := False\<rparr>)"

text \<open>
  The detached threads that filter recordings, and, if \<open>spurious\<close>, a wait that ends for no reason.
\<close>

definition rm_others ::
    "rm_env \<Rightarrow> fs_env \<Rightarrow> bool \<Rightarrow> (rm_thread \<Rightarrow> bool) \<Rightarrow> rm_objects \<Rightarrow> rm_objects \<Rightarrow> bool" where
  "rm_others env E spurious fl x x' \<longleftrightarrow>
     (\<exists>w d. (w, d) \<in> set (jobs (rm_mgr x))
        \<and> x' = x\<lparr>rm_mgr := (filter_job env E w d (rm_mgr x))\<lparr>jobs := remove1 (w, d) (jobs (rm_mgr x))\<rparr>\<rparr>)
     \<or> spurious \<and> at_worker (rm_mgr x) = Asleep \<and> x' = x\<lparr>rm_mgr := (rm_mgr x)\<lparr>at_worker := Checking\<rparr>\<rparr>"

definition rm_at_end :: "rm_thread \<Rightarrow> rm_objects \<Rightarrow> bool" where
  "rm_at_end th x \<longleftrightarrow>
     (case th of
        Rm_recorder \<Rightarrow> at_worker (rm_mgr x) = Finished
      | Rm_main_worker \<Rightarrow> rm_taken x = None \<and> at_caller (rm_mgr x) = No_call
      | Rm_receiver \<Rightarrow> \<not> rm_receiving x)"

text \<open>The constructor of the detached thread may throw, which nothing catches.\<close>

definition rm_crashes :: "rm_thread \<Rightarrow> (rm_thread \<Rightarrow> bool) \<Rightarrow> rm_objects \<Rightarrow> bool" where
  "rm_crashes th fl x \<longleftrightarrow>
     th = Rm_main_worker
     \<and> (\<exists>e f. rm_taken x = Some e \<and> getEventTypeId e = RmEventTypeID.FILTER_WAV_FILE
          \<and> processFilterWavFileEvent False (getPayload e) (rm_mgr x) = Inl f)"

text \<open>\<open>RecordWorker::stop\<close> does more than clear the flag.\<close>

definition rm_effect :: "bus_answers \<Rightarrow> rm_thread main_act \<Rightarrow> rm_objects \<Rightarrow> fault + rm_objects" where
  "rm_effect bus a x =
     (case a of
        Create Rm_receiver \<Rightarrow> bind_result (DBusReceiverBase_new bus record_config) (\<lambda>_. Inr x)
      | Stop_thread Rm_recorder \<Rightarrow> Inr (x\<lparr>rm_mgr := rm_stop (rm_mgr x)\<rparr>)
      | _ \<Rightarrow> Inr x)"

definition record_main ::
    "bus_answers \<Rightarrow> rm_env \<Rightarrow> fs_env \<Rightarrow> bool \<Rightarrow> (rm_thread, rm_objects) service_code" where
  "record_main bus env E spurious =
     \<lparr>startup = [Notify_ready, Create Rm_recorder, Create Rm_main_worker, Create Rm_receiver,
        Run_thread Rm_recorder, Run_thread Rm_main_worker, Run_thread Rm_receiver],
      ending = [Stop_thread Rm_main_worker, Stop_thread Rm_receiver, Stop_thread Rm_recorder,
        Join_thread Rm_main_worker, Join_thread Rm_receiver, Join_thread Rm_recorder],
      effect = rm_effect bus, work = rm_work env, others = rm_others env E spurious, at_end = rm_at_end,
      crashes = rm_crashes\<rparr>"

inductive_cases rm_workE: "rm_work env th fl x x'"

section \<open>How much is left\<close>

fun recorder_left :: "worker_pc \<Rightarrow> nat" where
  "recorder_left Falling_asleep = 4"
| "recorder_left Asleep = 3"
| "recorder_left p = turns_left p"

primrec caller_left :: "caller_pc \<Rightarrow> nat" where
  "caller_left No_call = 0"
| "caller_left Start_checked = 2"
| "caller_left Start_cleared = 1"
| "caller_left Stop_checked = 1"
| "caller_left Cancel_checked = 2"
| "caller_left Cancel_set = 1"

definition rm_left :: "rm_objects \<Rightarrow> nat" where
  "rm_left x = recorder_left (at_worker (rm_mgr x)) + caller_left (at_caller (rm_mgr x))
     + (if rm_taken x = None then 0 else 3) + (if rm_receiving x then 1 else 0) + length (jobs (rm_mgr x))"

lemma rm_notify_frame [simp]:
  "at_worker (rm_notify env c ok i m) = at_worker m" "at_caller (rm_notify env c ok i m) = at_caller m"
  "jobs (rm_notify env c ok i m) = jobs m" "rm_queue (rm_notify env c ok i m) = rm_queue m"
  "saved (rm_notify env c ok i m) = saved m" "running (rm_notify env c ok i m) = running m"
  by (simp_all add: rm_notify_def)

lemma end_session_jobs [simp]: "jobs (end_session env t t0 err m) = jobs m"
  by (auto simp: end_session_def worker_notify_def Let_def split: prod.splits bool.splits)

lemma recorder_turn_stopped:
  assumes "recorder_turn env t m = Some m'" and "\<not> running m"
  shows "recorder_left (at_worker m') < recorder_left (at_worker m)"
    and "at_caller m' = at_caller m" and "jobs m' = jobs m"
  using assms
  by (cases "at_worker m"; auto simp: recorder_turn_def capture_turn_def split: if_splits)+

lemma caller_turn_left:
  "caller_turn m = Some m' \<Longrightarrow>
     recorder_left (at_worker m') \<le> recorder_left (at_worker m)
     \<and> caller_left (at_caller m') < caller_left (at_caller m) \<and> jobs m' = jobs m"
  by (cases "at_caller m") (auto simp: caller_turn_def notify_one_def)

lemma rm_handle_left:
  "rm_handle env e m = Some m' \<Longrightarrow> at_worker m' = at_worker m
     \<and> caller_left (at_caller m') + length (jobs m') \<le> caller_left (at_caller m) + length (jobs m) + 2"
  by (auto simp: rm_handle_def start_begin_def stop_begin_def cancel_begin_def processFilterWavFileEvent_def
      split: RmEventTypeID.splits option.splits Payload.splits if_splits sum.splits)

lemma filter_job_frame [simp]:
  "at_worker (filter_job env E w d m) = at_worker m" "at_caller (filter_job env E w d m) = at_caller m"
  "jobs (filter_job env E w d m) = jobs m" "rm_queue (filter_job env E w d m) = rm_queue m"
  "saved (filter_job env E w d m) = saved m"
  by (simp_all add: filter_job_def Let_def split: prod.splits)

lemma rm_work_left:
  assumes "rm_work env th fl x x'" and "\<forall>th. \<not> fl th"
  shows "rm_left x' < rm_left x"
  using assms(1)
proof cases
  case (recorder t m)
  with assms(2) recorder_turn_stopped [OF recorder(3)] show ?thesis by (auto simp: rm_left_def)
next
  case (rm_begin e m)
  with rm_handle_left [OF rm_begin(4)] show ?thesis by (auto simp: rm_left_def)
next
  case (rm_go_on m)
  with caller_turn_left [OF rm_go_on(3)] show ?thesis by (auto simp: rm_left_def)
qed (use assms(2) in \<open>auto simp: rm_left_def\<close>)

lemma rm_others_left: "rm_others env E sp fl x x' \<Longrightarrow> rm_left x' < rm_left x"
  by (auto simp: rm_others_def rm_left_def length_remove1 intro!: diff_less length_pos_if_in_set)

interpretation rmain: service_threads "record_main bus env E sp" rm_left "[Rm_recorder, Rm_main_worker, Rm_receiver]"
proof unfold_locales
  fix th :: rm_thread
  show "th \<in> set [Rm_recorder, Rm_main_worker, Rm_receiver]" by (cases th) simp_all
  show "Stop_thread th \<in> set (ending (record_main bus env E sp))" by (cases th) (simp_all add: record_main_def)
  show "Join_thread th \<in> set (ending (record_main bus env E sp))" by (cases th) (simp_all add: record_main_def)
  show "Run_thread th \<notin> set (ending (record_main bus env E sp))" by (simp add: record_main_def)
next
  fix fl :: "rm_thread \<Rightarrow> bool" and th x x'
  assume f: "\<forall>th. \<not> fl th"
  show "work (record_main bus env E sp) th fl x x' \<Longrightarrow> rm_left x' < rm_left x"
    using f rm_work_left by (simp add: record_main_def)
  show "others (record_main bus env E sp) fl x x' \<Longrightarrow> rm_left x' < rm_left x"
    using rm_others_left by (simp add: record_main_def)
qed (simp add: record_main_def rm_effect_def)

section \<open>The shutdown\<close>

definition rm_service_inv :: "(rm_thread, rm_objects) service \<Rightarrow> bool" where
  "rm_service_inv s \<longleftrightarrow>
     (rm_taken (objects s) \<noteq> None \<longrightarrow> at_caller (rm_mgr (objects s)) = No_call)
     \<and> (rm_taken (objects s) \<noteq> None \<or> at_caller (rm_mgr (objects s)) \<noteq> No_call \<longrightarrow> alive s Rm_main_worker)
     \<and> (at_worker (rm_mgr (objects s)) = Falling_asleep \<longrightarrow> alive s Rm_recorder)"

lemma recorder_turn_caller: "recorder_turn env t m = Some m' \<Longrightarrow> at_caller m' = at_caller m"
  by (cases "at_worker m")
    (auto simp: recorder_turn_def capture_turn_def begin_session_def worker_notify_def split: if_splits prod.splits bool.splits)

lemma caller_turn_falling:
  "caller_turn m = Some m' \<Longrightarrow> at_worker m' = Falling_asleep \<longleftrightarrow> at_worker m = Falling_asleep"
  by (cases "at_caller m") (auto simp: caller_turn_def notify_one_def split: if_splits)

lemma rm_stop_frame [simp]:
  "at_caller (rm_stop m) = at_caller m" "at_worker (rm_stop m) = Falling_asleep \<longleftrightarrow> at_worker m = Falling_asleep"
  by (simp_all add: rm_stop_def notify_one_def)

lemma rm_service_inv_turn:
  assumes "turn_step (record_main bus env E sp) s s'" and "rm_service_inv s"
  shows "rm_service_inv s'"
  using assms(1)
proof cases
  case (Main_turn created)
  have act: "rm_service_inv s'" if m: "main_action (record_main bus env E sp) created a pc s = Some s'" for a pc
    using m
  proof (rule rmain.main_action_cases)
    fix s1 x
    assume t: "thread_action created a s = Some (Inr s1)"
      and e: "effect (record_main bus env E sp) a (objects s) = Inr x"
      and s': "s' = s1\<lparr>at_main := pc, objects := x\<rparr>"
    from e have "rm_taken x = rm_taken (objects s) \<and> at_caller (rm_mgr x) = at_caller (rm_mgr (objects s))
        \<and> (at_worker (rm_mgr x) = Falling_asleep \<longleftrightarrow> at_worker (rm_mgr (objects s)) = Falling_asleep)"
      by (auto simp: record_main_def rm_effect_def bind_result_Inr split: main_act.splits rm_thread.splits)
    with thread_action_alive_mono [OF t] assms(2) show ?thesis by (auto simp: s' rm_service_inv_def)
  qed (use assms(2) in \<open>simp add: rm_service_inv_def\<close>)
  from Main_turn show ?thesis
  proof (rule main_turn_cases)
    assume "alive s' = alive s" and "objects s' = objects s"
    with assms(2) show ?thesis by (simp add: rm_service_inv_def)
  qed (rule act)
next
  case (Work_turn th x)
  then have w: "rm_work env th (flags s) (objects s) x" by (simp add: record_main_def)
  then show ?thesis
  proof cases
    case (recorder t m)
    with Work_turn assms(2) recorder_turn_caller [OF recorder(3)] show ?thesis by (auto simp: rm_service_inv_def)
  next
    case (rm_begin e m)
    with rm_handle_left [OF rm_begin(4)] Work_turn assms(2) show ?thesis by (auto simp: rm_service_inv_def)
  next
    case (rm_go_on m)
    with caller_turn_falling [OF rm_go_on(3)] Work_turn assms(2) show ?thesis
      by (auto simp: rm_service_inv_def caller_turn_def)
  qed (use Work_turn assms(2) in \<open>auto simp: rm_service_inv_def\<close>)
next
  case (Other_turn x)
  with assms(2) show ?thesis by (auto simp: rm_service_inv_def record_main_def rm_others_def)
next
  case (End_turn th)
  with assms(2) show ?thesis
    by (auto simp: rm_service_inv_def record_main_def rm_at_end_def split: rm_thread.splits)
next
  case (Crash_turn th)
  with assms(2) show ?thesis by (simp add: rm_service_inv_def)
qed

lemma rm_service_inv_reachable:
  "service_reachable (record_main bus env E sp) (rm_objects_init fs) s \<Longrightarrow> rm_service_inv s"
  unfolding service_reachable_def
proof (induction rule: rtranclp_induct)
  case base
  show ?case by (simp add: rm_service_inv_def service_init_def rm_objects_init_def record_mgr_init_def)
next
  case (step t u)
  from step.hyps(2) show ?case
  proof cases
    case Turn
    with rm_service_inv_turn step.IH show ?thesis by blast
  next
    case Signal
    with step.IH show ?thesis by (simp add: rm_service_inv_def signalHandler_def)
  qed
qed

lemma recorder_blocked:
  assumes "recorder_turn env t (m\<lparr>running := False\<rparr>) = None" and "at_caller m = No_call"
  shows "at_worker m \<in> {Asleep, Finished}"
  using assms by (cases "at_worker m") (simp_all add: recorder_turn_def mutex_free_def)

text \<open>The thread of the worker sleeps and no one is left to wake it.\<close>

definition rm_hung :: "(rm_thread, rm_objects) service \<Rightarrow> bool" where
  "rm_hung s \<longleftrightarrow> (\<exists>as. at_main s = Ending (Join_thread Rm_recorder # as)) \<and> alive s Rm_recorder
     \<and> at_worker (rm_mgr (objects s)) = Asleep"

lemma rm_no_work:
  assumes inv: "rm_service_inv s" and f: "\<And>th. \<not> flags s th" and o: "\<not> over s"
    and no: "\<And>t. \<not> turn_step (record_main bus env E sp) s t"
  shows "alive s th \<Longrightarrow> \<not> rm_work env th (flags s) (objects s) x"
    and "rm_taken (objects s) = None" and "at_caller (rm_mgr (objects s)) = No_call"
proof -
  show w: "\<not> rm_work env th (flags s) (objects s) x" if "alive s th" for th x
    using no that o Work_turn [of s th "record_main bus env E sp" x] by (auto simp: record_main_def)
  let ?m = "rm_mgr (objects s)"
  show c: "at_caller ?m = No_call"
  proof (rule ccontr)
    assume n: "at_caller ?m \<noteq> No_call"
    then obtain m where "caller_turn ?m = Some m" by (cases "at_caller ?m") (auto simp: caller_turn_def)
    with w [of Rm_main_worker] n inv show False
      by (auto simp: rm_service_inv_def intro: rm_work.rm_go_on [OF refl])
  qed
  show "rm_taken (objects s) = None"
  proof (rule ccontr)
    assume "rm_taken (objects s) \<noteq> None"
    then obtain e where e: "rm_taken (objects s) = Some e" by blast
    with inv have al: "alive s Rm_main_worker" by (simp add: rm_service_inv_def)
    show False
    proof (cases "at_worker ?m = Falling_asleep")
      case True
      then have "alive s Rm_recorder" using inv by (simp add: rm_service_inv_def)
      moreover have "recorder_turn env t (?m\<lparr>running := flags s Rm_recorder\<rparr>) \<noteq> None" for t
        using True by (simp add: recorder_turn_def)
      ultimately show False using w by (blast intro: rm_work.recorder [OF refl])
    next
      case False
      then have "\<exists>m. rm_handle env e ?m = Some m"
        using c by (auto simp: rm_handle_def start_begin_def stop_begin_def cancel_begin_def
            processFilterWavFileEvent_def split: RmEventTypeID.splits option.splits Payload.splits)
      with w [OF al] e show False by (blast intro: rm_work.rm_begin [OF refl])
    qed
  qed
qed

lemma record_stuck:
  assumes r: "service_reachable (record_main bus env E sp) (rm_objects_init fs) s" and j: "rmain.joining s"
    and no: "\<And>t. \<not> turn_step (record_main bus env E sp) s t"
  shows "\<not> sp \<and> rm_hung s"
proof -
  obtain th as where e: "at_main s = Ending (Join_thread th # as)" and a: "alive s th"
    and n: "\<not> rm_at_end th (objects s)" and o: "\<And>x. \<not> rm_others env E sp (flags s) (objects s) x"
    using rmain.joining_stuck [OF j no] by (auto simp: record_main_def)
  have f: "\<not> flags s t" for t using j by (simp add: rmain.joining_def)
  have ov: "\<not> over s" using e by (simp add: over_def)
  note w = rm_no_work [OF rm_service_inv_reachable [OF r] f ov no]
  let ?m = "rm_mgr (objects s)"
  show ?thesis
  proof (cases th)
    case Rm_recorder
    fix t
    have turn: "recorder_turn env t (?m\<lparr>running := False\<rparr>) = None"
    proof (rule ccontr)
      assume "recorder_turn env t (?m\<lparr>running := False\<rparr>) \<noteq> None"
      then obtain m where "recorder_turn env t (?m\<lparr>running := flags s Rm_recorder\<rparr>) = Some m" using f by auto
      then have "rm_work env Rm_recorder (flags s) (objects s) ((objects s)\<lparr>rm_mgr := m\<rparr>)"
        by (intro rm_work.recorder) simp_all
      with w(1) a Rm_recorder show False by blast
    qed
    have "at_worker ?m \<in> {Asleep, Finished}"
      using recorder_blocked [OF turn] w(3) by simp
    with n Rm_recorder have "at_worker ?m = Asleep" by (simp add: rm_at_end_def)
    with o e a Rm_recorder show ?thesis by (auto simp: rm_hung_def rm_others_def)
  next
    case Rm_main_worker
    with n w(2,3) show ?thesis by (simp add: rm_at_end_def)
  next
    case Rm_receiver
    with n w(1) [OF a] rm_work.rm_received [of th "objects s" "[]"] show ?thesis by (auto simp: rm_at_end_def)
  qed
qed

lemma rm_left_le: "rm_left x \<le> length (jobs (rm_mgr x)) + 12"
proof -
  have "recorder_left (at_worker (rm_mgr x)) \<le> 6" by (cases "at_worker (rm_mgr x)") simp_all
  moreover have "caller_left (at_caller (rm_mgr x)) \<le> 2" by (cases "at_caller (rm_mgr x)") simp_all
  ultimately show ?thesis by (simp add: rm_left_def)
qed

lemma record_joining_run:
  assumes "service_reachable (record_main bus env E sp) (rm_objects_init fs) s"
    and "at_main s = Ending (map Join_thread ths)" and "(turn_step (record_main bus env E sp) ^^ n) s t"
  shows "n \<le> length ths + length (jobs (rm_mgr (objects s))) + 16"
    and "(\<And>u. \<not> turn_step (record_main bus env E sp) t u) \<Longrightarrow> over t \<or> (\<not> sp \<and> rm_hung t)"
proof -
  have j: "rmain.joining s" using rmain.joining_reachable [OF assms(1,2)] .
  have "length (filter (alive s) [Rm_recorder, Rm_main_worker, Rm_receiver]) \<le> 3"
    by (rule order_trans [OF length_filter_le]) simp
  with rmain.joining_ends [OF assms(3) j] rm_left_le [of "objects s"] assms(2)
  show "n \<le> length ths + length (jobs (rm_mgr (objects s))) + 16" by (simp add: rmain.to_do_def del: filter.simps)
  assume "\<And>u. \<not> turn_step (record_main bus env E sp) t u"
  with rmain.joining_ends [OF assms(3) j] record_stuck [OF turns_reachable [OF assms(1,3)]]
  show "over t \<or> (\<not> sp \<and> rm_hung t)" by blast
qed

section \<open>A recording that is in progress\<close>

text \<open>Stopped during a session, the worker saves what it has, reports it as saved, and pushes it for filtering.\<close>

lemma session_stopped:
  assumes "at_worker m = Capturing t0" and "at_caller m = No_call" and "\<not> cancelRequested m"
    and "audioBuffer (helper m) \<noteq> []" and "can_open (writing_wav u2)"
  shows "\<exists>m'. worker_run env [u1, u2, u3, u4, u5, u6] (rm_stop m) = Some m' \<and> at_worker m' = Finished
    \<and> at_caller m' = No_call \<and> jobs m' = jobs m
    \<and> saved m' = saved m @ [WAV_OUTPUT_DIR @ ''/record_'' @ stamp (writing_wav u2) @ ''.wav'']
    \<and> session_log m' = session_log m @ [(DBusCommand.STOP_RECORD_NOTI, True)]
    \<and> eventList (rm_queue m') = eventList (rm_queue m) @
        [make_Event RmEventTypeID.FILTER_WAV_FILE (Some (WavPayload
          (WAV_OUTPUT_DIR @ ''/record_'' @ stamp (writing_wav u2) @ ''.wav'') (duration_sec (now_ns u2 - t0))))]"
proof -
  have s: "at_worker (rm_stop m) = Capturing t0" "at_caller (rm_stop m) = No_call"
    "workerState (rm_stop m) = RecordWorkerState.IDLE" "\<not> running (rm_stop m)"
    using assms(1,2) by (simp_all add: rm_stop_def notify_one_def)
  let ?e = "end_session env u2 t0 False ((rm_stop m)\<lparr>at_worker := Leaving t0 False False\<rparr>)"
  let ?m4 = "?e\<lparr>helper := cleanupAlsa (helper ?e), workerState := RecordWorkerState.IDLE, at_worker := Checking\<rparr>"
  have four: "worker_run env [u1, u2, u3, u4] (rm_stop m) = Some ?m4"
    using session_leaves [OF s(1-3)] by (simp only: Let_def)
  have m4: "at_caller ?m4 = No_call" "\<not> running ?m4" using s by simp_all
  have two: "worker_run env [u5, u6] ?m4 = Some (?m4\<lparr>at_worker := Finished\<rparr>)"
    using m4 by (simp add: recorder_turn_def mutex_free_def)
  have run: "worker_run env ([u1, u2, u3, u4] @ [u5, u6]) (rm_stop m) = Some (?m4\<lparr>at_worker := Finished\<rparr>)"
    unfolding worker_run_append four using two by simp
  have "\<not> cancelRequested (rm_stop m)" "helper (rm_stop m) = helper m" "saved (rm_stop m) = saved m"
    "session_log (rm_stop m) = session_log m" "rm_queue (rm_stop m) = rm_queue m" "jobs (rm_stop m) = jobs m"
    using assms(3) by (simp_all add: rm_stop_def notify_one_def)
  with assms(4,5) have
    "saved ?e = saved m @ [WAV_OUTPUT_DIR @ ''/record_'' @ stamp (writing_wav u2) @ ''.wav'']
     \<and> session_log ?e = session_log m @ [(DBusCommand.STOP_RECORD_NOTI, True)]
     \<and> eventList (rm_queue ?e) = eventList (rm_queue m) @
        [make_Event RmEventTypeID.FILTER_WAV_FILE (Some (WavPayload
          (WAV_OUTPUT_DIR @ ''/record_'' @ stamp (writing_wav u2) @ ''.wav'') (duration_sec (now_ns u2 - t0))))]
     \<and> jobs ?e = jobs m"
    by (auto simp: end_session_def isAudioBufferEmpty_def saveWavFile_def worker_notify_def pushEvent_def Let_def
        split: prod.splits bool.splits)
  with run m4(1) show ?thesis by (intro exI [of _ "?m4\<lparr>at_worker := Finished\<rparr>"]) simp
qed

text \<open>Turns of the recorder as steps of the service.\<close>

lemma recorder_turn_running: "recorder_turn env t m = Some m' \<Longrightarrow> running m' = running m"
  by (cases "at_worker m")
    (auto simp: recorder_turn_def capture_turn_def begin_session_def worker_notify_def split: if_splits prod.splits bool.splits)

lemma recorder_run:
  assumes "worker_run env ts (rm_mgr (objects s)) = Some m" and "alive s Rm_recorder" and "\<not> over s"
    and "running (rm_mgr (objects s)) = flags s Rm_recorder"
  shows "(service_step (record_main bus env E sp))\<^sup>*\<^sup>* s (s\<lparr>objects := (objects s)\<lparr>rm_mgr := m\<rparr>\<rparr>)"
  using assms
proof (induction ts arbitrary: s)
  case Nil
  then have "s\<lparr>objects := (objects s)\<lparr>rm_mgr := m\<rparr>\<rparr> = s" by auto
  then show ?case by simp
next
  case (Cons t ts)
  then obtain m1 where m1: "recorder_turn env t (rm_mgr (objects s)) = Some m1" and r: "worker_run env ts m1 = Some m"
    by (auto split: option.splits)
  let ?s1 = "s\<lparr>objects := (objects s)\<lparr>rm_mgr := m1\<rparr>\<rparr>"
  have "(rm_mgr (objects s))\<lparr>running := flags s Rm_recorder\<rparr> = rm_mgr (objects s)" using Cons.prems(4) by simp
  with m1 have "rm_work env Rm_recorder (flags s) (objects s) ((objects s)\<lparr>rm_mgr := m1\<rparr>)"
    by (intro rm_work.recorder [where t = t]) simp_all
  then have "turn_step (record_main bus env E sp) s ?s1"
    by (intro turn_step.Work_turn [OF Cons.prems(3,2)]) (simp add: record_main_def)
  moreover have "(service_step (record_main bus env E sp))\<^sup>*\<^sup>* ?s1 (?s1\<lparr>objects := (objects ?s1)\<lparr>rm_mgr := m\<rparr>\<rparr>)"
    by (rule Cons.IH) (use r Cons.prems recorder_turn_running [OF m1] in \<open>simp_all add: over_def\<close>)
  ultimately show ?case by (auto intro: converse_rtranclp_into_rtranclp service_step.Turn)
qed

text \<open>The main worker takes a start request and makes the call, when nothing comes between.\<close>

lemma main_worker_starts:
  assumes "alive s Rm_main_worker" and "\<not> over s" and "flags s Rm_main_worker"
    and "rm_taken (objects s) = None" and "at_caller (rm_mgr (objects s)) = No_call"
    and "eventList (rm_queue (rm_mgr (objects s))) = [make_Event RmEventTypeID.START_RECORD None]"
    and "workerState (rm_mgr (objects s)) = RecordWorkerState.IDLE" and "at_worker (rm_mgr (objects s)) = Asleep"
  shows "(service_step (record_main bus env E sp))\<^sup>*\<^sup>* s
    (s\<lparr>objects := (objects s)\<lparr>rm_mgr := startRecording env ((rm_mgr (objects s))\<lparr>rm_queue := EventQueue_init\<rparr>)\<rparr>\<rparr>)"
proof -
  let ?P = "record_main bus env E sp"
  let ?m = "rm_mgr (objects s)"
  let ?e = "make_Event RmEventTypeID.START_RECORD None"
  have step: "service_step ?P (s\<lparr>objects := x\<rparr>) (s\<lparr>objects := y\<rparr>)"
    if "rm_work env Rm_main_worker (flags s) x y" for x y
  proof -
    have "turn_step ?P (s\<lparr>objects := x\<rparr>) (s\<lparr>objects := x\<rparr>\<lparr>objects := y\<rparr>)"
      by (rule turn_step.Work_turn [where th = Rm_main_worker])
        (use assms(1,2) that in \<open>simp_all add: over_def record_main_def\<close>)
    then show ?thesis by (auto intro: service_step.Turn)
  qed
  define m0 where "m0 = ?m\<lparr>rm_queue := EventQueue_init\<rparr>"
  define x1 where "x1 = (objects s)\<lparr>rm_mgr := m0, rm_taken := Some ?e\<rparr>"
  define m2 where "m2 = m0\<lparr>at_caller := Start_checked\<rparr>"
  define x2 where "x2 = (objects s)\<lparr>rm_mgr := m2\<rparr>"
  define m3 where "m3 = m2\<lparr>cancelRequested := False, at_caller := Start_cleared\<rparr>"
  define x3 where "x3 = (objects s)\<lparr>rm_mgr := m3\<rparr>"
  define m4 where "m4 = notify_one (m3\<lparr>workerState := RecordWorkerState.RECORDING, at_caller := No_call\<rparr>)"
  define x4 where "x4 = (objects s)\<lparr>rm_mgr := m4\<rparr>"
  have "popEvent (rm_queue ?m) = (Some ?e, EventQueue_init)"
    using assms(6) by (simp add: popEvent_def EventQueue_init_def)
  with rm_work.rm_take [where x = "objects s" and env = env and th = Rm_main_worker and fl = "flags s"] assms(3-5)
  have 1: "rm_work env Rm_main_worker (flags s) (objects s) x1" by (simp add: x1_def m0_def)
  have "rm_handle env ?e m0 = Some m2"
    using assms(5,7,8) by (simp add: rm_handle_def start_begin_def m0_def m2_def)
  with rm_work.rm_begin [where x = x1 and env = env and th = Rm_main_worker and fl = "flags s" and e = ?e and m = m2]
  have "rm_work env Rm_main_worker (flags s) x1 (x1\<lparr>rm_mgr := m2, rm_taken := None\<rparr>)" by (simp add: x1_def)
  moreover have "x1\<lparr>rm_mgr := m2, rm_taken := None\<rparr> = x2" using assms(4) by (cases "objects s") (simp add: x1_def x2_def)
  ultimately have 2: "rm_work env Rm_main_worker (flags s) x1 x2" by simp
  have "caller_turn m2 = Some m3" by (simp add: caller_turn_def m2_def m3_def)
  with rm_work.rm_go_on [where x = x2 and env = env and th = Rm_main_worker and fl = "flags s" and m = m3]
  have 3: "rm_work env Rm_main_worker (flags s) x2 x3" by (simp add: x2_def x3_def)
  have "caller_turn m3 = Some m4" by (simp add: caller_turn_def m3_def m4_def)
  with rm_work.rm_go_on [where x = x3 and env = env and th = Rm_main_worker and fl = "flags s" and m = m4]
  have 4: "rm_work env Rm_main_worker (flags s) x3 x4" by (simp add: x3_def x4_def)
  have "m4 = startRecording env m0"
    using assms(5,7,8) by (simp add: m4_def m3_def m2_def m0_def startRecording_def notify_one_def)
  moreover have "(service_step ?P)\<^sup>*\<^sup>* (s\<lparr>objects := objects s\<rparr>) (s\<lparr>objects := x4\<rparr>)"
    using step [OF 1] step [OF 2] step [OF 3] step [OF 4] by (meson converse_rtranclp_into_rtranclp rtranclp.rtrancl_refl)
  ultimately show ?thesis by (simp add: m0_def x4_def)
qed

lemma all_rm_threads: "(\<forall>th. P th) \<longleftrightarrow> P Rm_recorder \<and> P Rm_main_worker \<and> P Rm_receiver"
  by (metis rm_thread.exhaust)

lemma record_started:
  "\<exists>s. main_turns (record_main bus_ready env E sp) 8 (service_init (record_main bus_ready env E sp) x) = Some s
     \<and> at_main s = Loop_test \<and> g_runningFlag s \<and> objects s = x
     \<and> (\<forall>th. base s th = \<lparr>runningFlag = True, threadObj = True\<rparr> \<and> alive s th)"
  by (simp add: eval_nat_numeral main_turn_def main_action_def thread_action_def thread_run_def service_init_def
      record_main_def rm_effect_def DBusReceiverBase_new_def DBusClient_new_def DBusClient_addMatchRule_def
      bus_ready_def ThreadBase_init_def all_rm_threads)

lemma record_stopping:
  "\<exists>s. service_reachable (record_main bus_ready env E sp) x s \<and> jobs (rm_mgr (objects s)) = jobs (rm_mgr x)
     \<and> at_main s = Ending (map Join_thread [Rm_main_worker, Rm_receiver, Rm_recorder])"
proof -
  let ?P = "record_main bus_ready env E sp"
  obtain s where r: "main_turns ?P 8 (service_init ?P x) = Some s" and m: "at_main s = Loop_test" and x: "objects s = x"
    using record_started by blast
  have "service_step ?P s (signalHandler s)" by (rule service_step.Signal) (simp add: over_def m)
  moreover obtain t where t: "main_turns ?P 4 (signalHandler s) = Some t"
      "at_main t = Ending (map Join_thread [Rm_main_worker, Rm_receiver, Rm_recorder])"
      "objects t = x\<lparr>rm_mgr := rm_stop (rm_mgr x)\<rparr>"
    using m x by (simp add: eval_nat_numeral main_turn_def main_action_def thread_action_def
        signalHandler_def record_main_def rm_effect_def)
  ultimately have "service_reachable ?P x t"
    using main_turns_steps [OF r] main_turns_steps [OF t(1)] unfolding service_reachable_def
    by (meson rtranclp.rtrancl_into_rtrancl rtranclp_trans)
  with t show ?thesis by (auto simp: rm_stop_def notify_one_def)
qed

lemma record_receives:
  assumes "alive s Rm_receiver" and "\<not> over s" and "flags s Rm_receiver" and "\<not> rm_receiving (objects s)"
  shows "(service_step (record_main bus env E sp))\<^sup>*\<^sup>* s
    (s\<lparr>objects := (objects s)\<lparr>rm_mgr := (rm_mgr (objects s))\<lparr>rm_queue :=
       rm_push RmEventTypeID.START_RECORD (rm_queue (rm_mgr (objects s)))\<rparr>\<rparr>\<rparr>)"
proof -
  let ?P = "record_main bus env E sp"
  obtain msg where "CM_makeMsg no_faults DBusCommand.START_RECORD = Some msg"
    using cm_to_rm_cmd.makes [of DBusCommand.START_RECORD] by (auto simp: CM_record_commands_def)
  then have recv: "RM_receive msg q = Inr (rm_push RmEventTypeID.START_RECORD q)" for q
    using cm_to_rm_cmd.delivered [of DBusCommand.START_RECORD no_faults msg RM_handleMessage RM_handleMessageNoti q]
    by (simp add: RM_receive_def RM_handleMessage_def CM_record_commands_def)
  have step: "service_step ?P (s\<lparr>objects := x\<rparr>) (s\<lparr>objects := y\<rparr>)" if "rm_work env Rm_receiver (flags s) x y" for x y
  proof -
    have "turn_step ?P (s\<lparr>objects := x\<rparr>) (s\<lparr>objects := x\<rparr>\<lparr>objects := y\<rparr>)"
      by (rule turn_step.Work_turn [where th = Rm_receiver])
        (use assms(1,2) that in \<open>simp_all add: over_def record_main_def\<close>)
    then show ?thesis by (auto intro: service_step.Turn)
  qed
  define x1 where "x1 = (objects s)\<lparr>rm_receiving := True\<rparr>"
  define q where "q = rm_push RmEventTypeID.START_RECORD (rm_queue (rm_mgr (objects s)))"
  have 1: "rm_work env Rm_receiver (flags s) (objects s) x1"
    unfolding x1_def by (rule rm_work.rm_poll) (use assms in simp_all)
  have "rm_work env Rm_receiver (flags s) x1 (x1\<lparr>rm_mgr := (rm_mgr x1)\<lparr>rm_queue := q\<rparr>, rm_receiving := False\<rparr>)"
    by (rule rm_work.rm_received [where msgs = "[msg]"]) (simp_all add: x1_def q_def recv)
  moreover have "x1\<lparr>rm_mgr := (rm_mgr x1)\<lparr>rm_queue := q\<rparr>, rm_receiving := False\<rparr> =
      (objects s)\<lparr>rm_mgr := (rm_mgr (objects s))\<lparr>rm_queue := q\<rparr>\<rparr>"
    using assms(4) by (cases "objects s") (simp add: x1_def)
  ultimately have 2: "rm_work env Rm_receiver (flags s) x1 ((objects s)\<lparr>rm_mgr := (rm_mgr (objects s))\<lparr>rm_queue := q\<rparr>\<rparr>)"
    by simp
  have "(service_step ?P)\<^sup>*\<^sup>* (s\<lparr>objects := objects s\<rparr>) (s\<lparr>objects := (objects s)\<lparr>rm_mgr := (rm_mgr (objects s))\<lparr>rm_queue := q\<rparr>\<rparr>\<rparr>)"
    using step [OF 1] step [OF 2] by (meson converse_rtranclp_into_rtranclp rtranclp.rtrancl_refl)
  then show ?thesis by (simp add: q_def)
qed

text \<open>From the stop on, with a session running: \<open>main\<close> returns and the event is still in the queue.\<close>

lemma record_stops:
  assumes m: "at_main s = Loop_test" "\<not> g_runningFlag s"
    and b: "\<forall>th. base s th = \<lparr>runningFlag = True, threadObj = True\<rparr> \<and> alive s th"
    and x: "rm_taken (objects s) = None" "\<not> rm_receiving (objects s)" "rm_mgr (objects s) = m1"
    and m1: "at_worker m1 = Capturing t0" "at_caller m1 = No_call" "\<not> cancelRequested m1"
      "audioBuffer (helper m1) \<noteq> []" and w: "can_open (writing_wav u)"
  shows "\<exists>t m. (service_step (record_main bus env E sp))\<^sup>*\<^sup>* s t \<and> at_main t = Returned 0 \<and> rm_mgr (objects t) = m
    \<and> worker_run env [u, u, u, u, u, u] (rm_stop m1) = Some m"
proof -
  let ?P = "record_main bus env E sp"
  obtain m where run: "worker_run env [u, u, u, u, u, u] (rm_stop m1) = Some m" and e: "at_worker m = Finished" "at_caller m = No_call"
    using session_stopped [OF m1 w, of env u u u u u] by blast
  obtain s1 where t1: "main_turns ?P 4 s = Some s1"
    and m1': "at_main s1 = Ending [Join_thread Rm_main_worker, Join_thread Rm_receiver, Join_thread Rm_recorder]"
    and b1: "\<forall>th. base s1 th = \<lparr>runningFlag = False, threadObj = True\<rparr> \<and> alive s1 th"
    and x1: "objects s1 = (objects s)\<lparr>rm_mgr := rm_stop m1\<rparr>"
    using m b x(3) by (simp add: eval_nat_numeral main_turn_def main_action_def thread_action_def thread_stop_def
        record_main_def rm_effect_def all_rm_threads)
  have f1: "\<not> flags s1 th" for th using b1 by (simp add: flags_def)
  have "running (rm_stop m1) = flags s1 Rm_recorder" using f1 by (simp add: rm_stop_def notify_one_def)
  then have r2: "(service_step ?P)\<^sup>*\<^sup>* s1 (s1\<lparr>objects := (objects s1)\<lparr>rm_mgr := m\<rparr>\<rparr>)"
    by (intro recorder_run [where ts = "[u, u, u, u, u, u]"])
      (use run b1 m1' x1 in \<open>simp_all add: over_def del: worker_run.simps\<close>)
  let ?s2 = "s1\<lparr>objects := (objects s1)\<lparr>rm_mgr := m\<rparr>\<rparr>"
  let ?s3 = "?s2\<lparr>alive := (alive ?s2)(Rm_main_worker := False)\<rparr>"
  let ?s4 = "?s3\<lparr>alive := (alive ?s3)(Rm_receiver := False)\<rparr>"
  let ?s5 = "?s4\<lparr>alive := (alive ?s4)(Rm_recorder := False)\<rparr>"
  have "turn_step ?P ?s2 ?s3" "turn_step ?P ?s3 ?s4" "turn_step ?P ?s4 ?s5"
    by (rule turn_step.End_turn; use b1 f1 m1' x x1 e in \<open>simp add: over_def record_main_def rm_at_end_def\<close>)+
  then have r5: "(service_step ?P)\<^sup>*\<^sup>* ?s2 ?s5"
    by (meson service_step.Turn converse_rtranclp_into_rtranclp rtranclp.rtrancl_refl)
  obtain t where t5: "main_turns ?P 4 ?s5 = Some t" and t: "at_main t = Returned 0" "rm_mgr (objects t) = m"
    using m1' b1 by (simp add: eval_nat_numeral main_turn_def main_action_def thread_action_def record_main_def rm_effect_def)
  have "(service_step ?P)\<^sup>*\<^sup>* s t"
    using main_turns_steps [OF t1] r2 r5 main_turns_steps [OF t5] by (meson rtranclp_trans)
  with t run show ?thesis by blast
qed

lemma recorder_turn_jobs: "recorder_turn env t m = Some m' \<Longrightarrow> jobs m' = jobs m"
  by (cases "at_worker m")
    (auto simp: recorder_turn_def capture_turn_def begin_session_def worker_notify_def split: if_splits prod.splits bool.splits)

lemma worker_run_jobs: "worker_run env ts (startRecording env m) = Some m' \<Longrightarrow> jobs m' = jobs m"
proof -
  have "worker_run env ts m0 = Some m' \<Longrightarrow> jobs m' = jobs m0" for m0
    by (induction ts arbitrary: m0) (auto dest: recorder_turn_jobs split: option.splits)
  moreover have "jobs (startRecording env m) = jobs m" by (simp add: startRecording_def notify_one_def)
  ultimately show "worker_run env ts (startRecording env m) = Some m' \<Longrightarrow> ?thesis" by simp
qed

lemma shutdown_loses:
  "\<exists>s. service_reachable (record_main bus_ready plain_rm_env E sp) (rm_objects_init Map.empty) s \<and> at_main s = Returned 0
     \<and> saved (rm_mgr (objects s)) = [''/tmp/record_20250101_120000.wav''] \<and> jobs (rm_mgr (objects s)) = []
     \<and> (DBusCommand.STOP_RECORD_NOTI, True) \<in> set (session_log (rm_mgr (objects s)))
     \<and> (\<exists>d. eventList (rm_queue (rm_mgr (objects s))) = [make_Event RmEventTypeID.FILTER_WAV_FILE
          (Some (WavPayload ''/tmp/record_20250101_120000.wav'' d))])"
proof -
  let ?P = "record_main bus_ready plain_rm_env E sp"
  let ?t = "plain_turn 0 []"
  let ?u = "plain_turn 64 [7, 8]"
  obtain s0 where t0: "main_turns ?P 8 (service_init ?P (rm_objects_init Map.empty)) = Some s0"
    and m0: "at_main s0 = Loop_test" and x0: "objects s0 = rm_objects_init Map.empty"
    and b: "\<forall>th. base s0 th = \<lparr>runningFlag = True, threadObj = True\<rparr> \<and> alive s0 th"
    using record_started by blast
  have r0: "service_reachable ?P (rm_objects_init Map.empty) s0"
    using main_turns_steps [OF t0] by (simp add: service_reachable_def)
  have f: "flags s0 th" for th using b by (simp add: flags_def)
  define st where "st m = s0\<lparr>objects := (rm_objects_init Map.empty)\<lparr>rm_mgr := m\<rparr>\<rparr>" for m
  have st: "at_main (st m) = Loop_test" "alive (st m) th" "flags (st m) th" "rm_taken (objects (st m)) = None"
    "\<not> rm_receiving (objects (st m))" "rm_mgr (objects (st m)) = m" "\<not> over (st m)" "base (st m) = base s0" for m th
    using m0 b f by (simp_all add: st_def rm_objects_init_def over_def)
  have upd: "(st m)\<lparr>objects := (objects (st m))\<lparr>rm_mgr := m'\<rparr>\<rparr> = st m'" for m m' by (simp add: st_def)
  note run = recorder_run [where s = "st m" for m, unfolded upd st(6), OF _ st(2) st(7)]
  have "st (record_mgr_init Map.empty) = s0" using x0 by (simp add: st_def rm_objects_init_def)
  then have r1: "service_reachable ?P (rm_objects_init Map.empty) (st plain_rm)"
    using service_reachable_trans [OF r0] run [OF plain_rm_run [of ?t ?t]] by (simp add: f st record_mgr_init_def)
  let ?q = "plain_rm\<lparr>rm_queue := rm_push RmEventTypeID.START_RECORD (rm_queue plain_rm)\<rparr>"
  have to_q: "(service_step ?P)\<^sup>*\<^sup>* (st plain_rm) (st ?q)"
    using record_receives [OF st(2) st(7) st(3) st(5), unfolded upd st(6)] .
  have q: "?q\<lparr>rm_queue := EventQueue_init\<rparr> = plain_rm" by (simp add: plain_rm_def record_mgr_init_def)
  have "(service_step ?P)\<^sup>*\<^sup>* (st ?q) (st (startRecording plain_rm_env (?q\<lparr>rm_queue := EventQueue_init\<rparr>)))"
    by (rule main_worker_starts [where s = "st m" for m, unfolded upd st(6), OF st(2) st(7) st(3) st(4)])
      (simp_all add: rm_push_def EventQueue_init_def)
  then have "(service_step ?P)\<^sup>*\<^sup>* (st ?q) (st (startRecording plain_rm_env plain_rm))" unfolding q .
  with service_reachable_trans [OF r1 to_q]
  have r2: "service_reachable ?P (rm_objects_init Map.empty) (st (startRecording plain_rm_env plain_rm))"
    by (rule service_reachable_trans)
  obtain h where h: "initAlsa (microphone plain_rm_env) (sound ?t) (clearAudioBuffer (helper plain_rm)) = (True, h)"
    using plain_init by (metis plain_turn_def turn.select_convs(2) prod.collapse)
  have "alsa_inv (clearAudioBuffer (helper plain_rm))" "\<not> pcmHandle (clearAudioBuffer (helper plain_rm))"
    using rm_inv_reachable [OF plain_rm_reachable] by (simp_all add: rm_inv_def)
  then have p: "pcmHandle h" using initAlsa_inv(2) [of "clearAudioBuffer (helper plain_rm)" "microphone plain_rm_env" "sound ?t"] h
    by simp
  have g: "\<forall>v \<in> set [?u]. good_read (now_ns ?t) v"
    by (simp add: good_read_def plain_turn_def max_duration_ns_def MAX_RECORD_DURATION_SEC_def FRAMES_PER_PERIOD_def)
  obtain m1 where run1: "worker_run plain_rm_env [?t, ?t, ?u] (startRecording plain_rm_env plain_rm) = Some m1"
    and m1: "at_worker m1 = Capturing (now_ns ?t)" "at_caller m1 = No_call" "\<not> cancelRequested m1" "running m1"
      "helper m1 = h\<lparr>audioBuffer := concat (map (frames_read \<circ> pcm) [?u])\<rparr>" "rm_queue m1 = rm_queue plain_rm" "saved m1 = saved plain_rm"
    using session_starts [OF plain_rm_fields(1-4) h p g, of ?t] by blast
  have m1_jobs: "jobs m1 = []" using worker_run_jobs [OF run1] by (simp add: plain_rm_def record_mgr_init_def)
  have "(service_step ?P)\<^sup>*\<^sup>* (st (startRecording plain_rm_env plain_rm)) (st m1)"
    by (rule run [OF run1]) (simp add: f st startRecording_def notify_one_def)
  with r2 have r3: "service_reachable ?P (rm_objects_init Map.empty) (st m1)" by (rule service_reachable_trans)
  let ?s = "signalHandler (st m1)"
  have r4: "service_reachable ?P (rm_objects_init Map.empty) ?s"
    by (rule service_reachable_step [OF r3 service_step.Signal]) (rule st(7))
  have w: "can_open (writing_wav ?u)" by (simp add: plain_turn_def)
  have buf: "audioBuffer (helper m1) \<noteq> []" by (simp add: m1(5) plain_turn_def)
  have pre: "at_main ?s = Loop_test" "\<not> g_runningFlag ?s"
    "\<forall>th. base ?s th = \<lparr>runningFlag = True, threadObj = True\<rparr> \<and> alive ?s th"
    "rm_taken (objects ?s) = None" "\<not> rm_receiving (objects ?s)" "rm_mgr (objects ?s) = m1"
    using st b by (simp_all add: signalHandler_def)
  obtain t m where t: "(service_step ?P)\<^sup>*\<^sup>* ?s t" "at_main t = Returned 0" "rm_mgr (objects t) = m"
    and run2: "worker_run plain_rm_env [?u, ?u, ?u, ?u, ?u, ?u] (rm_stop m1) = Some m"
    using record_stops [OF pre m1(1-3) buf w, of bus_ready plain_rm_env E sp] by blast
  have path: "WAV_OUTPUT_DIR @ ''/record_'' @ stamp (writing_wav ?u) @ ''.wav'' = ''/tmp/record_20250101_120000.wav''"
    by (simp add: WAV_OUTPUT_DIR_def plain_turn_def)
  from session_stopped [OF m1(1-3) buf w, of plain_rm_env ?u ?u ?u ?u ?u] run2 m1(6,7) m1_jobs
  have "saved m = [''/tmp/record_20250101_120000.wav''] \<and> jobs m = []
     \<and> (DBusCommand.STOP_RECORD_NOTI, True) \<in> set (session_log m)
     \<and> (\<exists>d. eventList (rm_queue m) = [make_Event RmEventTypeID.FILTER_WAV_FILE
          (Some (WavPayload ''/tmp/record_20250101_120000.wav'' d))])"
    unfolding path by (auto simp: EventQueue_init_def simp del: worker_run.simps)
  with t service_reachable_trans [OF r4 t(1)] show ?thesis by blast
qed

end
