(* ===== verification/HardwareService.thy ===== *)
theory HardwareService
  imports ServiceMain DBusClient HardwareMain Thermometer
begin

text \<open>
  The hardware manager's \<open>main\<close>, \<open>hardwaremgr/src/main.cpp\<close>, with the bodies of its four threads, and the
  constructor of \<open>BluezDBus\<close>.
\<close>

section \<open>Connecting\<close>

text \<open>The private connection for BlueZ, whose errors are exceptions; the adapter is initialised at once.\<close>

definition BluezDBus_new :: "bus_answers \<Rightarrow> hm_env \<Rightarrow> fault + hardware_mgr" where
  "BluezDBus_new bus env =
     (if get_error bus then Inl (Runtime_error ''Failed to connect to D-Bus system bus for BlueZ'')
      else if get_null bus
      then Inl (Runtime_error ''Failed to connect to D-Bus system bus for BlueZ (conn is null)'')
      else initializeAdapter env hardware_mgr_init)"

text \<open>So \<open>main\<close> never sees a null connection: its own test for one is never true.\<close>

lemma BluezDBus_new_connected: "BluezDBus_new bus env = Inr m \<Longrightarrow> \<not> get_null bus \<and> \<not> get_error bus"
  by (auto simp: BluezDBus_new_def split: if_splits)

section \<open>The threads\<close>

datatype hm_thread = Hm_main_worker | Hm_receiver | Hm_monitor | Hm_bluetooth

text \<open>
  \<open>hw\<close> is none until the constructor of \<open>BluezDBus\<close> has returned; \<open>hm_inside\<close>: the body is between two tests of its flag;
  \<open>hm_taken\<close>: the event the main worker handles; \<open>temperature\<close>: the variable of the monitor's body.
\<close>

record hm_objects =
  hw :: "hardware_mgr option"
  hm_queue :: "HmEventTypeID EventQueue"
  hm_inside :: "hm_thread \<Rightarrow> bool"
  hm_taken :: "HmEventTypeID Event option"
  temperature :: float32

definition hm_objects_init :: "float32 \<Rightarrow> hm_objects" where
  "hm_objects_init zero =
     \<lparr>hw = None, hm_queue = EventQueue_init, hm_inside = (\<lambda>_. False), hm_taken = None, temperature = zero\<rparr>"

definition hm_effect :: "bus_answers \<Rightarrow> hm_env \<Rightarrow> hm_thread main_act \<Rightarrow> hm_objects \<Rightarrow> fault + hm_objects" where
  "hm_effect bus env a x =
     (case a of
        Connect_bluez \<Rightarrow> bind_result (BluezDBus_new bus env) (\<lambda>m. Inr (x\<lparr>hw := Some m\<rparr>))
      | Register_agent \<Rightarrow> Inr (x\<lparr>hw := map_option (registerAgent env ''DisplayYesNo'') (hw x)\<rparr>)
      | Unregister_agent \<Rightarrow> Inr (x\<lparr>hw := map_option (unregisterAgent env) (hw x)\<rparr>)
      | Create Hm_receiver \<Rightarrow> bind_result (DBusReceiverBase_new bus hardware_config) (\<lambda>_. Inr x)
      | _ \<Rightarrow> Inr x)"

text \<open>
  A pass through the loop of a body: it is entered while the flag is set, and ends with what the handlers
  have done.
\<close>

inductive hm_work ::
    "hm_env \<Rightarrow> string \<Rightarrow> hm_thread \<Rightarrow> (hm_thread \<Rightarrow> bool) \<Rightarrow> hm_objects \<Rightarrow> hm_objects \<Rightarrow> bool" for env sensor th fl where
  hm_enter: "fl th \<Longrightarrow> \<not> hm_inside x th \<Longrightarrow>
    hm_work env sensor th fl x
      (if th = Hm_main_worker
       then x\<lparr>hm_inside := (hm_inside x)(th := True), hm_taken := fst (popEvent (hm_queue x)),
              hm_queue := snd (popEvent (hm_queue x))\<rparr>
       else x\<lparr>hm_inside := (hm_inside x)(th := True)\<rparr>)"
| hm_handled: "th = Hm_main_worker \<Longrightarrow> hm_inside x th \<Longrightarrow> hw x = Some m \<Longrightarrow>
    (case hm_taken x of None \<Rightarrow> Inr m | Some e \<Rightarrow> HM_processEvent env e m) = Inr m' \<Longrightarrow>
    hm_work env sensor th fl x (x\<lparr>hm_inside := (hm_inside x)(th := False), hm_taken := None, hw := Some m'\<rparr>)"
| hm_received: "th = Hm_receiver \<Longrightarrow> hm_inside x th \<Longrightarrow> fold_result HM_receive msgs (hm_queue x) = Inr q \<Longrightarrow>
    hm_work env sensor th fl x (x\<lparr>hm_inside := (hm_inside x)(th := False), hm_queue := q\<rparr>)"
| hm_measured: "th = Hm_monitor \<Longrightarrow> hm_inside x th \<Longrightarrow> hw x = Some m \<Longrightarrow>
    monitor_turn env sensor files (temperature x, m) = (t, m') \<Longrightarrow>
    hm_work env sensor th fl x (x\<lparr>hm_inside := (hm_inside x)(th := False), temperature := t, hw := Some m'\<rparr>)"
| hm_dispatched: "th = Hm_bluetooth \<Longrightarrow> hm_inside x th \<Longrightarrow> hw x = Some m \<Longrightarrow>
    bluetooth_turn env ret m = Inr m' \<Longrightarrow>
    hm_work env sensor th fl x (x\<lparr>hm_inside := (hm_inside x)(th := False), hw := Some m'\<rparr>)"

text \<open>Exceptions of the handlers leave the threads.\<close>

definition hm_crashes :: "hm_env \<Rightarrow> hm_thread \<Rightarrow> (hm_thread \<Rightarrow> bool) \<Rightarrow> hm_objects \<Rightarrow> bool" where
  "hm_crashes env th fl x \<longleftrightarrow>
     hm_inside x th
     \<and> (\<exists>m f. hw x = Some m
          \<and> ((th = Hm_main_worker \<and> (\<exists>e. hm_taken x = Some e \<and> HM_processEvent env e m = Inl f))
             \<or> (th = Hm_bluetooth \<and> (\<exists>ret. bluetooth_turn env ret m = Inl f))))"

definition hardware_main :: "bus_answers \<Rightarrow> hm_env \<Rightarrow> string \<Rightarrow> (hm_thread, hm_objects) service_code" where
  "hardware_main bus env sensor =
     \<lparr>startup = [Notify_ready, Connect_bluez, Register_agent, Create Hm_main_worker, Create Hm_receiver,
        Create Hm_monitor, Create Hm_bluetooth, Run_thread Hm_main_worker, Run_thread Hm_receiver,
        Run_thread Hm_monitor, Run_thread Hm_bluetooth],
      ending = [Unregister_agent, Stop_thread Hm_main_worker, Stop_thread Hm_receiver, Stop_thread Hm_monitor,
        Stop_thread Hm_bluetooth, Join_thread Hm_main_worker, Join_thread Hm_receiver, Join_thread Hm_monitor,
        Join_thread Hm_bluetooth],
      effect = hm_effect bus env, work = hm_work env sensor, others = (\<lambda>_ _ _. False),
      at_end = (\<lambda>th x. \<not> hm_inside x th), crashes = hm_crashes env\<rparr>"

inductive_cases hm_workE: "hm_work env sensor th fl x x'"

section \<open>The shutdown\<close>

definition hm_left :: "hm_objects \<Rightarrow> nat" where
  "hm_left x = length (filter (hm_inside x) [Hm_main_worker, Hm_receiver, Hm_monitor, Hm_bluetooth])"

lemma hm_work_left:
  assumes "hm_work env sensor th fl x x'" and "\<forall>th. \<not> fl th"
  shows "hm_left x' < hm_left x"
  using assms(1) by cases (use assms(2) in \<open>auto simp: hm_left_def\<close>)

interpretation hmain: service_threads "hardware_main bus env sensor" hm_left
  "[Hm_main_worker, Hm_receiver, Hm_monitor, Hm_bluetooth]"
proof unfold_locales
  fix th :: hm_thread
  show "th \<in> set [Hm_main_worker, Hm_receiver, Hm_monitor, Hm_bluetooth]" by (cases th) simp_all
  show "Stop_thread th \<in> set (ending (hardware_main bus env sensor))" by (cases th) (simp_all add: hardware_main_def)
  show "Join_thread th \<in> set (ending (hardware_main bus env sensor))" by (cases th) (simp_all add: hardware_main_def)
  show "Run_thread th \<notin> set (ending (hardware_main bus env sensor))" by (simp add: hardware_main_def)
next
  fix fl :: "hm_thread \<Rightarrow> bool" and th x x'
  assume f: "\<forall>th. \<not> fl th"
  show "work (hardware_main bus env sensor) th fl x x' \<Longrightarrow> hm_left x' < hm_left x"
    using f hm_work_left by (simp add: hardware_main_def)
qed (simp_all add: hardware_main_def hm_effect_def)

text \<open>The threads run only when the manager is there.\<close>

definition hm_service_inv :: "bus_answers \<Rightarrow> hm_env \<Rightarrow> string \<Rightarrow> (hm_thread, hm_objects) service \<Rightarrow> bool" where
  "hm_service_inv bus env sensor s \<longleftrightarrow>
     (hw (objects s) = None \<longrightarrow> at_main s = Terminated
        \<or> ((\<forall>th. \<not> alive s th)
           \<and> at_main s \<in> {Startup (startup (hardware_main bus env sensor)), Startup (tl (startup (hardware_main bus env sensor)))}))"

lemma hm_work_hw: "hm_work env sensor th fl x x' \<Longrightarrow> hw x \<noteq> None \<Longrightarrow> hw x' \<noteq> None"
  by (erule hm_workE) auto

lemma hm_effect_hw:
  "hm_effect bus env a x = Inr x' \<Longrightarrow> hw x \<noteq> None \<Longrightarrow> hw x' \<noteq> None"
  by (auto simp: hm_effect_def bind_result_Inr split: main_act.splits hm_thread.splits)

lemma hm_service_inv_turn:
  assumes "turn_step (hardware_main bus env sensor) s s'" and "hm_service_inv bus env sensor s"
  shows "hm_service_inv bus env sensor s'"
proof (cases "hw (objects s)")
  case None
  from assms(1) show ?thesis
  proof cases
    case (Main_turn created)
    with None assms(2) show ?thesis
      by (auto simp: hm_service_inv_def hardware_main_def main_turn_def main_action_def thread_action_def hm_effect_def
          bind_result_Inr split: sum.splits)
  qed (use None assms(2) in \<open>auto simp: hm_service_inv_def over_def hardware_main_def\<close>)
next
  case (Some m)
  have "hw (objects s') \<noteq> None"
    using assms(1)
  proof cases
    case (Main_turn created)
    then show ?thesis
    proof (rule main_turn_cases)
      fix a pc assume "main_action (hardware_main bus env sensor) created a pc s = Some s'"
      then show ?thesis
        by (rule hmain.main_action_cases) (use Some hm_effect_hw in \<open>auto simp: hardware_main_def\<close>)
    qed (use Some in simp)
  qed (use Some hm_work_hw in \<open>auto simp: hardware_main_def\<close>)
  then show ?thesis by (auto simp: hm_service_inv_def)
qed

lemma hm_service_inv_reachable:
  "service_reachable (hardware_main bus env sensor) (hm_objects_init z) s \<Longrightarrow> hm_service_inv bus env sensor s"
  unfolding service_reachable_def
proof (induction rule: rtranclp_induct)
  case base
  show ?case by (simp add: hm_service_inv_def service_init_def hm_objects_init_def)
next
  case (step t u)
  from step.hyps(2) show ?case
  proof cases
    case Turn
    with hm_service_inv_turn step.IH show ?thesis by blast
  next
    case Signal
    with step.IH show ?thesis by (simp add: hm_service_inv_def signalHandler_def)
  qed
qed

lemma hardware_not_stuck:
  assumes r: "service_reachable (hardware_main bus env sensor) (hm_objects_init z) s" and j: "hmain.joining s"
  shows "\<exists>t. turn_step (hardware_main bus env sensor) s t"
proof (rule ccontr)
  assume "\<nexists>t. turn_step (hardware_main bus env sensor) s t"
  then have no: "\<And>t. \<not> turn_step (hardware_main bus env sensor) s t" by blast
  obtain th as where e: "at_main s = Ending (Join_thread th # as)" and a: "alive s th"
    and n: "hm_inside (objects s) th" and w: "\<And>x. \<not> hm_work env sensor th (flags s) (objects s) x"
    using hmain.joining_stuck [OF j no] by (auto simp: hardware_main_def)
  obtain m where m: "hw (objects s) = Some m"
    using hm_service_inv_reachable [OF r] e by (auto simp: hm_service_inv_def)
  show False
  proof (cases th)
    case Hm_main_worker
    let ?r = "case hm_taken (objects s) of None \<Rightarrow> Inr m | Some e \<Rightarrow> HM_processEvent env e m"
    show ?thesis
    proof (cases ?r)
      case (Inl f)
      then have "hm_crashes env th (flags s) (objects s)"
        using n m Hm_main_worker by (auto simp: hm_crashes_def split: option.splits)
      with no a e Crash_turn [of s th "hardware_main bus env sensor"] show ?thesis
        by (auto simp: over_def hardware_main_def)
    next
      case (Inr m')
      with w n m Hm_main_worker show ?thesis using hm_work.hm_handled by blast
    qed
  next
    case Hm_receiver
    then have "hm_work env sensor th (flags s) (objects s)
        ((objects s)\<lparr>hm_inside := (hm_inside (objects s))(th := False), hm_queue := hm_queue (objects s)\<rparr>)"
      using n by (intro hm_work.hm_received [where msgs = "[]"]) simp_all
    with w show ?thesis by blast
  next
    case Hm_monitor
    obtain t m' where "monitor_turn env sensor Map.empty (temperature (objects s), m) = (t, m')" by fastforce
    with w n m Hm_monitor show ?thesis using hm_work.hm_measured by blast
  next
    case Hm_bluetooth
    have "bluetooth_turn env Bus_poll_timeout m = Inr m" by (simp add: bluetooth_turn_def)
    with w n m Hm_bluetooth show ?thesis using hm_work.hm_dispatched by blast
  qed
qed

lemma hardware_joining_run:
  assumes "service_reachable (hardware_main bus env sensor) (hm_objects_init z) s"
    and "at_main s = Ending (map Join_thread ths)" and "(turn_step (hardware_main bus env sensor) ^^ n) s t"
  shows "n \<le> length ths + 9"
    and "(\<And>u. \<not> turn_step (hardware_main bus env sensor) t u) \<Longrightarrow> over t"
proof -
  have j: "hmain.joining s" using hmain.joining_reachable [OF assms(1,2)] .
  have "length (filter f [Hm_main_worker, Hm_receiver, Hm_monitor, Hm_bluetooth]) \<le> 4" for f
    by (rule order_trans [OF length_filter_le]) simp
  with hmain.joining_ends [OF assms(3) j] assms(2)
  show "n \<le> length ths + 9"
    using add_mono [of "length (filter (hm_inside (objects s)) [Hm_main_worker, Hm_receiver, Hm_monitor, Hm_bluetooth])" 4
      "length (filter (alive s) [Hm_main_worker, Hm_receiver, Hm_monitor, Hm_bluetooth])" 4]
    by (simp add: hmain.to_do_def hm_left_def del: filter.simps)
  assume "\<And>u. \<not> turn_step (hardware_main bus env sensor) t u"
  with hmain.joining_ends [OF assms(3) j] hardware_not_stuck [OF turns_reachable [OF assms(1,3)]]
  show "over t" by blast
qed

text \<open>The shutdown does begin: with a signal in the loop, all threads are told to stop.\<close>

lemma all_hm_threads:
  "(\<forall>th. P th) \<longleftrightarrow> P Hm_main_worker \<and> P Hm_receiver \<and> P Hm_monitor \<and> P Hm_bluetooth"
  by (metis hm_thread.exhaust)

lemma hardware_started:
  assumes "BluezDBus_new bus_ready env = Inr m"
  shows "\<exists>s. main_turns (hardware_main bus_ready env sensor) 12
      (service_init (hardware_main bus_ready env sensor) (hm_objects_init z)) = Some s
     \<and> at_main s = Loop_test \<and> (\<forall>th. base s th = \<lparr>runningFlag = True, threadObj = True\<rparr> \<and> alive s th)"
  using assms
  by (simp add: eval_nat_numeral main_turn_def main_action_def thread_action_def thread_run_def service_init_def
      hardware_main_def hm_effect_def hm_objects_init_def DBusReceiverBase_new_def DBusClient_new_def
      DBusClient_addMatchRule_def bus_ready_def ThreadBase_init_def all_hm_threads)

lemma hardware_stopping:
  assumes "BluezDBus_new bus_ready env = Inr m"
  shows "\<exists>s. service_reachable (hardware_main bus_ready env sensor) (hm_objects_init z) s
     \<and> at_main s = Ending (map Join_thread [Hm_main_worker, Hm_receiver, Hm_monitor, Hm_bluetooth])"
proof -
  let ?P = "hardware_main bus_ready env sensor"
  obtain s where r: "main_turns ?P 12 (service_init ?P (hm_objects_init z)) = Some s" and m: "at_main s = Loop_test"
    using hardware_started [OF assms] by blast
  have "service_step ?P s (signalHandler s)" by (rule service_step.Signal) (simp add: over_def m)
  moreover obtain t where t: "main_turns ?P 6 (signalHandler s) = Some t"
      "at_main t = Ending (map Join_thread [Hm_main_worker, Hm_receiver, Hm_monitor, Hm_bluetooth])"
    using m by (simp add: eval_nat_numeral main_turn_def main_action_def thread_action_def
        signalHandler_def hardware_main_def hm_effect_def)
  ultimately have "service_reachable ?P (hm_objects_init z) t"
    using main_turns_steps [OF r] main_turns_steps [OF t(1)] unfolding service_reachable_def
    by (meson rtranclp.rtrancl_into_rtrancl rtranclp_trans)
  with t show ?thesis by blast
qed

end
