(* ===== verification/WebSocketIO.thy ===== *)
theory WebSocketIO
  imports CoreSystem
begin

text \<open>
  The life of the web socket connections: the acceptor, the handshakes and the reads of
  \<open>coremgr/src/WS/WebSocketServer.cpp\<close> and the thread of \<open>coremgr/src/Thread/WebSocket.cpp\<close> that serves them, as steps over
  the core manager's state.  They refine the steps of \<open>CoreSystem\<close>.
\<close>

section \<open>State\<close>

text \<open>
  What is outstanding for a session: nothing yet, its handshake, a read, or nothing any more.
\<close>

datatype session_phase = Unused | Handshaking | Reading | Over

text \<open>
  \<open>listening\<close>: the acceptor is open; \<open>accepts\<close>: how many \<open>async_accept\<close> are outstanding; \<open>io_stopped\<close>: \<open>io_.stop()\<close> was called.
\<close>

record 'db io_server =
  core_of :: "'db core"
  listening :: bool
  accepts :: nat
  phase :: "nat \<Rightarrow> session_phase"
  io_stopped :: bool

section \<open>Handlers\<close>

definition server_doAccept :: "'db io_server \<Rightarrow> 'db io_server" where
  "server_doAccept io = io\<lparr>accepts := Suc (accepts io)\<rparr>"

text \<open>\<open>run\<close> up to \<open>io_.run()\<close>, and \<open>stop\<close>, called by the main thread.\<close>

definition server_run :: "'db core \<Rightarrow> 'db io_server" where
  "server_run c =
     server_doAccept \<lparr>core_of = c, listening = True, accepts = 0, phase = (\<lambda>_. Unused), io_stopped = False\<rparr>"

definition server_stop :: "'db io_server \<Rightarrow> 'db io_server" where
  "server_stop io = io\<lparr>listening := False, io_stopped := True\<rparr>"

text \<open>\<open>WebSocketSession::start\<close>: the handshake.  The members of the new session are set where it joins, before which nobody reads them.\<close>

definition session_start :: "nat \<Rightarrow> 'db io_server \<Rightarrow> 'db io_server" where
  "session_start s io = io\<lparr>phase := (phase io)(s := Handshaking)\<rparr>"

text \<open>
  \<open>doRead\<close> asks for the address of the peer first: \<open>remote_endpoint\<close> raises a system error when the connection is
  gone (\<open>\<not> has_peer\<close>), which leaves the handler and the thread.
\<close>

definition session_doRead :: "bool \<Rightarrow> nat \<Rightarrow> 'db io_server \<Rightarrow> fault + 'db io_server" where
  "session_doRead has_peer s io =
     (if has_peer then Inr (io\<lparr>phase := (phase io)(s := Reading)\<rparr>) else Inl System_error)"

text \<open>The completion of an accept: an error, or a connection with the session that is made for it.\<close>

datatype accept_result = Accept_error | Accepted nat bool

definition server_accepted :: "accept_result \<Rightarrow> 'db io_server \<Rightarrow> fault + 'db io_server" where
  "server_accepted r io =
     (let io = io\<lparr>accepts := accepts io - 1\<rparr>
      in case r of
           Accept_error \<Rightarrow> Inr (server_doAccept io)
         | Accepted s has_peer \<Rightarrow>
             if has_peer then Inr (server_doAccept (session_start s io)) else Inl System_error)"

text \<open>
  The completion of a handshake.  \<open>std::bind\<close> drops the error code \<open>ec\<close>, so \<open>doAccept\<close> runs in any case.
\<close>

definition session_accepted ::
    "'db env \<Rightarrow> bool \<Rightarrow> bool \<Rightarrow> nat \<Rightarrow> 'db io_server \<Rightarrow> fault + 'db io_server" where
  "session_accepted env ec has_peer s io =
     (let c = core_of io
      in bind_result (join (dbus_faults env) (dump env) c s (new_session s (server c), sender c)) (\<lambda>(w, snd').
           session_doRead has_peer s (io\<lparr>core_of := c\<lparr>server := w, sender := snd'\<rparr>\<rparr>)))"

definition handleMessageFromSession ::
    "'db env \<Rightarrow> string \<Rightarrow> 'db core \<Rightarrow> fault + 'db core" where
  "handleMessageFromSession env message c =
     bind_result (handleMessageFromClient (parse env) message (eventQueue c)) (\<lambda>q.
       Inr (c\<lparr>eventQueue := q\<rparr>))"

datatype read_result = Read_closed | Read_eof | Read_error | Read_text string

definition session_read_done ::
    "'db env \<Rightarrow> read_result \<Rightarrow> bool \<Rightarrow> nat \<Rightarrow> 'db io_server \<Rightarrow> fault + 'db io_server" where
  "session_read_done env r has_peer s io =
     (let c = core_of io;
          gone = io\<lparr>core_of := c\<lparr>server := leave s (server c)\<rparr>, phase := (phase io)(s := Over)\<rparr>
      in case r of
           Read_closed \<Rightarrow> Inr gone
         | Read_eof \<Rightarrow> Inr gone
         | Read_error \<Rightarrow> Inr gone
         | Read_text msg \<Rightarrow>
             bind_result (handleMessageFromSession env msg c) (\<lambda>c.
               session_doRead has_peer s (io\<lparr>core_of := c\<rparr>)))"

section \<open>Steps\<close>

text \<open>
  The I/O thread runs a handler whose operation has completed, or the other threads take a step.  A new
  session has an address no living session has.
\<close>

inductive io_step :: "'db env \<Rightarrow> 'db io_server \<Rightarrow> 'db io_server \<Rightarrow> bool" for env where
  Accept: "\<not> io_stopped io \<Longrightarrow> 0 < accepts io \<Longrightarrow>
    (\<forall>s p. r = Accepted s p \<longrightarrow> listening io \<and> phase io s \<in> {Unused, Over}
      \<and> posted (session_at (server (core_of io)) s) = 0 \<and> inflight (session_at (server (core_of io)) s) = 0) \<Longrightarrow>
    server_accepted r io = Inr io' \<Longrightarrow> io_step env io io'"
| Handshake: "\<not> io_stopped io \<Longrightarrow> phase io s = Handshaking \<Longrightarrow>
    session_accepted env ec has_peer s io = Inr io' \<Longrightarrow> io_step env io io'"
| Read: "\<not> io_stopped io \<Longrightarrow> phase io s = Reading \<Longrightarrow>
    session_read_done env r has_peer s io = Inr io' \<Longrightarrow> io_step env io io'"
| Start_write: "\<not> io_stopped io \<Longrightarrow> 0 < posted (session_at (server (core_of io)) s) \<Longrightarrow>
    session_doWrite (session_at (server (core_of io)) s) = Inr x \<Longrightarrow>
    io_step env io (io\<lparr>core_of := (core_of io)\<lparr>server := (server (core_of io))\<lparr>session_at :=
      (session_at (server (core_of io)))(s := x)\<rparr>\<rparr>\<rparr>)"
| End_write: "\<not> io_stopped io \<Longrightarrow> 0 < inflight (session_at (server (core_of io)) s) \<Longrightarrow>
    server_write_done s ec (server (core_of io)) = Inr w \<Longrightarrow>
    io_step env io (io\<lparr>core_of := (core_of io)\<lparr>server := w\<rparr>\<rparr>)"
| Main_worker: "popEvent (eventQueue (core_of io)) = (Some e, q) \<Longrightarrow>
    processEvent env e ((core_of io)\<lparr>eventQueue := q\<rparr>) = Inr c \<Longrightarrow> io_step env io (io\<lparr>core_of := c\<rparr>)"
| Receiver: "CM_receive msg (eventQueue (core_of io)) = Inr q \<Longrightarrow>
    io_step env io (io\<lparr>core_of := (core_of io)\<lparr>eventQueue := q\<rparr>\<rparr>)"
| Timer_wakes: "clock (core_of io) \<le> now \<Longrightarrow>
    io_step env io (io\<lparr>core_of := core_timer_turn now (core_of io)\<rparr>)"
| Stop_server: "io_step env io (server_stop io)"

inductive_cases io_stepE: "io_step env io io'"

definition io_reachable :: "'db env \<Rightarrow> 'db io_server \<Rightarrow> bool" where
  "io_reachable env io \<longleftrightarrow> (\<exists>p fs now. (io_step env)\<^sup>*\<^sup>* (server_run (core_init p fs now)) io)"

section \<open>What the handlers do\<close>

lemma session_accepted_Inr:
  "session_accepted env ec has_peer s io = Inr io' \<longleftrightarrow>
     has_peer \<and> (\<exists>w snd'. join (dbus_faults env) (dump env) (core_of io) s
         (new_session s (server (core_of io)), sender (core_of io)) = Inr (w, snd')
       \<and> io' = io\<lparr>core_of := (core_of io)\<lparr>server := w, sender := snd'\<rparr>, phase := (phase io)(s := Reading)\<rparr>)"
  by (auto simp: session_accepted_def session_doRead_def bind_result_Inr Let_def)

text \<open>A client that joins gets the state, and nobody else gets anything.\<close>

lemma join_sends:
  assumes "join F d view s (w, snd1) = Inr (w', snd2)"
  shows "\<exists>ms. map d (init_messages view) = map Inr ms
    \<and> accepted (session_at w' s) = accepted (session_at w s) @ ms
    \<and> set (sessions w') = insert s (set (sessions w))
    \<and> (\<forall>s'. s' \<noteq> s \<longrightarrow> session_at w' s' = session_at w s')
    \<and> failed (session_at w' s) = failed (session_at w s)
    \<and> snd2 = snd (sendMessage F CM_makeMsg DBusCommand.INITIALIZE_BLUETOOTH snd1)"
proof -
  have fold: "accepted (session_at (fold (server_send s) ms w0) s) = accepted (session_at w0 s) @ ms"
    "sessions (fold (server_send s) ms w0) = sessions w0"
    "s' \<noteq> s \<Longrightarrow> session_at (fold (server_send s) ms w0) s' = session_at w0 s'"
    "failed (session_at (fold (server_send s) ms w0) s) = failed (session_at w0 s)" for ms w0 s'
    by (induction ms arbitrary: w0) (simp_all add: session_send_def Let_def)
  from assms show ?thesis
    by (auto simp: join_def bind_result_Inr sendInitStateToClient_Inr Let_def fold set_insort_key)
qed

lemma handleMessageFromSession_Inr:
  "handleMessageFromSession env msg c = Inr c' \<longleftrightarrow>
     (\<exists>q. handleMessageFromClient (parse env) msg (eventQueue c) = Inr q \<and> c' = c\<lparr>eventQueue := q\<rparr>)"
  by (auto simp: handleMessageFromSession_def bind_result_Inr)

lemma session_read_done_Inr:
  "session_read_done env r has_peer s io = Inr io' \<longleftrightarrow>
     (case r of
        Read_text msg \<Rightarrow> has_peer \<and> (\<exists>q. handleMessageFromClient (parse env) msg (eventQueue (core_of io)) = Inr q
          \<and> io' = io\<lparr>core_of := (core_of io)\<lparr>eventQueue := q\<rparr>, phase := (phase io)(s := Reading)\<rparr>)
      | _ \<Rightarrow> io' = io\<lparr>core_of := (core_of io)\<lparr>server := leave s (server (core_of io))\<rparr>, phase := (phase io)(s := Over)\<rparr>)"
  by (auto simp: session_read_done_def session_doRead_def handleMessageFromSession_Inr bind_result_Inr Let_def
      split: read_result.splits)

section \<open>The invariant and the refinement\<close>

text \<open>
  One accept is outstanding; the members are the sessions that are being read and whose writes have all
  succeeded.
\<close>

definition io_inv :: "'db io_server \<Rightarrow> bool" where
  "io_inv io \<longleftrightarrow> accepts io = 1
     \<and> (\<forall>s. s \<in> set (sessions (server (core_of io))) \<longleftrightarrow>
          phase io s = Reading \<and> failed (session_at (server (core_of io)) s) = 0)"

lemma failed_broadcast: "failed (session_at (broadcast m w) s) = failed (session_at w s)"
proof -
  have "failed (session_at (fold (\<lambda>c. server_send c m) cs w) s) = failed (session_at w s)" for cs
    by (induction cs arbitrary: w) (auto simp: session_send_def Let_def)
  then show ?thesis by (simp add: broadcast_def)
qed

lemma server_write_done_cases:
  assumes "server_write_done s ec w = Inr w'"
  shows "failed (session_at w' s) = failed (session_at w s) + (if ec then 1 else 0)"
    and "t \<noteq> s \<Longrightarrow> session_at w' t = session_at w t"
    and "sessions w' = (if ec then remove1 s (sessions w) else sessions w)"
  using assms
  by (cases "message_queue (session_at w s)"; cases ec;
      auto simp: server_write_done_def session_write_done_def bind_result_Inr leave_def Let_def split: if_splits)+

lemma io_inv_init: "io_inv (server_run (core_init p fs now))"
  by (simp add: io_inv_def server_run_def server_doAccept_def core_init_def WebSocketServer_init_def
      WebSocketSession_init_def)

lemma io_inv_handshake:
  assumes "session_accepted env ec has_peer s io = Inr io'" and "io_inv io"
  shows "io_inv io'"
proof -
  obtain w snd' where j: "join (dbus_faults env) (dump env) (core_of io) s
      (new_session s (server (core_of io)), sender (core_of io)) = Inr (w, snd')"
    and io': "io' = io\<lparr>core_of := (core_of io)\<lparr>server := w, sender := snd'\<rparr>, phase := (phase io)(s := Reading)\<rparr>"
    using assms(1) by (auto simp: session_accepted_Inr)
  from join_sends [OF j]
  have "set (sessions w) = insert s (set (sessions (server (core_of io))))"
    and "failed (session_at w t) = (if t = s then 0 else failed (session_at (server (core_of io)) t))" for t
    by (auto simp: new_session_def WebSocketSession_init_def)
  with assms(2) show ?thesis by (auto simp: io_inv_def io')
qed

lemma io_inv_read:
  assumes "session_read_done env r has_peer s io = Inr io'" and "io_inv io" and "phase io s = Reading"
    and "distinct (sessions (server (core_of io)))"
  shows "io_inv io'"
  using assms by (auto simp: session_read_done_Inr io_inv_def leave_def split: read_result.splits if_splits)

lemma io_inv_step:
  assumes "io_step env io io'" and "io_inv io" and "core_inv (core_of io)"
  shows "io_inv io'"
  using assms(1)
proof cases
  case (Accept r)
  then show ?thesis using assms(2)
    by (auto simp: server_accepted_def server_doAccept_def session_start_def io_inv_def Let_def
        split: accept_result.splits if_splits)
next
  case (Handshake s ec has_peer)
  then show ?thesis using assms(2) io_inv_handshake by blast
next
  case (Read s r has_peer)
  then show ?thesis using assms(2,3) io_inv_read by (auto simp: core_inv_def server_inv_def)
next
  case (Start_write s x)
  then have "failed x = failed (session_at (server (core_of io)) s)" by (auto simp: session_doWrite_def split: if_splits)
  then have "failed (((session_at (server (core_of io)))(s := x)) t) = failed (session_at (server (core_of io)) t)" for t
    by simp
  with assms(2) show ?thesis by (simp add: io_inv_def Start_write(1))
next
  case (End_write s ec w)
  have d: "distinct (sessions (server (core_of io)))" using assms(3) by (simp add: core_inv_def server_inv_def)
  note w = server_write_done_cases [OF End_write(4)]
  have "failed (session_at w t) = failed (session_at (server (core_of io)) t) + (if ec \<and> t = s then 1 else 0)" for t
    using w(1) w(2) [of t] by (cases "t = s") auto
  moreover have "t \<in> set (sessions w) \<longleftrightarrow> t \<in> set (sessions (server (core_of io))) \<and> \<not> (ec \<and> t = s)" for t
    using w(3) d by auto
  moreover have "accepts io' = accepts io" "phase io' = phase io" "server (core_of io') = w"
    by (simp_all add: End_write(1))
  ultimately show ?thesis using assms(2) by (simp add: io_inv_def)
next
  case (Main_worker e q c)
  have "sessions (server c) = sessions (server (core_of io))
    \<and> (\<forall>t. failed (session_at (server c) t) = failed (session_at (server (core_of io)) t))"
    using processEvent_server [OF Main_worker(3)] by (elim disjE exE) (simp_all add: failed_broadcast)
  with assms(2) show ?thesis by (simp add: io_inv_def Main_worker(1))
next
  case (Receiver msg q)
  with assms(2) show ?thesis by (simp add: io_inv_def)
next
  case (Timer_wakes now)
  with assms(2) show ?thesis by (simp add: io_inv_def core_timer_turn_fields)
next
  case Stop_server
  with assms(2) show ?thesis by (simp add: io_inv_def server_stop_def)
qed

text \<open>Every step is one of \<open>CoreSystem\<close> or leaves the core manager's state as it is.\<close>

lemma io_step_refines:
  assumes "io_step env io io'" and "io_inv io"
  shows "core_step env (core_of io) (core_of io') \<or> core_of io' = core_of io"
  using assms(1)
proof cases
  case (Accept r)
  then show ?thesis
    by (auto simp: server_accepted_def server_doAccept_def session_start_def Let_def
        split: accept_result.splits if_splits)
next
  case (Handshake s ec has_peer)
  then obtain w snd' where p: "has_peer" and j: "join (dbus_faults env) (dump env) (core_of io) s
      (new_session s (server (core_of io)), sender (core_of io)) = Inr (w, snd')"
    and c: "core_of io' = (core_of io)\<lparr>server := w, sender := snd'\<rparr>"
    by (auto simp: session_accepted_Inr)
  from j p have "session_doAccept (dbus_faults env) (dump env) (core_of io) has_peer s
      (new_session s (server (core_of io)), sender (core_of io)) = Inr (w, snd')"
    by (simp add: session_doAccept_def)
  moreover have "s \<notin> set (sessions (server (core_of io)))" using Handshake assms(2) by (simp add: io_inv_def)
  ultimately show ?thesis unfolding c by (blast intro: core_step.Connect)
next
  case (Read s r has_peer)
  then show ?thesis
    by (cases r) (auto simp: session_read_done_Inr intro: core_step.Client core_step.Gone)
qed (auto simp: server_stop_def intro: core_step.intros)

lemma io_refines:
  assumes "io_reachable env io"
  shows "core_reachable env (core_of io) \<and> io_inv io"
proof -
  obtain p fs now where "(io_step env)\<^sup>*\<^sup>* (server_run (core_init p fs now)) io"
    using assms by (auto simp: io_reachable_def)
  then show ?thesis
  proof (induction rule: rtranclp_induct)
    case base
    have "core_reachable env (core_of (server_run (core_init p fs now)))"
      unfolding core_reachable_def server_run_def server_doAccept_def by auto
    then show ?case using io_inv_init by blast
  next
    case (step io1 io2)
    then have "io_inv io2" using io_inv_step core_inv_reachable by blast
    moreover have "core_reachable env (core_of io2)"
      using step io_step_refines [OF step.hyps(2)] unfolding core_reachable_def
      by (metis rtranclp.rtrancl_into_rtrancl)
    ultimately show ?case by blast
  qed
qed

end
