(* ===== verification/EventWait.thy ===== *)
theory EventWait
  imports EventQueue
begin

text \<open>
  How the main worker of a service waits: the loop of \<open>MainWorker::threadFunction\<close> with the calls of \<open>EventQueue\<close> as
  single steps, between which other threads push events and stop the worker.  \<open>hasEvent\<close> and \<open>waitForEvent\<close> lock
  different mutexes, so an event that is pushed between them wakes nobody.
\<close>

definition INTERNAL_EVENTQUEUE_TIMEOUT_MS :: nat where
  "INTERNAL_EVENTQUEUE_TIMEOUT_MS = 2500"

text \<open>Where the loop is; \<open>Waits n\<close>: in \<open>wait_for\<close> since \<open>n\<close> milliseconds.\<close>

datatype 'e loop_at =
    Flag_test | Has_test | To_pop | Handling "'e Event" | To_wait | Waits nat | Loop_left

record 'e loop_state =
  loop_pc :: "'e loop_at"
  loop_flag :: bool
  loop_queue :: "'e EventQueue"
  loop_taken :: "'e Event list"

definition loop_init :: "'e EventQueue \<Rightarrow> 'e loop_state" where
  "loop_init q = \<lparr>loop_pc = Flag_test, loop_flag = True, loop_queue = q, loop_taken = []\<rparr>"

text \<open>
  \<open>Own_turn\<close> is a step of the loop, \<open>Tick\<close> a millisecond in \<open>wait_for\<close>, \<open>Wake\<close> its return at the
  time-out or for no reason; the others are steps of other threads.
\<close>

datatype 'e loop_turn = Own_turn | Tick | Wake | Push_event "'e Event" | Stop_flag

definition loop_own :: "'e loop_state \<Rightarrow> 'e loop_state option" where
  "loop_own s =
     (case loop_pc s of
        Flag_test \<Rightarrow> Some (s\<lparr>loop_pc := (if loop_flag s then Has_test else Loop_left)\<rparr>)
      | Has_test \<Rightarrow> Some (s\<lparr>loop_pc := (if hasEvent (loop_queue s) then To_pop else To_wait)\<rparr>)
      | To_pop \<Rightarrow>
          (case popEvent (loop_queue s) of
             (None, q) \<Rightarrow> Some (s\<lparr>loop_queue := q, loop_pc := Flag_test\<rparr>)
           | (Some e, q) \<Rightarrow>
               Some (s\<lparr>loop_queue := q, loop_taken := loop_taken s @ [e], loop_pc := Handling e\<rparr>))
      | Handling e \<Rightarrow> Some (s\<lparr>loop_pc := Flag_test\<rparr>)
      | To_wait \<Rightarrow> Some (s\<lparr>loop_pc := Waits 0\<rparr>)
      | Waits n \<Rightarrow> None
      | Loop_left \<Rightarrow> None)"

text \<open>The two halves of \<open>wait_for\<close>: time passes up to the time-out, and the wait returns.\<close>

definition waitForEvent_tick :: "nat \<Rightarrow> 'e loop_state \<Rightarrow> 'e loop_state option" where
  "waitForEvent_tick timeout_ms s =
     (case loop_pc s of
        Waits n \<Rightarrow> if n < timeout_ms then Some (s\<lparr>loop_pc := Waits (Suc n)\<rparr>) else None
      | _ \<Rightarrow> None)"

definition waitForEvent_returns :: "'e loop_state \<Rightarrow> 'e loop_state option" where
  "waitForEvent_returns s =
     (case loop_pc s of Waits n \<Rightarrow> Some (s\<lparr>loop_pc := Flag_test\<rparr>) | _ \<Rightarrow> None)"

text \<open>\<open>notifyEvent\<close> wakes the loop if it waits, and nothing remembers it otherwise.\<close>

definition notifyEvent :: "'e loop_state \<Rightarrow> 'e loop_state" where
  "notifyEvent s = (case loop_pc s of Waits n \<Rightarrow> s\<lparr>loop_pc := Flag_test\<rparr> | _ \<Rightarrow> s)"

definition loop_step :: "'e loop_turn \<Rightarrow> 'e loop_state \<Rightarrow> 'e loop_state option" where
  "loop_step t s =
     (case t of
        Own_turn \<Rightarrow> loop_own s
      | Tick \<Rightarrow> waitForEvent_tick INTERNAL_EVENTQUEUE_TIMEOUT_MS s
      | Wake \<Rightarrow> waitForEvent_returns s
      | Push_event e \<Rightarrow> Some (notifyEvent (s\<lparr>loop_queue := snd (pushEvent (Some e) (loop_queue s))\<rparr>))
      | Stop_flag \<Rightarrow> Some (s\<lparr>loop_flag := False\<rparr>))"

fun loop_run :: "'e loop_turn list \<Rightarrow> 'e loop_state \<Rightarrow> 'e loop_state option" where
  "loop_run [] s = Some s"
| "loop_run (t # ts) s = (case loop_step t s of None \<Rightarrow> None | Some s' \<Rightarrow> loop_run ts s')"

lemmas loop_step_simps = loop_step_def loop_own_def waitForEvent_tick_def waitForEvent_returns_def notifyEvent_def
lemmas loop_splits = loop_at.splits loop_turn.splits if_splits option.splits prod.splits

lemma loop_run_append:
  "loop_run (ts @ us) s = (case loop_run ts s of None \<Rightarrow> None | Some s' \<Rightarrow> loop_run us s')"
  by (induction ts arbitrary: s) (auto split: option.splits)

section \<open>No event is lost or taken twice\<close>

text \<open>What was pushed is what was taken, followed by what is queued.\<close>

fun pushed :: "'e loop_turn list \<Rightarrow> 'e Event list" where
  "pushed [] = []"
| "pushed (Push_event e # ts) = e # pushed ts"
| "pushed (_ # ts) = pushed ts"

lemma loop_step_events:
  assumes "loop_step t s = Some s'"
  shows "loop_taken s' @ eventList (loop_queue s') = loop_taken s @ eventList (loop_queue s) @ pushed [t]"
  using assms by (auto simp: loop_step_simps popEvent_def split: loop_splits list.splits)

lemma pushed_Cons: "pushed (t # ts) = pushed [t] @ pushed ts" by (cases t) simp_all

lemma loop_run_events:
  "loop_run ts s = Some s' \<Longrightarrow>
     loop_taken s' @ eventList (loop_queue s') = loop_taken s @ eventList (loop_queue s) @ pushed ts"
proof (induction ts arbitrary: s)
  case (Cons t ts)
  then obtain s1 where "loop_step t s = Some s1" and "loop_run ts s1 = Some s'" by (auto split: option.splits)
  with Cons.IH loop_step_events show ?case by (subst pushed_Cons) fastforce
qed simp

section \<open>How long an event waits\<close>

text \<open>Milliseconds and own steps the loop can still spend before it takes an event that is queued.\<close>

definition ticks_left :: "'e loop_state \<Rightarrow> nat" where
  "ticks_left s =
     (case loop_pc s of
        To_wait \<Rightarrow> INTERNAL_EVENTQUEUE_TIMEOUT_MS
      | Waits n \<Rightarrow> INTERNAL_EVENTQUEUE_TIMEOUT_MS - n
      | _ \<Rightarrow> 0)"

definition own_left :: "'e loop_state \<Rightarrow> nat" where
  "own_left s =
     (case loop_pc s of To_pop \<Rightarrow> 0 | Has_test \<Rightarrow> 1 | Flag_test \<Rightarrow> 2 | Waits n \<Rightarrow> 2 | To_wait \<Rightarrow> 3 | _ \<Rightarrow> 3)"

lemma loop_taken_mono: "loop_run ts s = Some s' \<Longrightarrow> length (loop_taken s) \<le> length (loop_taken s')"
proof (induction ts arbitrary: s)
  case (Cons t ts)
  then obtain s1 where s1: "loop_step t s = Some s1" and "loop_run ts s1 = Some s'" by (auto split: option.splits)
  moreover have "length (loop_taken s) \<le> length (loop_taken s1)"
    using s1 by (auto simp: loop_step_simps split: loop_splits)
  ultimately show ?case using Cons.IH by fastforce
qed simp

lemma loop_step_left:
  assumes "loop_step t s = Some s'" and "hasEvent (loop_queue s)" and "loop_flag s" and "t \<noteq> Stop_flag"
    and "loop_taken s' = loop_taken s" and "\<forall>e. loop_pc s \<noteq> Handling e"
  shows "hasEvent (loop_queue s')" and "loop_flag s'" and "\<forall>e. loop_pc s' \<noteq> Handling e"
    and "ticks_left s' + (if t = Tick then 1 else 0) \<le> ticks_left s"
    and "own_left s' + (if t = Own_turn then 1 else 0) \<le> own_left s"
  using assms
  by (auto simp: loop_step_simps ticks_left_def own_left_def hasEvent_def popEvent_def
      split: loop_splits list.splits)

lemma waits_at_most:
  assumes "loop_run ts s = Some s'" and "hasEvent (loop_queue s)" and "loop_flag s" and "Stop_flag \<notin> set ts"
    and "loop_taken s' = loop_taken s" and "\<forall>e. loop_pc s \<noteq> Handling e"
  shows "count_list ts Tick \<le> ticks_left s \<and> count_list ts Own_turn \<le> own_left s"
  using assms
proof (induction ts arbitrary: s)
  case (Cons t ts)
  then obtain s1 where s1: "loop_step t s = Some s1" and r: "loop_run ts s1 = Some s'"
    by (auto split: option.splits)
  have same: "loop_taken s1 = loop_taken s"
  proof -
    have "loop_taken s1 = loop_taken s \<or> (\<exists>e. loop_taken s1 = loop_taken s @ [e])"
      using s1 by (auto simp: loop_step_simps split: loop_splits)
    then show ?thesis using loop_taken_mono [OF r] Cons.prems(5) by auto
  qed
  have "t \<noteq> Stop_flag" using Cons.prems(4) by auto
  note step = loop_step_left [OF s1 Cons.prems(2,3) this same Cons.prems(6)]
  have "count_list ts Tick \<le> ticks_left s1 \<and> count_list ts Own_turn \<le> own_left s1"
    by (rule Cons.IH [OF r step(1,2)]) (use Cons.prems(4,5) same step(3) in auto)
  with step(4,5) show ?case by auto
qed simp

lemma ticks_left_le: "ticks_left s \<le> INTERNAL_EVENTQUEUE_TIMEOUT_MS"
  by (simp add: ticks_left_def split: loop_at.splits)

lemma own_left_le: "own_left s \<le> 3"
  by (simp add: own_left_def split: loop_at.splits)

section \<open>The lost notification\<close>

lemma ticks_run:
  "m + n \<le> INTERNAL_EVENTQUEUE_TIMEOUT_MS \<Longrightarrow> loop_pc s = Waits m \<Longrightarrow>
     loop_run (replicate n Tick) s = Some (s\<lparr>loop_pc := Waits (m + n)\<rparr>)"
proof (induction n arbitrary: m s)
  case 0
  then have "s\<lparr>loop_pc := Waits m\<rparr> = s" by (cases s) simp
  then show ?case by simp
next
  case (Suc n)
  then show ?case using Suc.IH [of "Suc m" "s\<lparr>loop_pc := Waits (Suc m)\<rparr>"] by (simp add: loop_step_simps)
qed

lemma event_waits_full_time:
  "loop_run ([Own_turn, Own_turn, Push_event e, Own_turn] @ replicate INTERNAL_EVENTQUEUE_TIMEOUT_MS Tick)
     (loop_init EventQueue_init)
   = Some \<lparr>loop_pc = Waits INTERNAL_EVENTQUEUE_TIMEOUT_MS, loop_flag = True,
       loop_queue = \<lparr>eventList = [e]\<rparr>, loop_taken = []\<rparr>"
proof -
  let ?s = "\<lparr>loop_pc = Waits 0, loop_flag = True, loop_queue = \<lparr>eventList = [e]\<rparr>, loop_taken = []\<rparr>"
  have "loop_run [Own_turn, Own_turn, Push_event e, Own_turn] (loop_init EventQueue_init) = Some ?s"
    by (simp add: loop_step_simps loop_init_def EventQueue_init_def hasEvent_def pushEvent_def)
  then show ?thesis using ticks_run [of 0 INTERNAL_EVENTQUEUE_TIMEOUT_MS ?s] by (subst loop_run_append) simp
qed

end
