(* ===== verification/Logger.thy ===== *)
theory Logger
  imports Prelude
begin

text \<open>
  The lines of the log: \<open>common/src/Log/Logger.cpp\<close>.  The time, the process id and the text \<open>vsnprintf\<close> makes of the
  format are parameters; no other part of the model depends on what is logged.
\<close>

datatype LogLevel = LOG_DEBUG | LOG_INFO | LOG_WARN | LOG_ERROR | LOG_MAX

definition levelToString :: "LogLevel \<Rightarrow> string" where
  "levelToString level =
     (case level of
        LOG_DEBUG \<Rightarrow> ''DEBUG''
      | LOG_INFO \<Rightarrow> ''INFO''
      | LOG_WARN \<Rightarrow> ''WARN''
      | LOG_ERROR \<Rightarrow> ''ERROR''
      | LOG_MAX \<Rightarrow> ''DEBUG'')"

text \<open>\<open>strrchr\<close>: what follows the last slash, or the whole path.\<close>

fun short_file :: "string \<Rightarrow> string" where
  "short_file [] = []"
| "short_file (c # path) = (if CHR ''/'' \<in> set path then short_file path else if c = CHR ''/'' then path else c # path)"

text \<open>\<open>setfill('0')\<close> and \<open>setw(3)\<close>.\<close>

definition milliseconds :: "nat \<Rightarrow> string" where
  "milliseconds ms = replicate (3 - length (nat_to_string ms)) (CHR ''0'') @ nat_to_string ms"

text \<open>
  \<open>formatted\<close> is none when \<open>vsnprintf\<close> reports an error; the buffer is read as a C string.
\<close>

definition printLog ::
    "string \<Rightarrow> int \<Rightarrow> string \<Rightarrow> nat \<Rightarrow> LogLevel \<Rightarrow> string \<Rightarrow> int \<Rightarrow> string \<Rightarrow> string option \<Rightarrow> string" where
  "printLog moduleName pid hms ms level path line func formatted =
     (let message = (case formatted of None \<Rightarrow> [] | Some s \<Rightarrow> c_str s)
      in ''['' @ c_str moduleName @ ''][''  @ int_to_string pid @ ''][''
         @ hms @ ''.'' @ milliseconds (ms mod 1000) @ ''][''
         @ short_file path @ '':'' @ int_to_string line @ ''][''
         @ func @ ''] ['' @ levelToString level @ '']'' @ message @ [CHR 0x0A])"

text \<open>The directories of a source file are never logged, and its name always is.\<close>

lemma short_file_name: "CHR ''/'' \<notin> set name \<Longrightarrow> short_file (dir @ CHR ''/'' # name) = name"
  by (induction dir) simp_all

lemma short_file_plain: "CHR ''/'' \<notin> set name \<Longrightarrow> short_file name = name"
  by (induction name) auto

lemma nat_to_string_length: "n < 1000 \<Longrightarrow> length (nat_to_string n) \<le> 3"
  by (simp add: nat_to_string.simps [of n] nat_to_string.simps [of "n div 10"] nat_to_string.simps [of "n div 10 div 10"])

lemma milliseconds_width: "length (milliseconds (ms mod 1000)) = 3"
  using nat_to_string_length [of "ms mod 1000"] by (simp add: milliseconds_def)

end
