(* ===== verification/Utf8.thy ===== *)
theory Utf8
  imports Prelude
begin

text \<open>
  UTF-8 in \<open>coremgr/external/json/json.hpp\<close>: the decoder of the serializer, which is an automaton given by a table, the
  encoder of the lexer, and the ranges of bytes the lexer accepts.  Bytes are natural numbers below 256.
\<close>

unbundle bit_operations_syntax

section \<open>The code\<close>

definition UTF8_ACCEPT :: nat where "UTF8_ACCEPT = 0"
definition UTF8_REJECT :: nat where "UTF8_REJECT = 1"

text \<open>The classes of the 256 bytes, and the nine rows of transitions.\<close>

definition utf8_types :: "nat list" where
  "utf8_types = replicate 128 0 @ replicate 16 1 @ replicate 16 9 @ replicate 32 7 @ replicate 2 8 @ replicate 30 2
     @ [0xA] @ replicate 12 3 @ [4] @ replicate 2 3 @ [0xB] @ replicate 3 6 @ [5] @ replicate 11 8"

definition utf8_rows :: "nat list" where
  "utf8_rows =
     [0, 1, 2, 3, 5, 8, 7, 1, 1, 1, 4, 6, 1, 1, 1, 1,
      1, 1, 1, 1, 1, 1, 1, 1, 1, 1, 1, 1, 1, 1, 1, 1, 1, 0, 1, 1, 1, 1, 1, 0, 1, 0, 1, 1, 1, 1, 1, 1,
      1, 2, 1, 1, 1, 1, 1, 2, 1, 2, 1, 1, 1, 1, 1, 1, 1, 1, 1, 1, 1, 1, 1, 2, 1, 1, 1, 1, 1, 1, 1, 1,
      1, 2, 1, 1, 1, 1, 1, 1, 1, 2, 1, 1, 1, 1, 1, 1, 1, 1, 1, 1, 1, 1, 1, 3, 1, 3, 1, 1, 1, 1, 1, 1,
      1, 3, 1, 1, 1, 1, 1, 3, 1, 3, 1, 1, 1, 1, 1, 1, 1, 3, 1, 1, 1, 1, 1, 1, 1, 1, 1, 1, 1, 1, 1, 1]"

definition utf8d :: "nat list" where
  "utf8d = utf8_types @ utf8_rows"

text \<open>A step: the new state and the code point so far, an unsigned 32-bit number.\<close>

definition decode :: "nat \<times> nat \<Rightarrow> nat \<Rightarrow> nat \<times> nat" where
  "decode st byte =
     (case st of (state, codep) \<Rightarrow>
        let type = utf8d ! byte;
            codep = (if state \<noteq> UTF8_ACCEPT then (byte AND 0x3F) OR (push_bit 6 codep mod 2 ^ 32)
                     else drop_bit type 0xFF AND byte)
        in (utf8d ! (256 + state * 16 + type), codep))"

text \<open>The bytes of a code point.\<close>

definition utf8_encode :: "nat \<Rightarrow> nat list" where
  "utf8_encode codepoint =
     (if codepoint < 0x80 then [codepoint]
      else if codepoint \<le> 0x7FF then
        [0xC0 OR drop_bit 6 codepoint, 0x80 OR (codepoint AND 0x3F)]
      else if codepoint \<le> 0xFFFF then
        [0xE0 OR drop_bit 12 codepoint, 0x80 OR (drop_bit 6 codepoint AND 0x3F), 0x80 OR (codepoint AND 0x3F)]
      else
        [0xF0 OR drop_bit 18 codepoint, 0x80 OR (drop_bit 12 codepoint AND 0x3F),
         0x80 OR (drop_bit 6 codepoint AND 0x3F), 0x80 OR (codepoint AND 0x3F)])"

text \<open>
  The ranges in which the bytes after the first one have to be, for the first bytes the lexer copies; \<open>None\<close> for
  control characters and ill-formed bytes.  Quotation mark and backslash are dealt with before.
\<close>

definition utf8_ranges :: "nat \<Rightarrow> (nat \<times> nat) list option" where
  "utf8_ranges b =
     (if b < 0x20 then None
      else if b \<le> 0x7F then Some []
      else if b < 0xC2 then None
      else if b \<le> 0xDF then Some [(0x80, 0xBF)]
      else if b = 0xE0 then Some [(0xA0, 0xBF), (0x80, 0xBF)]
      else if b = 0xED then Some [(0x80, 0x9F), (0x80, 0xBF)]
      else if b \<le> 0xEF then Some [(0x80, 0xBF), (0x80, 0xBF)]
      else if b = 0xF0 then Some [(0x90, 0xBF), (0x80, 0xBF), (0x80, 0xBF)]
      else if b \<le> 0xF3 then Some [(0x80, 0xBF), (0x80, 0xBF), (0x80, 0xBF)]
      else if b = 0xF4 then Some [(0x80, 0x8F), (0x80, 0xBF), (0x80, 0xBF)]
      else None)"

section \<open>What it should be\<close>

text \<open>Unicode scalar values, and the texts that encode them.\<close>

definition scalar_value :: "nat \<Rightarrow> bool" where
  "scalar_value cp \<longleftrightarrow> cp < 0xD800 \<or> (0xE000 \<le> cp \<and> cp < 0x110000)"

definition utf8_text :: "nat \<Rightarrow> string" where
  "utf8_text cp = map char_of (utf8_encode cp)"

definition valid_utf8 :: "string \<Rightarrow> bool" where
  "valid_utf8 s \<longleftrightarrow> (\<exists>cps. list_all scalar_value cps \<and> s = concat (map utf8_text cps))"

text \<open>The automaton over a text.\<close>

fun decode_text :: "nat \<times> nat \<Rightarrow> string \<Rightarrow> nat \<times> nat" where
  "decode_text st [] = st"
| "decode_text st (c # s) =
     (let st' = decode st (of_char c)
      in if fst st' = UTF8_REJECT then st' else decode_text st' s)"

section \<open>Arithmetic\<close>

lemma high_and_low: "x < 2 ^ k \<Longrightarrow> push_bit k a AND x = (0 :: nat)"
proof -
  assume "x < 2 ^ k"
  then have "take_bit k x = x" by (simp add: take_bit_nat_eq_self)
  then have "push_bit k a AND x = push_bit k a AND take_bit k x" by simp
  also have "\<dots> = 0" by (rule bit_eqI) (auto simp: bit_simps)
  finally show ?thesis .
qed

lemma high_or_low: "x < 2 ^ k \<Longrightarrow> (a * 2 ^ k) OR x = a * 2 ^ k + (x :: nat)"
  using disjunctive_add_eq_or [OF high_and_low, of x k a] by (simp add: push_bit_eq_mult)

lemma low_or_high: "x < 2 ^ k \<Longrightarrow> x OR (a * 2 ^ k) = a * 2 ^ k + (x :: nat)"
  using high_or_low [of x k a] by (simp add: or.commute)

lemma and_mask: "x AND 0x3F = x mod (64 :: nat)" "x AND 0x1F = x mod (32 :: nat)" "x AND 0xF = x mod (16 :: nat)"
  "x AND 0x7 = x mod (8 :: nat)" "x AND 0xFF = x mod (256 :: nat)" "x AND 0x3 = x mod (4 :: nat)"
  "x AND 1 = x mod (2 :: nat)"
proof -
  have "x AND (2 ^ n - 1) = x mod 2 ^ n" for n
    using take_bit_eq_mask [of n x] by (simp add: take_bit_eq_mod mask_eq_exp_minus_1)
  from this [of 6] this [of 5] this [of 4] this [of 3] this [of 8] this [of 2] this [of 1]
  show "x AND 0x3F = x mod 64" "x AND 0x1F = x mod 32" "x AND 0xF = x mod 16" "x AND 0x7 = x mod 8"
    "x AND 0xFF = x mod 256" "x AND 0x3 = x mod 4" "x AND 1 = x mod 2"
    by simp_all
qed

lemma utf8_encode_arith:
  assumes "cp < 0x110000"
  shows "utf8_encode cp =
     (if cp < 0x80 then [cp]
      else if cp \<le> 0x7FF then [0xC0 + cp div 64, 0x80 + cp mod 64]
      else if cp \<le> 0xFFFF then [0xE0 + cp div 4096, 0x80 + cp div 64 mod 64, 0x80 + cp mod 64]
      else [0xF0 + cp div 262144, 0x80 + cp div 4096 mod 64, 0x80 + cp div 64 mod 64, 0x80 + cp mod 64])"
proof -
  have 80: "x < 64 \<Longrightarrow> 0x80 OR x = 0x80 + x" for x :: nat using high_or_low [of x 6 2] by simp
  have C0: "x < 32 \<Longrightarrow> 0xC0 OR x = 0xC0 + x" for x :: nat using high_or_low [of x 5 6] by simp
  have E0: "x < 16 \<Longrightarrow> 0xE0 OR x = 0xE0 + x" for x :: nat using high_or_low [of x 4 14] by simp
  have F0: "x < 8 \<Longrightarrow> 0xF0 OR x = 0xF0 + x" for x :: nat using high_or_low [of x 3 30] by simp
  show ?thesis using assms
    by (simp add: utf8_encode_def drop_bit_eq_div and_mask 80 C0 E0 F0)
qed

section \<open>The automaton\<close>

definition byte_type :: "nat \<Rightarrow> nat" where
  "byte_type b =
    (if b < 128 then 0 else if b < 144 then 1 else if b < 160 then 9 else if b < 192 then 7 else if b < 194 then 8
     else if b < 224 then 2 else if b = 224 then 10 else if b < 237 then 3 else if b = 237 then 4
     else if b < 240 then 3 else if b = 240 then 11 else if b < 244 then 6 else if b = 244 then 5 else 8)"

lemma utf8_types_map: "utf8_types = map byte_type [0..<256]"
  by code_simp

lemma utf8d_type: "b < 256 \<Longrightarrow> utf8d ! b = byte_type b"
  by (simp add: utf8d_def utf8_types_map nth_append)

lemma utf8d_row: "utf8d ! (256 + n) = utf8_rows ! n"
  by (simp add: utf8d_def utf8_types_map nth_append)

lemma byte_type_less: "byte_type b < 12"
  by (simp add: byte_type_def)

lemma decode_row:
  assumes "b < 256" and "take 12 (drop (s * 16) utf8_rows) = row" and "row \<noteq> []"
  shows "fst (decode (s, x) b) = row ! byte_type b"
proof -
  have "row ! byte_type b = utf8_rows ! (s * 16 + byte_type b)"
    using byte_type_less [of b] assms(2,3) by (cases "s * 16 \<le> length utf8_rows") auto
  with utf8d_row [of "s * 16 + byte_type b"] assms(1) show ?thesis
    by (simp add: decode_def utf8d_type add.assoc Let_def)
qed

text \<open>The rows of the table.\<close>

lemma utf8_rows_parts:
  "take 12 (drop (0 * 16) utf8_rows) = [0, 1, 2, 3, 5, 8, 7, 1, 1, 1, 4, 6]"
  "take 12 (drop (2 * 16) utf8_rows) = [1, 0, 1, 1, 1, 1, 1, 0, 1, 0, 1, 1]"
  "take 12 (drop (3 * 16) utf8_rows) = [1, 2, 1, 1, 1, 1, 1, 2, 1, 2, 1, 1]"
  "take 12 (drop (4 * 16) utf8_rows) = [1, 1, 1, 1, 1, 1, 1, 2, 1, 1, 1, 1]"
  "take 12 (drop (5 * 16) utf8_rows) = [1, 2, 1, 1, 1, 1, 1, 1, 1, 2, 1, 1]"
  "take 12 (drop (6 * 16) utf8_rows) = [1, 1, 1, 1, 1, 1, 1, 3, 1, 3, 1, 1]"
  "take 12 (drop (7 * 16) utf8_rows) = [1, 3, 1, 1, 1, 1, 1, 3, 1, 3, 1, 1]"
  "take 12 (drop (8 * 16) utf8_rows) = [1, 3, 1, 1, 1, 1, 1, 1, 1, 1, 1, 1]"
  by (simp_all add: utf8_rows_def)

lemma decode_rows:
  assumes "b < 256"
  shows "fst (decode (0, x) b) = [0, 1, 2, 3, 5, 8, 7, 1, 1, 1, 4, 6] ! byte_type b"
    and "fst (decode (2, x) b) = [1, 0, 1, 1, 1, 1, 1, 0, 1, 0, 1, 1] ! byte_type b"
    and "fst (decode (3, x) b) = [1, 2, 1, 1, 1, 1, 1, 2, 1, 2, 1, 1] ! byte_type b"
    and "fst (decode (4, x) b) = [1, 1, 1, 1, 1, 1, 1, 2, 1, 1, 1, 1] ! byte_type b"
    and "fst (decode (5, x) b) = [1, 2, 1, 1, 1, 1, 1, 1, 1, 2, 1, 1] ! byte_type b"
    and "fst (decode (6, x) b) = [1, 1, 1, 1, 1, 1, 1, 3, 1, 3, 1, 1] ! byte_type b"
    and "fst (decode (7, x) b) = [1, 3, 1, 1, 1, 1, 1, 3, 1, 3, 1, 1] ! byte_type b"
    and "fst (decode (8, x) b) = [1, 3, 1, 1, 1, 1, 1, 1, 1, 1, 1, 1] ! byte_type b"
  by (rule decode_row [OF assms], rule utf8_rows_parts, simp)+

lemma decode_start:
  assumes "b < 256"
  shows "fst (decode (UTF8_ACCEPT, x) b) =
    (if b < 128 then UTF8_ACCEPT else if b < 194 then UTF8_REJECT else if b < 224 then 2 else if b = 224 then 4
     else if b < 237 then 3 else if b = 237 then 5 else if b < 240 then 3 else if b = 240 then 6
     else if b < 244 then 7 else if b = 244 then 8 else UTF8_REJECT)"
  unfolding UTF8_ACCEPT_def decode_rows(1) [OF assms]
  by (simp add: byte_type_def UTF8_REJECT_def)

lemma decode_more:
  assumes "b < 256"
  shows "fst (decode (2, x) b) = (if b < 128 \<or> 192 \<le> b then UTF8_REJECT else UTF8_ACCEPT)"
    and "fst (decode (3, x) b) = (if b < 128 \<or> 192 \<le> b then UTF8_REJECT else 2)"
    and "fst (decode (4, x) b) = (if b < 160 \<or> 192 \<le> b then UTF8_REJECT else 2)"
    and "fst (decode (5, x) b) = (if b < 128 \<or> 160 \<le> b then UTF8_REJECT else 2)"
    and "fst (decode (6, x) b) = (if b < 144 \<or> 192 \<le> b then UTF8_REJECT else 3)"
    and "fst (decode (7, x) b) = (if b < 128 \<or> 192 \<le> b then UTF8_REJECT else 3)"
    and "fst (decode (8, x) b) = (if b < 128 \<or> 144 \<le> b then UTF8_REJECT else 3)"
  unfolding decode_rows [OF assms] by (auto simp: byte_type_def UTF8_ACCEPT_def UTF8_REJECT_def)

lemma decode_codepoint:
  "s \<noteq> UTF8_ACCEPT \<Longrightarrow> x < 2 ^ 26 \<Longrightarrow> snd (decode (s, x) b) = x * 64 + b mod 64"
  using low_or_high [of "b mod 64" 6 x] by (simp add: decode_def and_mask push_bit_eq_mult)

lemma decode_first_codepoint:
  assumes "b < 256"
  shows "b < 128 \<Longrightarrow> snd (decode (UTF8_ACCEPT, x) b) = b"
    and "194 \<le> b \<Longrightarrow> b < 224 \<Longrightarrow> snd (decode (UTF8_ACCEPT, x) b) = b - 192"
    and "224 \<le> b \<Longrightarrow> b < 240 \<Longrightarrow> snd (decode (UTF8_ACCEPT, x) b) = b - 224"
    and "240 \<le> b \<Longrightarrow> b < 245 \<Longrightarrow> snd (decode (UTF8_ACCEPT, x) b) = b - 240"
proof -
  have c: "snd (decode (UTF8_ACCEPT, x) b) = (b AND (0xFF div 2 ^ byte_type b))"
    by (simp add: decode_def utf8d_type [OF assms] drop_bit_eq_div and.commute Let_def)
  show "b < 128 \<Longrightarrow> snd (decode (UTF8_ACCEPT, x) b) = b"
    unfolding c using assms by (simp add: byte_type_def and_mask)
  show "snd (decode (UTF8_ACCEPT, x) b) = b - 192" if "194 \<le> b" "b < 224"
    using that mod_less [of "b - 192" 64] unfolding c by (simp add: byte_type_def and_mask mod_if)
  show "snd (decode (UTF8_ACCEPT, x) b) = b - 224" if "224 \<le> b" "b < 240"
  proof -
    consider "b = 224" | "b = 237" | "b \<noteq> 224" "b \<noteq> 237" by blast
    then show ?thesis using that unfolding c by cases (simp_all add: byte_type_def and_mask mod_if)
  qed
  show "snd (decode (UTF8_ACCEPT, x) b) = b - 240" if "240 \<le> b" "b < 245"
  proof -
    have "b = 240 \<or> b = 241 \<or> b = 242 \<or> b = 243 \<or> b = 244" using that by arith
    then show ?thesis unfolding c by (elim disjE) (simp_all add: byte_type_def)
  qed
qed

section \<open>Code points\<close>

text \<open>A code point is decoded at its last byte and not before.\<close>

fun decodes :: "nat \<times> nat \<Rightarrow> nat list \<Rightarrow> nat \<Rightarrow> bool" where
  "decodes st [] cp \<longleftrightarrow> False"
| "decodes st [b] cp \<longleftrightarrow> decode st b = (UTF8_ACCEPT, cp)"
| "decodes st (b # bs) cp \<longleftrightarrow>
     fst (decode st b) \<noteq> UTF8_ACCEPT \<and> fst (decode st b) \<noteq> UTF8_REJECT \<and> decodes (decode st b) bs cp"

lemma decode_eqI: "fst (decode st b) = s \<Longrightarrow> snd (decode st b) = y \<Longrightarrow> decode st b = (s, y)"
  by (metis prod.collapse)

lemma incomplete_states [simp]:
  "2 \<noteq> UTF8_ACCEPT" "3 \<noteq> UTF8_ACCEPT" "4 \<noteq> UTF8_ACCEPT" "5 \<noteq> UTF8_ACCEPT" "6 \<noteq> UTF8_ACCEPT"
  "7 \<noteq> UTF8_ACCEPT" "8 \<noteq> UTF8_ACCEPT"
  "2 \<noteq> UTF8_REJECT" "3 \<noteq> UTF8_REJECT" "4 \<noteq> UTF8_REJECT" "5 \<noteq> UTF8_REJECT" "6 \<noteq> UTF8_REJECT"
  "7 \<noteq> UTF8_REJECT" "8 \<noteq> UTF8_REJECT" "UTF8_ACCEPT \<noteq> UTF8_REJECT" "UTF8_REJECT \<noteq> UTF8_ACCEPT"
  by (simp_all add: UTF8_ACCEPT_def UTF8_REJECT_def)

lemma continuation_mod: "m < 64 \<Longrightarrow> (128 + m) mod 64 = (m :: nat)"
  using mod_mult_self3 [of 2 64 m] by simp

lemma decode_tail:
  assumes "x < 2 ^ 20" and "m < 64"
  shows "decode (2, x) (128 + m) = (UTF8_ACCEPT, x * 64 + m)"
    and "decode (3, x) (128 + m) = (2, x * 64 + m)"
    and "32 \<le> m \<Longrightarrow> decode (4, x) (128 + m) = (2, x * 64 + m)"
    and "m < 32 \<Longrightarrow> decode (5, x) (128 + m) = (2, x * 64 + m)"
    and "16 \<le> m \<Longrightarrow> decode (6, x) (128 + m) = (3, x * 64 + m)"
    and "decode (7, x) (128 + m) = (3, x * 64 + m)"
    and "m < 16 \<Longrightarrow> decode (8, x) (128 + m) = (3, x * 64 + m)"
  using assms by (intro decode_eqI; simp add: decode_more decode_codepoint continuation_mod)+

lemma decode_head:
  shows "b < 128 \<Longrightarrow> decode (UTF8_ACCEPT, x) b = (UTF8_ACCEPT, b)"
    and "2 \<le> a \<Longrightarrow> a < 32 \<Longrightarrow> decode (UTF8_ACCEPT, x) (192 + a) = (2, a)"
    and "a < 16 \<Longrightarrow> decode (UTF8_ACCEPT, x) (224 + a) = (if a = 0 then 4 else if a = 13 then 5 else 3, a)"
    and "a < 5 \<Longrightarrow> decode (UTF8_ACCEPT, x) (240 + a) = (if a = 0 then 6 else if a = 4 then 8 else 7, a)"
  by (intro decode_eqI; simp add: decode_start decode_first_codepoint)+

lemma decodes_two:
  assumes "2 \<le> a" and "a < 32" and "m < 64"
  shows "decodes (UTF8_ACCEPT, x) [192 + a, 128 + m] (a * 64 + m)"
  using assms by (simp add: decode_head decode_tail)

lemma decodes_three:
  assumes "a < 16" and "m < 64" and "n < 64" and "a = 0 \<Longrightarrow> 32 \<le> m" and "a = 13 \<Longrightarrow> m < 32"
  shows "decodes (UTF8_ACCEPT, x) [224 + a, 128 + m, 128 + n] ((a * 64 + m) * 64 + n)"
proof -
  have "decode (if a = 0 then 4 else if a = 13 then 5 else 3, a) (128 + m) = (2, a * 64 + m)"
    using assms by (simp add: decode_tail)
  then show ?thesis using assms by (auto simp: decode_head decode_tail)
qed

lemma decodes_four:
  assumes "a < 5" and "m < 64" and "n < 64" and "k < 64" and "a = 0 \<Longrightarrow> 16 \<le> m" and "a = 4 \<Longrightarrow> m < 16"
  shows "decodes (UTF8_ACCEPT, x) [240 + a, 128 + m, 128 + n, 128 + k] (((a * 64 + m) * 64 + n) * 64 + k)"
proof -
  have "decode (if a = 0 then 6 else if a = 4 then 8 else 7, a) (128 + m) = (3, a * 64 + m)"
    using assms by (simp add: decode_tail)
  then show ?thesis using assms by (auto simp: decode_head decode_tail)
qed

lemma sextets:
  "cp div 64 * 64 + cp mod 64 = (cp :: nat)"
  "cp div 4096 * 64 + cp div 64 mod 64 = cp div 64"
  "cp div 262144 * 64 + cp div 4096 mod 64 = cp div 4096"
  "cp mod 64 < 64" "cp div 64 mod 64 < 64" "cp div 4096 mod 64 < 64"
  using div_mult_mod_eq [of "cp div 64" 64] div_mult_mod_eq [of "cp div 4096" 64]
  by (simp_all add: div_mult2_eq [of cp 64 64, simplified] div_mult2_eq [of cp 4096 64, simplified])

lemma decodes_encode:
  assumes "scalar_value cp"
  shows "decodes (UTF8_ACCEPT, x) (utf8_encode cp) cp"
proof -
  have cp: "cp < 0x110000" using assms by (auto simp: scalar_value_def)
  note e = utf8_encode_arith [OF cp] and sextets = sextets [of cp]
  consider "cp < 0x80" | "0x80 \<le> cp" "cp \<le> 0x7FF" | "0x7FF < cp" "cp \<le> 0xFFFF" | "0xFFFF < cp" by linarith
  then show ?thesis
  proof cases
    case 1
    then show ?thesis by (simp add: e decode_head)
  next
    case 2
    then have "2 \<le> cp div 64" "cp div 64 < 32" by linarith+
    from decodes_two [OF this, of "cp mod 64"] 2 show ?thesis by (simp add: e)
  next
    case 3
    have "(cp div 4096 * 64 + cp div 64 mod 64) * 64 + cp mod 64 = cp" using sextets(1,2) by simp
    moreover have "cp div 4096 = 0 \<Longrightarrow> 32 \<le> cp div 64 mod 64" using 3 sextets by linarith
    moreover have "cp div 4096 = 13 \<Longrightarrow> cp div 64 mod 64 < 32" using 3 assms sextets by (simp add: scalar_value_def)
    moreover have "cp div 4096 < 16" using 3 by linarith
    ultimately show ?thesis using decodes_three [of "cp div 4096" "cp div 64 mod 64" "cp mod 64" x] 3
      by (simp add: e)
  next
    case 4
    have "((cp div 262144 * 64 + cp div 4096 mod 64) * 64 + cp div 64 mod 64) * 64 + cp mod 64 = cp"
      using sextets(1-3) by simp
    moreover have "cp div 262144 = 0 \<Longrightarrow> 16 \<le> cp div 4096 mod 64" using 4 sextets by linarith
    moreover have "cp div 262144 = 4 \<Longrightarrow> cp div 4096 mod 64 < 16" using cp sextets by linarith
    moreover have "cp div 262144 < 5" using cp by linarith
    ultimately show ?thesis
      using decodes_four [of "cp div 262144" "cp div 4096 mod 64" "cp div 64 mod 64" "cp mod 64" x] 4
      by (simp add: e)
  qed
qed

section \<open>The ranges of the lexer\<close>

definition in_range :: "nat \<times> nat \<Rightarrow> nat \<Rightarrow> bool" where
  "in_range r x \<longleftrightarrow> fst r \<le> x \<and> x \<le> snd r"

lemma in_range_pair [simp]: "in_range (l, h) x \<longleftrightarrow> l \<le> x \<and> x \<le> h"
  by (simp add: in_range_def)

lemma sextet_less: "x mod 64 \<le> (63 :: nat)" "x mod 64 < (128 :: nat)"
  using mod_less_divisor [of 64 x] by linarith+

lemma div_mod_sextet: "r < 64 \<Longrightarrow> (q * 64 + r) div 64 = (q :: nat) \<and> (q * 64 + r) mod 64 = r"
  by simp

lemma div_div_sextet: "x div 4096 = x div 64 div (64 :: nat)" "x div 262144 = x div 64 div 64 div (64 :: nat)"
  by (simp_all add: div_mult2_eq [symmetric])

lemma utf8_encode_bytes: "cp < 0x110000 \<Longrightarrow> list_all (\<lambda>b. b < 256) (utf8_encode cp)"
  by (auto simp: utf8_encode_arith sextet_less)

text \<open>A code point that is no control character has a first byte and ranges its other bytes are in.\<close>

lemma encode_in_ranges:
  assumes "scalar_value cp" and "0x20 \<le> cp"
  shows "\<exists>b bs rs. utf8_encode cp = b # bs \<and> utf8_ranges b = Some rs \<and> list_all2 in_range rs bs"
proof -
  have cp: "cp < 0x110000" using assms by (auto simp: scalar_value_def)
  note e = utf8_encode_arith [OF cp] and sextets = sextets [of cp]
  consider "cp < 0x80" | "0x80 \<le> cp" "cp \<le> 0x7FF" | "0x7FF < cp" "cp \<le> 0xFFFF" | "0xFFFF < cp" by linarith
  then show ?thesis
  proof cases
    case 1
    with assms(2) show ?thesis by (simp add: e utf8_ranges_def)
  next
    case 2
    then have "2 \<le> cp div 64" "cp div 64 < 32" by linarith+
    with 2 sextets(4) show ?thesis by (simp add: e utf8_ranges_def)
  next
    case 3
    have "cp div 4096 = 0 \<Longrightarrow> 32 \<le> cp div 64 mod 64" using 3 sextets by linarith
    moreover have "cp div 4096 = 13 \<Longrightarrow> cp div 64 mod 64 \<le> 31" using 3 assms sextets by (simp add: scalar_value_def)
    moreover have "cp div 4096 = 0 \<Longrightarrow> cp div 64 \<le> 63" using sextets by linarith
    moreover have "cp div 4096 < 16" using 3 by linarith
    ultimately show ?thesis using 3 by (simp add: e utf8_ranges_def sextet_less)
  next
    case 4
    have "cp div 262144 = 0 \<Longrightarrow> 16 \<le> cp div 4096 mod 64" using 4 sextets by linarith
    moreover have "cp div 262144 = 0 \<Longrightarrow> cp div 4096 \<le> 63" using sextets by linarith
    moreover have "\<not> cp div 262144 \<le> 3 \<Longrightarrow> cp div 4096 mod 64 \<le> 15" using cp sextets by linarith
    moreover have "cp div 262144 < 5" using cp by linarith
    ultimately show ?thesis using 4 by (simp add: e utf8_ranges_def sextet_less)
  qed
qed

text \<open>Conversely, bytes in the ranges are a code point.\<close>

lemma byte_split:
  "128 \<le> x \<Longrightarrow> x \<le> 191 \<Longrightarrow> \<exists>m. x = 128 + m \<and> m < (64 :: nat)"
  by (rule exI [of _ "x - 128"]) simp

lemma encode_two:
  "2 \<le> a \<Longrightarrow> a < 32 \<Longrightarrow> m < 64 \<Longrightarrow> scalar_value (a * 64 + m) \<and> utf8_encode (a * 64 + m) = [192 + a, 128 + m]"
  by (simp add: scalar_value_def utf8_encode_arith)

lemma encode_three:
  assumes "a < 16" and "m < 64" and "n < 64" and "a = 0 \<Longrightarrow> 32 \<le> m" and "a = 13 \<Longrightarrow> m < 32"
  shows "scalar_value ((a * 64 + m) * 64 + n) \<and> utf8_encode ((a * 64 + m) * 64 + n) = [224 + a, 128 + m, 128 + n]"
proof -
  let ?c = "(a * 64 + m) * 64 + n"
  have d: "?c div 64 = a * 64 + m" "?c mod 64 = n" "?c div 4096 = a"
    using assms(2,3) div_mod_sextet [of n "a * 64 + m"] div_mod_sextet [of m a] unfolding div_div_sextet by simp_all
  have "0x7FF < ?c" using assms(4) by (cases "a = 0") simp_all
  moreover have "?c < 0xD800 \<or> 0xE000 \<le> ?c"
  proof -
    consider "a < 13" | "a = 13" | "13 < a" by linarith
    then show ?thesis using assms(2,3,5) by cases simp_all
  qed
  ultimately show ?thesis using assms(1-3) d by (simp add: scalar_value_def utf8_encode_arith)
qed

lemma encode_four:
  assumes "a < 5" and "m < 64" and "n < 64" and "k < 64" and "a = 0 \<Longrightarrow> 16 \<le> m" and "a = 4 \<Longrightarrow> m < 16"
  shows "scalar_value (((a * 64 + m) * 64 + n) * 64 + k)
    \<and> utf8_encode (((a * 64 + m) * 64 + n) * 64 + k) = [240 + a, 128 + m, 128 + n, 128 + k]"
proof -
  let ?c = "((a * 64 + m) * 64 + n) * 64 + k"
  have d: "?c div 64 = (a * 64 + m) * 64 + n" "?c mod 64 = k" "?c div 4096 = a * 64 + m" "?c div 262144 = a"
    using assms(2-4) div_mod_sextet [of k "(a * 64 + m) * 64 + n"] div_mod_sextet [of n "a * 64 + m"] div_mod_sextet [of m a]
    unfolding div_div_sextet by simp_all
  have "0xFFFF < ?c" using assms(5) by (cases "a = 0") simp_all
  moreover have "?c < 0x110000" using assms(1-4,6) by (cases "a = 4") simp_all
  ultimately show ?thesis
    using assms(2-4) d div_mod_sextet [of n "a * 64 + m"] div_mod_sextet [of m a] by (simp add: scalar_value_def utf8_encode_arith)
qed

lemma ranges_encode:
  assumes "utf8_ranges b = Some rs" and "list_all2 in_range rs bs"
  shows "\<exists>cp. scalar_value cp \<and> 0x20 \<le> cp \<and> utf8_encode cp = b # bs"
proof -
  consider "0x20 \<le> b" "b \<le> 0x7F" "rs = []"
    | "0xC2 \<le> b" "b \<le> 0xDF" "rs = [(0x80, 0xBF)]"
    | l h where "0xE0 \<le> b" "b \<le> 0xEF" "rs = [(l, h), (0x80, 0xBF)]" "l = (if b = 0xE0 then 0xA0 else 0x80)"
        "h = (if b = 0xED then 0x9F else 0xBF)"
    | l h where "0xF0 \<le> b" "b \<le> 0xF4" "rs = [(l, h), (0x80, 0xBF), (0x80, 0xBF)]" "l = (if b = 0xF0 then 0x90 else 0x80)"
        "h = (if b = 0xF4 then 0x8F else 0xBF)"
    using assms(1) by (fastforce simp: utf8_ranges_def split: if_splits)
  then show ?thesis
  proof cases
    case 1
    with assms(2) have "scalar_value b \<and> utf8_encode b = b # bs" by (simp add: scalar_value_def utf8_encode_arith)
    with 1 show ?thesis by blast
  next
    case 2
    then obtain x where x: "bs = [x]" "128 \<le> x" "x \<le> 191" using assms(2) by (auto simp: list_all2_Cons1)
    obtain m where m: "x = 128 + m" "m < 64" using byte_split x by blast
    obtain a where a: "b = 192 + a" "2 \<le> a" "a < 32" using 2 that [of "b - 192"] by simp
    from encode_two [OF a(2,3) m(2)] a m x show ?thesis by (intro exI [of _ "a * 64 + m"]) simp
  next
    case 3
    then obtain x y where x: "bs = [x, y]" "l \<le> x" "x \<le> h" "128 \<le> y" "y \<le> 191"
      using assms(2) by (auto simp: list_all2_Cons1)
    then have "128 \<le> x" "x \<le> 191" using 3(4,5) by (auto split: if_splits)
    then obtain m where m: "x = 128 + m" "m < 64" using byte_split by blast
    obtain n where n: "y = 128 + n" "n < 64" using byte_split x by blast
    obtain a where a: "b = 224 + a" "a < 16" using 3 that [of "b - 224"] by simp
    have c: "a = 0 \<Longrightarrow> 32 \<le> m" "a = 13 \<Longrightarrow> m < 32" using 3 x(2,3) m a by (auto split: if_splits)
    then have "0x20 \<le> (a * 64 + m) * 64 + n" by (cases "a = 0") auto
    with encode_three [OF a(2) m(2) n(2) c] a m n x show ?thesis
      by (intro exI [of _ "(a * 64 + m) * 64 + n"]) simp
  next
    case 4
    then obtain x y z where x: "bs = [x, y, z]" "l \<le> x" "x \<le> h" "128 \<le> y" "y \<le> 191" "128 \<le> z" "z \<le> 191"
      using assms(2) by (auto simp: list_all2_Cons1)
    then have "128 \<le> x" "x \<le> 191" using 4(4,5) by (auto split: if_splits)
    then obtain m where m: "x = 128 + m" "m < 64" using byte_split by blast
    obtain n where n: "y = 128 + n" "n < 64" using byte_split x by blast
    obtain k where k: "z = 128 + k" "k < 64" using byte_split x by blast
    obtain a where a: "b = 240 + a" "a < 5" using 4 that [of "b - 240"] by simp
    have c: "a = 0 \<Longrightarrow> 16 \<le> m" "a = 4 \<Longrightarrow> m < 16" using 4 x(2,3) m a by (auto split: if_splits)
    then have "0x20 \<le> ((a * 64 + m) * 64 + n) * 64 + k" by (cases "a = 0") auto
    with encode_four [OF a(2) m(2) n(2) k(2) c] a m n k x show ?thesis
      by (intro exI [of _ "((a * 64 + m) * 64 + n) * 64 + k"]) simp
  qed
qed

section \<open>What the automaton accepts\<close>

text \<open>An incomplete state stands for the ranges of the bytes it waits for.\<close>

definition state_ranges :: "nat \<Rightarrow> (nat \<times> nat) list" where
  "state_ranges s =
     (if s = 2 then [(0x80, 0xBF)]
      else if s = 3 then [(0x80, 0xBF), (0x80, 0xBF)]
      else if s = 4 then [(0xA0, 0xBF), (0x80, 0xBF)]
      else if s = 5 then [(0x80, 0x9F), (0x80, 0xBF)]
      else if s = 6 then [(0x90, 0xBF), (0x80, 0xBF), (0x80, 0xBF)]
      else if s = 7 then [(0x80, 0xBF), (0x80, 0xBF), (0x80, 0xBF)]
      else if s = 8 then [(0x80, 0x8F), (0x80, 0xBF), (0x80, 0xBF)]
      else [])"

lemma decode_state_ranges:
  assumes "state_ranges s = r # rs" and "b < 256"
  shows "if in_range r b
    then fst (decode (s, x) b) \<noteq> UTF8_REJECT \<and> state_ranges (fst (decode (s, x) b)) = rs
      \<and> (rs = [] \<longleftrightarrow> fst (decode (s, x) b) = UTF8_ACCEPT)
    else fst (decode (s, x) b) = UTF8_REJECT"
proof -
  have "s = 2 \<or> s = 3 \<or> s = 4 \<or> s = 5 \<or> s = 6 \<or> s = 7 \<or> s = 8"
    using assms(1) by (auto simp: state_ranges_def split: if_splits)
  moreover have "state_ranges UTF8_ACCEPT = []" by (simp add: state_ranges_def UTF8_ACCEPT_def)
  ultimately show ?thesis using assms
    by (elim disjE) (auto simp: state_ranges_def decode_more)
qed

lemma decode_first_ranges:
  assumes "128 \<le> b" and "b < 256"
  shows "case utf8_ranges b of
      None \<Rightarrow> fst (decode (UTF8_ACCEPT, x) b) = UTF8_REJECT
    | Some rs \<Rightarrow> fst (decode (UTF8_ACCEPT, x) b) \<noteq> UTF8_REJECT \<and> rs \<noteq> []
        \<and> fst (decode (UTF8_ACCEPT, x) b) \<noteq> UTF8_ACCEPT \<and> state_ranges (fst (decode (UTF8_ACCEPT, x) b)) = rs"
  using assms by (auto simp: decode_start utf8_ranges_def state_ranges_def)

lemma decode_text_ranges:
  assumes "state_ranges s = rs" and "rs \<noteq> []" and "s \<noteq> UTF8_ACCEPT"
    and "fst (decode_text (s, x) w) = UTF8_ACCEPT"
  shows "\<exists>bs w' y. map of_char w = bs @ map of_char w' \<and> list_all2 in_range rs bs
    \<and> fst (decode_text (UTF8_ACCEPT, y) w') = UTF8_ACCEPT"
  using assms
proof (induction rs arbitrary: s x w)
  case (Cons r rs)
  show ?case
  proof (cases w)
    case Nil
    with Cons.prems show ?thesis by simp
  next
    case (Cons c w1)
    let ?b = "of_char c :: nat"
    obtain s1 y where d: "decode (s, x) ?b = (s1, y)" by fastforce
    have n: "s1 \<noteq> UTF8_REJECT" and rest: "fst (decode_text (s1, y) w1) = UTF8_ACCEPT"
      using Cons.prems(4) Cons d by (auto simp: Let_def split: if_splits)
    with decode_state_ranges [OF Cons.prems(1), of ?b x] d
    have r: "in_range r ?b" and s1: "state_ranges s1 = rs" "rs = [] \<longleftrightarrow> s1 = UTF8_ACCEPT"
      by (auto split: if_splits)
    show ?thesis
    proof (cases "rs = []")
      case True
      with s1 rest r Cons show ?thesis
        by (intro exI [of _ "[?b]"] exI [of _ w1] exI [of _ y]) simp
    next
      case False
      with Cons.IH [OF s1(1) False _ rest] s1(2) obtain bs w' z where
        "map of_char w1 = bs @ map of_char w'" "list_all2 in_range rs bs"
        "fst (decode_text (UTF8_ACCEPT, z) w') = UTF8_ACCEPT" by blast
      with r Cons show ?thesis by (intro exI [of _ "?b # bs"] exI [of _ w'] exI [of _ z]) simp
    qed
  qed
qed simp

lemma utf8_text_bytes: "scalar_value cp \<Longrightarrow> map of_char (utf8_text cp) = utf8_encode cp"
  using utf8_encode_bytes [of cp] by (auto simp: utf8_text_def scalar_value_def list_all_iff intro!: map_idI)

lemma map_of_char_inj: "map of_char s = (map of_char t :: nat list) \<longleftrightarrow> s = t"
  by (rule inj_map_eq_map) (simp add: inj_on_def)

lemma decodes_run:
  "decodes st bs cp \<Longrightarrow> map of_char w = bs \<Longrightarrow> decode_text st (w @ s) = decode_text (UTF8_ACCEPT, cp) s"
proof (induction st bs cp arbitrary: w rule: decodes.induct)
  case (2 st b cp)
  then show ?case by (auto simp: Let_def)
next
  case (3 st b b' bs cp)
  then obtain c w' where "w = c # w'" "of_char c = b" "map of_char w' = b' # bs" by auto
  with 3 show ?case by (simp add: Let_def)
qed simp

lemma decode_text_scalar:
  "scalar_value cp \<Longrightarrow> decode_text (UTF8_ACCEPT, x) (utf8_text cp @ s) = decode_text (UTF8_ACCEPT, cp) s"
  using decodes_run [OF decodes_encode utf8_text_bytes] by blast

lemma decode_text_split:
  assumes "fst (decode_text (UTF8_ACCEPT, x) (c # s)) = UTF8_ACCEPT"
  shows "\<exists>cp t y. scalar_value cp \<and> c # s = utf8_text cp @ t \<and> fst (decode_text (UTF8_ACCEPT, y) t) = UTF8_ACCEPT"
proof -
  let ?b = "of_char c :: nat"
  obtain s1 y where d: "decode (UTF8_ACCEPT, x) ?b = (s1, y)" by fastforce
  have n: "s1 \<noteq> UTF8_REJECT" and rest: "fst (decode_text (s1, y) s) = UTF8_ACCEPT"
    using assms d by (auto simp: Let_def split: if_splits)
  have "\<exists>cp t y. scalar_value cp \<and> map of_char (c # s) = utf8_encode cp @ map of_char t
      \<and> fst (decode_text (UTF8_ACCEPT, y) t) = UTF8_ACCEPT"
  proof (cases "?b < 128")
    case True
    with decode_head(1) [of ?b x] d have "s1 = UTF8_ACCEPT" by simp
    with rest True show ?thesis
      by (intro exI [of _ ?b] exI [of _ s] exI [of _ y]) (simp add: scalar_value_def utf8_encode_arith)
  next
    case False
    with decode_first_ranges [of ?b x] d n obtain rs where rs: "utf8_ranges ?b = Some rs" "rs \<noteq> []"
        "s1 \<noteq> UTF8_ACCEPT" "state_ranges s1 = rs"
      by (auto split: option.splits)
    from decode_text_ranges [OF rs(4,2,3) rest] obtain bs t z where t: "map of_char s = bs @ map of_char t"
        "list_all2 in_range rs bs" "fst (decode_text (UTF8_ACCEPT, z) t) = UTF8_ACCEPT" by blast
    from ranges_encode [OF rs(1) t(2)] obtain cp where "scalar_value cp" "utf8_encode cp = ?b # bs" by blast
    with t show ?thesis by (intro exI [of _ cp] exI [of _ t] exI [of _ z]) simp
  qed
  then show ?thesis
    by (metis map_append map_of_char_inj utf8_text_bytes)
qed

lemma valid_utf8_Nil [simp]: "valid_utf8 []"
  by (auto simp: valid_utf8_def intro: exI [of _ "[]"])

lemma valid_utf8_scalar:
  assumes "scalar_value cp" and "valid_utf8 s"
  shows "valid_utf8 (utf8_text cp @ s)"
proof -
  from assms(2) obtain cps where "list_all scalar_value cps" "s = concat (map utf8_text cps)"
    by (auto simp: valid_utf8_def)
  with assms(1) show ?thesis unfolding valid_utf8_def by (intro exI [of _ "cp # cps"]) simp
qed

lemma utf8_text_not_Nil [simp]: "utf8_text cp \<noteq> []"
  by (simp add: utf8_text_def utf8_encode_def)

lemma decoder_accepts_utf8: "fst (decode_text (UTF8_ACCEPT, x) s) = UTF8_ACCEPT \<longleftrightarrow> valid_utf8 s"
proof
  assume "valid_utf8 s"
  then obtain cps where "list_all scalar_value cps" "s = concat (map utf8_text cps)" by (auto simp: valid_utf8_def)
  then show "fst (decode_text (UTF8_ACCEPT, x) s) = UTF8_ACCEPT"
    by (induction cps arbitrary: s x) (auto simp: decode_text_scalar)
next
  show "fst (decode_text (UTF8_ACCEPT, x) s) = UTF8_ACCEPT \<Longrightarrow> valid_utf8 s"
  proof (induction s arbitrary: x rule: length_induct)
    case (1 s)
    show ?case
    proof (cases s)
      case (Cons c t)
      with decode_text_split [of x c t] 1(2) obtain cp u y where
        u: "scalar_value cp" "s = utf8_text cp @ u" "fst (decode_text (UTF8_ACCEPT, y) u) = UTF8_ACCEPT" by blast
      then have "length u < length s" by (cases "utf8_text cp") auto
      with 1(1) u valid_utf8_scalar show ?thesis by blast
    qed simp
  qed
qed

end
