(* ===== verification/JsonWriter.thy ===== *)
theory JsonWriter
  imports Json Utf8
begin

text \<open>
  \<open>nlohmann::json::dump\<close> as the core manager calls it, without indentation and with errors as exceptions: the class
  \<open>serializer\<close> of \<open>coremgr/external/json/json.hpp\<close>.  The output buffer of the strings is flushed whenever it is nearly full,
  which leaves the text the same, so only the text is modelled; the buffer of the numbers is a list of 64 bytes.
\<close>

unbundle bit_operations_syntax

section \<open>Strings\<close>

definition hex_digit :: "nat \<Rightarrow> char" where
  "hex_digit d = (if d < 10 then char_of_digit d else char_of (87 + d))"

text \<open>\<open>%04x\<close> of a 16-bit number.\<close>

definition hex4 :: "nat \<Rightarrow> string" where
  "hex4 n = map hex_digit [n div 4096 mod 16, n div 256 mod 16, n div 16 mod 16, n mod 16]"

definition unicode_escape :: "nat \<Rightarrow> string" where
  "unicode_escape n = [CHR 0x5C, CHR ''u''] @ hex4 n"

text \<open>What is written when a code point is complete; \<open>c\<close> is its last byte, the others are written already.\<close>

definition dump_codepoint :: "bool \<Rightarrow> nat \<Rightarrow> char \<Rightarrow> string" where
  "dump_codepoint ensure_ascii codepoint c =
     (if codepoint = 0x08 then [CHR 0x5C, CHR ''b'']
      else if codepoint = 0x09 then [CHR 0x5C, CHR ''t'']
      else if codepoint = 0x0A then [CHR 0x5C, CHR ''n'']
      else if codepoint = 0x0C then [CHR 0x5C, CHR ''f'']
      else if codepoint = 0x0D then [CHR 0x5C, CHR ''r'']
      else if codepoint = 0x22 then [CHR 0x5C, CHR 0x22]
      else if codepoint = 0x5C then [CHR 0x5C, CHR 0x5C]
      else if codepoint \<le> 0x1F \<or> (ensure_ascii \<and> 0x7F \<le> codepoint) then
        (if codepoint \<le> 0xFFFF then unicode_escape codepoint
         else unicode_escape ((0xD7C0 + drop_bit 10 codepoint) mod 2 ^ 16)
           @ unicode_escape (0xDC00 + (codepoint AND 0x3FF)))
      else [c])"

fun dump_escaped_loop :: "bool \<Rightarrow> nat \<times> nat \<Rightarrow> string \<Rightarrow> string \<Rightarrow> fault + string" where
  "dump_escaped_loop ensure_ascii st buffer [] =
     (if fst st = UTF8_ACCEPT then Inr buffer else Inl Json_error)"
| "dump_escaped_loop ensure_ascii st buffer (c # s) =
     (let st' = decode st (of_char c)
      in if fst st' = UTF8_ACCEPT then
           dump_escaped_loop ensure_ascii st' (buffer @ dump_codepoint ensure_ascii (snd st') c) s
         else if fst st' = UTF8_REJECT then Inl Json_error
         else dump_escaped_loop ensure_ascii st' (if ensure_ascii then buffer else buffer @ [c]) s)"

definition dump_escaped :: "bool \<Rightarrow> string \<Rightarrow> fault + string" where
  "dump_escaped ensure_ascii s = dump_escaped_loop ensure_ascii (UTF8_ACCEPT, 0) [] s"

section \<open>Integers\<close>

fun count_digits_loop :: "nat \<Rightarrow> nat \<Rightarrow> nat" where
  "count_digits_loop n_digits x =
     (if x < 10 then n_digits
      else if x < 100 then n_digits + 1
      else if x < 1000 then n_digits + 2
      else if x < 10000 then n_digits + 3
      else count_digits_loop (n_digits + 4) (x div 10000))"

declare count_digits_loop.simps [simp del]

definition count_digits :: "nat \<Rightarrow> nat" where
  "count_digits x = count_digits_loop 1 x"

text \<open>The digits are written backwards from position \<open>p\<close>, two at a time, with the table \<open>digits_to_99\<close>.\<close>

definition digits_to_99 :: "nat \<Rightarrow> char \<times> char" where
  "digits_to_99 n = (char_of_digit (n div 10), char_of_digit (n mod 10))"

fun fill_digits :: "nat \<Rightarrow> nat \<Rightarrow> string \<Rightarrow> string" where
  "fill_digits abs_value p buffer =
     (if 100 \<le> abs_value then
        fill_digits (abs_value div 100) (p - 2)
          (buffer[p - 1 := snd (digits_to_99 (abs_value mod 100)), p - 2 := fst (digits_to_99 (abs_value mod 100))])
      else if 10 \<le> abs_value then
        buffer[p - 1 := snd (digits_to_99 abs_value), p - 2 := fst (digits_to_99 abs_value)]
      else buffer[p - 1 := char_of_digit abs_value])"

declare fill_digits.simps [simp del]

definition remove_sign :: "int \<Rightarrow> nat" where
  "remove_sign x = nat (- (x + 1)) + 1"

definition number_buffer :: string where
  "number_buffer = replicate 64 (CHR 0x00)"

definition dump_integer :: "int \<Rightarrow> string" where
  "dump_integer x =
     (if x = 0 then ''0''
      else if x < 0 then
        (let n_chars = 1 + count_digits (remove_sign x)
         in take n_chars (fill_digits (remove_sign x) n_chars (number_buffer[0 := CHR ''-''])))
      else
        (let n_chars = count_digits (nat x)
         in take n_chars (fill_digits (nat x) n_chars number_buffer)))"

section \<open>Values\<close>

text \<open>\<open>float_text\<close> is what \<open>dump_float\<close> writes for a finite number; the core manager writes none.\<close>

fun json_text :: "(rat \<Rightarrow> string) \<Rightarrow> bool \<Rightarrow> json \<Rightarrow> fault + string"
  and json_elements :: "(rat \<Rightarrow> string) \<Rightarrow> bool \<Rightarrow> json list \<Rightarrow> fault + string"
  and json_members :: "(rat \<Rightarrow> string) \<Rightarrow> bool \<Rightarrow> (string \<times> json) list \<Rightarrow> fault + string" where
  "json_text float_text ensure_ascii (JObject kvs) =
     (if kvs = [] then Inr ''{}''
      else bind_result (json_members float_text ensure_ascii kvs) (\<lambda>s. Inr (''{'' @ s @ ''}'')))"
| "json_text float_text ensure_ascii (JArray vs) =
     (if vs = [] then Inr ''[]''
      else bind_result (json_elements float_text ensure_ascii vs) (\<lambda>s. Inr (''['' @ s @ '']'')))"
| "json_text float_text ensure_ascii (JString s) =
     bind_result (dump_escaped ensure_ascii s) (\<lambda>t. Inr ([CHR 0x22] @ t @ [CHR 0x22]))"
| "json_text float_text ensure_ascii (JBool b) = Inr (if b then ''true'' else ''false'')"
| "json_text float_text ensure_ascii (JInt n) = Inr (dump_integer n)"
| "json_text float_text ensure_ascii (JFloat x) = Inr (float_text x)"
| "json_text float_text ensure_ascii JNull = Inr ''null''"
| "json_elements float_text ensure_ascii [] = Inr []"
| "json_elements float_text ensure_ascii (v # vs) =
     bind_result (json_text float_text ensure_ascii v) (\<lambda>t.
       if vs = [] then Inr t
       else bind_result (json_elements float_text ensure_ascii vs) (\<lambda>s. Inr (t @ '','' @ s)))"
| "json_members float_text ensure_ascii [] = Inr []"
| "json_members float_text ensure_ascii ((k, v) # kvs) =
     bind_result (dump_escaped ensure_ascii k) (\<lambda>key.
     bind_result (json_text float_text ensure_ascii v) (\<lambda>t.
       let member = [CHR 0x22] @ key @ [CHR 0x22, CHR '':''] @ t
       in if kvs = [] then Inr member
          else bind_result (json_members float_text ensure_ascii kvs) (\<lambda>s. Inr (member @ '','' @ s))))"

definition json_dump :: "(rat \<Rightarrow> string) \<Rightarrow> json \<Rightarrow> fault + string" where
  "json_dump float_text j = json_text float_text False j"

section \<open>Integers are written as \<open>std::to_string\<close> writes them\<close>

lemma count_digits_loop: "count_digits_loop (n + k) x = n + count_digits_loop k x"
proof (induction k x arbitrary: n rule: count_digits_loop.induct)
  case (1 k x)
  then show ?case by (subst (1 2) count_digits_loop.simps) (auto simp: add.assoc)
qed

lemma nat_to_string_snoc:
  "10 \<le> n \<Longrightarrow> nat_to_string n = nat_to_string (n div 10) @ [char_of_digit (n mod 10)]"
  by (subst nat_to_string.simps) simp

lemma nat_to_string_digit: "n < 10 \<Longrightarrow> nat_to_string n = [char_of_digit n]"
  by (subst nat_to_string.simps) simp

lemma count_digits: "count_digits x = length (nat_to_string x)"
proof (induction x rule: less_induct)
  case (less x)
  have four: "x \<ge> 10000 \<Longrightarrow> length (nat_to_string x) = length (nat_to_string (x div 10000)) + 4"
    by (simp add: nat_to_string_snoc [of x] nat_to_string_snoc [of "x div 10"] nat_to_string_snoc [of "x div 100"]
        nat_to_string_snoc [of "x div 1000"] div_mult2_eq [symmetric])
  show ?case
  proof (cases "x < 10000")
    case True
    then show ?thesis
      by (auto simp: count_digits_def count_digits_loop.simps [of "Suc 0" x] nat_to_string.simps [of x] nat_to_string.simps [of "x div 10"]
          nat_to_string.simps [of "x div 10 div 10"] nat_to_string.simps [of "x div 10 div 10 div 10"])
  next
    case False
    then have "count_digits x = count_digits_loop (4 + 1) (x div 10000)"
      by (simp add: count_digits_def count_digits_loop.simps [of "Suc 0" x])
    also have "\<dots> = 4 + count_digits (x div 10000)" by (simp only: count_digits_loop count_digits_def)
    also have "\<dots> = 4 + length (nat_to_string (x div 10000))" using False less.IH [of "x div 10000"] by simp
    finally show ?thesis using False four by simp
  qed
qed

text \<open>The loop fills the bytes before position \<open>p\<close> with the digits.\<close>

lemma take_upd_two:
  assumes "2 \<le> p" and "p \<le> length buf"
  shows "buf[p - 1 := b, p - 2 := a] = take (p - 2) buf @ [a, b] @ drop p buf"
proof -
  obtain q where q: "p = Suc (Suc q)" using assms(1) by (metis add_2_eq_Suc le_Suc_ex)
  have buf: "buf = take q buf @ [buf ! q, buf ! Suc q] @ drop p buf"
    using assms(2) unfolding q
    by (metis Cons_nth_drop_Suc Suc_le_lessD append_Cons append_Nil append_take_drop_id less_SucI less_Suc_eq_le Suc_leD)
  have l: "length (take q buf) = q" using assms(2) q by simp
  have "(take q buf @ [buf ! q, buf ! Suc q] @ drop p buf)[p - 1 := b, p - 2 := a] = take q buf @ [a, b] @ drop p buf"
    using l unfolding q by (simp add: list_update_append)
  with buf show ?thesis using q by simp
qed

lemma splice_digits:
  assumes "length (ds @ [a, b]) \<le> p" and "p \<le> length buf"
  shows "take (p - 2 - length ds) (take (p - 2) buf @ [a, b] @ drop p buf) @ ds
      @ drop (p - 2) (take (p - 2) buf @ [a, b] @ drop p buf)
    = take (p - length (ds @ [a, b])) buf @ (ds @ [a, b]) @ drop p buf"
proof -
  have l: "length (take (p - 2) buf) = p - 2" using assms(2) by simp
  have "take (p - 2 - length ds) (take (p - 2) buf @ [a, b] @ drop p buf) = take (p - length (ds @ [a, b])) buf"
    using l by (simp add: min_absorb1)
  moreover have "drop (p - 2) (take (p - 2) buf @ [a, b] @ drop p buf) = [a, b] @ drop p buf"
    using l by simp
  ultimately show ?thesis by simp
qed

lemma fill_digits:
  assumes "length (nat_to_string n) \<le> p" and "p \<le> length buf"
  shows "fill_digits n p buf = take (p - length (nat_to_string n)) buf @ nat_to_string n @ drop p buf"
  using assms
proof (induction n p buf rule: fill_digits.induct)
  case (1 n p buf)
  consider "n < 10" | "10 \<le> n" "n < 100" | "100 \<le> n" by linarith
  then show ?case
  proof cases
    case 1
    then have "nat_to_string n = [char_of_digit n]" by (rule nat_to_string_digit)
    with 1 "1.prems" show ?thesis
      by (subst fill_digits.simps) (simp add: upd_conv_take_nth_drop)
  next
    case 2
    then have "n div 10 < 10" by simp
    then have n: "nat_to_string n = [fst (digits_to_99 n), snd (digits_to_99 n)]"
      using 2 by (simp add: nat_to_string_snoc [of n] nat_to_string_digit digits_to_99_def)
    have "2 \<le> p" using "1.prems"(1) n by simp
    from take_upd_two [OF this "1.prems"(2)] show ?thesis
      using 2 n by (subst fill_digits.simps) (simp add: numeral_2_eq_2)
  next
    case 3
    have "nat_to_string n = nat_to_string (n div 100) @ [char_of_digit (n div 10 mod 10), char_of_digit (n mod 10)]"
      using 3 by (simp add: nat_to_string_snoc [of n] nat_to_string_snoc [of "n div 10"] div_mult2_eq [symmetric])
    moreover have "n mod 100 div 10 = n div 10 mod 10" "n mod 100 mod 10 = n mod 10"
      by (simp_all add: mod_mult2_eq [of n 10 10, simplified] mod_mod_cancel)
    ultimately have n: "nat_to_string n = nat_to_string (n div 100) @ [fst (digits_to_99 (n mod 100)), snd (digits_to_99 (n mod 100))]"
      by (simp add: digits_to_99_def)
    let ?buf = "buf[p - 1 := snd (digits_to_99 (n mod 100)), p - 2 := fst (digits_to_99 (n mod 100))]"
    have p: "2 \<le> p" using "1.prems"(1) n by simp
    have buf: "?buf = take (p - 2) buf @ [fst (digits_to_99 (n mod 100)), snd (digits_to_99 (n mod 100))] @ drop p buf"
      using take_upd_two [OF p "1.prems"(2)] by blast
    have "fill_digits (n div 100) (p - 2) ?buf
        = take (p - 2 - length (nat_to_string (n div 100))) ?buf @ nat_to_string (n div 100) @ drop (p - 2) ?buf"
      by (rule "1.IH" [OF 3]) (use "1.prems" n in simp_all)
    also have "\<dots> = take (p - length (nat_to_string n)) buf @ nat_to_string n @ drop p buf"
      using "1.prems" unfolding buf n by (rule splice_digits)
    finally show ?thesis using 3 by (subst fill_digits.simps) simp
  qed
qed

lemma nat_to_string_length_le:
  "n < 10 ^ k \<Longrightarrow> 0 < k \<Longrightarrow> length (nat_to_string n) \<le> k"
proof (induction k arbitrary: n)
  case (Suc k)
  show ?case
  proof (cases "n < 10")
    case True
    then show ?thesis by (simp add: nat_to_string.simps [of n])
  next
    case False
    with Suc.prems have "n div 10 < 10 ^ k" by (simp add: less_mult_imp_div_less mult.commute)
    moreover have "0 < k" using False Suc.prems by (cases k) simp_all
    ultimately show ?thesis using False Suc.IH [of "n div 10"] by (simp add: nat_to_string_snoc)
  qed
qed simp

text \<open>The buffer is large enough for every 64-bit number and its sign.\<close>

lemma dump_integer_eq:
  assumes "- (2 ^ 63) \<le> x" and "x < 2 ^ 64"
  shows "dump_integer x = int_to_string x" and "length (dump_integer x) < 63"
proof -
  have le: "length (nat_to_string n) \<le> 20" if "n < 2 ^ 64" for n
    by (rule nat_to_string_length_le) (use that in simp_all)
  have sign: "remove_sign x = nat (- x)" if "x < 0" using that by (simp add: remove_sign_def nat_add_distrib [symmetric])
  have "nat (- x) < 2 ^ 64" "nat x < 2 ^ 64" using assms by simp_all
  note l = this [THEN le]
  have "take (Suc 0) (number_buffer[0 := CHR ''-'']) = ''-''" by (simp add: number_buffer_def numeral_eq_Suc)
  moreover have "nat_to_string 0 = ''0''" by code_simp
  moreover have "length number_buffer = 64" by (simp add: number_buffer_def)
  ultimately show e: "dump_integer x = int_to_string x"
    using l sign by (simp add: dump_integer_def int_to_string_def Let_def count_digits fill_digits)
  show "length (dump_integer x) < 63" unfolding e using l by (simp add: int_to_string_def)
qed

end
