(* ===== verification/JsonLexer.thy ===== *)
theory JsonLexer
  imports JsonWriter
begin

text \<open>
  The class \<open>lexer\<close> of \<open>coremgr/external/json/json.hpp\<close>.  Its input is the text that is left; \<open>get\<close> takes a character,
  or end of file when there is none, and \<open>unget\<close> leaves it there.  A scan returns its token with the value the getters
  would give, and the text after it.  The parser stops at the first error, so after one no text is left.
\<close>

unbundle bit_operations_syntax

datatype token_type =
    Literal_true
  | Literal_false
  | Literal_null
  | Value_string string
  | Value_unsigned nat
  | Value_integer int
  | Value_float "rat option"
  | Begin_array
  | Begin_object
  | End_array
  | End_object
  | Name_separator
  | Value_separator
  | Parse_error
  | End_of_input

section \<open>Strings\<close>

definition hex_value :: "nat \<Rightarrow> nat option" where
  "hex_value current =
     (if 0x30 \<le> current \<and> current \<le> 0x39 then Some (current - 0x30)
      else if 0x41 \<le> current \<and> current \<le> 0x46 then Some (current - 0x37)
      else if 0x61 \<le> current \<and> current \<le> 0x66 then Some (current - 0x57)
      else None)"

fun codepoint_loop :: "nat list \<Rightarrow> nat \<Rightarrow> string \<Rightarrow> (nat \<times> string) option" where
  "codepoint_loop [] codepoint s = Some (codepoint, s)"
| "codepoint_loop (factor # factors) codepoint [] = None"
| "codepoint_loop (factor # factors) codepoint (c # s) =
     (case hex_value (of_char c) of
        None \<Rightarrow> None
      | Some d \<Rightarrow> codepoint_loop factors (codepoint + push_bit factor d) s)"

definition get_codepoint :: "string \<Rightarrow> (nat \<times> string) option" where
  "get_codepoint s = codepoint_loop [12, 8, 4, 0] 0 s"

text \<open>After \<open>\u\<close>: a code point, or two surrogates that stand for one.\<close>

definition scan_unicode :: "string \<Rightarrow> (string \<times> string) option" where
  "scan_unicode s =
     (case get_codepoint s of
        None \<Rightarrow> None
      | Some (codepoint1, s1) \<Rightarrow>
          if 0xD800 \<le> codepoint1 \<and> codepoint1 \<le> 0xDBFF then
            (if take 2 s1 = [CHR 0x5C, CHR ''u''] then
               (case get_codepoint (drop 2 s1) of
                  None \<Rightarrow> None
                | Some (codepoint2, s2) \<Rightarrow>
                    if 0xDC00 \<le> codepoint2 \<and> codepoint2 \<le> 0xDFFF
                    then Some (utf8_text (push_bit 10 codepoint1 + codepoint2 - 0x35FDC00), s2)
                    else None)
             else None)
          else if 0xDC00 \<le> codepoint1 \<and> codepoint1 \<le> 0xDFFF then None
          else Some (utf8_text codepoint1, s1))"

text \<open>After a backslash.\<close>

definition scan_escape :: "string \<Rightarrow> (string \<times> string) option" where
  "scan_escape s =
     (case s of
        [] \<Rightarrow> None
      | c # s \<Rightarrow>
          if c = CHR 0x22 then Some ([CHR 0x22], s)
          else if c = CHR 0x5C then Some ([CHR 0x5C], s)
          else if c = CHR ''/'' then Some (''/'', s)
          else if c = CHR ''b'' then Some ([CHR 0x08], s)
          else if c = CHR ''f'' then Some ([CHR 0x0C], s)
          else if c = CHR ''n'' then Some ([CHR 0x0A], s)
          else if c = CHR ''r'' then Some ([CHR 0x0D], s)
          else if c = CHR ''t'' then Some ([CHR 0x09], s)
          else if c = CHR ''u'' then scan_unicode s
          else None)"

fun next_byte_in_range :: "(nat \<times> nat) list \<Rightarrow> string \<Rightarrow> (string \<times> string) option" where
  "next_byte_in_range [] s = Some ([], s)"
| "next_byte_in_range (r # rs) [] = None"
| "next_byte_in_range (r # rs) (c # s) =
     (if in_range r (of_char c)
      then (case next_byte_in_range rs s of None \<Rightarrow> None | Some (t, s') \<Rightarrow> Some (c # t, s'))
      else None)"

lemma codepoint_loop_length: "codepoint_loop fs cp s = Some (cp', s') \<Longrightarrow> length s' \<le> length s"
  by (induction fs cp s rule: codepoint_loop.induct) (auto split: option.splits)

lemma get_codepoint_length: "get_codepoint s = Some (cp, s') \<Longrightarrow> length s' \<le> length s"
  by (auto simp: get_codepoint_def dest: codepoint_loop_length)

lemma scan_escape_length: "scan_escape s = Some (t, s') \<Longrightarrow> length s' < length s"
  by (fastforce simp: scan_escape_def scan_unicode_def dest: get_codepoint_length split: list.splits if_splits option.splits)

lemma next_byte_in_range_length: "next_byte_in_range rs s = Some (t, s') \<Longrightarrow> length s' \<le> length s"
  by (induction rs s arbitrary: t rule: next_byte_in_range.induct) (fastforce split: if_splits option.splits)+

function scan_string_loop :: "string \<Rightarrow> string \<Rightarrow> (string \<times> string) option" where
  "scan_string_loop token_buffer [] = None"
| "scan_string_loop token_buffer (c # s) =
     (if c = CHR 0x22 then Some (token_buffer, s)
      else if c = CHR 0x5C then
        (case scan_escape s of
           None \<Rightarrow> None
         | Some (t, s') \<Rightarrow> scan_string_loop (token_buffer @ t) s')
      else
        (case utf8_ranges (of_char c) of
           None \<Rightarrow> None
         | Some rs \<Rightarrow>
             (case next_byte_in_range rs s of
                None \<Rightarrow> None
              | Some (t, s') \<Rightarrow> scan_string_loop (token_buffer @ c # t) s')))"
  by pat_completeness auto
termination
  by (relation "measure (\<lambda>(token_buffer, s). length s)")
    (auto dest: scan_escape_length next_byte_in_range_length simp: less_Suc_eq_le less_imp_le)

definition scan_string :: "string \<Rightarrow> token_type \<times> string" where
  "scan_string s =
     (case scan_string_loop [] s of
        None \<Rightarrow> (Parse_error, [])
      | Some (t, s') \<Rightarrow> (Value_string t, s'))"

section \<open>Numbers\<close>

text \<open>The states of \<open>scan_number\<close>, which are labels there, and where a character leads.\<close>

datatype number_state =
    Number_minus
  | Number_zero
  | Number_any1
  | Number_decimal1
  | Number_decimal2
  | Number_exponent
  | Number_sign
  | Number_any2

datatype number_type = Number_unsigned | Number_integer | Number_float

definition number_init :: "char \<Rightarrow> number_state" where
  "number_init c = (if c = CHR ''-'' then Number_minus else if c = CHR ''0'' then Number_zero else Number_any1)"

definition number_step :: "number_state \<Rightarrow> char \<Rightarrow> number_state option" where
  "number_step st c =
     (let digit = digit_of c \<noteq> None;
          exponent = (c = CHR ''e'' \<or> c = CHR ''E'')
      in case st of
           Number_minus \<Rightarrow> if c = CHR ''0'' then Some Number_zero else if digit then Some Number_any1 else None
         | Number_zero \<Rightarrow>
             if c = CHR ''.'' then Some Number_decimal1 else if exponent then Some Number_exponent else None
         | Number_any1 \<Rightarrow>
             if digit then Some Number_any1
             else if c = CHR ''.'' then Some Number_decimal1 else if exponent then Some Number_exponent else None
         | Number_decimal1 \<Rightarrow> if digit then Some Number_decimal2 else None
         | Number_decimal2 \<Rightarrow>
             if digit then Some Number_decimal2 else if exponent then Some Number_exponent else None
         | Number_exponent \<Rightarrow>
             if c = CHR ''+'' \<or> c = CHR ''-'' then Some Number_sign
             else if digit then Some Number_any2 else None
         | Number_sign \<Rightarrow> if digit then Some Number_any2 else None
         | Number_any2 \<Rightarrow> if digit then Some Number_any2 else None)"

text \<open>Where no character leads further: is the number done, or is this an error?\<close>

definition number_done :: "number_state \<Rightarrow> bool" where
  "number_done st \<longleftrightarrow> st \<in> {Number_zero, Number_any1, Number_decimal2, Number_any2}"

text \<open>What entering a state does to the type of the number.\<close>

definition number_type_in :: "number_state \<Rightarrow> number_type \<Rightarrow> number_type" where
  "number_type_in st ty =
     (case st of
        Number_minus \<Rightarrow> Number_integer
      | Number_decimal1 \<Rightarrow> Number_float
      | Number_exponent \<Rightarrow> Number_float
      | _ \<Rightarrow> ty)"

fun scan_number_loop ::
    "number_state \<Rightarrow> number_type \<Rightarrow> string \<Rightarrow> string \<Rightarrow> (number_type \<times> string \<times> string) option" where
  "scan_number_loop st ty token_buffer [] =
     (if number_done st then Some (number_type_in st ty, token_buffer, []) else None)"
| "scan_number_loop st ty token_buffer (c # s) =
     (case number_step st c of
        Some st' \<Rightarrow> scan_number_loop st' (number_type_in st ty) (token_buffer @ [c]) s
      | None \<Rightarrow> if number_done st then Some (number_type_in st ty, token_buffer, c # s) else None)"

text \<open>\<open>strtod\<close>: the double nearest to the decimal number, \<open>None\<close> for an infinite one.\<close>

definition ulp64 :: "rat \<Rightarrow> rat" where
  "ulp64 x = pow2 (max (rat_exponent \<bar>x\<bar>) (- 1022) - 52)"

definition round64 :: "rat \<Rightarrow> rat option" where
  "round64 x =
     (if x = 0 then Some 0
      else let v = of_int (round_half_even (\<bar>x\<bar> / ulp64 x)) * ulp64 x
           in if 2 ^ 1024 \<le> v then None else Some (if x < 0 then - v else v))"

definition strtod :: "string \<Rightarrow> rat option" where
  "strtod s =
     (case split_sign s of
        (neg, ds) \<Rightarrow>
          (case scan_number ds of
             Some (Finite x) \<Rightarrow> round64 (if neg then - x else x)
           | _ \<Rightarrow> None))"

text \<open>\<open>strtoull\<close> and \<open>strtoll\<close>, \<open>None\<close> where they set \<open>ERANGE\<close>.\<close>

definition strtoull :: "string \<Rightarrow> nat option" where
  "strtoull s = (let n = scan_digits 0 s in if n < 2 ^ 64 then Some n else None)"

definition strtoll :: "string \<Rightarrow> int option" where
  "strtoll s =
     (case split_sign s of
        (neg, ds) \<Rightarrow>
          (let v = int (scan_digits 0 ds); n = (if neg then - v else v)
           in if - (2 ^ 63) \<le> n \<and> n < 2 ^ 63 then Some n else None))"

definition number_token :: "number_type \<Rightarrow> string \<Rightarrow> token_type" where
  "number_token ty token_buffer =
     (case ty of
        Number_unsigned \<Rightarrow>
          (case strtoull token_buffer of Some n \<Rightarrow> Value_unsigned n | None \<Rightarrow> Value_float (strtod token_buffer))
      | Number_integer \<Rightarrow>
          (case strtoll token_buffer of Some n \<Rightarrow> Value_integer n | None \<Rightarrow> Value_float (strtod token_buffer))
      | Number_float \<Rightarrow> Value_float (strtod token_buffer))"

definition json_scan_number :: "char \<Rightarrow> string \<Rightarrow> token_type \<times> string" where
  "json_scan_number c s =
     (case scan_number_loop (number_init c) Number_unsigned [c] s of
        None \<Rightarrow> (Parse_error, [])
      | Some (ty, token_buffer, s') \<Rightarrow> (number_token ty token_buffer, s'))"

section \<open>Tokens\<close>

definition scan_literal :: "string \<Rightarrow> token_type \<Rightarrow> string \<Rightarrow> token_type \<times> string" where
  "scan_literal literal_text return_type s =
     (if take (length literal_text - 1) s = tl literal_text
      then (return_type, drop (length literal_text - 1) s) else (Parse_error, []))"

definition skip_bom :: "string \<Rightarrow> string option" where
  "skip_bom s =
     (case s of
        [] \<Rightarrow> Some []
      | c # s' \<Rightarrow>
          if c = CHR 0xEF then (if take 2 s' = [CHR 0xBB, CHR 0xBF] then Some (drop 2 s') else None) else Some s)"

definition is_whitespace :: "char \<Rightarrow> bool" where
  "is_whitespace c \<longleftrightarrow> c = CHR '' '' \<or> c = CHR 0x09 \<or> c = CHR 0x0A \<or> c = CHR 0x0D"

text \<open>A null byte ends the input like the end of file.  Comments are not enabled.\<close>

definition scan :: "string \<Rightarrow> token_type \<times> string" where
  "scan s =
     (case dropWhile is_whitespace s of
        [] \<Rightarrow> (End_of_input, [])
      | c # s \<Rightarrow>
          if c = CHR ''['' then (Begin_array, s)
          else if c = CHR '']'' then (End_array, s)
          else if c = CHR ''{'' then (Begin_object, s)
          else if c = CHR ''}'' then (End_object, s)
          else if c = CHR '':'' then (Name_separator, s)
          else if c = CHR '','' then (Value_separator, s)
          else if c = CHR ''t'' then scan_literal ''true'' Literal_true s
          else if c = CHR ''f'' then scan_literal ''false'' Literal_false s
          else if c = CHR ''n'' then scan_literal ''null'' Literal_null s
          else if c = CHR 0x22 then scan_string s
          else if c = CHR ''-'' \<or> digit_of c \<noteq> None then json_scan_number c s
          else if c = CHR 0x00 then (End_of_input, s)
          else (Parse_error, []))"

lemma scan_string_loop_length:
  "scan_string_loop buf s = Some (t, s') \<Longrightarrow> length s' < length s"
  by (induction buf s rule: scan_string_loop.induct)
    (fastforce dest: scan_escape_length next_byte_in_range_length split: if_splits option.splits)+

lemma scan_number_loop_length:
  "scan_number_loop st ty buf s = Some (ty', t, s') \<Longrightarrow> length s' \<le> length s"
  by (induction st ty buf s rule: scan_number_loop.induct) (fastforce split: if_splits option.splits)+

lemma scan_parts_length:
  "scan_string s = (t, s') \<Longrightarrow> length s' \<le> length s"
  "json_scan_number c s = (t, s') \<Longrightarrow> length s' \<le> length s"
  "scan_literal l r s = (t, s') \<Longrightarrow> length s' \<le> length s"
  by (auto simp: scan_string_def json_scan_number_def scan_literal_def
      dest: scan_string_loop_length scan_number_loop_length split: if_splits option.splits)

text \<open>Every token but the end takes at least a character.\<close>

lemma scan_Cons_length:
  assumes "dropWhile is_whitespace s = c # r" and "scan s = (t, s')"
  shows "length s' \<le> length r"
  using assms(2) scan_parts_length unfolding scan_def assms(1) list.case
  by (auto split: if_split_asm)

lemma scan_length:
  assumes "scan s = (t, s')"
  shows "length s' \<le> length s" and "t \<noteq> End_of_input \<Longrightarrow> length s' < length s"
proof -
  have l: "length (dropWhile is_whitespace s) \<le> length s" by (rule length_dropWhile_le)
  have "length s' \<le> length s \<and> (t \<noteq> End_of_input \<longrightarrow> length s' < length s)"
  proof (cases "dropWhile is_whitespace s")
    case (Cons c r)
    with l scan_Cons_length [OF Cons assms] show ?thesis by simp
  next
    case Nil
    then show ?thesis using assms unfolding scan_def Nil list.case by auto
  qed
  then show "length s' \<le> length s" and "t \<noteq> End_of_input \<Longrightarrow> length s' < length s" by blast+
qed

end
