(* ===== verification/JsonParser.thy ===== *)
theory JsonParser
  imports JsonLexer
begin

text \<open>
  The class \<open>parser\<close> of \<open>coremgr/external/json/json.hpp\<close> with the builder \<open>json_sax_dom_parser\<close>: \<open>parse\<close> as the core
  manager calls it, with exceptions and without comments or trailing commas.  The parser's stack of states and the
  builder's stack of references are one stack of frames: the elements of an array so far, or the members of an object
  so far and the key whose value comes.  A value joins its frame when it is complete, where the code fills it in place.
\<close>

datatype json_frame = In_array "json list" | In_object "(string \<times> json) list" string

text \<open>Twice the text that is left, and one for a token that is still to be looked at.\<close>

definition token_weight :: "token_type \<times> string \<Rightarrow> nat" where
  "token_weight ts = 2 * length (snd ts) + (if fst ts = End_of_input then 0 else 2)"

lemma scan_weight: "token_weight (scan s) \<le> 2 * length s"
proof -
  obtain t s' where "scan s = (t, s')" by fastforce
  from scan_length [OF this] this show ?thesis by (auto simp: token_weight_def)
qed

lemma scan_smaller: "(t, s') = scan s \<Longrightarrow> t \<noteq> End_of_input \<Longrightarrow> length s' < length s"
  using scan_length(2) [of s t s'] by simp

section \<open>Parsing\<close>

text \<open>\<open>sax_parse_internal\<close>: at a token that starts a value, and after a value is complete.\<close>

function parse_value :: "token_type \<times> string \<Rightarrow> json_frame list \<Rightarrow> fault + json \<times> string"
  and value_done :: "json \<Rightarrow> string \<Rightarrow> json_frame list \<Rightarrow> fault + json \<times> string" where
  "parse_value (t, s) states =
     (case t of
        Begin_object \<Rightarrow>
          (case scan s of
             (End_object, s1) \<Rightarrow> value_done (JObject []) s1 states
           | (Value_string k, s1) \<Rightarrow>
               (case scan s1 of
                  (Name_separator, s2) \<Rightarrow> parse_value (scan s2) (In_object [] k # states)
                | _ \<Rightarrow> Inl Json_error)
           | _ \<Rightarrow> Inl Json_error)
      | Begin_array \<Rightarrow>
          (case scan s of
             (t1, s1) \<Rightarrow>
               if t1 = End_array then value_done (JArray []) s1 states
               else parse_value (t1, s1) (In_array [] # states))
      | Value_float x \<Rightarrow> (case x of None \<Rightarrow> Inl Json_error | Some x \<Rightarrow> value_done (JFloat x) s states)
      | Literal_false \<Rightarrow> value_done (JBool False) s states
      | Literal_null \<Rightarrow> value_done JNull s states
      | Literal_true \<Rightarrow> value_done (JBool True) s states
      | Value_integer n \<Rightarrow> value_done (JInt n) s states
      | Value_string x \<Rightarrow> value_done (JString x) s states
      | Value_unsigned n \<Rightarrow> value_done (JInt (int n)) s states
      | _ \<Rightarrow> Inl Json_error)"
| "value_done v s [] = Inr (v, s)"
| "value_done v s (In_array vs # states) =
     (case scan s of
        (Value_separator, s1) \<Rightarrow> parse_value (scan s1) (In_array (vs @ [v]) # states)
      | (End_array, s1) \<Rightarrow> value_done (JArray (vs @ [v])) s1 states
      | _ \<Rightarrow> Inl Json_error)"
| "value_done v s (In_object kvs k # states) =
     (case scan s of
        (Value_separator, s1) \<Rightarrow>
          (case scan s1 of
             (Value_string k', s2) \<Rightarrow>
               (case scan s2 of
                  (Name_separator, s3) \<Rightarrow> parse_value (scan s3) (In_object (object_update k v kvs) k' # states)
                | _ \<Rightarrow> Inl Json_error)
           | _ \<Rightarrow> Inl Json_error)
      | (End_object, s1) \<Rightarrow> value_done (JObject (object_update k v kvs)) s1 states
      | _ \<Rightarrow> Inl Json_error)"
  by pat_completeness auto

termination
proof (relation "measure (\<lambda>x. case x of Inl (ts, states) \<Rightarrow> token_weight ts | Inr (v, s, states) \<Rightarrow> 2 * length s + 1)",
    goal_cases)
qed (auto simp: token_weight_def [of "(_, _)"] dest!: scan_smaller intro!: le_less_trans [OF scan_weight])

declare parse_value.simps [simp del]

definition json_parse :: "string \<Rightarrow> fault + json" where
  "json_parse s =
     (case skip_bom s of
        None \<Rightarrow> Inl Json_error
      | Some s1 \<Rightarrow>
          bind_result (parse_value (scan s1) []) (\<lambda>(v, s2).
            if fst (scan s2) = End_of_input then Inr v else Inl Json_error))"

end
