(* ===== verification/JsonGrammar.thy ===== *)
theory JsonGrammar
  imports JsonParser
begin

text \<open>
  The grammar of JSON over the tokens of the lexer, with the value each phrase stands for, and the parser against it:
  \<open>parse\<close>, which keeps a stack and looks one token ahead, gives a value exactly when the grammar does.
\<close>

section \<open>The grammar\<close>

text \<open>Of members with the same key the last one counts.\<close>

definition object_of :: "(string \<times> json) list \<Rightarrow> (string \<times> json) list \<Rightarrow> (string \<times> json) list" where
  "object_of kvs kvs0 = fold (\<lambda>(k, v). object_update k v) kvs kvs0"

lemma object_of_Cons [simp]: "object_of ((k, v) # kvs) kvs0 = object_of kvs (object_update k v kvs0)"
  by (simp add: object_of_def)

lemma object_of_Nil [simp]: "object_of [] kvs0 = kvs0"
  by (simp add: object_of_def)

inductive grammar_value :: "token_type list \<Rightarrow> json \<Rightarrow> bool"
  and grammar_values :: "token_type list \<Rightarrow> json list \<Rightarrow> bool"
  and grammar_pairs :: "token_type list \<Rightarrow> (string \<times> json) list \<Rightarrow> bool" where
  Value_true: "grammar_value [Literal_true] (JBool True)"
| Value_false: "grammar_value [Literal_false] (JBool False)"
| Value_null: "grammar_value [Literal_null] JNull"
| Value_text: "grammar_value [Value_string x] (JString x)"
| Value_nat: "grammar_value [Value_unsigned n] (JInt (int n))"
| Value_int: "grammar_value [Value_integer i] (JInt i)"
| Value_number: "grammar_value [Value_float (Some x)] (JFloat x)"
| Empty_array: "grammar_value [Begin_array, End_array] (JArray [])"
| Array: "grammar_values ts vs \<Longrightarrow> grammar_value (Begin_array # ts @ [End_array]) (JArray vs)"
| Empty_object: "grammar_value [Begin_object, End_object] (JObject [])"
| Object: "grammar_pairs ts kvs \<Longrightarrow> grammar_value (Begin_object # ts @ [End_object]) (JObject (object_of kvs []))"
| Last_value: "grammar_value ts v \<Longrightarrow> grammar_values ts [v]"
| Next_value: "grammar_value ts v \<Longrightarrow> grammar_values us vs \<Longrightarrow> grammar_values (ts @ Value_separator # us) (v # vs)"
| Last_pair: "grammar_value ts v \<Longrightarrow> grammar_pairs (Value_string k # Name_separator # ts) [(k, v)]"
| Next_pair: "grammar_value ts v \<Longrightarrow> grammar_pairs us kvs
    \<Longrightarrow> grammar_pairs (Value_string k # Name_separator # ts @ Value_separator # us) ((k, v) # kvs)"

text \<open>The tokens of a text, up to some rest of it.\<close>

fun scans :: "string \<Rightarrow> token_type list \<Rightarrow> string \<Rightarrow> bool" where
  "scans s [] r \<longleftrightarrow> s = r"
| "scans s (t # ts) r \<longleftrightarrow> (\<exists>s1. scan s = (t, s1) \<and> scans s1 ts r)"

lemma scans_append: "scans s (ts @ us) r \<longleftrightarrow> (\<exists>q. scans s ts q \<and> scans q us r)"
  by (induction ts arbitrary: s) auto

section \<open>Every phrase is parsed\<close>

lemma first_token:
  "grammar_value ts v \<Longrightarrow> \<exists>t us. ts = t # us \<and> t \<noteq> End_array \<and> t \<noteq> End_object"
  "grammar_values ts vs \<Longrightarrow> \<exists>t us. ts = t # us \<and> t \<noteq> End_array \<and> t \<noteq> End_object"
  "grammar_pairs ts kvs \<Longrightarrow> \<exists>us. ts = Value_string (fst (hd kvs)) # Name_separator # us"
  by (induction rule: grammar_value_grammar_values_grammar_pairs.inducts) auto

lemma grammar_parsed:
  "grammar_value ts v \<Longrightarrow> (\<And>s r states. scans s ts r \<Longrightarrow> parse_value (scan s) states = value_done v r states)"
  "grammar_values ts vs \<Longrightarrow> (\<And>s r acc states. scans s (ts @ [End_array]) r \<Longrightarrow>
     parse_value (scan s) (In_array acc # states) = value_done (JArray (acc @ vs)) r states)"
  "grammar_pairs ts kvs \<Longrightarrow> (\<And>s q r acc k states. scans s (ts @ [End_object]) r \<Longrightarrow>
     scans s [Value_string k, Name_separator] q \<Longrightarrow>
     parse_value (scan q) (In_object acc k # states) = value_done (JObject (object_of kvs acc)) r states)"
proof (induction rule: grammar_value_grammar_values_grammar_pairs.inducts)
  case (Array ts vs)
  obtain t us where t: "ts = t # us" "t \<noteq> End_array" using first_token(2) [OF Array.hyps] by blast
  from Array.prems obtain s1 where s: "scan s = (Begin_array, s1)" and e: "scans s1 (ts @ [End_array]) r" by auto
  from e t obtain s2 where "scan s1 = (t, s2)" by auto
  with Array.IH [OF e, of "[]" states] t(2) s show ?case by (simp add: parse_value.simps [of Begin_array])
next
  case (Object ts kvs)
  obtain us where t: "ts = Value_string (fst (hd kvs)) # Name_separator # us" using first_token(3) [OF Object.hyps] by blast
  from Object.prems obtain s1 where s: "scan s = (Begin_object, s1)" and m: "scans s1 (ts @ [End_object]) r" by auto
  from m t obtain s2 s3 where e: "scan s1 = (Value_string (fst (hd kvs)), s2)" "scan s2 = (Name_separator, s3)" by auto
  then have "scans s1 [Value_string (fst (hd kvs)), Name_separator] s3" by simp
  from Object.IH [OF m this, of "[]" states] e s show ?case by (simp add: parse_value.simps [of Begin_object])
next
  case (Next_value ts v us vs)
  from Next_value.prems obtain q s1 where q: "scans s ts q" "scan q = (Value_separator, s1)" "scans s1 (us @ [End_array]) r"
    by (auto simp: scans_append)
  from Next_value.IH(1) [OF q(1)] Next_value.IH(2) [OF q(3), of "acc @ [v]" states] q(2) show ?case by simp
next
  case (Next_pair ts v us kvs k')
  from Next_pair.prems have k: "k' = k" and "scans q (ts @ Value_separator # us @ [End_object]) r" by auto
  then obtain p s1 where p: "scans q ts p" "scan p = (Value_separator, s1)" "scans s1 (us @ [End_object]) r"
    unfolding scans_append [of q ts] by auto
  obtain ws where "us = Value_string (fst (hd kvs)) # Name_separator # ws" using first_token(3) [OF Next_pair.hyps(2)] by blast
  with p(3) obtain s2 s3 where e: "scan s1 = (Value_string (fst (hd kvs)), s2)" "scan s2 = (Name_separator, s3)" by auto
  then have "scans s1 [Value_string (fst (hd kvs)), Name_separator] s3" by simp
  from Next_pair.IH(1) [OF p(1)] Next_pair.IH(2) [OF p(3) this, of "object_update k v acc" states] k p(2) e show ?case
    by simp
qed (auto simp: scans_append parse_value.simps)

section \<open>Everything that is parsed is a phrase\<close>

text \<open>The tokens that complete a value inside the frames of a stack, and the value of the whole.\<close>

inductive completes :: "json_frame list \<Rightarrow> json \<Rightarrow> token_type list \<Rightarrow> json \<Rightarrow> bool" where
  Complete: "completes [] v [] v"
| Array_end: "completes states (JArray (vs @ [v])) rest j \<Longrightarrow> completes (In_array vs # states) v (End_array # rest) j"
| Array_more: "grammar_values es vs' \<Longrightarrow> completes states (JArray (vs @ v # vs')) rest j
    \<Longrightarrow> completes (In_array vs # states) v (Value_separator # es @ End_array # rest) j"
| Object_end: "completes states (JObject (object_update k v kvs)) rest j
    \<Longrightarrow> completes (In_object kvs k # states) v (End_object # rest) j"
| Object_more: "grammar_pairs ms kvs' \<Longrightarrow> completes states (JObject (object_of kvs' (object_update k v kvs))) rest j
    \<Longrightarrow> completes (In_object kvs k # states) v (Value_separator # ms @ End_object # rest) j"

inductive_simps completes_Nil: "completes [] v ts j"
inductive_simps completes_Array: "completes (In_array vs # states) v ts j"
inductive_simps completes_Object: "completes (In_object kvs k # states) v ts j"

lemma completes_arrayE:
  assumes "completes (In_array vs # states) v ts j"
  obtains (last) rest where "ts = End_array # rest" "completes states (JArray (vs @ [v])) rest j"
  | (more) es vs' rest where "ts = Value_separator # es @ End_array # rest" "grammar_values es vs'"
      "completes states (JArray (vs @ v # vs')) rest j"
  using assms unfolding completes_Array by blast

lemma completes_objectE:
  assumes "completes (In_object kvs k # states) v ts j"
  obtains (last) rest where "ts = End_object # rest" "completes states (JObject (object_update k v kvs)) rest j"
  | (more) ms kvs' rest where "ts = Value_separator # ms @ End_object # rest" "grammar_pairs ms kvs'"
      "completes states (JObject (object_of kvs' (object_update k v kvs))) rest j"
  using assms unfolding completes_Object by blast

lemma completes_element:
  assumes "grammar_value ts v" and "completes (In_array (vs @ [v0]) # states) v us j"
  shows "completes (In_array vs # states) v0 (Value_separator # ts @ us) j"
  using assms(2)
proof (cases rule: completes_arrayE)
  case (last rest)
  with Array_more [OF Last_value [OF assms(1)], of states vs v0 rest j] show ?thesis by simp
next
  case (more es vs' rest)
  with Array_more [OF Next_value [OF assms(1) more(2)], of states vs v0 rest j] show ?thesis by simp
qed

lemma completes_pair:
  assumes "grammar_value ts v" and "completes (In_object (object_update k v0 kvs) k' # states) v us j"
  shows "completes (In_object kvs k # states) v0 (Value_separator # Value_string k' # Name_separator # ts @ us) j"
  using assms(2)
proof (cases rule: completes_objectE)
  case (last rest)
  with Object_more [OF Last_pair [OF assms(1)], of states k' k v0 kvs rest j] show ?thesis by simp
next
  case (more ms kvs' rest)
  with Object_more [OF Next_pair [OF assms(1) more(2)], of states k' k v0 kvs rest j] show ?thesis by simp
qed

text \<open>The first element or member makes the whole array or object a phrase.\<close>

definition phrase :: "token_type list \<Rightarrow> json_frame list \<Rightarrow> json \<Rightarrow> bool" where
  "phrase ts states j \<longleftrightarrow> (\<exists>us v rest. ts = us @ rest \<and> grammar_value us v \<and> completes states v rest j)"

lemma phraseI: "grammar_value us v \<Longrightarrow> completes states v rest j \<Longrightarrow> phrase (us @ rest) states j"
  by (auto simp: phrase_def)

lemma phrase_token: "grammar_value [t] v \<Longrightarrow> completes states v rest j \<Longrightarrow> phrase (t # rest) states j"
  using phraseI [of "[t]"] by simp

lemma phrase_array:
  assumes "phrase ts (In_array [] # states) j"
  shows "phrase (Begin_array # ts) states j"
proof -
  from assms obtain us v rest where p: "ts = us @ rest" "grammar_value us v" "completes (In_array [] # states) v rest j"
    by (auto simp: phrase_def)
  from p(3) show ?thesis
  proof (cases rule: completes_arrayE)
    case (last r)
    with phraseI [OF Array [OF Last_value [OF p(2)]]] p(1) show ?thesis by fastforce
  next
    case (more es vs' r)
    with phraseI [OF Array [OF Next_value [OF p(2) more(2)]]] p(1) show ?thesis by fastforce
  qed
qed

lemma phrase_object:
  assumes "phrase ts (In_object [] k # states) j"
  shows "phrase (Begin_object # Value_string k # Name_separator # ts) states j"
proof -
  from assms obtain us v rest where p: "ts = us @ rest" "grammar_value us v" "completes (In_object [] k # states) v rest j"
    by (auto simp: phrase_def)
  from p(3) show ?thesis
  proof (cases rule: completes_objectE)
    case (last r)
    with phraseI [OF Object [OF Last_pair [OF p(2)]]] p(1) show ?thesis by fastforce
  next
    case (more ms kvs' r)
    with phraseI [OF Object [OF Next_pair [OF p(2) more(2)]]] p(1) show ?thesis by fastforce
  qed
qed

lemma completes_phrase:
  "phrase ts (In_array (vs @ [v]) # states) j \<Longrightarrow> completes (In_array vs # states) v (Value_separator # ts) j"
  "phrase ts (In_object (object_update k v kvs) k' # states) j
    \<Longrightarrow> completes (In_object kvs k # states) v (Value_separator # Value_string k' # Name_separator # ts) j"
  by (auto simp: phrase_def completes_element completes_pair)

lemma parsed_phrase:
  "parse_value ts states = Inr (j, r) \<Longrightarrow> \<exists>us. scans (snd ts) us r \<and> phrase (fst ts # us) states j"
  "value_done v s states = Inr (j, r) \<Longrightarrow> \<exists>us. scans s us r \<and> completes states v us j"
proof (induction ts states and v s states arbitrary: j r and j r rule: parse_value_value_done.induct)
  case (1 t s states)
  obtain t1 s1 where p: "scan s = (t1, s1)" by fastforce
  note prem = "1.prems" [unfolded parse_value.simps [of t s states]]
  have scalar: "\<exists>us. scans (snd (t, s)) us r \<and> phrase (fst (t, s) # us) states j"
    if "\<exists>us. scans s us r \<and> completes states v us j" "grammar_value [t] v" for v
    using that by (auto intro: phrase_token)
  show ?case
  proof (cases t)
    case Begin_object
    consider "t1 = End_object" "value_done (JObject []) s1 states = Inr (j, r)"
      | k s2 where "t1 = Value_string k" "scan s1 = (Name_separator, s2)"
        "parse_value (scan s2) (In_object [] k # states) = Inr (j, r)"
      using prem p Begin_object by (auto split: token_type.splits prod.splits)
    then show ?thesis
    proof cases
      case 1
      from "1.IH"(11) [OF Begin_object p [symmetric] 1(1,2)] obtain us where
        "scans s1 us r" "completes states (JObject []) us j" by blast
      with phraseI [OF Empty_object, of states us j] Begin_object p 1(1) show ?thesis
        by (auto intro!: exI [of _ "End_object # us"])
    next
      case 2
      from "1.IH"(10) [OF Begin_object p [symmetric] 2(1) 2(2) [symmetric] refl 2(3)] obtain us where
        u: "scans (snd (scan s2)) us r" "phrase (fst (scan s2) # us) (In_object [] k # states) j" by blast
      obtain t3 s3 where "scan s2 = (t3, s3)" by fastforce
      with phrase_object [OF u(2)] u(1) Begin_object p 2 show ?thesis
        by (auto intro!: exI [of _ "Value_string k # Name_separator # t3 # us"])
    qed
  next
    case Begin_array
    show ?thesis
    proof (cases "t1 = End_array")
      case True
      with prem p Begin_array have "value_done (JArray []) s1 states = Inr (j, r)" by simp
      from "1.IH"(8) [OF Begin_array p [symmetric] True this] obtain us where
        "scans s1 us r" "completes states (JArray []) us j" by blast
      with phraseI [OF Empty_array, of states us j] Begin_array p True show ?thesis
        by (auto intro!: exI [of _ "End_array # us"])
    next
      case False
      with prem p Begin_array have "parse_value (t1, s1) (In_array [] # states) = Inr (j, r)" by simp
      from "1.IH"(9) [OF Begin_array p [symmetric] False this] obtain us where
        "scans s1 us r" "phrase (t1 # us) (In_array [] # states) j" by auto
      with phrase_array [of "t1 # us" states j] Begin_array p show ?thesis
        by (auto intro!: exI [of _ "t1 # us"])
    qed
  next
    case (Value_float x)
    with prem obtain y where y: "x = Some y" "value_done (JFloat y) s states = Inr (j, r)" by (auto split: option.splits)
    from "1.IH"(7) [OF Value_float y] y Value_float show ?thesis by (intro scalar [of "JFloat y"]) (auto intro: Value_number)
  next
    case Literal_false
    with prem have "value_done (JBool False) s states = Inr (j, r)" by simp
    from "1.IH"(2) [OF Literal_false this] show ?thesis
      by (rule scalar) (simp add: Literal_false Value_false)
  next
    case Literal_null
    with prem have "value_done JNull s states = Inr (j, r)" by simp
    from "1.IH"(3) [OF Literal_null this] show ?thesis
      by (rule scalar) (simp add: Literal_null Value_null)
  next
    case Literal_true
    with prem have "value_done (JBool True) s states = Inr (j, r)" by simp
    from "1.IH"(1) [OF Literal_true this] show ?thesis
      by (rule scalar) (simp add: Literal_true Value_true)
  next
    case (Value_integer n)
    with prem have "value_done (JInt n) s states = Inr (j, r)" by simp
    from "1.IH"(6) [OF Value_integer this] show ?thesis
      by (rule scalar) (simp add: Value_integer Value_int)
  next
    case (Value_string x)
    with prem have "value_done (JString x) s states = Inr (j, r)" by simp
    from "1.IH"(4) [OF Value_string this] show ?thesis
      by (rule scalar) (simp add: Value_string Value_text)
  next
    case (Value_unsigned n)
    with prem have "value_done (JInt (int n)) s states = Inr (j, r)" by simp
    from "1.IH"(5) [OF Value_unsigned this] show ?thesis
      by (rule scalar) (simp add: Value_unsigned Value_nat)
  qed (use prem in simp_all)
next
  case (2 v s)
  then show ?case by (auto intro: exI [of _ "[]"] Complete)
next
  case (3 v s vs states)
  show ?case
  proof (cases "scan s")
    case (Pair t s1)
    consider "t = Value_separator" "parse_value (scan s1) (In_array (vs @ [v]) # states) = Inr (j, r)"
      | "t = End_array" "value_done (JArray (vs @ [v])) s1 states = Inr (j, r)"
      using "3.prems" Pair by (auto split: token_type.splits)
    then show ?thesis
    proof cases
      case 1
      from "3.IH"(2) [OF Pair [symmetric] 1] obtain us where
        u: "scans (snd (scan s1)) us r" "phrase (fst (scan s1) # us) (In_array (vs @ [v]) # states) j" by blast
      obtain t2 s2 where "scan s1 = (t2, s2)" by fastforce
      with completes_phrase(1) [OF u(2)] u(1) Pair 1 show ?thesis
        by (auto intro!: exI [of _ "Value_separator # t2 # us"])
    next
      case 2
      from "3.IH"(1) [OF Pair [symmetric] 2] obtain us where
        "scans s1 us r" "completes states (JArray (vs @ [v])) us j" by blast
      then show ?thesis using Pair 2 by (auto intro!: exI [of _ "End_array # us"] Array_end)
    qed
  qed
next
  case (4 v s kvs k states)
  show ?case
  proof (cases "scan s")
    case (Pair t s1)
    consider k' s2 s3 where "t = Value_separator" "scan s1 = (Value_string k', s2)" "scan s2 = (Name_separator, s3)"
        "parse_value (scan s3) (In_object (object_update k v kvs) k' # states) = Inr (j, r)"
      | "t = End_object" "value_done (JObject (object_update k v kvs)) s1 states = Inr (j, r)"
      using "4.prems" Pair by (auto split: token_type.splits prod.splits)
    then show ?thesis
    proof cases
      case 1
      from "4.IH"(2) [OF Pair [symmetric] 1(1) 1(2) [symmetric] refl 1(3) [symmetric] refl 1(4)] obtain us where
        u: "scans (snd (scan s3)) us r" "phrase (fst (scan s3) # us) (In_object (object_update k v kvs) k' # states) j" by blast
      obtain t4 s4 where "scan s3 = (t4, s4)" by fastforce
      with completes_phrase(2) [OF u(2)] u(1) Pair 1 show ?thesis
        by (auto intro!: exI [of _ "Value_separator # Value_string k' # Name_separator # t4 # us"])
    next
      case 2
      from "4.IH"(1) [OF Pair [symmetric] 2] obtain us where
        "scans s1 us r" "completes states (JObject (object_update k v kvs)) us j" by blast
      then show ?thesis using Pair 2 by (auto intro!: exI [of _ "End_object # us"] Object_end)
    qed
  qed
qed

lemma completes_empty: "completes [] v ts j \<longleftrightarrow> ts = [] \<and> j = v"
  by (auto simp: completes_Nil)

lemma parse_value_grammar:
  "parse_value (scan s) [] = Inr (j, r) \<longleftrightarrow> (\<exists>ts. scans s ts r \<and> grammar_value ts j)"
proof
  assume "parse_value (scan s) [] = Inr (j, r)"
  with parsed_phrase(1) [of "scan s" "[]" j r] obtain us where
    u: "scans (snd (scan s)) us r" "phrase (fst (scan s) # us) [] j" by blast
  then have "grammar_value (fst (scan s) # us) j" by (auto simp: phrase_def completes_empty)
  moreover have "scans s (fst (scan s) # us) r" using u(1) by (cases "scan s") simp
  ultimately show "\<exists>ts. scans s ts r \<and> grammar_value ts j" by blast
qed (auto simp: grammar_parsed(1))

end
