(* ===== verification/JsonText.thy ===== *)
theory JsonText
  imports JsonParser
begin

text \<open>
  The texts of single values: what the serializer writes for a string or an integer, the lexer reads as that string or
  integer.
\<close>

section \<open>Strings are written when they are UTF-8\<close>

lemma dump_escaped_loop_decodes:
  "(\<exists>t. dump_escaped_loop ea st buf s = Inr t) \<longleftrightarrow> fst (decode_text st s) = UTF8_ACCEPT"
  by (induction ea st buf s rule: dump_escaped_loop.induct) (auto simp: Let_def UTF8_ACCEPT_def UTF8_REJECT_def)

lemma dump_escaped_valid: "(\<exists>t. dump_escaped ea s = Inr t) \<longleftrightarrow> valid_utf8 s"
  unfolding dump_escaped_def dump_escaped_loop_decodes by (rule decoder_accepts_utf8)

lemma dump_escaped_faults: "dump_escaped_loop ea st buf s = Inl e \<Longrightarrow> e = Json_error"
  by (induction ea st buf s rule: dump_escaped_loop.induct) (auto simp: Let_def split: if_splits)

text \<open>What is written for a code point.\<close>

definition escaped :: "nat \<Rightarrow> string" where
  "escaped cp = butlast (utf8_text cp) @ dump_codepoint False cp (last (utf8_text cp))"

lemma dump_run:
  "decodes st bs cp \<Longrightarrow> map of_char w = bs \<Longrightarrow>
   dump_escaped_loop False st buf (w @ s)
     = dump_escaped_loop False (UTF8_ACCEPT, cp) (buf @ butlast w @ dump_codepoint False cp (last w)) s"
proof (induction st bs cp arbitrary: w buf rule: decodes.induct)
  case (2 st b cp)
  then show ?case by (auto simp: Let_def)
next
  case (3 st b b' bs cp)
  then obtain c w' where w: "w = c # w'" "of_char c = b" "map of_char w' = b' # bs" by auto
  then have "w' \<noteq> []" by auto
  with 3 w show ?case by (simp add: Let_def)
qed simp

lemma dump_scalar:
  "scalar_value cp \<Longrightarrow> dump_escaped_loop False (UTF8_ACCEPT, x) buf (utf8_text cp @ s)
     = dump_escaped_loop False (UTF8_ACCEPT, cp) (buf @ escaped cp) s"
  unfolding escaped_def by (rule dump_run [OF decodes_encode utf8_text_bytes])

lemma dump_scalars:
  "list_all scalar_value cps \<Longrightarrow>
   dump_escaped_loop False (UTF8_ACCEPT, x) buf (concat (map utf8_text cps)) = Inr (buf @ concat (map escaped cps))"
  by (induction cps arbitrary: buf x) (simp_all add: dump_scalar)

section \<open>Strings are read back\<close>

lemma hex_digit_value: "d < 16 \<Longrightarrow> hex_value (of_char (hex_digit d)) = Some d"
  by (auto simp: hex_digit_def hex_value_def of_char_char_of_digit of_char_of)

lemma get_codepoint_hex4: "n < 2 ^ 16 \<Longrightarrow> get_codepoint (hex4 n @ s) = Some (n, s)"
proof -
  assume n: "n < 2 ^ 16"
  have "n div 4096 * 16 + n div 256 mod 16 = n div 256" "n div 256 * 16 + n div 16 mod 16 = n div 16"
    using div_mult_mod_eq [of "n div 256" 16] div_mult_mod_eq [of "n div 16" 16] by (simp_all add: div_mult2_eq [symmetric])
  moreover have "n div 16 * 16 + n mod 16 = n" by (rule div_mult_mod_eq)
  ultimately have "n div 4096 * 4096 + n div 256 mod 16 * 256 + n div 16 mod 16 * 16 + n mod 16 = n" by linarith
  moreover have "n div 4096 < 16" using n by simp
  ultimately show ?thesis
    by (simp add: get_codepoint_def hex4_def hex_digit_value push_bit_eq_mult)
qed

lemma scan_unicode_hex4: "n < 0xD800 \<Longrightarrow> scan_unicode (hex4 n @ s) = Some (utf8_text n, s)"
  by (simp add: scan_unicode_def get_codepoint_hex4)

lemma next_byte_in_range_run:
  "list_all2 in_range rs (map of_char w) \<Longrightarrow> next_byte_in_range rs (w @ s) = Some (w, s)"
  by (induction rs arbitrary: w) (auto simp: list_all2_Cons1)

lemma utf8_text_ascii: "cp < 128 \<Longrightarrow> utf8_text cp = [char_of cp]"
  by (simp add: utf8_text_def utf8_encode_def)

lemma utf8_first: "utf8_encode cp = b # bs \<Longrightarrow> cp < 0x110000 \<Longrightarrow> b < 128 \<Longrightarrow> cp = b"
  by (auto simp: utf8_encode_arith split: if_splits)

lemma special_chars:
  "char_of (8 :: nat) = CHR 0x08" "char_of (9 :: nat) = CHR 0x09" "char_of (10 :: nat) = CHR 0x0A"
  "char_of (12 :: nat) = CHR 0x0C" "char_of (13 :: nat) = CHR 0x0D" "char_of (34 :: nat) = CHR 0x22"
  "char_of (92 :: nat) = CHR 0x5C"
  by code_simp+

text \<open>The code points that are written as they are.\<close>

definition plain_codepoint :: "nat \<Rightarrow> bool" where
  "plain_codepoint cp \<longleftrightarrow> 0x20 \<le> cp \<and> cp \<noteq> 0x22 \<and> cp \<noteq> 0x5C"

lemma escaped_plain: "plain_codepoint cp \<Longrightarrow> escaped cp = utf8_text cp"
  by (simp add: escaped_def plain_codepoint_def dump_codepoint_def)

lemma scan_plain:
  assumes "scalar_value cp" and "plain_codepoint cp"
  shows "scan_string_loop buf (utf8_text cp @ s) = scan_string_loop (buf @ utf8_text cp) s"
proof -
  from assms obtain b bs rs where e: "utf8_encode cp = b # bs" "utf8_ranges b = Some rs" "list_all2 in_range rs bs"
    using encode_in_ranges [of cp] by (auto simp: plain_codepoint_def)
  have "map of_char (utf8_text cp) = b # bs" using utf8_text_bytes [OF assms(1)] e by simp
  then obtain c w where w: "utf8_text cp = c # w" "of_char c = b" "map of_char w = bs" by auto
  have "b \<noteq> 0x22" "b \<noteq> 0x5C" using utf8_first [OF e(1)] assms by (auto simp: plain_codepoint_def scalar_value_def)
  with w have "c \<noteq> CHR 0x22" "c \<noteq> CHR 0x5C" by auto
  with e w show ?thesis by (simp add: next_byte_in_range_run)
qed

lemma scan_escaped:
  assumes "scalar_value cp"
  shows "scan_string_loop buf (escaped cp @ s) = scan_string_loop (buf @ utf8_text cp) s"
proof (cases "plain_codepoint cp")
  case True
  with assms show ?thesis by (simp add: escaped_plain scan_plain)
next
  case False
  then consider "cp = 0x08" | "cp = 0x09" | "cp = 0x0A" | "cp = 0x0C" | "cp = 0x0D" | "cp = 0x22" | "cp = 0x5C"
    | "cp < 0x20" "cp \<notin> {0x08, 0x09, 0x0A, 0x0C, 0x0D}"
    by (fastforce simp: plain_codepoint_def not_le)
  then show ?thesis
  proof cases
    case 8
    then have "escaped cp = [CHR 0x5C, CHR ''u''] @ hex4 cp"
      by (simp add: escaped_def utf8_text_ascii dump_codepoint_def unicode_escape_def)
    with 8 show ?thesis by (simp add: scan_escape_def scan_unicode_hex4)
  qed (simp_all add: escaped_def utf8_text_ascii dump_codepoint_def scan_escape_def special_chars)
qed

lemma scan_scalars:
  "list_all scalar_value cps \<Longrightarrow>
   scan_string_loop buf (concat (map escaped cps) @ s) = scan_string_loop (buf @ concat (map utf8_text cps)) s"
  by (induction cps arbitrary: buf) (simp_all add: scan_escaped)

lemma scan_dump_escaped:
  assumes "dump_escaped False x = Inr t"
  shows "scan_string (t @ [CHR 0x22] @ s) = (Value_string x, s)"
proof -
  have "valid_utf8 x" using assms dump_escaped_valid by blast
  then obtain cps where cps: "list_all scalar_value cps" "x = concat (map utf8_text cps)"
    by (auto simp: valid_utf8_def)
  have "t = concat (map escaped cps)"
    using assms dump_scalars [OF cps(1)] by (simp add: cps(2) dump_escaped_def)
  with cps show ?thesis by (simp add: scan_string_def scan_scalars)
qed

section \<open>Integers are read back\<close>

text \<open>What follows a value in a text of the serializer, or the null byte that ends the input.\<close>

definition delimited :: "string \<Rightarrow> bool" where
  "delimited s \<longleftrightarrow> (case s of [] \<Rightarrow> True | c # _ \<Rightarrow> c \<in> {CHR '','', CHR '']'', CHR ''}'', CHR 0x00})"

lemma delimited_simps [simp]:
  "delimited []" "delimited (CHR '','' # s)" "delimited (CHR '']'' # s)" "delimited (CHR ''}'' # s)"
  "delimited (CHR 0x00 # s)"
  by (simp_all add: delimited_def)

lemma number_step_digit [simp]:
  "digit_of c \<noteq> None \<Longrightarrow> number_step Number_any1 c = Some Number_any1"
  by (simp add: number_step_def)

lemma scan_digits_run:
  assumes "delimited s" and "list_all (\<lambda>c. digit_of c \<noteq> None) ds"
  shows "scan_number_loop Number_any1 ty buf (ds @ s) = Some (ty, buf @ ds, s)"
  using assms(2)
proof (induction ds arbitrary: buf)
  case Nil
  with assms(1) show ?case
    by (cases s) (auto simp: delimited_def number_step_def number_done_def number_type_in_def digit_of_def)
next
  case (Cons d ds)
  then show ?case by (simp add: number_type_in_def)
qed

lemma scan_zero_run:
  "delimited s \<Longrightarrow> scan_number_loop Number_zero ty buf s = Some (ty, buf, s)"
  by (cases s) (auto simp: delimited_def number_step_def number_done_def number_type_in_def)

lemma nat_to_string_first:
  "0 < n \<Longrightarrow> \<exists>d ds. nat_to_string n = char_of_digit d # ds \<and> 0 < d \<and> d < 10"
proof (induction n rule: less_induct)
  case (less n)
  show ?case
  proof (cases "n < 10")
    case True
    with less.prems show ?thesis by (intro exI [of _ n] exI [of _ "[]"]) (simp add: nat_to_string_digit)
  next
    case False
    then have "0 < n div 10" "n div 10 < n" by simp_all
    with less.IH [of "n div 10"] obtain d ds where "nat_to_string (n div 10) = char_of_digit d # ds" "0 < d" "d < 10"
      by blast
    with False show ?thesis by (simp add: nat_to_string_snoc) blast
  qed
qed

lemma nat_to_string_zero: "nat_to_string 0 = ''0''"
  by code_simp

lemma scan_nat_run:
  assumes "delimited s" and "nat_to_string n = c # ds"
  shows "scan_number_loop (if c = CHR ''0'' then Number_zero else Number_any1) ty buf (ds @ s) = Some (ty, buf @ ds, s)"
proof (cases "n = 0")
  case True
  with assms show ?thesis by (simp add: nat_to_string_zero scan_zero_run)
next
  case False
  then obtain d where "c = char_of_digit d" "0 < d" "d < 10" using nat_to_string_first [of n] assms(2) by auto
  then have "of_char c \<noteq> (48 :: nat)" by (simp add: of_char_char_of_digit)
  then have "c \<noteq> CHR ''0''" by auto
  moreover have "list_all (\<lambda>c. digit_of c \<noteq> None) ds" using nat_to_string_digits [of n] assms(2) by simp
  ultimately show ?thesis using scan_digits_run [OF assms(1)] by simp
qed

lemma digit_of_bounds: "digit_of c = Some d \<Longrightarrow> c \<noteq> CHR ''-'' \<and> c \<noteq> CHR ''+''"
  by (auto simp: digit_of_def)

lemma scan_nat_to_text:
  assumes "delimited s" and "n < 2 ^ 64" and "nat_to_string n = c # ds"
  shows "json_scan_number c (ds @ s) = (Value_unsigned n, s)"
proof -
  have "digit_of c \<noteq> None" using nat_to_string_digits [of n] assms(3) by simp
  then have "c \<noteq> CHR ''-''" by (auto dest: digit_of_bounds)
  then have "number_init c = (if c = CHR ''0'' then Number_zero else Number_any1)" by (simp add: number_init_def)
  moreover have "strtoull (c # ds) = Some n" using assms(2) scan_nat_to_string [of n] by (simp add: strtoull_def assms(3))
  ultimately show ?thesis
    using scan_nat_run [OF assms(1,3), of Number_unsigned "[c]"] by (simp add: json_scan_number_def number_token_def)
qed

lemma scan_negative_to_text:
  assumes "delimited s" and "0 < n" and "n \<le> 2 ^ 63"
  shows "json_scan_number (CHR ''-'') (nat_to_string n @ s) = (Value_integer (- int n), s)"
proof -
  obtain d ds where d: "nat_to_string n = char_of_digit d # ds" "0 < d" "d < 10"
    using nat_to_string_first [OF assms(2)] by blast
  have z: "char_of_digit d \<noteq> CHR ''0''" using of_char_char_of_digit [OF d(3)] d(2) by auto
  have "number_step Number_minus (char_of_digit d) = Some Number_any1"
    using d(3) z by (simp add: number_step_def)
  moreover have "strtoll (CHR ''-'' # char_of_digit d # ds) = Some (- int n)"
    using assms(3) scan_nat_to_string [of n] d(1) by (simp add: strtoll_def split_sign_def Let_def)
  ultimately show ?thesis
    using scan_nat_run [OF assms(1) d(1), of Number_integer "[CHR ''-'', char_of_digit d]"] z d(1)
    by (simp add: json_scan_number_def number_token_def number_init_def number_type_in_def)
qed

text \<open>The token of an integer: which of the two kinds of integer it is depends on the sign.\<close>

definition integer_token :: "int \<Rightarrow> token_type" where
  "integer_token n = (if n < 0 then Value_integer n else Value_unsigned (nat n))"

lemma digit_not_whitespace: "digit_of c \<noteq> None \<Longrightarrow> \<not> is_whitespace c"
  by (auto simp: is_whitespace_def digit_of_def)

lemma scan_digit:
  assumes "digit_of c \<noteq> None"
  shows "scan (c # s) = json_scan_number c s"
proof -
  have k: "48 \<le> (of_char c :: nat)" "(of_char c :: nat) \<le> 57" using assms by (auto simp: digit_of_def Let_def split: if_splits)
  then have "c \<noteq> CHR ''[''" "c \<noteq> CHR '']''" "c \<noteq> CHR ''{''" "c \<noteq> CHR ''}''" "c \<noteq> CHR '':''" "c \<noteq> CHR '',''"
    "c \<noteq> CHR ''t''" "c \<noteq> CHR ''f''" "c \<noteq> CHR ''n''" "c \<noteq> CHR 0x22" by auto
  with assms digit_not_whitespace [OF assms] show ?thesis by (simp add: scan_def)
qed

lemma scan_minus: "scan (CHR ''-'' # s) = json_scan_number (CHR ''-'') s"
  by (simp add: scan_def is_whitespace_def)

lemma scan_dump_integer:
  assumes "- (2 ^ 63) \<le> n" and "n < 2 ^ 64" and "delimited s"
  shows "scan (dump_integer n @ s) = (integer_token n, s)"
proof (cases "n < 0")
  case True
  then have "0 < nat (- n)" "nat (- n) \<le> 2 ^ 63" using assms(1) by simp_all
  from scan_negative_to_text [OF assms(3) this] True show ?thesis
    by (simp add: dump_integer_eq(1) [OF assms(1,2)] int_to_string_def integer_token_def scan_minus)
next
  case False
  obtain c ds where c: "nat_to_string (nat n) = c # ds" using nat_to_string_Cons by blast
  have "digit_of c \<noteq> None" using nat_to_string_digits [of "nat n"] c by simp
  moreover have "nat n < 2 ^ 64" using assms(2) by simp
  ultimately show ?thesis
    using scan_nat_to_text [OF assms(3) _ c] False c
    by (simp add: dump_integer_eq(1) [OF assms(1,2)] int_to_string_def integer_token_def scan_digit)
qed

end
