(* ===== verification/JsonRoundtrip.thy ===== *)
theory JsonRoundtrip
  imports JsonText
begin

text \<open>
  Whole values: which values can be written, that they are read back, and that texts may be nested without a bound.
\<close>

section \<open>Values\<close>

text \<open>A condition on every part of a value.\<close>

fun json_all :: "(json \<Rightarrow> bool) \<Rightarrow> json \<Rightarrow> bool" where
  "json_all P (JArray vs) \<longleftrightarrow> P (JArray vs) \<and> list_all (json_all P) vs"
| "json_all P (JObject kvs) \<longleftrightarrow> P (JObject kvs) \<and> list_all (\<lambda>kv. json_all P (snd kv)) kvs"
| "json_all P v \<longleftrightarrow> P v"

text \<open>Strings and keys are UTF-8; integers have 64 bits; the keys of an object ascend; no floating point number.\<close>

fun utf8_part :: "json \<Rightarrow> bool" where
  "utf8_part (JString s) \<longleftrightarrow> valid_utf8 s"
| "utf8_part (JObject kvs) \<longleftrightarrow> list_all (\<lambda>kv. valid_utf8 (fst kv)) kvs"
| "utf8_part v \<longleftrightarrow> True"

fun int_part :: "json \<Rightarrow> bool" where
  "int_part (JInt n) \<longleftrightarrow> - (2 ^ 63) \<le> n \<and> n < 2 ^ 64"
| "int_part v \<longleftrightarrow> True"

fun key_part :: "json \<Rightarrow> bool" where
  "key_part (JObject kvs) \<longleftrightarrow> sorted_wrt string_less (map fst kvs)"
| "key_part v \<longleftrightarrow> True"

fun no_float_part :: "json \<Rightarrow> bool" where
  "no_float_part (JFloat x) \<longleftrightarrow> False"
| "no_float_part v \<longleftrightarrow> True"

definition json_utf8 :: "json \<Rightarrow> bool" where
  "json_utf8 = json_all utf8_part"

definition json_wf :: "json \<Rightarrow> bool" where
  "json_wf = json_all (\<lambda>v. utf8_part v \<and> int_part v \<and> key_part v)"

definition json_no_float :: "json \<Rightarrow> bool" where
  "json_no_float = json_all no_float_part"

lemma json_all_conj: "json_all (\<lambda>v. P v \<and> Q v) j \<longleftrightarrow> json_all P j \<and> json_all Q j"
  by (induction P j rule: json_all.induct) (auto simp: list_all_iff)

lemma json_wf_utf8: "json_wf j \<Longrightarrow> json_utf8 j"
  by (simp add: json_wf_def json_utf8_def json_all_conj)

section \<open>Writing\<close>

lemma isl_bind_result: "isl (bind_result r f) \<longleftrightarrow> isl r \<or> isl (f (projr r))"
  by (cases r) simp_all

lemma isl_dump_escaped: "isl (dump_escaped ea s) \<longleftrightarrow> \<not> valid_utf8 s"
  using dump_escaped_valid [of ea s] by (cases "dump_escaped ea s") auto

text \<open>A value is written exactly when its strings and keys are UTF-8; the only error is the type error 316.\<close>

lemma json_text_fails:
  "isl (json_text ft ea j) \<longleftrightarrow> \<not> json_utf8 j"
  "isl (json_elements ft ea vs) \<longleftrightarrow> \<not> list_all json_utf8 vs"
  "isl (json_members ft ea kvs) \<longleftrightarrow> \<not> list_all (\<lambda>kv. valid_utf8 (fst kv) \<and> json_utf8 (snd kv)) kvs"
proof (induction ft ea j and ft ea vs and ft ea kvs rule: json_text_json_elements_json_members.induct)
qed (auto simp: json_utf8_def isl_bind_result isl_dump_escaped list_all_iff Let_def)

lemma dump_escaped_Json_error: "dump_escaped ea s = Inl e \<Longrightarrow> e = Json_error"
  unfolding dump_escaped_def by (rule dump_escaped_faults)

lemma json_text_faults:
  "json_text ft ea j = Inl e \<Longrightarrow> e = Json_error"
  "json_elements ft ea vs = Inl e \<Longrightarrow> e = Json_error"
  "json_members ft ea kvs = Inl e \<Longrightarrow> e = Json_error"
proof (induction ft ea j and ft ea vs and ft ea kvs rule: json_text_json_elements_json_members.induct)
qed (auto simp: bind_result_Inl Let_def dest: dump_escaped_Json_error split: if_splits)

lemma json_dump_cases: "json_dump ft j = Inl Json_error \<and> \<not> json_utf8 j \<or> (\<exists>t. json_dump ft j = Inr t) \<and> json_utf8 j"
  using json_text_fails(1) [of ft False j] json_text_faults(1) [of ft False j]
  by (cases "json_text ft False j") (auto simp: json_dump_def)

section \<open>Reading what was written\<close>

lemma string_less_irrefl [simp]: "\<not> string_less k k"
  by (induction k) auto

lemma string_less_asym: "string_less a b \<Longrightarrow> \<not> string_less b a"
  by (induction a b rule: string_less.induct) auto

lemma string_less_trans: "string_less a b \<Longrightarrow> string_less b c \<Longrightarrow> string_less a c"
proof (induction a b arbitrary: c rule: string_less.induct)
  case (2 x xs)
  then show ?case by (cases c) auto
next
  case (3 x xs y ys)
  then show ?case by (cases c) auto
qed simp

lemma object_update_last:
  "\<forall>a \<in> set (map fst kvs). string_less a k \<Longrightarrow> object_update k v kvs = kvs @ [(k, v)]"
  by (induction k v kvs rule: object_update.induct) (auto dest: string_less_asym)

text \<open>The tokens a value starts with.\<close>

definition value_token :: "token_type \<Rightarrow> bool" where
  "value_token t \<longleftrightarrow> t \<notin> {End_array, End_object, Name_separator, Value_separator, Parse_error, End_of_input}"

lemma scan_structure:
  "scan (CHR ''['' # s) = (Begin_array, s)" "scan (CHR '']'' # s) = (End_array, s)"
  "scan (CHR ''{'' # s) = (Begin_object, s)" "scan (CHR ''}'' # s) = (End_object, s)"
  "scan (CHR '':'' # s) = (Name_separator, s)" "scan (CHR '','' # s) = (Value_separator, s)"
  "scan (CHR 0x22 # s) = scan_string s"
  "scan (CHR ''t'' # CHR ''r'' # CHR ''u'' # CHR ''e'' # s) = (Literal_true, s)"
  "scan (CHR ''f'' # CHR ''a'' # CHR ''l'' # CHR ''s'' # CHR ''e'' # s) = (Literal_false, s)"
  "scan (CHR ''n'' # CHR ''u'' # CHR ''l'' # CHR ''l'' # s) = (Literal_null, s)"
  by (simp_all add: scan_def is_whitespace_def scan_literal_def)

definition json_plain :: "json \<Rightarrow> bool" where
  "json_plain = json_all (\<lambda>v. utf8_part v \<and> int_part v \<and> key_part v \<and> no_float_part v)"

lemma json_plain_iff: "json_plain j \<longleftrightarrow> json_wf j \<and> json_no_float j"
  by (simp add: json_plain_def json_wf_def json_no_float_def json_all_conj)

lemma json_plain_simps [simp]:
  "json_plain (JArray vs) \<longleftrightarrow> list_all json_plain vs"
  "json_plain (JObject kvs) \<longleftrightarrow> sorted_wrt string_less (map fst kvs)
     \<and> list_all (\<lambda>kv. valid_utf8 (fst kv) \<and> json_plain (snd kv)) kvs"
  "json_plain (JString x) \<longleftrightarrow> valid_utf8 x"
  "json_plain (JInt n) \<longleftrightarrow> - (2 ^ 63) \<le> n \<and> n < 2 ^ 64"
  "\<not> json_plain (JFloat q)"
  by (auto simp: json_plain_def list_all_iff)

text \<open>The text of a value that is followed by a delimiter is read up to there; likewise elements and members.\<close>

definition reads_value :: "string \<Rightarrow> json \<Rightarrow> bool" where
  "reads_value t v \<longleftrightarrow>
     (\<forall>s. delimited s \<longrightarrow> value_token (fst (scan (t @ s)))
        \<and> (\<forall>states. parse_value (scan (t @ s)) states = value_done v s states))"

definition reads_elements :: "string \<Rightarrow> json list \<Rightarrow> bool" where
  "reads_elements t vs \<longleftrightarrow>
     (\<forall>s. value_token (fst (scan (t @ CHR '']'' # s)))
        \<and> (\<forall>acc states. parse_value (scan (t @ CHR '']'' # s)) (In_array acc # states) = value_done (JArray (acc @ vs)) s states))"

definition reads_members :: "string \<Rightarrow> (string \<times> json) list \<Rightarrow> bool" where
  "reads_members t kvs \<longleftrightarrow>
     (\<forall>s. \<exists>r1 r2. scan (t @ CHR ''}'' # s) = (Value_string (fst (hd kvs)), r1) \<and> scan r1 = (Name_separator, r2)
        \<and> (\<forall>acc states. sorted_wrt string_less (map fst (acc @ kvs)) \<longrightarrow>
             parse_value (scan r2) (In_object acc (fst (hd kvs)) # states) = value_done (JObject (acc @ kvs)) s states))"

lemma value_token_simps [simp]:
  "value_token Begin_array" "value_token Begin_object" "value_token Literal_true" "value_token Literal_false"
  "value_token Literal_null" "value_token (Value_string x)" "value_token (Value_unsigned n)"
  "value_token (Value_integer i)" "\<not> value_token End_array" "\<not> value_token End_object"
  by (simp_all add: value_token_def)

lemma reads_object:
  assumes "reads_members t kvs" and "kvs \<noteq> []" and "sorted_wrt string_less (map fst kvs)"
  shows "reads_value (''{'' @ t @ ''}'') (JObject kvs)"
  unfolding reads_value_def
proof (intro allI impI)
  fix s
  from assms(1) obtain r1 r2 where r: "scan (t @ CHR ''}'' # s) = (Value_string (fst (hd kvs)), r1)"
    "scan r1 = (Name_separator, r2)"
    and p: "\<And>acc states. sorted_wrt string_less (map fst (acc @ kvs)) \<Longrightarrow>
      parse_value (scan r2) (In_object acc (fst (hd kvs)) # states) = value_done (JObject (acc @ kvs)) s states"
    unfolding reads_members_def by blast
  show "value_token (fst (scan ((''{'' @ t @ ''}'') @ s)))
      \<and> (\<forall>states. parse_value (scan ((''{'' @ t @ ''}'') @ s)) states = value_done (JObject kvs) s states)"
    using r p [of "[]"] assms(3) by (simp add: scan_structure parse_value.simps)
qed

lemma reads_array:
  assumes "reads_elements t vs"
  shows "reads_value (''['' @ t @ '']'') (JArray vs)"
  unfolding reads_value_def
proof (intro allI impI)
  fix s
  from assms have v: "value_token (fst (scan (t @ CHR '']'' # s)))"
    and p: "\<And>states. parse_value (scan (t @ CHR '']'' # s)) (In_array [] # states) = value_done (JArray vs) s states"
    unfolding reads_elements_def by (blast, fastforce)
  obtain t1 s1 where "scan (t @ CHR '']'' # s) = (t1, s1)" by fastforce
  with v p show "value_token (fst (scan ((''['' @ t @ '']'') @ s)))
      \<and> (\<forall>states. parse_value (scan ((''['' @ t @ '']'') @ s)) states = value_done (JArray vs) s states)"
    by (auto simp: scan_structure parse_value.simps [of Begin_array "t @ CHR '']'' # s"])
qed

lemma reads_last_element: "reads_value t v \<Longrightarrow> reads_elements t [v]"
  by (simp add: reads_value_def reads_elements_def scan_structure)

lemma reads_next_element:
  assumes "reads_value t v" and "reads_elements t' vs"
  shows "reads_elements (t @ CHR '','' # t') (v # vs)"
  using assms by (simp add: reads_value_def reads_elements_def scan_structure)

lemma reads_member:
  assumes "dump_escaped False k = Inr key" and "reads_value t v" and "delimited s"
  shows "\<exists>r1 r2. scan (([CHR 0x22] @ key @ [CHR 0x22, CHR '':''] @ t) @ s) = (Value_string k, r1)
    \<and> scan r1 = (Name_separator, r2) \<and> (\<forall>states. parse_value (scan r2) states = value_done v s states)"
proof -
  have "scan (([CHR 0x22] @ key @ [CHR 0x22, CHR '':''] @ t) @ s) = (Value_string k, CHR '':'' # t @ s)"
    using scan_dump_escaped [OF assms(1), of "CHR '':'' # t @ s"] by (simp add: scan_structure)
  moreover have "scan (CHR '':'' # t @ s) = (Name_separator, t @ s)" by (simp add: scan_structure)
  ultimately show ?thesis using assms(2,3) unfolding reads_value_def by blast
qed

lemma sorted_prefix:
  "sorted_wrt string_less (map fst (acc @ (k, v) # kvs)) \<Longrightarrow> object_update k v acc = acc @ [(k, v)]"
  by (rule object_update_last) (auto simp: sorted_wrt_append)

lemma reads_last_member:
  assumes "dump_escaped False k = Inr key" and "reads_value t v"
  shows "reads_members ([CHR 0x22] @ key @ [CHR 0x22, CHR '':''] @ t) [(k, v)]"
  unfolding reads_members_def
proof
  fix s
  from reads_member [OF assms, of "CHR ''}'' # s"] obtain r1 r2 where
    r: "scan (([CHR 0x22] @ key @ [CHR 0x22, CHR '':''] @ t) @ CHR ''}'' # s) = (Value_string k, r1)"
    "scan r1 = (Name_separator, r2)"
    "\<And>states. parse_value (scan r2) states = value_done v (CHR ''}'' # s) states" by auto
  show "\<exists>r1 r2. scan (([CHR 0x22] @ key @ [CHR 0x22, CHR '':''] @ t) @ CHR ''}'' # s) = (Value_string (fst (hd [(k, v)])), r1)
    \<and> scan r1 = (Name_separator, r2)
    \<and> (\<forall>acc states. sorted_wrt string_less (map fst (acc @ [(k, v)])) \<longrightarrow>
        parse_value (scan r2) (In_object acc (fst (hd [(k, v)])) # states) = value_done (JObject (acc @ [(k, v)])) s states)"
    using r by - (rule exI [of _ r1], rule exI [of _ r2], simp add: scan_structure sorted_prefix del: map_append)
qed

lemma reads_next_member:
  assumes "dump_escaped False k = Inr key" and "reads_value t v" and "reads_members t' kvs" and "kvs \<noteq> []"
  shows "reads_members (([CHR 0x22] @ key @ [CHR 0x22, CHR '':''] @ t) @ CHR '','' # t') ((k, v) # kvs)"
  unfolding reads_members_def
proof
  fix s
  let ?m = "[CHR 0x22] @ key @ [CHR 0x22, CHR '':''] @ t" and ?k = "fst (hd kvs)"
  from reads_member [OF assms(1,2), of "CHR '','' # t' @ CHR ''}'' # s"] obtain r1 r2 where
    r: "scan (?m @ CHR '','' # t' @ CHR ''}'' # s) = (Value_string k, r1)" "scan r1 = (Name_separator, r2)"
    "\<And>states. parse_value (scan r2) states = value_done v (CHR '','' # t' @ CHR ''}'' # s) states" by auto
  from assms(3) obtain q1 q2 where q: "scan (t' @ CHR ''}'' # s) = (Value_string ?k, q1)" "scan q1 = (Name_separator, q2)"
    and p: "\<And>acc states. sorted_wrt string_less (map fst (acc @ kvs)) \<Longrightarrow>
      parse_value (scan q2) (In_object acc ?k # states) = value_done (JObject (acc @ kvs)) s states"
    unfolding reads_members_def by blast
  have "value_done v (CHR '','' # t' @ CHR ''}'' # s) (In_object acc k # states) = value_done (JObject (acc @ (k, v) # kvs)) s states"
    if "sorted_wrt string_less (map fst (acc @ (k, v) # kvs))" for acc states
    using p [of "acc @ [(k, v)]" states] q that by (simp add: scan_structure sorted_prefix [OF that])
  with r show "\<exists>r1 r2. scan ((?m @ CHR '','' # t') @ CHR ''}'' # s) = (Value_string (fst (hd ((k, v) # kvs))), r1)
    \<and> scan r1 = (Name_separator, r2)
    \<and> (\<forall>acc states. sorted_wrt string_less (map fst (acc @ (k, v) # kvs)) \<longrightarrow>
        parse_value (scan r2) (In_object acc (fst (hd ((k, v) # kvs))) # states) = value_done (JObject (acc @ (k, v) # kvs)) s states)"
    by - (rule exI [of _ r1], rule exI [of _ r2], simp)
qed

lemma reads_scalars:
  "reads_value ''true'' (JBool True)" "reads_value ''false'' (JBool False)" "reads_value ''null'' JNull"
  "reads_value ''{}'' (JObject [])" "reads_value ''[]'' (JArray [])"
  by (simp_all add: reads_value_def scan_structure parse_value.simps)

lemma reads_string: "dump_escaped False x = Inr t \<Longrightarrow> reads_value ([CHR 0x22] @ t @ [CHR 0x22]) (JString x)"
  using scan_dump_escaped [of x t] by (simp add: reads_value_def scan_structure parse_value.simps)

lemma reads_integer: "- (2 ^ 63) \<le> n \<Longrightarrow> n < 2 ^ 64 \<Longrightarrow> reads_value (dump_integer n) (JInt n)"
  using scan_dump_integer [of n] by (simp add: reads_value_def integer_token_def parse_value.simps)

lemma json_text_read:
  "json_text ft ea v = Inr t \<Longrightarrow> \<not> ea \<Longrightarrow> json_plain v \<Longrightarrow> reads_value t v"
  "json_elements ft ea vs = Inr t \<Longrightarrow> \<not> ea \<Longrightarrow> vs \<noteq> [] \<Longrightarrow> list_all json_plain vs \<Longrightarrow> reads_elements t vs"
  "json_members ft ea kvs = Inr t \<Longrightarrow> \<not> ea \<Longrightarrow> kvs \<noteq> []
    \<Longrightarrow> list_all (\<lambda>kv. valid_utf8 (fst kv) \<and> json_plain (snd kv)) kvs \<Longrightarrow> reads_members t kvs"
proof (induction ft ea v and ft ea vs and ft ea kvs arbitrary: t and t and t rule: json_text_json_elements_json_members.induct)
  case (1 ft ea kvs)
  then show ?case by (auto simp: bind_result_Inr reads_scalars intro: reads_object [simplified] split: if_splits)
next
  case (2 ft ea vs)
  then show ?case by (auto simp: bind_result_Inr reads_scalars intro: reads_array [simplified] split: if_splits)
next
  case (3 ft ea s)
  then show ?case by (auto simp: bind_result_Inr intro: reads_string [simplified])
next
  case (9 ft ea v vs)
  then show ?case
    by (auto simp: bind_result_Inr reads_last_element intro: reads_next_element split: if_splits)
next
  case (11 ft ea k v kvs)
  then show ?case
    by (auto simp: bind_result_Inr Let_def intro: reads_last_member [simplified] reads_next_member [simplified] split: if_splits)
qed (auto simp: reads_scalars reads_integer)

lemma reads_value_parse:
  assumes "reads_value t v" and "delimited s" and "fst (scan s) = End_of_input"
  shows "json_parse (t @ s) = Inr v"
proof -
  have "value_token (fst (scan (t @ s)))" and p: "parse_value (scan (t @ s)) [] = Inr (v, s)"
    using assms(1,2) by (simp_all add: reads_value_def)
  moreover have "scan (CHR 0xEF # t') = (Parse_error, [])" for t'
    by (simp add: scan_def is_whitespace_def digit_of_def)
  ultimately have "skip_bom (t @ s) = Some (t @ s)"
    by (auto simp: skip_bom_def value_token_def split: list.split)
  with p assms(3) show ?thesis by (simp add: json_parse_def)
qed

lemma json_dump_reads: "json_plain v \<Longrightarrow> \<exists>t. json_dump ft v = Inr t \<and> reads_value t v"
  using json_dump_cases [of ft v] json_text_read(1) [of ft False v] json_wf_utf8 [of v]
  by (auto simp: json_plain_iff json_dump_def)

lemma json_dump_parse: "json_plain v \<Longrightarrow> \<exists>t. json_dump ft v = Inr t \<and> json_parse t = Inr v"
  using json_dump_reads [of v ft] reads_value_parse [of _ v "[]"] by (auto simp: scan_def [of "[]"])

text \<open>A null byte ends the input, whatever follows.\<close>

lemma json_parse_null:
  assumes "json_plain v" and "json_dump ft v = Inr t"
  shows "json_parse (t @ CHR 0x00 # s) = Inr v"
proof (rule reads_value_parse)
  show "reads_value t v" using json_dump_reads [OF assms(1), of ft] assms(2) by simp
qed (simp_all add: scan_def is_whitespace_def digit_of_def)

section \<open>Nesting\<close>

text \<open>How deep \<open>dump\<close> calls itself.\<close>

fun json_depth :: "json \<Rightarrow> nat" where
  "json_depth (JArray vs) = Suc (fold max (map json_depth vs) 0)"
| "json_depth (JObject kvs) = Suc (fold max (map (\<lambda>kv. json_depth (snd kv)) kvs) 0)"
| "json_depth v = 1"

fun nested :: "nat \<Rightarrow> json" where
  "nested 0 = JNull"
| "nested (Suc n) = JArray [nested n]"

lemma nested_plain: "json_plain (nested n)" and nested_depth: "json_depth (nested n) = Suc n"
  by (induction n) (auto simp: json_plain_def)

lemma nested_is_read: "\<exists>t. json_parse t = Inr (nested n) \<and> json_depth (nested n) = Suc n"
  using json_dump_parse [OF nested_plain] nested_depth by blast

end
