(* ===== verification/JsonSound.thy ===== *)
theory JsonSound
  imports JsonRoundtrip
begin

text \<open>
  Reading always ends, with a well-formed value, which can be written again, or with a parse error; and what is written is
  UTF-8.
\<close>

unbundle bit_operations_syntax

section \<open>Strings that were read are UTF-8\<close>

lemma valid_utf8_append: "valid_utf8 s \<Longrightarrow> valid_utf8 t \<Longrightarrow> valid_utf8 (s @ t)"
proof -
  assume "valid_utf8 s" "valid_utf8 t"
  then obtain cs ds where "list_all scalar_value cs" "s = concat (map utf8_text cs)"
    "list_all scalar_value ds" "t = concat (map utf8_text ds)" by (auto simp: valid_utf8_def)
  then show ?thesis unfolding valid_utf8_def by (intro exI [of _ "cs @ ds"]) simp
qed

lemma valid_utf8_text: "scalar_value cp \<Longrightarrow> valid_utf8 (utf8_text cp)"
  using valid_utf8_scalar [of cp "[]"] by simp

lemma valid_utf8_ascii: "of_char c < (128 :: nat) \<Longrightarrow> valid_utf8 [c]"
  using valid_utf8_text [of "of_char c"] by (simp add: utf8_text_ascii scalar_value_def)

lemma hex_value_less: "hex_value c = Some d \<Longrightarrow> d < 16"
  by (auto simp: hex_value_def split: if_splits)

lemma codepoint_loop_le:
  "codepoint_loop fs cp s = Some (cp', s') \<Longrightarrow> cp' \<le> cp + sum_list (map (\<lambda>f. 15 * 2 ^ f) fs)"
proof (induction fs cp s rule: codepoint_loop.induct)
  case (3 f fs cp c s)
  then obtain d where d: "hex_value (of_char c) = Some d"
    "codepoint_loop fs (cp + push_bit f d) s = Some (cp', s')" by (auto split: option.splits)
  have "d * 2 ^ f \<le> 15 * 2 ^ f" using hex_value_less [OF d(1)] by (intro mult_right_mono) simp_all
  moreover have "cp' \<le> cp + d * 2 ^ f + sum_list (map (\<lambda>f. 15 * 2 ^ f) fs)"
    using "3.IH" [OF d] by (simp add: push_bit_eq_mult)
  ultimately show ?case unfolding list.map sum_list.Cons by linarith
qed simp_all

lemma get_codepoint_less: "get_codepoint s = Some (cp, s') \<Longrightarrow> cp < 0x10000"
  using codepoint_loop_le [of "[12, 8, 4, 0]" 0 s cp s'] by (simp add: get_codepoint_def)

lemma scan_unicode_valid: "scan_unicode s = Some (t, s') \<Longrightarrow> valid_utf8 t"
proof -
  assume "scan_unicode s = Some (t, s')"
  moreover have "scalar_value (push_bit 10 a + b - 0x35FDC00)"
    if "0xD800 \<le> a" "a \<le> 0xDBFF" "0xDC00 \<le> b" "b \<le> 0xDFFF" for a b
    using that by (auto simp: scalar_value_def push_bit_eq_mult)
  ultimately show ?thesis
    by (auto simp: scan_unicode_def scalar_value_def dest!: get_codepoint_less intro!: valid_utf8_text
        split: option.splits if_splits)
qed

lemma scan_escape_valid: "scan_escape s = Some (t, s') \<Longrightarrow> valid_utf8 t"
  by (auto simp: scan_escape_def intro!: valid_utf8_ascii dest: scan_unicode_valid split: list.splits if_splits)

lemma next_byte_in_range_Some:
  "next_byte_in_range rs s = Some (t, s') \<Longrightarrow> list_all2 in_range rs (map of_char t)"
  by (induction rs s arbitrary: t rule: next_byte_in_range.induct) (auto split: if_splits option.splits)

lemma ranges_valid:
  assumes "utf8_ranges (of_char c) = Some rs" and "next_byte_in_range rs s = Some (t, s')"
  shows "valid_utf8 (c # t)"
proof -
  from ranges_encode [OF assms(1) next_byte_in_range_Some [OF assms(2)]]
  obtain cp where cp: "scalar_value cp" "utf8_encode cp = of_char c # map of_char t" by blast
  have "map of_char (utf8_text cp) = (map of_char (c # t) :: nat list)" using utf8_text_bytes [OF cp(1)] cp(2) by simp
  then have "c # t = utf8_text cp" by (simp only: map_of_char_inj)
  with cp(1) show ?thesis by (simp add: valid_utf8_text)
qed

lemma scan_string_loop_valid:
  "scan_string_loop buf s = Some (t, s') \<Longrightarrow> valid_utf8 buf \<Longrightarrow> valid_utf8 t"
proof (induction buf s rule: scan_string_loop.induct)
  case (2 buf c s)
  consider "c = CHR 0x22" | a b where "c \<noteq> CHR 0x22" "c = CHR 0x5C" "scan_escape s = Some (a, b)"
    "scan_string_loop (buf @ a) b = Some (t, s')"
  | rs a b where "c \<noteq> CHR 0x22" "c \<noteq> CHR 0x5C" "utf8_ranges (of_char c) = Some rs"
    "next_byte_in_range rs s = Some (a, b)" "scan_string_loop (buf @ c # a) b = Some (t, s')"
    using "2.prems"(1) by (auto split: if_splits option.splits)
  then show ?case
  proof cases
    case 1
    with "2.prems" show ?thesis by simp
  next
    case (2 a b)
    with "2.IH"(1) [of "(a, b)" a b] "2.prems"(2) scan_escape_valid [of s a b] show ?thesis
      by (simp add: valid_utf8_append)
  next
    case (3 rs a b)
    with "2.IH"(2) [of rs "(a, b)" a b] "2.prems"(2) ranges_valid [of c rs s a b] show ?thesis
      by (simp add: valid_utf8_append)
  qed
qed simp

section \<open>Tokens\<close>

definition token_wf :: "token_type \<Rightarrow> bool" where
  "token_wf t =
     (case t of
        Value_string x \<Rightarrow> valid_utf8 x
      | Value_unsigned n \<Rightarrow> n < 2 ^ 64
      | Value_integer i \<Rightarrow> - (2 ^ 63) \<le> i \<and> i < 2 ^ 63
      | _ \<Rightarrow> True)"

lemma token_wf_simps [simp]:
  "token_wf (Value_string x) = valid_utf8 x" "token_wf (Value_unsigned n) = (n < 2 ^ 64)"
  "token_wf (Value_integer i) = (- (2 ^ 63) \<le> i \<and> i < 2 ^ 63)" "token_wf (Value_float f)" "token_wf Parse_error"
  "token_wf Begin_array" "token_wf End_array" "token_wf Begin_object" "token_wf End_object" "token_wf Name_separator"
  "token_wf Value_separator" "token_wf Literal_true" "token_wf Literal_false" "token_wf Literal_null"
  "token_wf End_of_input"
  by (simp_all add: token_wf_def)

lemma scan_parts_wf:
  "token_wf (fst (scan_string s))" "token_wf (fst (json_scan_number c s))" "token_wf r \<Longrightarrow> token_wf (fst (scan_literal l r s))"
proof -
  show "token_wf (fst (scan_string s))"
    by (auto simp: scan_string_def dest: scan_string_loop_valid split: option.splits)
  show "token_wf (fst (json_scan_number c s))"
    by (auto simp: json_scan_number_def number_token_def strtoull_def strtoll_def Let_def
        split: option.splits number_type.splits prod.splits if_splits)
  show "token_wf r \<Longrightarrow> token_wf (fst (scan_literal l r s))" by (simp add: scan_literal_def)
qed

lemma scan_wf: "token_wf (fst (scan s))"
proof (cases "dropWhile is_whitespace s")
  case (Cons c r)
  show ?thesis unfolding scan_def Cons list.case by (auto intro: scan_parts_wf)
next
  case Nil
  show ?thesis unfolding scan_def Nil list.case by simp
qed

lemma scan_wf_eq: "scan s = (t, s') \<Longrightarrow> token_wf t"
  using scan_wf [of s] by simp

section \<open>Values\<close>

lemma json_wf_simps [simp]:
  "json_wf (JArray vs) \<longleftrightarrow> list_all json_wf vs"
  "json_wf (JObject kvs) \<longleftrightarrow> sorted_wrt string_less (map fst kvs)
     \<and> list_all (\<lambda>kv. valid_utf8 (fst kv) \<and> json_wf (snd kv)) kvs"
  "json_wf (JString x) \<longleftrightarrow> valid_utf8 x"
  "json_wf (JInt n) \<longleftrightarrow> - (2 ^ 63) \<le> n \<and> n < 2 ^ 64"
  "json_wf (JFloat q)" "json_wf (JBool b)" "json_wf JNull"
  by (auto simp: json_wf_def list_all_iff)

lemma string_less_total: "string_less a b \<or> a = b \<or> string_less b a"
proof (induction a b rule: string_less.induct)
  case (1 s)
  then show ?case by (cases s) auto
next
  case (3 a as c cs)
  then show ?case using linorder_neq_iff [of "of_char a :: nat" "of_char c"] by auto
qed simp

lemma object_update_keys: "set (map fst (object_update k v kvs)) = insert k (set (map fst kvs))"
  by (induction k v kvs rule: object_update.induct) auto

lemma object_update_sorted:
  "sorted_wrt string_less (map fst kvs) \<Longrightarrow> sorted_wrt string_less (map fst (object_update k v kvs))"
proof (induction k v kvs rule: object_update.induct)
  case (2 k v k' v' kvs)
  show ?case
  proof (cases "k = k' \<or> string_less k k'")
    case True
    with "2.prems" show ?thesis by (auto intro: string_less_trans)
  next
    case False
    then have "string_less k' k" using string_less_total [of k k'] by blast
    with False 2 object_update_keys [of k v kvs] show ?thesis by auto
  qed
qed simp

lemma object_update_wf:
  "json_wf (JObject kvs) \<Longrightarrow> valid_utf8 k \<Longrightarrow> json_wf v \<Longrightarrow> json_wf (JObject (object_update k v kvs))"
  using object_update_sorted [of kvs k v]
  by simp (induction k v kvs rule: object_update.induct, auto)

fun frame_wf :: "json_frame \<Rightarrow> bool" where
  "frame_wf (In_array vs) \<longleftrightarrow> json_wf (JArray vs)"
| "frame_wf (In_object kvs k) \<longleftrightarrow> json_wf (JObject kvs) \<and> valid_utf8 k"

lemma parse_wf:
  "parse_value ts states = Inr (j, s') \<Longrightarrow> token_wf (fst ts) \<Longrightarrow> list_all frame_wf states \<Longrightarrow> json_wf j"
  "value_done v s states = Inr (j, s') \<Longrightarrow> json_wf v \<Longrightarrow> list_all frame_wf states \<Longrightarrow> json_wf j"
proof (induction ts states and v s states arbitrary: j s' and j s' rule: parse_value_value_done.induct)
  case (1 t s states)
  then show ?case
    by (subst (asm) (1) parse_value.simps)
      (auto simp: scan_wf dest: scan_wf_eq split: token_type.splits prod.splits option.splits if_splits)
next
  case (3 v s vs states)
  then show ?case by (auto simp: scan_wf split: token_type.splits prod.splits if_splits)
next
  case (4 v s kvs k states)
  then show ?case
    by (auto simp: scan_wf object_update_wf simp del: json_wf_simps(2) dest: scan_wf_eq split: token_type.splits prod.splits if_splits)
qed simp

lemma parse_faults:
  "parse_value ts states = Inl e \<Longrightarrow> e = Json_error"
  "value_done v s states = Inl e \<Longrightarrow> e = Json_error"
proof (induction ts states and v s states rule: parse_value_value_done.induct)
  case (1 t s states)
  then show ?case
    by (subst (asm) (1) parse_value.simps) (auto split: token_type.splits prod.splits option.splits if_splits)
qed (auto split: token_type.splits prod.splits if_splits)

lemma json_parse_sound: "case json_parse s of Inl e \<Rightarrow> e = Json_error | Inr j \<Rightarrow> json_wf j"
proof (cases "skip_bom s")
  case (Some s1)
  show ?thesis
  proof (cases "parse_value (scan s1) []")
    case (Inl e)
    with Some parse_faults(1) show ?thesis by (simp add: json_parse_def)
  next
    case (Inr r)
    obtain j s2 where r: "r = (j, s2)" by fastforce
    with Inr parse_wf(1) [of "scan s1" "[]" j s2] have "json_wf j" by (simp add: scan_wf)
    with Some Inr r show ?thesis by (simp add: json_parse_def)
  qed
qed (simp add: json_parse_def)

text \<open>What was read can be written; the core manager logs such values.\<close>

lemma parsed_can_be_written: "json_parse s = Inr j \<Longrightarrow> \<exists>t. json_dump ft j = Inr t"
  using json_parse_sound [of s] json_dump_cases [of ft j] json_wf_utf8 [of j] by auto

section \<open>Texts that were written are UTF-8\<close>

lemma ascii_valid: "list_all (\<lambda>c. of_char c < (128 :: nat)) s \<Longrightarrow> valid_utf8 s"
proof (induction s)
  case (Cons c s)
  then show ?case using valid_utf8_append [of "[c]" s] by (simp add: valid_utf8_ascii)
qed simp

lemma hex_digit_ascii: "d < 16 \<Longrightarrow> of_char (hex_digit d) < (128 :: nat)"
  by (auto simp: hex_digit_def of_char_char_of_digit of_char_of)

lemma unicode_escape_valid: "valid_utf8 (unicode_escape n)"
  by (rule ascii_valid) (simp add: unicode_escape_def hex4_def hex_digit_ascii)

lemma escaped_valid:
  assumes "scalar_value cp"
  shows "valid_utf8 (escaped cp)"
proof (cases "plain_codepoint cp")
  case True
  with assms show ?thesis by (simp add: escaped_plain valid_utf8_text)
next
  case False
  then have cp: "cp < 128" "escaped cp = dump_codepoint False cp (char_of cp)"
    by (auto simp: plain_codepoint_def escaped_def utf8_text_ascii)
  show ?thesis unfolding cp(2) using cp(1) False
    by (auto simp: dump_codepoint_def plain_codepoint_def unicode_escape_valid intro!: ascii_valid)
qed

lemma dump_escaped_text_valid: "dump_escaped False x = Inr t \<Longrightarrow> valid_utf8 t"
proof -
  assume t: "dump_escaped False x = Inr t"
  then have "valid_utf8 x" using dump_escaped_valid by blast
  then obtain cps where cps: "list_all scalar_value cps" "x = concat (map utf8_text cps)"
    by (auto simp: valid_utf8_def)
  have "t = concat (map escaped cps)" using t dump_scalars [OF cps(1)] by (simp add: cps(2) dump_escaped_def)
  moreover have "valid_utf8 (concat (map escaped cps))"
    using cps(1) by (induction cps) (simp_all add: escaped_valid valid_utf8_append)
  ultimately show ?thesis by simp
qed

lemma nat_to_string_ascii: "list_all (\<lambda>c. of_char c < (128 :: nat)) (nat_to_string n)"
  using nat_to_string_digits [of n]
  by (rule list.pred_mono_strong) (auto simp: digit_of_def Let_def split: if_splits)

lemma dump_integer_valid: "- (2 ^ 63) \<le> n \<Longrightarrow> n < 2 ^ 64 \<Longrightarrow> valid_utf8 (dump_integer n)"
  by (rule ascii_valid) (simp add: dump_integer_eq(1) int_to_string_def nat_to_string_ascii)

lemma valid_utf8_Cons: "of_char c < (128 :: nat) \<Longrightarrow> valid_utf8 s \<Longrightarrow> valid_utf8 (c # s)"
  using valid_utf8_append [of "[c]" s] by (simp add: valid_utf8_ascii)

lemma json_text_valid:
  "json_text ft ea v = Inr t \<Longrightarrow> \<not> ea \<Longrightarrow> json_plain v \<Longrightarrow> valid_utf8 t"
  "json_elements ft ea vs = Inr t \<Longrightarrow> \<not> ea \<Longrightarrow> list_all json_plain vs \<Longrightarrow> valid_utf8 t"
  "json_members ft ea kvs = Inr t \<Longrightarrow> \<not> ea
    \<Longrightarrow> list_all (\<lambda>kv. valid_utf8 (fst kv) \<and> json_plain (snd kv)) kvs \<Longrightarrow> valid_utf8 t"
proof (induction ft ea v and ft ea vs and ft ea kvs arbitrary: t and t and t rule: json_text_json_elements_json_members.induct)
qed (auto simp: bind_result_Inr Let_def valid_utf8_Cons dump_integer_valid dest: dump_escaped_text_valid
    intro!: valid_utf8_Cons valid_utf8_append split: if_splits)

end
