(* ===== verification/JsonService.thy ===== *)
theory JsonService
  imports JsonSound CoreWorker
begin

text \<open>
  What the web socket server relies on when it writes and reads JSON text, as a contract, and that \<open>json.hpp\<close> keeps it.
\<close>

section \<open>The contract\<close>

text \<open>
  Some values are written as UTF-8 and read back as they were; reading fails with the exception of the library only.
\<close>

locale json_library =
  fixes dump :: "json \<Rightarrow> fault + string"
    and parse :: "string \<Rightarrow> fault + json"
    and storable :: "json \<Rightarrow> bool"
  assumes read_back: "storable j \<Longrightarrow> \<exists>t. dump j = Inr t \<and> valid_utf8 t \<and> parse t = Inr j"
    and parse_fails: "parse t = Inl e \<Longrightarrow> e = Json_error"
begin

text \<open>Two storable values are never written as the same text.\<close>

lemma dump_inj: "storable i \<Longrightarrow> storable j \<Longrightarrow> dump i = dump j \<Longrightarrow> i = j"
  using read_back [of i] read_back [of j] by auto

text \<open>A list of messages is a list of texts.\<close>

lemma texts: "list_all storable js \<Longrightarrow>
    \<exists>ms. map dump js = map Inr ms \<and> list_all valid_utf8 ms \<and> map parse ms = map Inr js"
proof (induction js)
  case (Cons j js)
  then obtain ms where "map dump js = map Inr ms" "list_all valid_utf8 ms" "map parse ms = map Inr js" by auto
  moreover obtain t where "dump j = Inr t" "valid_utf8 t" "parse t = Inr j" using read_back [of j] Cons.prems by auto
  ultimately show ?case by (intro exI [of _ "t # ms"]) simp
qed simp

text \<open>What is broadcast is the same text for every member, and it is read back.\<close>

lemma broadcast_arrives:
  assumes "status_json status msgInfo component msgData data = Inr j" and "storable j" and "server_inv w"
  shows "\<exists>m w'. updateStateAndBroadcast dump status msgInfo component msgData data w = Inr w'
    \<and> valid_utf8 m \<and> parse m = Inr j
    \<and> (\<forall>c. accepted (session_at w' c)
        = (if c \<in> set (sessions w) then accepted (session_at w c) @ [m] else accepted (session_at w c)))"
proof -
  obtain m where "dump j = Inr m" "valid_utf8 m" "parse m = Inr j" using read_back [OF assms(2)] by blast
  with assms(1) show ?thesis
    by (intro exI [of _ m] exI [of _ "broadcast m w"])
      (simp add: updateStateAndBroadcast_def session_at_broadcast [OF assms(3)])
qed

text \<open>A client that joins is sent texts that are read back as the initial state.\<close>

lemma initial_state_arrives:
  assumes "list_all storable (init_messages view)"
  shows "\<exists>ms. sendInitStateToClient dump view c w = Inr (fold (server_send c) ms w)
    \<and> list_all valid_utf8 ms \<and> map parse ms = map Inr (init_messages view)"
  using texts [OF assms] by (auto simp: sendInitStateToClient_Inr)

text \<open>
  A text of a client that is not JSON changes nothing, and one that is JSON is only dangerous as the request to remove
  a record whose number is a floating point number no \<open>int\<close> can hold.
\<close>

lemma bad_text_ignored: "parse msg = Inl e \<Longrightarrow> handleMessageFromClient parse msg q = Inr q"
  using parse_fails [of msg e] by (simp add: handleMessageFromClient_def client_event_def bind_result_Inl)

lemma client_undefined:
  assumes "handleMessageFromClient parse msg q = Inl e"
  shows "\<exists>j y. parse msg = Inr j \<and> json_at j ''command'' = JString ''remove_record''
    \<and> json_at (json_at j ''data'') ''id'' = JFloat y \<and> float_to_int y = None"
proof (rule client_event_undefined)
  show "client_event parse msg = Inl Undefined_behaviour"
    using assms by (auto simp: handleMessageFromClient_def split: sum.splits option.splits fault.splits)
  show "parse msg \<noteq> Inl Undefined_behaviour" using parse_fails by auto
qed

end

section \<open>The library keeps it\<close>

interpretation json: json_library "json_dump ft" json_parse json_plain for ft
proof unfold_locales
  fix j assume j: "json_plain j"
  then obtain t where "json_dump ft j = Inr t" "json_parse t = Inr j" using json_dump_parse by blast
  with j show "\<exists>t. json_dump ft j = Inr t \<and> valid_utf8 t \<and> json_parse t = Inr j"
    using json_text_valid(1) [of ft False j t] by (auto simp: json_dump_def)
next
  show "json_parse t = Inl e \<Longrightarrow> e = Json_error" for t e
    using json_parse_sound [of t] by simp
qed

text \<open>The messages of the server are values the library can store.\<close>

lemma status_json_plain:
  assumes "list_all valid_utf8 [status, msgInfo, component, msgData]" and "json_plain data"
    and "status_json status msgInfo component msgData data = Inr j"
  shows "json_plain j"
  using assms by (auto simp: status_json_Inr ascii_valid)

lemma init_messages_plain:
  "- (2 ^ 63) \<le> CURRENT_TEMPERATURE view \<Longrightarrow> CURRENT_TEMPERATURE view < 2 ^ 64 \<Longrightarrow>
   list_all json_plain (init_messages view)"
  by (simp add: init_messages_def ascii_valid json_plain_iff json_no_float_def)

text \<open>What a client that joins is sent and what it sends, over the library.\<close>

lemma initial_state_read_back:
  assumes "- (2 ^ 63) \<le> CURRENT_TEMPERATURE view" and "CURRENT_TEMPERATURE view < 2 ^ 64"
  shows "\<exists>ms. sendInitStateToClient (json_dump ft) view c w = Inr (fold (server_send c) ms w)
    \<and> list_all valid_utf8 ms \<and> map json_parse ms = map Inr (init_messages view)"
  by (rule json.initial_state_arrives [OF init_messages_plain [OF assms]])

lemma client_text_safe:
  "handleMessageFromClient json_parse msg q = Inl e \<Longrightarrow>
   \<exists>j y. json_parse msg = Inr j \<and> json_at j ''command'' = JString ''remove_record''
    \<and> json_at (json_at j ''data'') ''id'' = JFloat y \<and> float_to_int y = None"
  by (rule json.client_undefined)

end
