(* ===== verification/JsonBuffer.thy ===== *)
theory JsonBuffer
  imports JsonWriter
begin

text \<open>
  The buffer of the serializer of strings in \<open>coremgr/external/json/json.hpp\<close>: 512 bytes that are filled by index and
  written out when fewer than 13 are free.  A store outside the array is undefined behaviour; there is none.
\<close>

record string_writer =
  out_text :: string
  string_buffer :: string
  buffer_bytes :: nat

definition string_writer_init :: string_writer where
  "string_writer_init = \<lparr>out_text = [], string_buffer = replicate 512 (CHR 0x00), buffer_bytes = 0\<rparr>"

section \<open>Stores\<close>

text \<open>Bytes that are stored one after the other, and a text of \<open>snprintf\<close>, which a null byte follows.\<close>

definition store_chars :: "string \<Rightarrow> string_writer \<Rightarrow> fault + string_writer" where
  "store_chars t b =
     (let n = buffer_bytes b; buf = string_buffer b
      in if n + length t \<le> length buf
         then Inr (b\<lparr>string_buffer := take n buf @ t @ drop (n + length t) buf, buffer_bytes := n + length t\<rparr>)
         else Inl Undefined_behaviour)"

definition store_formatted :: "string \<Rightarrow> string_writer \<Rightarrow> fault + string_writer" where
  "store_formatted t b =
     (let n = buffer_bytes b; buf = string_buffer b
      in if n + length t + 1 \<le> length buf
         then Inr (b\<lparr>string_buffer := take n buf @ t @ [CHR 0x00] @ drop (n + length t + 1) buf,
                    buffer_bytes := n + length t\<rparr>)
         else Inl Undefined_behaviour)"

definition write_buffer :: "string_writer \<Rightarrow> string_writer" where
  "write_buffer b = b\<lparr>out_text := out_text b @ take (buffer_bytes b) (string_buffer b), buffer_bytes := 0\<rparr>"

section \<open>The loop\<close>

definition store_codepoint :: "bool \<Rightarrow> nat \<Rightarrow> char \<Rightarrow> string_writer \<Rightarrow> fault + string_writer" where
  "store_codepoint ensure_ascii codepoint c b =
     bind_result
       (if codepoint \<notin> {0x08, 0x09, 0x0A, 0x0C, 0x0D, 0x22, 0x5C} \<and> (codepoint \<le> 0x1F \<or> ensure_ascii \<and> 0x7F \<le> codepoint)
        then store_formatted (dump_codepoint ensure_ascii codepoint c) b
        else store_chars (dump_codepoint ensure_ascii codepoint c) b)
       (\<lambda>b. Inr (if length (string_buffer b) - buffer_bytes b < 13 then write_buffer b else b))"

fun store_loop :: "bool \<Rightarrow> nat \<times> nat \<Rightarrow> string_writer \<Rightarrow> string \<Rightarrow> fault + string" where
  "store_loop ensure_ascii st b [] =
     (if fst st = UTF8_ACCEPT then Inr (out_text (if 0 < buffer_bytes b then write_buffer b else b)) else Inl Json_error)"
| "store_loop ensure_ascii st b (c # s) =
     (let st' = decode st (of_char c)
      in if fst st' = UTF8_ACCEPT then
           bind_result (store_codepoint ensure_ascii (snd st') c b) (\<lambda>b. store_loop ensure_ascii st' b s)
         else if fst st' = UTF8_REJECT then Inl Json_error
         else if ensure_ascii then store_loop ensure_ascii st' b s
         else bind_result (store_chars [c] b) (\<lambda>b. store_loop ensure_ascii st' b s))"

definition dump_escaped_buffered :: "bool \<Rightarrow> string \<Rightarrow> fault + string" where
  "dump_escaped_buffered ensure_ascii s = store_loop ensure_ascii (UTF8_ACCEPT, 0) string_writer_init s"

section \<open>No store is outside the buffer\<close>

text \<open>The bytes of an incomplete code point that may be in the buffer, by the state of the decoder.\<close>

definition pending :: "nat \<Rightarrow> nat" where
  "pending st = (if st = 0 then 0 else if st = 2 then 3 else if st = 3 then 2 else 1)"

definition decoder_state :: "nat \<Rightarrow> bool" where
  "decoder_state st \<longleftrightarrow> st = UTF8_ACCEPT \<or> st \<in> {2 .. 8}"

lemma decode_states:
  assumes "decoder_state s" and "b < 256" and "fst (decode (s, x) b) = s'" and "s' \<noteq> UTF8_REJECT"
  shows "decoder_state s' \<and> (s' \<noteq> UTF8_ACCEPT \<longrightarrow> pending s < pending s')"
proof -
  have "s = UTF8_ACCEPT \<or> s = 2 \<or> s = 3 \<or> s = 4 \<or> s = 5 \<or> s = 6 \<or> s = 7 \<or> s = 8"
    using assms(1) by (auto simp: decoder_state_def)
  then show ?thesis
    using assms(3,4) decode_start [OF assms(2), of x] decode_more [OF assms(2), of x]
    by (elim disjE) (auto simp: decoder_state_def pending_def UTF8_ACCEPT_def UTF8_REJECT_def split: if_splits)
qed

lemma dump_codepoint_length:
  "length (dump_codepoint ea cp c) \<le> (if ea then 12 else 6)"
  by (simp add: dump_codepoint_def unicode_escape_def hex4_def)

definition holds :: "bool \<Rightarrow> nat \<Rightarrow> string_writer \<Rightarrow> string \<Rightarrow> bool" where
  "holds ea st b buffer \<longleftrightarrow> length (string_buffer b) = 512
     \<and> buffer_bytes b \<le> 499 + (if ea then 0 else pending st)
     \<and> out_text b @ take (buffer_bytes b) (string_buffer b) = buffer"

lemma pending_le: "pending st \<le> 3"
  by (simp add: pending_def)

lemma store_chars_holds:
  assumes "length (string_buffer b) = 512" and "buffer_bytes b + length t \<le> 512"
  shows "\<exists>b'. store_chars t b = Inr b' \<and> length (string_buffer b') = 512
    \<and> buffer_bytes b' = buffer_bytes b + length t
    \<and> out_text b' @ take (buffer_bytes b') (string_buffer b') = (out_text b @ take (buffer_bytes b) (string_buffer b)) @ t"
  using assms by (simp add: store_chars_def Let_def min_absorb2)

lemma store_formatted_holds:
  assumes "length (string_buffer b) = 512" and "buffer_bytes b + length t + 1 \<le> 512"
  shows "\<exists>b'. store_formatted t b = Inr b' \<and> length (string_buffer b') = 512
    \<and> buffer_bytes b' = buffer_bytes b + length t
    \<and> out_text b' @ take (buffer_bytes b') (string_buffer b') = (out_text b @ take (buffer_bytes b) (string_buffer b)) @ t"
  using assms by (simp add: store_formatted_def Let_def min_absorb2)

lemma store_codepoint_holds:
  assumes "holds ea st b buffer"
  shows "\<exists>b'. store_codepoint ea cp c b = Inr b' \<and> holds ea UTF8_ACCEPT b' (buffer @ dump_codepoint ea cp c)"
proof -
  let ?t = "dump_codepoint ea cp c"
  have b: "length (string_buffer b) = 512" "buffer_bytes b + length ?t + 1 \<le> 512"
    using assms dump_codepoint_length [of ea cp c] pending_le [of st] by (auto simp: holds_def split: if_splits)
  define C where "C \<longleftrightarrow> cp \<notin> {0x08, 0x09, 0x0A, 0x0C, 0x0D, 0x22, 0x5C} \<and> (cp \<le> 0x1F \<or> ea \<and> 0x7F \<le> cp)"
  have contents: "out_text b @ take (buffer_bytes b) (string_buffer b) = buffer" using assms by (simp add: holds_def)
  have "\<exists>b1. (if C then store_formatted ?t b else store_chars ?t b) = Inr b1 \<and> length (string_buffer b1) = 512
      \<and> buffer_bytes b1 = buffer_bytes b + length ?t
      \<and> out_text b1 @ take (buffer_bytes b1) (string_buffer b1) = buffer @ ?t"
  proof (cases C)
    case True
    with store_formatted_holds [OF b] contents show ?thesis by simp
  next
    case False
    with store_chars_holds [OF b(1), of ?t] b(2) contents show ?thesis by simp
  qed
  then obtain b1 where b1: "(if C then store_formatted ?t b else store_chars ?t b) = Inr b1"
    "length (string_buffer b1) = 512" "out_text b1 @ take (buffer_bytes b1) (string_buffer b1) = buffer @ ?t"
    "buffer_bytes b1 \<le> 512" using b(2) by fastforce
  have "holds ea UTF8_ACCEPT (if length (string_buffer b1) - buffer_bytes b1 < 13 then write_buffer b1 else b1) (buffer @ ?t)"
    using b1(2-4) by (auto simp: holds_def write_buffer_def pending_def UTF8_ACCEPT_def)
  with b1(1) show ?thesis unfolding store_codepoint_def C_def [symmetric] by simp
qed

lemma store_loop_eq:
  "holds ea (fst st) b buffer \<Longrightarrow> decoder_state (fst st) \<Longrightarrow> store_loop ea st b s = dump_escaped_loop ea st buffer s"
proof (induction s arbitrary: st b buffer)
  case Nil
  then show ?case by (auto simp: holds_def write_buffer_def)
next
  case (Cons c s)
  obtain s0 x where st: "st = (s0, x)" by fastforce
  obtain s1 y where d: "decode (s0, x) (of_char c) = (s1, y)" by fastforce
  show ?case
  proof (cases "s1 = UTF8_REJECT")
    case True
    then show ?thesis using st d by (simp add: UTF8_ACCEPT_def UTF8_REJECT_def)
  next
    case False
    have s1: "decoder_state s1" "s1 \<noteq> UTF8_ACCEPT \<Longrightarrow> pending s0 < pending s1"
      using decode_states [of s0 "of_char c" x s1] Cons.prems(2) st d False by auto
    show ?thesis
    proof (cases "s1 = UTF8_ACCEPT")
      case True
      from store_codepoint_holds [of ea s0 b buffer y c] Cons.prems(1) st obtain b' where
        "store_codepoint ea y c b = Inr b'" "holds ea UTF8_ACCEPT b' (buffer @ dump_codepoint ea y c)" by auto
      with Cons.IH [of "(s1, y)" b' "buffer @ dump_codepoint ea y c"] s1(1) st d True show ?thesis by simp
    next
      case not_accept: False
      show ?thesis
      proof (cases ea)
        case True
        with Cons.prems(1) st have "holds ea s1 b buffer" by (simp add: holds_def)
        with Cons.IH [of "(s1, y)" b buffer] s1(1) st d False not_accept True show ?thesis by simp
      next
        case no_ascii: False
        have "buffer_bytes b + length [c] \<le> 512" using Cons.prems(1) st pending_le [of s0] no_ascii by (simp add: holds_def)
        with store_chars_holds [of b "[c]"] Cons.prems(1) obtain b' where
          b': "store_chars [c] b = Inr b'" "length (string_buffer b') = 512" "buffer_bytes b' = buffer_bytes b + 1"
          "out_text b' @ take (buffer_bytes b') (string_buffer b') = buffer @ [c]" by (auto simp: holds_def)
        then have "holds ea s1 b' (buffer @ [c])"
          using Cons.prems(1) st s1(2) [OF not_accept] no_ascii by (simp add: holds_def)
        with Cons.IH [of "(s1, y)" b' "buffer @ [c]"] b'(1) s1(1) st d False not_accept no_ascii show ?thesis by simp
      qed
    qed
  qed
qed

lemma dump_escaped_buffered_eq: "dump_escaped_buffered ea s = dump_escaped ea s"
  unfolding dump_escaped_buffered_def dump_escaped_def
  by (rule store_loop_eq) (simp_all add: holds_def string_writer_init_def decoder_state_def)

end
