(* ===== verification/Spec2Isabelle.thy ===== *)
theory Spec2Isabelle
  imports LockOrder RecordInstances HardwareLink CoreMain RecordService HardwareService WebSocketIO EventWait Logger JsonGrammar JsonService JsonBuffer
begin

text \<open>
  A model of the three services of the repository and what they guarantee together.

  \<^bold>\<open>The program.\<close>  The core manager (\<open>src/coremgr\<close>) serves the web clients, keeps the state they see and the
  recordings in a database; the record manager (\<open>src/recordmgr\<close>) records the microphone, the hardware
  manager (\<open>src/hardwaremgr\<close>) drives Bluetooth, the telephone and a thermometer.  They share
  \<open>src/common\<close>.  In each service a receiver thread turns messages from the bus into events, a main worker
  takes the events off a queue, and further threads (timer, web sockets, database pool, recorder, Bluetooth,
  monitor) push events or work for the handlers.  The services only exchange signals over D-Bus: commands
  of the core manager one way, notifications with a flag and a block of texts the other.

  \<^bold>\<open>Shared parts.\<close>  \<open>Prelude\<close>: the faults a C++ operation can end in (an exception, undefined behaviour), numbers
  as text, and the rules the other theories share.  \<open>Floats\<close>: binary32 arithmetic and \<open>std::stof\<close>.  \<open>DBusTypes\<close>,
  \<open>Configs\<close>: the enumerations, the data block, the names on the bus.  \<open>EventQueue\<close> with the locale \<open>event_queue\<close>:
  first in, first out.  \<open>EventWait\<close>: how a main worker waits for an event.  \<open>Threads\<close>: \<open>ThreadBase\<close>.  \<open>ServiceMain\<close>: the main function
  of a service as a program of actions before and after its loop, with the signal handler and the threads as
  steps in between, and the locale \<open>service_threads\<close> for what every service relies on when it ends.  \<open>DBusClient\<close>:
  connecting to the bus.  \<open>Logger\<close>: the lines of the log.  \<open>DBusTransport\<close>: building, sending, receiving and dispatching a
  message, with the locales \<open>notification_link\<close> and \<open>command_link\<close> between a sender's factory and a receiver;
  \<open>CMSenderFactory\<close>, \<open>HMSenderFactory\<close> and \<open>RMSenderFactory\<close> are the factories and interpret them.

  \<^bold>\<open>Core manager.\<close>  \<open>StateView\<close>, \<open>Json\<close>, \<open>WebSocketServer\<close> (sessions with their queues and write loops), \<open>Timer\<close> (with
  the locale \<open>timer_service\<close>), \<open>Database\<close> (\<open>SQLiteDatabase\<close> and \<open>DBThreadPool\<close>); \<open>Core\<close> puts them into one state
  and has \<open>RecordHandler\<close> and the locale \<open>guarded_request\<close>; \<open>HardwareHandler\<close> and \<open>SQLiteDBHandler\<close> are the other
  controllers; \<open>CoreWorker\<close> has \<open>DBusReceiver\<close>, \<open>WebSocket\<close> and \<open>MainWorker\<close>.  \<open>CoreSpec\<close> states four automata for
  what the handlers do to the view and what one event can do at all, \<open>CoreSystem\<close> the steps of all threads and
  their invariant, \<open>WebSocketIO\<close> refines them by the life of the connections, \<open>CoreMain\<close> is the process, from the
  constructors to the joins, \<open>LockOrder\<close> the two locks of the web socket server, \<open>Instances\<close> a database and an environment
  that meet the hypotheses.

  \<^bold>\<open>JSON text.\<close>  The part of \<open>coremgr/external/json/json.hpp\<close> the core manager runs.  \<open>Json\<close>: values, objects and
  conversions.  \<open>Utf8\<close>: the decoder's automaton and table, the encoder and the lexer's ranges of bytes, each against
  Unicode scalar values.  \<open>JsonWriter\<close>: the serializer, with the digits of integers in their buffer; \<open>JsonBuffer\<close>: its
  buffer of 512 bytes, with stores that are undefined behaviour outside it, and that the loop without a buffer is the
  same.  \<open>JsonLexer\<close>: the scanners of strings, numbers and literals as functions of the text that is left; \<open>JsonParser\<close>:
  the parser and its builder over one stack of frames.  \<open>JsonGrammar\<close>: the grammar and the equivalence with the parser.
  \<open>JsonText\<close>, \<open>JsonRoundtrip\<close>: what is written is read back.  \<open>JsonSound\<close>: what is read is well formed and what
  is written is UTF-8.  \<open>JsonService\<close>: the locale \<open>json_library\<close>, what the web socket server relies on, and the
  library as its interpretation; the section on JSON text below puts the library in the place of the arguments
  \<open>dump\<close> and \<open>parse\<close> of the web socket server.

  \<^bold>\<open>Record manager.\<close>  \<open>AlsaHelper\<close> (device search, capture, WAV file), \<open>RecordWorker\<close> (the worker, its callers and
  the shutdown as three program counters over the shared state), \<open>RecordMain\<close> (receiver, main worker,
  \<open>AudioFilter\<close>); \<open>RecordWorkerFacts\<close> has the invariant of all interleavings, \<open>RecordService\<close> the process,
  \<open>RecordInstances\<close> the witnesses' devices.

  \<^bold>\<open>Hardware manager.\<close>  \<open>HardwareBus\<close>: its state, calls of methods with their results as a parameter, iterators
  over a message.  \<open>BluezDBus\<close>, \<open>OfonoDBus\<close>, \<open>BluetoothAgent\<close>, \<open>BluetoothWorker\<close>: one definition per method.
  \<open>HardwareMain\<close>: receiver, main worker, start.  \<open>HardwareService\<close>: the process.  \<open>Thermometer\<close>: \<open>GPIO\<close> and \<open>MonitorWorker\<close>, with the error bounds of
  the conversions a temperature goes through.  \<open>HardwareTypes\<close>: the signatures BlueZ and oFono document, and
  that no handler fails on messages that have them.  \<open>HardwareSystem\<close>, \<open>HardwareRun\<close>: which operations answer the
  agent's requests, the steps of the two threads under their mutex, and the invariant.  \<open>HardwareFacts\<close>: which
  notifications an operation makes.  \<open>HardwareLink\<close>: the way from there to the core manager and back.
  \<open>HardwareInstances\<close>: a BlueZ and an oFono for the witnesses.

  \<^bold>\<open>Conventions.\<close>  A definition has the name of the method it models; a prefix (\<open>CM_\<close>, \<open>HM_\<close>, \<open>RM_\<close>, \<open>db_\<close>, \<open>ofono_\<close>, \<dots>)
  tells apart methods of the same name.  State is passed explicitly; an exception that leaves a function, or
  behaviour C++ leaves undefined, is the left side of a sum.  A pointer that may be null is an option; the
  payload classes are one datatype.  A loop is a recursive function over what it goes through; the loops of
  the threads, which do not end, are steps, or functions of a list of turns; the search for a timer id
  is a partial function that is shown to end.  What is outside is a parameter: the
  faults of libdbus, SQLite, the sound library, the file system and the shell, and the answers of
  BlueZ and oFono.  Their documented behaviour appears as a named hypothesis where a property needs it
  (\<open>audio_engine\<close>, \<open>typed_answers\<close>, \<open>pair_may_end\<close>, \<dots>), and a witness meets each hypothesis.

  \<^bold>\<open>Properties.\<close>  The sections below go from the bus to the services: notifications arrive, events keep their
  order, the view follows its automata, requests are sent once, one event tells the clients one thing; the
  write loops are safe and complete, the locks can deadlock; what a client's text can do; JSON text; the timer; pairing;
  the recordings; calls and temperature; commands; the recorder's sessions and files; the hardware manager;
  connections, waiting, signals and shutdown.
  Where the code does not do what it means to do the property says what it does instead.

  \<^bold>\<open>Bounds.\<close>  A shutdown is measured by what the bodies of the threads have left to do once the flags are
  cleared; the bounds of the properties are that measure, one step for the end of each thread and one for each
  join.  The parser takes at least one character for every token but the end, so twice the
  text that is left, and one for a token still to be looked at, bounds its steps.

  \<^bold>\<open>Not modelled.\<close>  What a null pointer does to the format of a log line.  Destructors that only close or unref.
  The order in which the main functions' local objects are destroyed.  Boost.Asio beyond the operations that
  are posted or outstanding and what they complete with; \<open>stop\<close> is one step, although the acceptor it closes is in
  use by another thread.  Reference counts of D-Bus messages.  Of \<open>external/json/json.hpp\<close> what the core manager does
  not run: comments, callbacks, indented output, the error handlers that replace or ignore bad bytes, binary formats,
  pointers, patches, iterators and the containers other than vector and map.  The text of a floating point number
  (\<open>dump_float\<close> with Grisu2) is the parameter \<open>float_text\<close>: no message of the server has one, only lines of the log do.
  Positions and messages of parse errors.
\<close>

section \<open>The bus\<close>

text \<open>
  C1: What a service sends the core manager is what the core manager's receiver handles: the command, the
  flag and the data block arrive as they were given (as C strings), whichever of the two services
  made the notification.
\<close>

theorem notification_round_trip:
  assumes "HM_makeMsgNoti F cmd ok info = Some msg \<or> RM_makeMsgNoti F cmd ok info = Some msg"
  shows "CM_receive msg q = CM_handleMessageNoti (Some cmd) ok (\<lambda>t. c_str (info t)) q"
  using assms unfolding CM_receive_def by (elim disjE) (rule hm_to_core.delivered rm_to_core.delivered, assumption)+

lemma notification_round_trip_witness:
  "CM_receive (the (RM_makeMsgNoti no_faults DBusCommand.STOP_RECORD_NOTI True DBusDataInfo_init)) EventQueue_init
   = Inr (push_event EventTypeID.STOP_RECORD_NOTI (Some (NotiPayload True [])) EventQueue_init)"
proof -
  have m: "RM_makeMsgNoti no_faults DBusCommand.STOP_RECORD_NOTI True DBusDataInfo_init \<noteq> None"
    by (rule rm_to_core.makes) (simp add: RM_notifications_def)
  then obtain msg where msg: "RM_makeMsgNoti no_faults DBusCommand.STOP_RECORD_NOTI True DBusDataInfo_init = Some msg"
    by blast
  show ?thesis
    using notification_round_trip [OF disjI2, OF msg, of EventQueue_init] msg
    by (simp add: CM_handleMessageNoti_def c_str_def)
qed

text \<open>
  The core manager reacts to exactly the notifications the two services can make: nothing they send is
  dropped by its receiver, and nothing it handles is never sent.
\<close>

lemma handled_iff_sendable:
  "(\<exists>ok info q. CM_handleMessageNoti (Some cmd) ok info q \<noteq> Inr q) \<longleftrightarrow>
   (\<exists>F ok info msg. HM_makeMsgNoti F cmd ok info = Some msg \<or> RM_makeMsgNoti F cmd ok info = Some msg)"
proof -
  have "(\<exists>ok info q. CM_handleMessageNoti (Some cmd) ok info q \<noteq> Inr q) \<longleftrightarrow> cmd \<in> set CM_handled"
    by (rule CM_handles_iff)
  also have "set CM_handled = set HM_notifications \<union> set RM_notifications"
    by (auto simp: CM_handled_def HM_notifications_def RM_notifications_def)
  also have "cmd \<in> \<dots> \<longleftrightarrow>
      (\<exists>F ok info msg. HM_makeMsgNoti F cmd ok info = Some msg \<or> RM_makeMsgNoti F cmd ok info = Some msg)"
    using hm_to_core.makes hm_to_core.not_offered rm_to_core.makes rm_to_core.not_offered
    unfolding Un_iff by (metis not_Some_eq)
  finally show ?thesis .
qed

text \<open>
  \<open>sendMessageNoti\<close> reports success exactly when the message was handed to the bus: then one message is
  appended to what was sent, with the command, flag and block of the call; otherwise nothing is sent.
\<close>

lemma send_reports_truth:
  assumes "conn s"
  shows "if fst (sendMessageNoti F HM_makeMsgNoti cmd ok info s)
    then \<exists>p. sent (snd (sendMessageNoti F HM_makeMsgNoti cmd ok info s)) =
           sent s @ [noti_msg p (getInterfaceName core_config) (getSignalName core_config) cmd ok info]
    else sent (snd (sendMessageNoti F HM_makeMsgNoti cmd ok info s)) = sent s"
  using hm_to_core.send_result [OF assms, where F = F and cmd = cmd and ok = ok and info = info] by (auto split: prod.splits bool.splits)

lemma send_reports_truth_witness:
  "\<exists>p. sent (snd (sendMessageNoti (\<lambda>_. no_faults) HM_makeMsgNoti DBusCommand.CALL_ENDED_NOTI True
      DBusDataInfo_init dbus_sender_init)) =
    [noti_msg p (getInterfaceName core_config) (getSignalName core_config) DBusCommand.CALL_ENDED_NOTI
      True DBusDataInfo_init]"
proof -
  have c: "conn dbus_sender_init" by (simp add: dbus_sender_init_def)
  have ok: "fst (sendMessageNoti (\<lambda>_. no_faults) HM_makeMsgNoti DBusCommand.CALL_ENDED_NOTI True
      DBusDataInfo_init dbus_sender_init)"
    by (rule hm_to_core.send_healthy) (simp_all add: c HM_notifications_def)
  show ?thesis
    using send_reports_truth [OF c, of "\<lambda>_. no_faults" DBusCommand.CALL_ENDED_NOTI True DBusDataInfo_init] ok
    by (simp only: if_True) (simp add: dbus_sender_init_def)
qed

section \<open>The event loop\<close>

text \<open>
  C2: The main worker processes events first in, first out: after any number of iterations the events that
  arrived are the processed ones followed by those still queued, in order, and the state is what processing
  them one after another gives.
\<close>

theorem events_in_order:
  assumes "main_loop (processEvent env) arrivals q c = Inr (q', c')"
  shows "\<exists>done. eventList q @ concat arrivals = done @ eventList q'
    \<and> fold_result (processEvent env) done c = Inr c'"
  using main_loop_fifo [OF assms] .

lemma events_in_order_witness:
  "\<exists>ds rest c'. [make_Event EventTypeID.START_RECORD None, make_Event EventTypeID.STOP_RECORD None]
      = ds @ rest \<and> fold_result (processEvent plain_env) ds plain_core = Inr c'"
proof -
  have "\<exists>r. main_loop (processEvent plain_env)
      [[make_Event EventTypeID.START_RECORD None, make_Event EventTypeID.STOP_RECORD None]]
      EventQueue_init plain_core = Inr r"
    by (simp add: main_iteration_def hasEvent_def popEvent_def EventQueue_init_def processEvent_def)
  then obtain q' c' where "main_loop (processEvent plain_env)
      [[make_Event EventTypeID.START_RECORD None, make_Event EventTypeID.STOP_RECORD None]]
      EventQueue_init plain_core = Inr (q', c')"
    by (auto simp del: main_loop.simps)
  from events_in_order [OF this] obtain ds where
    "[make_Event EventTypeID.START_RECORD None, make_Event EventTypeID.STOP_RECORD None] = ds @ eventList q'"
    "fold_result (processEvent plain_env) ds plain_core = Inr c'"
    by (auto simp: EventQueue_init_def)
  then show ?thesis by blast
qed

section \<open>The states of the view\<close>

text \<open>
  C3: The recorder, scan, adapter and call states follow four small automata over the events, whatever
  else an event does: what the handlers do to the view refines them.
\<close>

theorem view_refines_automata:
  assumes "processEvent env e c = Inr c'"
  shows "RECORD_STATE c' = record_next (RECORD_STATE c) e
    \<and> SCANNING_BTDEVICE_STATE c' = scan_next (SCANNING_BTDEVICE_STATE c) e
    \<and> BLUETOOTH_POWER_STATE c' = power_next (BLUETOOTH_POWER_STATE c) e
    \<and> CALL_STATE c' = call_next (CALL_STATE c) e"
  using processEvent_record [OF assms] processEvent_scan [OF assms] processEvent_power [OF assms]
    processEvent_call [OF assms]
  by blast

lemma view_refines_automata_witness:
  "\<exists>c'. processEvent plain_env (make_Event EventTypeID.START_RECORD None) plain_core = Inr c'
    \<and> RECORD_STATE c' = RecordState.PROCESSING"
proof -
  let ?e = "make_Event EventTypeID.START_RECORD None"
  have p: "processEvent plain_env ?e plain_core = Inr (startRecord plain_env plain_core)"
    by (simp add: processEvent_def)
  from view_refines_automata [OF p] show ?thesis
    by (simp add: p record_next_def)
qed

text \<open>
  C4: A request that is repeated, by one client or several, is sent to the other service at most once: all
  but the first call leave the whole state as it is until a notification ends the processing.
\<close>

theorem requests_sent_once:
  assumes "f \<in> {startRecord env, stopRecord env, cancelRecord env, startScanBTDevice env, stopScanBTDevice env,
    bluetoothPowerOn env, bluetoothPowerOff env, hangupCall env, answerCall env,
    dialCall env (Some (CallPayload name number state))}"
  shows "(f ^^ Suc n) c = f c \<and> tries_of (f c) \<le> Suc (tries_of c)"
  using assms unfolding insert_iff empty_iff
  by (elim disjE FalseE) (hypsubst, rule start_record.once stop_record.once cancel_record.once
    start_scan.once stop_scan.once power_on.once power_off.once hang_up.once answer.once dial.once)+

lemma requests_sent_once_witness:
  "(startRecord plain_env ^^ Suc 5) plain_core = startRecord plain_env plain_core"
  using requests_sent_once [of "startRecord plain_env" plain_env _ _ _ 5 plain_core] by blast

text \<open>
  C5: One event tells the clients at most one thing: every client that has joined is sent the same message,
  in the order of the events, and nobody else is sent anything.
\<close>

theorem event_broadcasts_once:
  assumes "processEvent env e c = Inr c'" and "core_reachable env c"
  shows "\<exists>ms. length ms \<le> 1 \<and> sessions (server c') = sessions (server c)
    \<and> (\<forall>s. accepted (session_at (server c') s) =
         accepted (session_at (server c) s) @ (if s \<in> set (sessions (server c)) then ms else []))"
proof -
  have inv: "server_inv (server c)"
    using core_inv_reachable [OF assms(2)] by (simp add: core_inv_def)
  from processEvent_server [OF assms(1)] show ?thesis
  proof
    assume "server c' = server c"
    then show ?thesis by (intro exI [of _ "[]"]) simp
  next
    assume "\<exists>m. server c' = broadcast m (server c)"
    then obtain m where "server c' = broadcast m (server c)" by blast
    then show ?thesis
      using session_at_broadcast [OF inv] by (intro exI [of _ "[m]"]) simp
  qed
qed

lemma event_broadcasts_once_witness:
  "\<exists>c'. processEvent plain_env
      (make_Event EventTypeID.STOP_RECORD_NOTI (Some (NotiPayload True ''saved''))) plain_core = Inr c'
    \<and> accepted (session_at (server c') 7) = accepted (session_at (server plain_core) 7)"
proof -
  let ?e = "make_Event EventTypeID.STOP_RECORD_NOTI (Some (NotiPayload True ''saved''))"
  obtain c' where c': "processEvent plain_env ?e plain_core = Inr c'"
    by (simp add: processEvent_def stopRecordNOTI_def)
  from event_broadcasts_once [OF c' plain_core_reachable]
  have "accepted (session_at (server c') 7) = accepted (session_at (server plain_core) 7)"
    by auto
  with c' show ?thesis by blast
qed



section \<open>Web clients\<close>

text \<open>
  C7: Whatever the clients and the network do, the I/O thread never takes the front of an empty queue and
  never has two writes of one client outstanding: a posted write can be started and a completion can be
  handled.
\<close>

theorem writes_are_safe:
  assumes "core_reachable env c"
  shows "(0 < posted (session_at (server c) s) \<longrightarrow> (\<exists>x. session_doWrite (session_at (server c) s) = Inr x))
    \<and> (0 < inflight (session_at (server c) s) \<longrightarrow> (\<exists>w. server_write_done s ec (server c) = Inr w))
    \<and> posted (session_at (server c) s) + inflight (session_at (server c) s) \<le> 1"
proof -
  have i: "session_inv (session_at (server c) s)"
    using core_inv_reachable [OF assms] by (simp add: core_inv_def server_inv_def)
  have "posted (session_at (server c) s) + inflight (session_at (server c) s) \<le> 1"
    using i by (simp add: session_inv_def split: if_splits)
  moreover have "\<exists>w. server_write_done s ec (server c) = Inr w"
    if "0 < inflight (session_at (server c) s)"
    using session_write_done_safe [OF i that, of ec] by (auto simp: server_write_done_def Let_def)
  ultimately show ?thesis using session_doWrite_safe [OF i] by auto
qed

lemma writes_are_safe_witness:
  "posted (session_at (server plain_core) 3) + inflight (session_at (server plain_core) 3) \<le> 1"
  using writes_are_safe [OF plain_core_reachable, of 3] by blast

text \<open>
  C8: A client whose writes succeed gets everything that was sent to it, in the order in which it was
  sent, and then the write loop is at rest.
\<close>

theorem client_gets_everything:
  assumes "session_reachable s" and "failed s = 0" and "inflight s = 0"
  shows "\<exists>s'. session_run_writes (length (message_queue s)) s = Inr s'
    \<and> message_queue s' = [] \<and> delivered s' = accepted s \<and> \<not> writing s'"
  using session_run_writes_drains [OF session_inv_reachable [OF assms(1)] assms(2,3)] .

lemma client_gets_everything_witness:
  "\<exists>s'. session_run_writes 2 (session_send ''b'' (session_send ''a'' WebSocketSession_init)) = Inr s'
    \<and> delivered s' = [''a'', ''b'']"
proof -
  let ?s = "session_send ''b'' (session_send ''a'' WebSocketSession_init)"
  have "session_step\<^sup>*\<^sup>* WebSocketSession_init ?s"
    by (meson Send rtranclp.rtrancl_into_rtrancl rtranclp.rtrancl_refl)
  then have r: "session_reachable ?s" by (simp add: session_reachable_def)
  have f: "failed ?s = 0" "inflight ?s = 0" "length (message_queue ?s) = 2" "accepted ?s = [''a'', ''b'']"
    by (simp_all add: session_send_def WebSocketSession_init_def Let_def)
  from client_gets_everything [OF r f(1,2)] f(3,4) show ?thesis by auto
qed

text \<open>
  A client that joins is sent the temperature, the recorder's and the adapter's state, in this order,
  and the other clients are sent nothing.
\<close>

lemma join_sends_state:
  assumes "join F d view s (w, snd1) = Inr (w', snd2)"
  shows "\<exists>ms. map d (init_messages view) = map Inr ms
    \<and> accepted (session_at w' s) = accepted (session_at w s) @ ms
    \<and> s \<in> set (sessions w')
    \<and> (\<forall>s'. s' \<noteq> s \<longrightarrow> session_at w' s' = session_at w s')
    \<and> attempts snd2 = Suc (attempts snd1)"
proof -
  have fold: "accepted (session_at (fold (server_send s) ms w0) s) = accepted (session_at w0 s) @ ms"
    "sessions (fold (server_send s) ms w0) = sessions w0"
    "s' \<noteq> s \<Longrightarrow> session_at (fold (server_send s) ms w0) s' = session_at w0 s'" for ms w0 s'
    by (induction ms arbitrary: w0) simp_all
  from assms show ?thesis
    by (auto simp: join_def bind_result_Inr sendInitStateToClient_Inr Let_def fold set_insort_key)
qed

lemma join_sends_state_witness:
  "\<exists>w' snd2 ms. join (\<lambda>_. no_faults) plain_dump StateView_init 4 (WebSocketServer_init, dbus_sender_init) = Inr (w', snd2)
    \<and> accepted (session_at w' 4) = ms \<and> length ms = 3"
proof -
  have "\<exists>ms. map plain_dump (init_messages StateView_init) = map Inr ms"
    by (simp add: init_messages_def plain_dump_def Cons_eq_map_conv)
  then obtain w' snd2 where j:
    "join (\<lambda>_. no_faults) plain_dump StateView_init 4 (WebSocketServer_init, dbus_sender_init) = Inr (w', snd2)"
    by (cases "join (\<lambda>_. no_faults) plain_dump StateView_init 4 (WebSocketServer_init, dbus_sender_init)")
      (auto simp: join_def Let_def sendInitStateToClient_def json_set_def json_object_def plain_dump_def)
  from join_sends_state [OF j] obtain ms where
    m: "map plain_dump (init_messages StateView_init) = map Inr ms"
    and a: "accepted (session_at w' 4) = ms"
    by (auto simp: WebSocketServer_init_def WebSocketSession_init_def)
  have "length ms = length (init_messages StateView_init)"
    using arg_cong [OF m, of length] by simp
  with j a show ?thesis by (auto simp: init_messages_def)
qed





text \<open>
  The record id of a \<open>remove_record\<close> request is kept modulo \<open>2^32\<close>: a request for the id
  \<open>n + 2^32\<close> is the request for \<open>n\<close>, so it removes another record than the one it names.
\<close>

lemma record_id_narrowed:
  assumes "json_contains data ''id''" and "json_at data ''id'' = JInt (n + 2 ^ 32)" and "int32 n"
  shows "translateMsg ''remove_record'' data =
    Inr (Some (make_Event EventTypeID.REMOVE_RECORD (Some (RemoveRecordPayload n))))"
  using getIntField_int [OF assms(1,2)] wrap32_add [of n] wrap32_id [OF assms(3)]
  by (simp add: translateMsg_def stringToCommand_def)

lemma record_id_narrowed_witness:
  "translateMsg ''remove_record'' (JObject [(''id'', JInt 4294967297)]) =
   Inr (Some (make_Event EventTypeID.REMOVE_RECORD (Some (RemoveRecordPayload 1))))"
  by (rule record_id_narrowed)
    (simp_all add: json_contains_def json_at_def int32_def INT32_MAX_def INT32_MIN_def)

section \<open>JSON text\<close>

text \<open>
  C11: The parser against the grammar of JSON: \<open>parse\<close>, which keeps a stack and looks one token ahead, gives a value
  exactly when the tokens of the text up to its end are a phrase of the grammar that stands for this value; of equal
  keys the last one counts.
\<close>

theorem json_parse_grammar:
  "json_parse s = Inr j \<longleftrightarrow>
     (\<exists>s1 ts r. skip_bom s = Some s1 \<and> scans s1 ts r \<and> grammar_value ts j \<and> fst (scan r) = End_of_input)"
  by (auto simp: json_parse_def bind_result_Inr parse_value_grammar split: option.splits if_splits)

text \<open>
  C12: A value without floating point numbers whose strings are UTF-8, whose integers have 64 bits and whose keys
  ascend is written as a text of UTF-8, and reading this text gives the value again.
\<close>

theorem json_round_trip:
  assumes "json_wf v" and "json_no_float v"
  shows "\<exists>t. json_dump ft v = Inr t \<and> valid_utf8 t \<and> json_parse t = Inr v"
  using assms by (intro json.read_back) (simp add: json_plain_iff)

lemma json_round_trip_witness:
  "\<exists>t. json_dump (\<lambda>_. '''') (JObject [(''a'', JArray [JInt (- 5), JNull]), (''b'', JString (utf8_text 0x1F600))]) = Inr t
    \<and> json_parse t = Inr (JObject [(''a'', JArray [JInt (- 5), JNull]), (''b'', JString (utf8_text 0x1F600))])"
  (is "\<exists>t. json_dump ?ft ?v = Inr t \<and> json_parse t = Inr ?v")
proof -
  have "valid_utf8 (utf8_text 0x1F600)" by (rule valid_utf8_text) (simp add: scalar_value_def)
  then have "json_wf ?v" by (simp add: ascii_valid)
  moreover have "json_no_float ?v" by (simp add: json_no_float_def)
  ultimately show ?thesis using json_round_trip [of ?v ?ft] by blast
qed

text \<open>
  C13: Every text is read to an end, with a parse error or with a value whose strings are UTF-8, whose integers have
  64 bits and whose keys ascend, which can be written again.
\<close>

theorem json_parse_well_formed:
  "case json_parse s of Inl e \<Rightarrow> e = Json_error | Inr j \<Rightarrow> json_wf j \<and> (\<exists>t. json_dump ft j = Inr t)"
  using json_parse_sound [of s] parsed_can_be_written [of s _ ft] by (auto split: sum.splits)

text \<open>
  C14: A broadcast fails exactly when one of its texts, or a string or key of its data, is not UTF-8, which the
  automaton of the serializer decides; the failure is the exception of the serializer.
\<close>

theorem broadcast_fails_on_bad_text:
  "case updateStateAndBroadcast (json_dump ft) status msgInfo component msgData data w of
     Inl e \<Rightarrow> e = Json_error
       \<and> \<not> (list_all valid_utf8 [status, msgInfo, component, msgData] \<and> json_utf8 data)
   | Inr w' \<Rightarrow> list_all valid_utf8 [status, msgInfo, component, msgData] \<and> json_utf8 data"
  using json_dump_cases [of ft "JObject
     [(''data'', JObject [(''component'', JString component), (''data'', data), (''msg'', JString msgData)]),
      (''msg'', JString msgInfo), (''status'', JString status)]"]
  by (auto simp: updateStateAndBroadcast_def status_json_Inr json_utf8_def ascii_valid split: sum.splits)

text \<open>
  C15: What is broadcast arrives as it was built: every member is sent one text, it is UTF-8 as a text frame has to be,
  and reading it gives the status, the component, the message and the data.
\<close>

theorem broadcast_read_back:
  assumes "list_all valid_utf8 [status, msgInfo, component, msgData]" and "json_wf data" and "json_no_float data"
    and "server_inv w"
  shows "\<exists>m w'. updateStateAndBroadcast (json_dump ft) status msgInfo component msgData data w = Inr w'
    \<and> valid_utf8 m
    \<and> json_parse m = Inr (JObject
        [(''data'', JObject [(''component'', JString component), (''data'', data), (''msg'', JString msgData)]),
         (''msg'', JString msgInfo), (''status'', JString status)])
    \<and> (\<forall>c. accepted (session_at w' c)
        = (if c \<in> set (sessions w) then accepted (session_at w c) @ [m] else accepted (session_at w c)))"
proof -
  have d: "json_plain data" using assms(2,3) by (simp add: json_plain_iff)
  show ?thesis
    by (rule json.broadcast_arrives [OF status_json_Inr status_json_plain [OF assms(1) d status_json_Inr] assms(4)])
qed

lemma broadcast_read_back_witness:
  "\<exists>m w'. updateStateAndBroadcast (json_dump (\<lambda>_. '''')) ''success'' ''ok'' ''Header'' ''update'' (JInt 21)
      (WebSocketServer_init\<lparr>sessions := [4]\<rparr>) = Inr w'
    \<and> accepted (session_at w' 4) = [m] \<and> json_at (json_at (case json_parse m of Inr j \<Rightarrow> j) ''data'') ''data'' = JInt 21"
proof -
  let ?w = "WebSocketServer_init\<lparr>sessions := [4]\<rparr>"
  have "server_inv ?w" using server_inv_init by (simp add: server_inv_def WebSocketServer_init_def)
  moreover have "list_all valid_utf8 [''success'', ''ok'', ''Header'', ''update'']" by (simp add: ascii_valid)
  moreover have "json_wf (JInt 21)" "json_no_float (JInt 21)" by (simp_all add: json_no_float_def)
  ultimately obtain m w' where
    "updateStateAndBroadcast (json_dump (\<lambda>_. '''')) ''success'' ''ok'' ''Header'' ''update'' (JInt 21) ?w = Inr w'"
    "json_parse m = Inr (JObject
        [(''data'', JObject [(''component'', JString ''Header''), (''data'', JInt 21), (''msg'', JString ''update'')]),
         (''msg'', JString ''ok''), (''status'', JString ''success'')])"
    "accepted (session_at w' 4) = accepted (session_at ?w 4) @ [m]"
    using broadcast_read_back [of "''success''" "''ok''" "''Header''" "''update''" "JInt 21" ?w "\<lambda>_. ''''"] by auto
  then show ?thesis
    by (intro exI [of _ m] exI [of _ w']) (simp add: json_at_def WebSocketServer_init_def WebSocketSession_init_def)
qed

text \<open>
  C16: The two buffers of the serializer are never overrun, and they do not show in the text: strings come out as
  without a buffer, with no store outside its 512 bytes, and an integer of 64 bits is written as \<open>std::to_string\<close>
  writes it, in fewer than 63 of 64 bytes.
\<close>

theorem serializer_buffers:
  assumes "- (2 ^ 63) \<le> x" and "x < 2 ^ 64"
  shows "dump_escaped_buffered ensure_ascii s = dump_escaped ensure_ascii s
    \<and> dump_escaped_buffered ensure_ascii s \<noteq> Inl Undefined_behaviour
    \<and> dump_integer x = int_to_string x \<and> length (dump_integer x) < 63"
  using dump_escaped_buffered_eq [of ensure_ascii s] dump_escaped_Json_error [of ensure_ascii s Undefined_behaviour]
    dump_integer_eq [OF assms] by auto

lemma serializer_buffers_witness:
  "dump_integer (- 9223372036854775808) = int_to_string (- 9223372036854775808)
   \<and> dump_escaped_buffered True [CHR 0x80] \<noteq> Inl Undefined_behaviour"
proof -
  have "- (2 ^ 63) \<le> (- 9223372036854775808 :: int)" "(- 9223372036854775808 :: int) < 2 ^ 64" by simp_all
  from serializer_buffers [OF this, of True "[CHR 0x80]"] show ?thesis by blast
qed

text \<open>A null byte ends a text: what a client sends after it is not looked at.\<close>

lemma null_byte_ends_text:
  "json_parse (''true'' @ CHR 0x00 # s) = Inr (JBool True)"
  using json_parse_null [of "JBool True" ft "''true''" s]
  by (simp add: json_plain_def json_dump_def)

text \<open>
  There are texts that are read as a value of any depth, and \<open>dump\<close> calls itself once for each level, so a deep value
  in a field of a client's text, which \<open>JsonHelper\<close> writes to the log when it has the wrong type, exhausts the stack.
\<close>

lemma nesting_is_unbounded:
  "\<exists>t j. json_parse t = Inr j \<and> json_depth j = Suc n"
  using nested_is_read by blast

section \<open>Timers\<close>

text \<open>
  C17: Allocating a timer id ends, and it gives an id between 1 and \<open>INT32_MAX - 1\<close> that no running timer
  has, unless all of them are taken, when it gives -1.
\<close>

theorem timer_id_fresh:
  assumes "timer_inv t"
  shows "\<exists>i t'. createNewTimerId t = Some (i, t') \<and> timer_inv t' \<and> timerTableMap t' = timerTableMap t
    \<and> (if int (length (timerTableMap t)) \<ge> INT32_MAX - 1 then i = - 1
       else 1 \<le> i \<and> i < INT32_MAX \<and> map_of (timerTableMap t) i = None)"
  using createNewTimerId_returns [OF assms] by blast

lemma timer_id_fresh_witness:
  "\<exists>i t'. createNewTimerId (Timer_init :: EventTypeID Timer) = Some (i, t') \<and> 1 \<le> i \<and> i < INT32_MAX"
  using timer_id_fresh [OF timer_inv_init, where ?'a = EventTypeID]
  by (auto simp: Timer_init_def INT32_MAX_def)

text \<open>
  C18: When the timer thread wakes up, exactly the events of the timers whose time has come are pushed, each
  such timer is gone, and every other timer is pending as before.
\<close>

theorem timer_fires_exactly:
  assumes "timer_inv t" and "has_queue t"
  shows "set (snd (timer_fire now t)) = {ev. \<exists>i x. timer_pending t i = Some (x, ev) \<and> x \<le> now}
    \<and> timer_pending (fst (timer_fire now t)) i =
        (case timer_pending t i of Some (x, ev) \<Rightarrow> if x \<le> now then None else Some (x, ev) | None \<Rightarrow> None)"
  using ts.fire_events [of t now] ts.fire_keeps [of t now i] assms by blast

lemma timer_fires_exactly_witness:
  "timer_pending (fst (timer_fire 5 (SetEventQueue (Timer_init :: EventTypeID Timer)))) 1 = None"
proof -
  have i: "timer_inv (SetEventQueue (Timer_init :: EventTypeID Timer))" "has_queue (SetEventQueue (Timer_init :: EventTypeID Timer))"
    using timer_inv_init by (simp_all add: SetEventQueue_def timer_inv_def)
  from timer_fires_exactly [OF i, of 5 1] show ?thesis
    by (simp add: timer_pending_def SetEventQueue_def Timer_init_def)
qed


section \<open>Pairing\<close>

text \<open>
  C19: A request to confirm a pairing starts a timer of 30 seconds.  If the client answers in time the timers
  are what they were before the request; if nobody answers the timeout event of that device is pushed when
  the time has come, and not earlier.
\<close>

theorem confirmation_timeout:
  assumes "core_reachable env c" and "room c"
    and "processEvent env (confirmation_event a k) c = Inr c1"
  shows "(e \<in> {accept_event a, reject_event a} \<longrightarrow> processEvent env e c1 = Inr c2 \<longrightarrow>
      timer_pending (timer c2) = timer_pending (timer c))
    \<and> (clock c + ns_of_ms 30000 \<le> now \<longrightarrow>
      timeout_event a \<in> set (eventList (eventQueue (core_timer_turn now c1))))
    \<and> (now < clock c + ns_of_ms 30000 \<longrightarrow>
      (\<exists>i. timer_pending (timer (core_timer_turn now c1)) i
         = Some (clock c + ns_of_ms 30000, timeout_event a)))"
proof -
  have inv: "core_inv c" by (rule core_inv_reachable [OF assms(1)])
  from confirmation_starts_timer [OF assms(3) inv assms(2)] obtain i where
    i: "timerIdMap c1 a = Some i" "timer_pending (timer c) i = None"
    and p1: "timer_pending (timer c1) =
      (timer_pending (timer c))(i \<mapsto> (clock c + ns_of_ms 30000, timeout_event a))"
    by auto
  have inv1: "timer_inv (timer c1)" "has_queue (timer c1)"
    using processEvent_inv [OF assms(3) inv] by (simp_all add: core_inv_def)
  have "timer_pending (timer c2) = timer_pending (timer c)"
    if "e \<in> {accept_event a, reject_event a}" "processEvent env e c1 = Inr c2"
    using answer_stops_timer [OF that i(1) inv1] i(2) p1 by (auto simp: fun_eq_iff)
  moreover have "timeout_event a \<in> set (eventList (eventQueue (core_timer_turn now c1)))"
    if "clock c + ns_of_ms 30000 \<le> now"
    using core_timer_turn_pending [OF inv1, of now i] p1 that by auto
  moreover have "timer_pending (timer (core_timer_turn now c1)) i = Some (clock c + ns_of_ms 30000, timeout_event a)"
    if "now < clock c + ns_of_ms 30000"
    using core_timer_turn_pending [OF inv1, of now i] p1 that by auto
  ultimately show ?thesis by blast
qed

lemma confirmation_timeout_witness:
  "\<exists>c1. processEvent plain_env (confirmation_event ''AA'' ''123456'') plain_core = Inr c1
    \<and> timeout_event ''AA'' \<in> set (eventList (eventQueue (core_timer_turn 30000000000 c1)))"
proof -
  have r: "room plain_core" by (simp add: room_def INT32_MAX_def)
  obtain c1 where c1: "processEvent plain_env (confirmation_event ''AA'' ''123456'') plain_core = Inr c1"
    using plain_confirmation [OF plain_core_inv] by blast
  from confirmation_timeout [OF plain_core_reachable r c1, of undefined undefined 30000000000] c1
  show ?thesis by (auto simp: ns_of_ms_def)
qed

text \<open>
  C20: The entry of a device in \<open>timerIdMap_\<close> survives its timeout, and the timer reuses ids: when the
  client answers for device \<open>a\<close> after \<open>a\<close>'s request has timed out, the timer that is stopped is the
  one of another device \<open>b\<close> that asked in the meantime, whose request then never times out.
\<close>

theorem late_answer_stops_other_timer:
  assumes "core_reachable env c" and "timerTableMap (timer c) = []"
    and "processEvent env (confirmation_event a k) c = Inr c1"
    and "clock c + ns_of_ms 30000 \<le> now"
    and "processEvent env (timeout_event a) (core_timer_turn now c1) = Inr c3"
    and "processEvent env (confirmation_event b k') c3 = Inr c4" and "a \<noteq> b"
    and "processEvent env (accept_event a) c4 = Inr c5"
  shows "(\<exists>i. timerIdMap c5 b = Some i) \<and> timer_pending (timer c5) = Map.empty"
  using late_answer [OF core_inv_reachable [OF assms(1)] assms(2-8)] .

lemma late_answer_stops_other_timer_witness:
  "\<exists>c1 c3 c4 c5. processEvent plain_env (confirmation_event ''AA'' ''1'') plain_core = Inr c1
    \<and> processEvent plain_env (timeout_event ''AA'') (core_timer_turn 30000000000 c1) = Inr c3
    \<and> processEvent plain_env (confirmation_event ''BB'' ''2'') c3 = Inr c4
    \<and> processEvent plain_env (accept_event ''AA'') c4 = Inr c5
    \<and> timer_pending (timer c5) = Map.empty"
proof -
  obtain c1 where c1: "processEvent plain_env (confirmation_event ''AA'' ''1'') plain_core = Inr c1"
    using plain_confirmation [OF plain_core_inv] by blast
  define c2 where "c2 = core_timer_turn 30000000000 c1"
  have i2: "core_inv c2"
    using processEvent_inv [OF c1 plain_core_inv]
    by (auto simp: c2_def core_inv_def core_timer_turn_fields timer_turn_inv)
  obtain c3 where c3: "processEvent plain_env (timeout_event ''AA'') c2 = Inr c3"
    by (simp add: processEvent_def timeout_event_def)
  obtain c4 where c4: "processEvent plain_env (confirmation_event ''BB'' ''2'') c3 = Inr c4"
    using plain_confirmation [OF processEvent_inv [OF c3 i2]] by blast
  obtain c5 where c5: "processEvent plain_env (accept_event ''AA'') c4 = Inr c5"
    by (simp add: processEvent_def accept_event_def)
  from late_answer_stops_other_timer [OF plain_core_reachable _ c1 _ c3 [unfolded c2_def] c4 _ c5] c1 c3 c4 c5
  show ?thesis unfolding c2_def by (auto simp: ns_of_ms_def)
qed

section \<open>Records\<close>



text \<open>
  Storing a finished recording whose path is new adds one row, under an id not in use, and tells the
  clients the record with its id, path and duration.
\<close>

lemma insert_record:
  assumes "audio_engine (engine env) tab" and "pool_serving c"
    and "\<nexists>i d'. store tab c i = Some (c_str path, d')"
  shows "\<exists>k c1. store tab c1 = (store tab c)(k \<mapsto> (c_str path, d)) \<and> store tab c k = None \<and> 1 \<le> k
    \<and> server c1 = server c
    \<and> (wrap32 k \<noteq> - 1 \<longrightarrow>
       processEvent env (make_Event EventTypeID.INSERT_WAV_FILE (Some (WavPayload path d))) c =
        publish env ''success'' ''Record inserted successfully'' ''Record'' ''insert_record_noti''
          (json_object [(''record'', JObject [(''duration_sec'', JInt d),
             (''file_path'', JString path), (''id'', JInt (wrap32 k))])]) c1)"
  using db_insertAudioRecord_new [OF assms, of d] by (auto simp: processEvent_def)

lemma insert_record_witness:
  "\<exists>k c1. store map_of c1 = (store map_of plain_core)(k \<mapsto> (''/var/b.wav'', 9)) \<and> 1 \<le> k"
proof -
  have st: "store map_of plain_core = map_of [(1, ''/var/a.wav'', 3)]"
    by (simp add: store_def plain_pool_def)
  have e: "audio_engine (engine plain_env) map_of" by (simp add: plain_env_def store_engine_ok)
  have p: "pool_serving plain_core" by (simp add: pool_serving_def)
  have h: "\<nexists>i d'. store map_of plain_core i = Some (c_str ''/var/b.wav'', d')"
    by (simp add: st c_str_def)
  from insert_record [OF e p h, of 9] show ?thesis by (auto simp: c_str_def)
qed

text \<open>
  However the workers of the database pool are scheduled, once \<open>run\<close> was called some worker serves or
  is about to.  But the constructor starts its workers before the running flag is set: all of them may have
  ended by then, and a pool made for \<open>n\<close> workers works with one.
\<close>

lemma pool_always_served:
  "(\<forall>p. pool_step\<^sup>*\<^sup>* (pool_constructed n) p \<longrightarrow> pool_running p \<longrightarrow> 1 \<le> started p + serving p)
   \<and> pool_step\<^sup>*\<^sup>* (pool_constructed n) \<lparr>pool_running = True, started = 1, serving = 0, ended = n\<rparr>"
  using pool_serves pool_one_worker by blast

lemma pool_always_served_witness:
  "pool_step\<^sup>*\<^sup>* (pool_constructed SQLiteDBWorkerThreads) \<lparr>pool_running = True, started = 1, serving = 0, ended = 5\<rparr>"
  using pool_always_served [of SQLiteDBWorkerThreads] by (simp add: SQLiteDBWorkerThreads_def)

section \<open>Calls and temperature\<close>

text \<open>
  A successful answer to a dial or answer command sets the call state back to idle, so the hangup that a
  client asks for next is dropped, although the call is there: nothing is sent.
\<close>

lemma hangup_after_dial_dropped:
  assumes "t \<in> {EventTypeID.DIAL_CALL_NOTI, EventTypeID.ANSWER_CALL_NOTI}"
    and "processEvent env (make_Event t (Some (NotiPayload True m))) c = Inr c1"
  shows "processEvent env (make_Event EventTypeID.HANGUP_CALL None) c1 = Inr c1"
proof -
  have "CALL_STATE c1 = CallState.IDLE"
    using processEvent_call [OF assms(2)] assms(1) by (auto simp: call_next_def noti_result_def)
  then show ?thesis by (simp add: processEvent_def hangupCall_def)
qed

lemma hangup_after_dial_dropped_witness:
  "\<exists>c1. processEvent plain_env (make_Event EventTypeID.DIAL_CALL_NOTI (Some (NotiPayload True ''ok''))) plain_core = Inr c1
    \<and> processEvent plain_env (make_Event EventTypeID.HANGUP_CALL None) c1 = Inr c1"
proof -
  obtain c1 where c1: "processEvent plain_env
      (make_Event EventTypeID.DIAL_CALL_NOTI (Some (NotiPayload True ''ok''))) plain_core = Inr c1"
    by (simp add: processEvent_def dialCallNOTI_def)
  with hangup_after_dial_dropped [OF _ c1] show ?thesis by auto
qed

text \<open>
  Of the seven call states the bus documents, a changed call is never taken for an outgoing one: dialing
  and alerting count as idle, so that a hangup asked for while the phone rings is dropped.
\<close>

lemma call_state_changes:
  assumes "st \<in> {''dialing'', ''alerting'', ''active'', ''held'', ''incoming'', ''waiting'', ''disconnected''}"
    and "processEvent env (make_Event EventTypeID.CALL_STATE_CHANGED_NOTI (Some (CallPayload name number st))) c = Inr c'"
  shows "CALL_STATE c' \<noteq> CallState.OUTCOMING
    \<and> (CALL_STATE c' = CallState.IDLE) = (st \<in> {''dialing'', ''alerting'', ''disconnected''})
    \<and> (CALL_STATE c' = CallState.INCOMING) = (st = ''incoming'')
    \<and> (st = ''dialing'' \<longrightarrow> processEvent env (make_Event EventTypeID.HANGUP_CALL None) c' = Inr c')"
proof -
  have "CALL_STATE c' = call_state_of st"
    using processEvent_call [OF assms(2)] by (simp add: call_next_def call_of_def)
  with assms(1) show ?thesis
    by (auto simp: call_state_of_def processEvent_def hangupCall_def)
qed

lemma call_state_changes_witness:
  "\<exists>c'. processEvent plain_env (make_Event EventTypeID.CALL_STATE_CHANGED_NOTI
      (Some (CallPayload ''Ann'' ''123'' ''dialing''))) plain_core = Inr c'
    \<and> processEvent plain_env (make_Event EventTypeID.HANGUP_CALL None) c' = Inr c'"
proof -
  obtain c' where c': "processEvent plain_env (make_Event EventTypeID.CALL_STATE_CHANGED_NOTI
      (Some (CallPayload ''Ann'' ''123'' ''dialing''))) plain_core = Inr c'"
    by (simp add: processEvent_def callStateChangedNOTI_def)
  with call_state_changes [OF _ c'] show ?thesis by auto
qed

text \<open>
  C22: The temperature on its whole way: from the driver's file in thousandths of a degree, over the
  division, the text on the bus, its reading and one half added, the core manager shows the nearest degree,
  half up, when the reading is not below -0.5 degrees; below, the truncation rounds up, so that -3.0 is
  shown as -2.  Every reading in the sensor's range gets there.
\<close>

theorem temperature_shown:
  assumes "sensorFile \<noteq> []" and "fs sensorFile = Some (sensor_text line1 bytes n rest)"
    and "newline \<notin> set line1" and "after_first ''YES'' line1 \<noteq> None"
    and "newline \<notin> set bytes" and "CHR ''t'' \<notin> set bytes" and "\<bar>n\<bar> \<le> 125000"
    and "conn (hm_sender m)" and "\<forall>k. hm_faults env k = no_faults"
    and "monitor_turn env sensorFile fs (t, m) = (t', m')"
  shows "\<exists>msg y. sent (hm_sender m') = sent (hm_sender m) @ [msg]
    \<and> CM_receive msg q =
        Inr (push_event EventTypeID.UPDATE_TEMPERATURE_NOTI (Some (NotiTemperaturePayload True y)) q)
    \<and> processEvent cenv (make_Event EventTypeID.UPDATE_TEMPERATURE_NOTI
          (Some (NotiTemperaturePayload True y))) c =
        show_temperature cenv (if - 500 \<le> n then (n + 500) div 1000 else - ((- n - 500) div 1000)) c"
proof -
  have "int32 n" using assms(7) by (auto simp: int32_def INT32_MIN_def INT32_MAX_def)
  from read_sensor_text [of sensorFile fs line1 bytes n rest t, OF assms(1-6) this] assms(10)
  have m': "m' = hm_notify env DBusCommand.UPDATE_TEMPERATURE_NOTI True
      (temperature_info (float_div (float_of_int n) 1000)) m"
    by (auto simp: monitor_turn_def)
  have "sent (hm_sender m') = sent (hm_sender m) @ [hm_noti (DBusCommand.UPDATE_TEMPERATURE_NOTI, True,
      temperature_info (float_div (float_of_int n) 1000))]"
    unfolding m' by (rule sent_notify [OF refl assms(8,9)]) (simp add: HM_notifications_def)
  with reading_received [OF assms(7), of q] show ?thesis unfolding shown_degree_def by blast
qed

lemma temperature_shown_witness:
  "\<exists>msg y. sent (hm_sender (snd (monitor_turn plain_hm_env ''f''
        [''f'' \<mapsto> sensor_text ''YES'' [] (- 3000) []] (NaN, hardware_mgr_init)))) = [msg]
    \<and> CM_receive msg (EventQueue_init :: EventTypeID EventQueue) =
        Inr (push_event EventTypeID.UPDATE_TEMPERATURE_NOTI (Some (NotiTemperaturePayload True y)) EventQueue_init)
    \<and> processEvent plain_env (make_Event EventTypeID.UPDATE_TEMPERATURE_NOTI
          (Some (NotiTemperaturePayload True y))) plain_core = show_temperature plain_env (- 2) plain_core"
proof -
  let ?fs = "[''f'' \<mapsto> sensor_text ''YES'' [] (- 3000) []]"
  obtain t' m' where m': "monitor_turn plain_hm_env ''f'' ?fs (NaN, hardware_mgr_init) = (t', m')"
    by fastforce
  have init: "conn (hm_sender hardware_mgr_init)" "sent (hm_sender hardware_mgr_init) = []"
    by (simp_all add: hardware_mgr_init_def dbus_sender_init_def)
  have "\<forall>k. hm_faults plain_hm_env k = no_faults" "after_first ''YES'' ''YES'' \<noteq> None" by simp_all
  note temperature_shown [of "''f''" ?fs "''YES''" "[]" "- 3000" "[]", OF _ _ _ this(2) _ _ _ init(1) this(1) m',
      of EventQueue_init plain_env plain_core]
  with init(2) m' show ?thesis by (simp add: newline_def)
qed

text \<open>
  C23: A device that BlueZ announces arrives at the core manager's queue as it is: the name (or the alias
  when there is none), the address, the signal strength, whether it is paired and connected, and the icon
  are the ones of its properties, in whatever order the bus gives them.
\<close>

theorem found_device_arrives:
  assumes "found_signal path ps (msg_body msg)" and "device_properties ps"
    and "conn (hm_sender m)" and "\<forall>k. hm_faults env k = no_faults"
  shows "\<exists>m' noti. bt_dispatchMessage env msg m = Inr m'
    \<and> sent (hm_sender m') = sent (hm_sender m) @ [noti]
    \<and> CM_receive noti q =
        Inr (push_event EventTypeID.SCANNING_BTDEVICE_FOUND_NOTI (Some (device_payload ps)) q)"
proof -
  have "sent (hm_sender (hm_notify env DBusCommand.SCANNING_BTDEVICE_FOUND_NOTI True (found_info ps) m)) =
      sent (hm_sender m) @ [hm_noti (DBusCommand.SCANNING_BTDEVICE_FOUND_NOTI, True, found_info ps)]"
    by (rule sent_notify [OF refl assms(3,4)]) (simp add: HM_notifications_def)
  with found_signal_dispatch [OF assms(1,2)] found_received [OF assms(2)] show ?thesis by blast
qed

lemma found_device_arrives_witness:
  "\<exists>m' noti. bt_dispatchMessage plain_hm_env (found_message (- 67)) hardware_mgr_init = Inr m'
    \<and> sent (hm_sender m') = [noti]
    \<and> CM_receive noti (EventQueue_init :: EventTypeID EventQueue) =
        Inr (push_event EventTypeID.SCANNING_BTDEVICE_FOUND_NOTI
          (Some (BluetoothDevicePayload [] ''AA'' (- 67) False False [])) EventQueue_init)"
proof -
  let ?ps = "[(''Address'', DString ''AA''), (''RSSI'', DInt16 (- 67))]"
  have 1: "found_signal ''/org/bluez/hci0/dev_AA'' ?ps (msg_body (found_message (- 67)))"
    by (simp add: found_signal_def found_message_def dict_value_def)
  have 2: "device_properties ?ps" by (simp add: device_properties_def text_at_def rssi_at_def)
  have 3: "device_payload ?ps = BluetoothDevicePayload [] ''AA'' (- 67) False False []"
    by (simp add: device_payload_def name_at_def text_at_def flag_at_def rssi_at_def c_str_def)
  have "conn (hm_sender hardware_mgr_init)" "\<forall>k. hm_faults plain_hm_env k = no_faults"
    "sent (hm_sender hardware_mgr_init) = []"
    by (simp_all add: hardware_mgr_init_def dbus_sender_init_def)
  from found_device_arrives [OF 1 2 this(1,2), of EventQueue_init] this(3) show ?thesis unfolding 3 by simp
qed

section \<open>Commands\<close>

text \<open>
  C24: Every message the core manager can make reaches exactly one of the two services, and there it becomes
  the event of that name with the address or the number it was made with; nothing it sends is dropped.
\<close>

theorem commands_arrive:
  assumes "CM_makeMsg F cmd = Some msg \<or> CM_makeMsgNoti F cmd ok info = Some msg"
  shows "HM_receive msg h = Inr (hm_queue_event (hardware_event cmd
        (c_str (info DBUS_DATA_BT_DEVICE_ADDRESS)) (c_str (info DBUS_DATA_CALL_NUMBER))) h)
    \<and> RM_receive msg r = Inr (case cmd of
        DBusCommand.START_RECORD \<Rightarrow> rm_push RmEventTypeID.START_RECORD r
      | DBusCommand.STOP_RECORD \<Rightarrow> rm_push RmEventTypeID.STOP_RECORD r
      | DBusCommand.CANCEL_RECORD \<Rightarrow> rm_push RmEventTypeID.CANCEL_RECORD r
      | _ \<Rightarrow> r)
    \<and> (hardware_event cmd a n \<noteq> None) = (cmd \<notin> set CM_record_commands)"
proof -
  consider (rec) "cmd \<in> set CM_record_commands" "CM_makeMsg F cmd = Some msg"
    | (hw) "cmd \<in> set CM_hardware_commands" "CM_makeMsg F cmd = Some msg"
    | (noti) "CM_makeMsgNoti F cmd ok info = Some msg"
    using assms CM_makeMsg_other [of cmd F] by fastforce
  then show ?thesis
  proof cases
    case rec
    from record_command_arrives [OF rec] rec(1) show ?thesis
      by (auto simp: CM_record_commands_def RM_handleMessage_def hardware_event_def hm_queue_event_def)
  next
    case hw
    from hardware_command_arrives [OF hw] hw(1) show ?thesis
      by (auto simp: CM_hardware_commands_def CM_record_commands_def hardware_event_def)
  next
    case noti
    from hardware_notification_arrives [OF noti] show ?thesis
      by (auto simp: CM_notifications_def CM_record_commands_def hardware_event_def)
  qed
qed

lemma commands_arrive_witness:
  "\<exists>msg. CM_makeMsgNoti no_faults DBusCommand.PAIR_BTDEVICE True
        (DBusDataInfo_init(DBUS_DATA_BT_DEVICE_ADDRESS := ''AA'')) = Some msg
    \<and> HM_receive msg EventQueue_init =
        Inr (hm_push HmEventTypeID.PAIR_BTDEVICE (Some (BluetoothDeviceAddressPayload ''AA'')) EventQueue_init)
    \<and> RM_receive msg EventQueue_init = Inr EventQueue_init"
proof -
  let ?info = "DBusDataInfo_init(DBUS_DATA_BT_DEVICE_ADDRESS := ''AA'')"
  obtain msg where m: "CM_makeMsgNoti no_faults DBusCommand.PAIR_BTDEVICE True ?info = Some msg"
    using cm_to_hm.makes [of DBusCommand.PAIR_BTDEVICE] by (auto simp: CM_notifications_def)
  from commands_arrive [OF disjI2 [OF m], of EventQueue_init EventQueue_init "[]" "[]"] m show ?thesis
    by (simp add: hardware_event_def hm_queue_event_def hm_push_def c_str_def)
qed

section \<open>The record manager\<close>

text \<open>
  C25: In every interleaving of the worker with the calls and with the shutdown, the worker's own
  notifications are sessions: each start is answered, and each session that started ends with exactly one
  of stopped and cancelled.  A recording is pushed for filtering exactly when a stop was reported as a
  success, and the sound device is open only within a session.
\<close>

theorem session_protocol:
  assumes "rm_reachable env m"
  shows "protocol (session_log m) = Some (in_session (at_worker m))
    \<and> length (saved m) = count_list (session_log m) (DBusCommand.STOP_RECORD_NOTI, True)
    \<and> open_handles (helper m) = (if holds_handle (at_worker m) then 1 else 0)"
  using rm_inv_reachable [OF assms] by (simp add: rm_inv_def alsa_inv_def stops_ok_def)

lemma session_protocol_witness:
  "\<exists>m. worker_run plain_rm_env [plain_turn 0 [], plain_turn 0 []] (startRecording plain_rm_env plain_rm) = Some m
    \<and> protocol (session_log m) = Some True"
proof -
  obtain m1 m2 where s: "start_begin plain_rm_env plain_rm = Some m1" "caller_turn m1 = Some m2"
    "caller_turn m2 = Some (startRecording plain_rm_env plain_rm)"
    using start_steps [of plain_rm plain_rm_env] by auto
  obtain h where h: "initAlsa (microphone plain_rm_env) plain_alsa (clearAudioBuffer (helper plain_rm)) = (True, h)"
    using plain_init [of "microphone plain_rm_env" "clearAudioBuffer (helper plain_rm)"]
    by (metis prod.collapse)
  then obtain m where m: "worker_run plain_rm_env [plain_turn 0 [], plain_turn 0 []]
      (startRecording plain_rm_env plain_rm) = Some m" and c: "at_worker m = Capturing 0"
    by (auto simp: startRecording_asleep recorder_turn_def mutex_free_def begin_session_def plain_turn_def)
  have "(rm_step plain_rm_env)\<^sup>*\<^sup>* plain_rm m"
    using rm_step.Start [OF s(1)] rm_step.Caller [OF s(2)] rm_step.Caller [OF s(3)] worker_run_reachable [OF m]
    by (meson converse_rtranclp_into_rtranclp)
  then have "rm_reachable plain_rm_env m"
    using plain_rm_reachable unfolding rm_reachable_def by (meson rtranclp_trans)
  from session_protocol [OF this] m c show ?thesis by simp
qed

text \<open>
  C26: A session that the client starts and stops, with reads that succeed in time, leaves a WAV file
  that a reader of the format decodes to exactly the samples the microphone delivered, and pushes its path
  and duration for filtering.
\<close>

theorem recording_saved:
  fixes ts :: "turn list"
  defines "xs \<equiv> concat (map (frames_read \<circ> pcm) ts)"
  assumes "rm_reachable env m" and "running m" and "at_caller m = No_call" and "at_worker m = Asleep"
    and "workerState m = RecordWorkerState.IDLE"
    and "fst (initAlsa (microphone env) (sound t) (clearAudioBuffer (helper m)))"
    and "\<forall>u \<in> set ts. good_read (now_ns t) u"
    and "0 < length xs" and "length xs < 2 ^ 31 - 18"
    and "can_open (writing_wav u2)" and "44 + 2 * length xs \<le> disk_room (writing_wav u2)"
  shows "\<exists>m1 m2 path file. worker_run env (t' # t # ts) (startRecording env m) = Some m1
    \<and> worker_run env [u1, u2, u3, u4] (stopRecording env m1) = Some m2
    \<and> path = WAV_OUTPUT_DIR @ ''/record_'' @ stamp (writing_wav u2) @ ''.wav''
    \<and> disk m2 path = Some file \<and> parse_wav file = Some \<lparr>wav_rate = SAMPLE_RATE, wav_samples = xs\<rparr>
    \<and> eventList (rm_queue m2) = eventList (rm_queue m) @
        [make_Event RmEventTypeID.FILTER_WAV_FILE
          (Some (WavPayload path (duration_sec (now_ns u2 - now_ns t))))]
    \<and> session_log m2 = session_log m @
        [(DBusCommand.START_RECORD_NOTI, True), (DBusCommand.STOP_RECORD_NOTI, True)]
    \<and> workerState m2 = RecordWorkerState.IDLE"
proof -
  obtain h where h: "initAlsa (microphone env) (sound t) (clearAudioBuffer (helper m)) = (True, h)"
    using assms(7) by (metis prod.collapse)
  have inv: "alsa_inv (clearAudioBuffer (helper m))" "\<not> pcmHandle (clearAudioBuffer (helper m))"
    using rm_inv_reachable [OF assms(2)] assms(5) by (simp_all add: rm_inv_def)
  have p: "pcmHandle h" using initAlsa_inv(2) [OF inv, of "microphone env" "sound t"] h by simp
  have ne: "concat (map (frames_read \<circ> pcm) ts) \<noteq> []" using assms(9) by (auto simp: xs_def)
  have all: "take (disk_room (writing_wav u2)) (wav_bytes xs) = wav_bytes xs"
    using parse_wav_bytes(2) [OF assms(10)] assms(12) by simp
  from session_saves [OF assms(3-6) h p assms(8) ne assms(11), of t' u1 u3 u4] parse_wav_bytes(1) [OF assms(10)]
  show ?thesis unfolding xs_def [symmetric] all by (elim exE) auto
qed

lemma recording_saved_witness:
  "\<exists>m1 m2 file. worker_run plain_rm_env [plain_turn 0 [], plain_turn 0 [], plain_turn 64 [7, 8]]
        (startRecording plain_rm_env plain_rm) = Some m1
    \<and> worker_run plain_rm_env (replicate 4 (plain_turn 2000000000 [])) (stopRecording plain_rm_env m1) = Some m2
    \<and> disk m2 ''/tmp/record_20250101_120000.wav'' = Some file
    \<and> parse_wav file = Some \<lparr>wav_rate = 16000, wav_samples = [7, 8]\<rparr>"
proof -
  have i: "fst (initAlsa (microphone plain_rm_env) (sound (plain_turn 0 [])) (clearAudioBuffer (helper plain_rm)))"
    by (simp add: plain_turn_def plain_init)
  have g: "\<forall>u \<in> set [plain_turn 64 [7, 8]]. good_read (now_ns (plain_turn 0 [])) u"
    by (simp add: good_read_def plain_turn_def max_duration_ns_def MAX_RECORD_DURATION_SEC_def FRAMES_PER_PERIOD_def)
  have xs: "concat (map (frames_read \<circ> pcm) [plain_turn 64 [7, 8]]) = [7, 8]" by (simp add: plain_turn_def)
  let ?u = "plain_turn 2000000000 []"
  have w: "can_open (writing_wav ?u)" "disk_room (writing_wav ?u) = 1000000"
    "stamp (writing_wav ?u) = ''20250101_120000''" by (simp_all add: plain_turn_def)
  have four: "replicate 4 ?u = [?u, ?u, ?u, ?u]" by (simp add: numeral_eq_Suc)
  have path: "WAV_OUTPUT_DIR @ ''/record_'' @ stamp (writing_wav ?u) @ ''.wav'' = ''/tmp/record_20250101_120000.wav''"
    by (simp add: WAV_OUTPUT_DIR_def w)
  have len: "0 < length [7 :: 16 word, 8]" "length [7 :: 16 word, 8] < 2 ^ 31 - 18"
    "44 + 2 * length [7 :: 16 word, 8] \<le> disk_room (writing_wav ?u)" by (simp_all add: w)
  from recording_saved [OF plain_rm_reachable _ _ _ _ i g, unfolded xs, OF _ _ _ _ len(1,2) w(1) len(3),
      of "plain_turn 0 []" ?u ?u ?u]
  show ?thesis unfolding four path SAMPLE_RATE_def by (auto simp del: worker_run.simps)
qed

text \<open>
  C27: The sizes in the header are 32-bit words.  A recording of fewer than \<open>2^31 - 18\<close> samples is read
  back as it was; a longer one is written as its first \<open>n mod 2^31\<close> samples.
\<close>

theorem wav_sizes:
  "(length xs < 2 ^ 31 - 18 \<longrightarrow> parse_wav (wav_bytes xs) = Some \<lparr>wav_rate = SAMPLE_RATE, wav_samples = xs\<rparr>
      \<and> length (wav_bytes xs) = 44 + 2 * length xs)
   \<and> wav_bytes xs = wav_bytes (take (length xs mod 2 ^ 31) xs)"
  using parse_wav_bytes [of xs] wav_bytes_wraps [of xs] by blast

lemma wav_sizes_witness:
  "parse_wav (wav_bytes [1, 65535]) = Some \<lparr>wav_rate = 16000, wav_samples = [1, 65535]\<rparr>"
  using wav_sizes [of "[1, 65535]"] by (simp add: SAMPLE_RATE_def)

text \<open>
  The capture loop ends: whatever the device and the callers do, the session is left at the latest at
  the first turn after the maximal duration.
\<close>

lemma capture_loop_ends:
  assumes "at_worker m = Capturing t0" and "t \<in> set ts" and "now_ns t - t0 > max_duration_ns"
  shows "\<exists>us vs m'. ts = us @ vs \<and> worker_run env us m = Some m' \<and> (\<exists>d e. at_worker m' = Leaving t0 d e)"
  using capture_ends [OF assms] .

lemma capture_loop_ends_witness:
  "\<exists>us vs m'. [plain_turn 300000000001 []] = us @ vs
    \<and> worker_run plain_rm_env us (plain_rm\<lparr>at_worker := Capturing 0\<rparr>) = Some m'
    \<and> (\<exists>d e. at_worker m' = Leaving 0 d e)"
  by (rule capture_loop_ends [of _ _ "plain_turn 300000000001 []"])
    (simp_all add: plain_turn_def max_duration_ns_def MAX_RECORD_DURATION_SEC_def)

text \<open>
  C28: A start request that finds the worker asleep is answered within two turns.  One that comes after the
  notification that ended a session and before the worker has stored its state is accepted and taken
  back: the worker goes to sleep, and nothing is ever sent.
\<close>

theorem start_request:
  assumes "at_caller m = No_call" and "workerState m = RecordWorkerState.IDLE" and "running m"
  shows "(at_worker m = Asleep \<longrightarrow> (\<exists>m' ok. worker_run env [t', t] (startRecording env m) = Some m'
      \<and> session_log m' = session_log m @ [(DBusCommand.START_RECORD_NOTI, ok)]))
    \<and> (at_worker m \<in> {Cleaning, Resetting} \<longrightarrow>
      (\<exists>n m'. n \<le> 3 \<and> worker_run env (replicate n t) (startRecording env m) = Some m'
        \<and> at_worker m' = Falling_asleep \<and> workerState m' = RecordWorkerState.IDLE
        \<and> session_log m' = session_log m \<and> rm_sender m' = rm_sender m))"
  using start_answered [OF _ assms, of env t' t] early_start_lost [OF _ assms, of env t] by blast

lemma start_request_witness:
  "\<exists>n m'. n \<le> 3 \<and> worker_run plain_rm_env (replicate n (plain_turn 0 []))
      (startRecording plain_rm_env (plain_rm\<lparr>at_worker := Cleaning\<rparr>)) = Some m'
    \<and> at_worker m' = Falling_asleep \<and> rm_sender m' = dbus_sender_init"
  using start_request [of "plain_rm\<lparr>at_worker := Cleaning\<rparr>" plain_rm_env _ "plain_turn 0 []"] by auto

text \<open>
  After \<open>stop\<close> the worker's thread ends within six turns wherever it was, unless it had just found
  nothing to do and was about to sleep: the notification is lost then, and the thread never ends.
\<close>

lemma shutdown:
  assumes "at_caller m = No_call"
  shows "(at_worker m \<noteq> Falling_asleep \<longrightarrow>
      (\<exists>n \<le> 6. \<forall>ts. length ts = n \<longrightarrow> (\<exists>m'. worker_run env ts (rm_stop m) = Some m' \<and> at_worker m' = Finished)))
    \<and> (at_worker m = Falling_asleep \<longrightarrow>
      (\<exists>m'. recorder_turn env t (rm_stop m) = Some m' \<and> at_worker m' = Asleep \<and> at_stop m' = Stopped
        \<and> (\<forall>t. recorder_turn env t m' = None)))"
  using stop_lost [of m env t] stop_finishes [OF _ assms, of _ env] turns_left_le [of "at_worker (rm_stop m)"]
  by blast

lemma shutdown_witness:
  "(\<exists>n \<le> 6. \<forall>ts. length ts = n \<longrightarrow>
      (\<exists>m'. worker_run plain_rm_env ts (rm_stop plain_rm) = Some m' \<and> at_worker m' = Finished))
   \<and> (\<exists>m'. recorder_turn plain_rm_env (plain_turn 0 []) (rm_stop (plain_rm\<lparr>at_worker := Falling_asleep\<rparr>)) = Some m'
      \<and> (\<forall>t. recorder_turn plain_rm_env t m' = None))"
  using shutdown [of plain_rm plain_rm_env "plain_turn 0 []"] shutdown [of "plain_rm\<lparr>at_worker := Falling_asleep\<rparr>" plain_rm_env "plain_turn 0 []"]
  by auto

text \<open>
  C29: A recording that is filtered without a file system error ends up in the directory of the
  recordings (filtered, or as it was if sox failed), its raw file is gone, and what the record manager
  sends makes the core manager store that path with the duration and tell the clients.
\<close>

theorem filtered_recording_stored:
  assumes "CHR ''/'' \<notin> set f" and "f \<noteq> []" and "CHR 0x00 \<notin> set f"
    and "temp_directory E = ''/tmp''" and "wav = WAV_OUTPUT_DIR @ ''/'' @ f" and "disk m wav = Some raw"
    and "sox_ok E wav" and "\<forall>c. \<not> fs_throws E c" and "int32 d"
    and "conn (rm_sender m)" and "rm_faults env (attempts (rm_sender m)) = no_faults"
  shows "\<exists>out bs msg. disk (filter_job env E wav d m) out = Some bs
    \<and> out \<in> {FILTERED_AUDIO_DIR @ ''/filtered_'' @ f, FILTERED_AUDIO_DIR @ ''/'' @ f}
    \<and> (out = FILTERED_AUDIO_DIR @ ''/'' @ f \<longrightarrow> bs = raw)
    \<and> disk (filter_job env E wav d m) wav = None
    \<and> sent (rm_sender (filter_job env E wav d m)) = sent (rm_sender m) @ [msg]
    \<and> CM_receive msg q = Inr (push_event EventTypeID.FILTER_WAV_FILE_NOTI (Some (NotiPayload True []))
        (push_event EventTypeID.INSERT_WAV_FILE (Some (WavPayload out d)) q))"
proof -
  from filter_job_keeps [OF assms(1,2,4-8), of env d] obtain out bs where
    job: "filter_job env E wav d m =
      (rm_notify env DBusCommand.FILTER_WAV_FILE_NOTI True (filter_info True out d) m)
        \<lparr>disk := disk (filter_job env E wav d m)\<rparr>"
    and out: "out \<in> {FILTERED_AUDIO_DIR @ ''/filtered_'' @ f, FILTERED_AUDIO_DIR @ ''/'' @ f}"
    and files: "disk (filter_job env E wav d m) out = Some bs" "disk (filter_job env E wav d m) wav = None"
      "out = FILTERED_AUDIO_DIR @ ''/'' @ f \<longrightarrow> bs = raw"
    by blast
  have nul: "c_str out = out"
    using out assms(3) by (intro c_str_id) (auto simp: FILTERED_AUDIO_DIR_def)
  have offered: "DBusCommand.FILTER_WAV_FILE_NOTI \<in> set RM_notifications" by (simp add: RM_notifications_def)
  have ok: "fst (sendMessageNoti (rm_faults env) RM_makeMsgNoti DBusCommand.FILTER_WAV_FILE_NOTI True
      (filter_info True out d) (rm_sender m))"
    by (intro rm_to_core.send_healthy assms(10,11) offered)
  with rm_to_core.send_result [OF assms(10), where F = "rm_faults env" and ok = True
      and cmd = DBusCommand.FILTER_WAV_FILE_NOTI and info = "filter_info True out d"]
  obtain p where sent: "sent (rm_sender (rm_notify env DBusCommand.FILTER_WAV_FILE_NOTI True (filter_info True out d) m)) =
      sent (rm_sender m) @ [noti_msg p (getInterfaceName core_config) (getSignalName core_config)
        DBusCommand.FILTER_WAV_FILE_NOTI True (filter_info True out d)]"
    by (auto simp: rm_notify_def case_prod_unfold simp del: config_simps split: bool.splits)
  let ?msg = "noti_msg p (getInterfaceName core_config) (getSignalName core_config)
        DBusCommand.FILTER_WAV_FILE_NOTI True (filter_info True out d)"
  have "CM_receive ?msg q =
      CM_handleMessageNoti (Some DBusCommand.FILTER_WAV_FILE_NOTI) True (\<lambda>t. c_str (filter_info True out d t)) q"
    unfolding CM_receive_def
    by (simp add: receive_message_def is_signal_def dispatch_noti_msg) (simp add: noti_msg_def)
  with stoi_int_to_string [OF assms(9)] nul have
    "CM_receive ?msg q = Inr (push_event EventTypeID.FILTER_WAV_FILE_NOTI (Some (NotiPayload True []))
        (push_event EventTypeID.INSERT_WAV_FILE (Some (WavPayload out d)) q))"
    by (simp add: CM_handleMessageNoti_def filter_info_def Let_def)
      (simp add: DBusDataInfo_init_def c_str_def)
  moreover have "sent (rm_sender (filter_job env E wav d m)) = sent (rm_sender m) @ [?msg]"
    by (subst job) (simp add: sent)
  ultimately show ?thesis using out files by blast
qed

lemma filtered_recording_stored_witness:
  "\<exists>out bs. disk (filter_job plain_rm_env (plain_fs_env ''/tmp/filtered_r.wav'') ''/tmp/r.wav'' 5
      (plain_rm\<lparr>disk := [''/tmp/r.wav'' \<mapsto> [9]]\<rparr>)) out = Some bs"
proof -
  let ?E = "plain_fs_env ''/tmp/filtered_r.wav''" and ?m = "plain_rm\<lparr>disk := [''/tmp/r.wav'' \<mapsto> [9]]\<rparr>"
  have tmp: "temp_directory ?E = ''/tmp''" "\<forall>c. \<not> fs_throws ?E c" by (simp_all add: plain_fs_env_def)
  have slash: "CHR ''/'' \<notin> set ''r.wav''" by simp
  have w: "''/tmp/r.wav'' = WAV_OUTPUT_DIR @ ''/'' @ ''r.wav''" by (simp add: WAV_OUTPUT_DIR_def)
  have "sox_ok ?E ''/tmp/r.wav''"
    using recording_paths(2) [OF slash tmp(1) w] by (intro marking_sox_ok) (simp add: plain_fs_env_def)
  from filtered_recording_stored [OF slash _ _ tmp(1) w _ this tmp(2), of ?m "[9]" 5 plain_rm_env EventQueue_init]
  show ?thesis
    by (auto simp: int32_def INT32_MAX_def INT32_MIN_def dbus_sender_init_def plain_rm_env_def)
qed

text \<open>
  When the file system refuses the copy to the directory of the recordings, the recording is lost: the
  job reports the failure and deletes the raw file all the same, and no other file holds it.
\<close>

lemma failed_copy_loses_recording:
  assumes "CHR ''/'' \<notin> set f" and "f \<noteq> []" and "temp_directory E = ''/tmp''"
    and "wav = WAV_OUTPUT_DIR @ ''/'' @ f" and "disk m wav \<noteq> None" and "sox_ok E wav"
    and "\<forall>c. fs_throws E c = (c = Copy_result)"
  shows "rm_sender (filter_job env E wav d m) =
      rm_sender (rm_notify env DBusCommand.FILTER_WAV_FILE_NOTI False (filter_info False [] d) m)
    \<and> disk (filter_job env E wav d m) wav = None
    \<and> (\<forall>p. p \<notin> {wav, temp_path E wav, profile_path E wav} \<longrightarrow>
          disk (filter_job env E wav d m) p = disk m p)"
proof -
  note lost = filter_job_loses [OF assms, of env d]
  then have eq: "filter_job env E wav d m =
      (rm_notify env DBusCommand.FILTER_WAV_FILE_NOTI False (filter_info False [] d) m)
        \<lparr>disk := disk (filter_job env E wav d m)\<rparr>" by (rule conjunct1)
  show ?thesis using conjunct2 [OF lost] arg_cong [OF eq, of rm_sender] by simp
qed

lemma failed_copy_loses_recording_witness:
  "disk (filter_job plain_rm_env (full_fs_env ''/tmp/filtered_r.wav'') ''/tmp/r.wav'' 5
      (plain_rm\<lparr>disk := [''/tmp/r.wav'' \<mapsto> [9]]\<rparr>)) ''/tmp/r.wav'' = None"
proof -
  let ?E = "full_fs_env ''/tmp/filtered_r.wav''" and ?m = "plain_rm\<lparr>disk := [''/tmp/r.wav'' \<mapsto> [9]]\<rparr>"
  have tmp: "temp_directory ?E = ''/tmp''" "\<forall>c. fs_throws ?E c = (c = Copy_result)"
    by (simp_all add: full_fs_env_def)
  have slash: "CHR ''/'' \<notin> set ''r.wav''" by simp
  have w: "''/tmp/r.wav'' = WAV_OUTPUT_DIR @ ''/'' @ ''r.wav''" by (simp add: WAV_OUTPUT_DIR_def)
  have "sox_ok ?E ''/tmp/r.wav''"
    using recording_paths(2) [OF slash tmp(1) w] by (intro marking_sox_ok) (simp add: full_fs_env_def)
  from failed_copy_loses_recording [OF slash _ tmp(1) w _ this tmp(2), of ?m plain_rm_env 5]
  show ?thesis by simp
qed

section \<open>The hardware manager\<close>

text \<open>
  C30: Types: while BlueZ and oFono send what they document, no handler of the bus thread reads past what a
  message holds, and a request of the core manager can only fail with an exception of the initialisation.
\<close>

theorem well_typed_traffic:
  assumes "typed_answers env" and "list_all typed_message msgs" and "has_agent env"
  shows "(\<exists>m'. bluetooth_turn env (Bus_poll_in msgs) m = Inr m')
    \<and> (HM_processEvent env e m = Inl x \<longrightarrow>
        getEventTypeId e = HmEventTypeID.INITIALIZE_BLUETOOTH \<and> (\<exists>s. x = Runtime_error s))"
  using safe_bluetooth_turn [OF assms(1,2), of m] HM_processEvent_fault [OF assms(1,3), of e m x]
  by (simp add: safe_def)

lemma well_typed_traffic_witness:
  "\<exists>m'. bluetooth_turn plain_hm_env (Bus_poll_in [found_message (- 67)]) hardware_mgr_init = Inr m'"
  using well_typed_traffic [OF plain_typed, of "[found_message (- 67)]" hardware_mgr_init]
  by (simp add: found_typed)

text \<open>
  C31: A request to confirm a pairing and its answer: the core manager hears of the device and the passkey,
  and the user's answer for that device is the one reply to that very request; answering again does
  nothing.
\<close>

theorem confirmation_answered:
  assumes "confirmation_request (deviceAddressToObjectPath a m) k msg" and "device_address a"
    and "has_agent env" and "has_bluez env" and "\<not> reply_fails env msg"
    and "conn (hm_sender m)" and "\<forall>k. hm_faults env k = no_faults"
  shows "\<exists>m1 m2 noti. bt_dispatchMessage env msg m = Inr m1
    \<and> sent (hm_sender m1) = sent (hm_sender m) @ [noti]
    \<and> CM_receive noti q = Inr (push_event EventTypeID.BTDEVICE_REQUEST_CONFIRMATION_NOTI
        (Some (BluetoothDevicePasskeyPayload (c_str a) (int_to_string k))) q)
    \<and> replies m1 = replies m
    \<and> HM_processEvent env (hm_answer a b) m1 = Inr m2
    \<and> replies m2 = replies m @ [agent_answer msg b]
    \<and> HM_processEvent env (hm_answer a b') m2 = Inr m2"
proof -
  let ?m = "m\<lparr>pendingConfirmations := (pendingConfirmations m)(a \<mapsto> msg)\<rparr>"
  let ?m1 = "hm_notify env DBusCommand.BTDEVICE_REQUEST_CONFIRMATION_NOTI True (confirmation_info a k) ?m"
  let ?m2 = "?m1\<lparr>pendingConfirmations := (pendingConfirmations ?m1)(a := None),
      replies := replies ?m1 @ [agent_answer msg b]\<rparr>"
  have "sent (hm_sender ?m1) = sent (hm_sender m) @
      [hm_noti (DBusCommand.BTDEVICE_REQUEST_CONFIRMATION_NOTI, True, confirmation_info a k)]"
    by (rule sent_notify [OF _ assms(6,7)]) (simp_all add: HM_notifications_def)
  moreover have "HM_processEvent env (hm_answer a b) ?m1 = Inr ?m2"
    using confirmRequest_pending [of ?m1 a msg env b] assms(5) by (simp add: answer_event [OF assms(4,3)])
  moreover have "HM_processEvent env (hm_answer a b') ?m2 = Inr ?m2"
    using confirmRequest_none [of ?m2 a env b'] by (simp add: answer_event [OF assms(4,3)])
  moreover note confirmation_dispatch [OF assms(1-3)] confirmation_received [of a k q]
  moreover have "replies ?m1 = replies m" "replies ?m2 = replies m @ [agent_answer msg b]" by simp_all
  ultimately show ?thesis by blast
qed

lemma confirmation_answered_witness:
  "\<exists>m1 m2. bt_dispatchMessage plain_hm_env
      (asking_message (deviceAddressToObjectPath ''AA:BB'' hardware_mgr_init) 123456) hardware_mgr_init = Inr m1
    \<and> HM_processEvent plain_hm_env (hm_answer ''AA:BB'' True) m1 = Inr m2
    \<and> replies m2 = [Method_return (asking_message (deviceAddressToObjectPath ''AA:BB'' hardware_mgr_init) 123456)]"
proof -
  let ?p = "deviceAddressToObjectPath ''AA:BB'' hardware_mgr_init"
  have a: "device_address ''AA:BB''" by (simp add: device_address_def)
  have i: "conn (hm_sender hardware_mgr_init)" "replies hardware_mgr_init = []"
    by (simp_all add: hardware_mgr_init_def dbus_sender_init_def)
  from confirmation_answered [OF asking_request a, of plain_hm_env, OF _ _ _ i(1), of 123456 EventQueue_init True True]
  show ?thesis using i(2) by (simp add: agent_answer_def) blast
qed

text \<open>
  C32: Whatever BlueZ, oFono and the clients do, the agent answers no request twice, and what is pending or
  still in the inbox has not been answered.
\<close>

theorem requests_answered_once:
  assumes "hm_reachable env s"
  shows "distinct (map reply_serial (replies (mgr s)))
    \<and> (\<forall>a b. pendingConfirmations (mgr s) a = Some b \<longrightarrow>
        msg_serial b \<notin> set (map reply_serial (replies (mgr s))))
    \<and> (\<forall>b \<in> set (inbox s). msg_serial b \<notin> set (map reply_serial (replies (mgr s))))"
  using hm_inv_reachable [OF assms] unfolding hm_inv_def agent_ok_def agent_view_def by auto

lemma requests_answered_once_witness:
  "\<exists>m. hardware_start plain_hm_env = Inr m
    \<and> (\<forall>b \<in> set (inbox (asking_state m)). msg_serial b \<notin> set (map reply_serial (replies m)))"
proof -
  obtain m where m: "hardware_start plain_hm_env = Inr m" using plain_start by blast
  from requests_answered_once [OF plain_asking [OF m]] m show ?thesis by (auto simp: asking_state_def)
qed

text \<open>
  C33: A pairing that BlueZ asks about cannot succeed: the worker that made the \<open>Pair\<close> call holds the mutex
  until the call ends, the request waits in the inbox for the thread that needs the mutex, and BlueZ does
  not end the pairing before the answer.  The call ends without a reply, with the request still unread.
\<close>

theorem pairing_confirmation_fails:
  assumes "hm_reachable env s" and "pairing s = Some a" and "asked s = Some q"
    and "hm_step env s s'" and "pairing s' = None"
  shows "(\<forall>vs. answers env (created (mgr s)) (pair_call a (mgr s)) \<noteq> Call_reply vs)
    \<and> mgr s' = pairDevice env a (mgr s)
    \<and> inbox s' = inbox s \<and> q \<in> msg_serial ` set (inbox s')
    \<and> q \<notin> set (map reply_serial (replies (mgr s')))"
proof -
  note inv = hm_inv_reachable [OF assms(1)]
  from assms(4) show ?thesis
  proof (cases rule: hm_step.cases)
    case (Pair_end a')
    then have e: "pair_may_end (answers env (created (mgr s)) (pair_call a (mgr s))) s"
      and s': "mgr s' = pairDevice env a (mgr s)" "inbox s' = inbox s" using assms(2) by simp_all
    have "replies (pairDevice env a (mgr s)) = replies (mgr s)"
      using view_requests(4) [of env a "mgr s"] by (simp add: agent_view_def)
    with asked_pair_unanswered [OF inv assms(2,3) e] s' show ?thesis by simp
  qed (use assms(2,5) in \<open>auto simp: receive_bus_def\<close>)
qed

lemma pairing_confirmation_fails_witness:
  "\<exists>m s'. hardware_start plain_hm_env = Inr m \<and> hm_step plain_hm_env (asking_state m) s'
    \<and> 7 \<in> msg_serial ` set (inbox s') \<and> 7 \<notin> set (map reply_serial (replies (mgr s')))"
proof -
  obtain m where m: "hardware_start plain_hm_env = Inr m" using plain_start by blast
  let ?s' = "(asking_state m)\<lparr>mgr := pairDevice plain_hm_env ''AA'' m, pairing := None, asked := None\<rparr>"
  have "pairing (asking_state m) = Some ''AA''" "asked (asking_state m) = Some 7" "pairing ?s' = None"
    by (simp_all add: asking_state_def)
  from pairing_confirmation_fails [OF plain_asking [OF m] this(1,2) plain_pair_end this(3)] m plain_pair_end
  show ?thesis by blast
qed

text \<open>
  C34: While BlueZ and oFono answer every call with an error, every request that has an answer is answered by
  exactly one notification of failure, which the client gets to see.  The one exception: a request to hang
  up is not answered at all when no phone is connected.
\<close>

theorem failed_request_reported:
  assumes "bus_down env" and "has_bluez env" and "has_ofono env" and "answer_noti e = Some cmd"
    and "conn (hm_sender m)" and "\<forall>k. hm_faults env k = no_faults"
  shows "\<exists>m'. HM_processEvent env e m = Inr m'
    \<and> (if cmd = DBusCommand.HANGUP_CALL_NOTI \<and> modemPath m = [] then m' = m
       else \<exists>info. sent (hm_sender m') = sent (hm_sender m) @ [hm_noti (cmd, False, info)])"
proof (cases "cmd = DBusCommand.HANGUP_CALL_NOTI \<and> modemPath m = []")
  case True
  with assms(4) have "getEventTypeId e = HmEventTypeID.HANGUP_CALL"
    by (auto simp: answer_noti_def split: HmEventTypeID.splits option.splits Payload.splits)
  then have "HM_processEvent env e m = Inr m" using True
    by (simp add: HM_processEvent_def processHangupCallEvent_def ofono_hangupCall_def)
  with True show ?thesis by simp
next
  case False
  then obtain m' info where m': "HM_processEvent env e m = Inr m'"
    and n: "notified env [(cmd, False, info)] m m'" using down_event [OF assms(1-4)] by blast
  have "sent (hm_sender m') = sent (hm_sender m) @ [hm_noti (cmd, False, info)]"
    using sent_notified [OF n assms(5,6)] answer_noti_offered [OF assms(4)] by simp
  with m' False show ?thesis by auto
qed

lemma failed_request_reported_witness:
  "\<exists>m' info. HM_processEvent down_hm_env
      (make_Event HmEventTypeID.PAIR_BTDEVICE (Some (BluetoothDeviceAddressPayload ''AA''))) hardware_mgr_init = Inr m'
    \<and> sent (hm_sender m') = [hm_noti (DBusCommand.PAIR_BTDEVICE_NOTI, False, info)]"
proof -
  let ?e = "make_Event HmEventTypeID.PAIR_BTDEVICE (Some (BluetoothDeviceAddressPayload ''AA''))"
  have a: "answer_noti ?e = Some DBusCommand.PAIR_BTDEVICE_NOTI" by (simp add: answer_noti_def)
  have i: "conn (hm_sender hardware_mgr_init)" "sent (hm_sender hardware_mgr_init) = []"
    "\<forall>k. hm_faults down_hm_env k = no_faults"
    by (simp_all add: hardware_mgr_init_def dbus_sender_init_def down_hm_env_def)
  from failed_request_reported [OF _ _ _ a i(1,3)] i(2) show ?thesis by auto
qed

text \<open>
  C35: Reading the call history of a phone ends, and tells the core manager between one start and one end
  message at most fifty dialed, fifty received and fifty missed calls, in this order, each with a number
  and a name.
\<close>

theorem call_history_synced:
  assumes "typed_answers env" and "conn (hm_sender m)" and "\<forall>k. hm_faults env k = no_faults"
  shows "\<exists>m' ds rs ms. syncAllOfonoCallHistory env p m = Inr m'
    \<and> sent (hm_sender m') = sent (hm_sender m) @ map hm_noti (history_start # ds @ rs @ ms @ [history_end])
    \<and> length ds \<le> 50 \<and> list_all (history_noti ''dialed'') ds
    \<and> length rs \<le> 50 \<and> list_all (history_noti ''received'') rs
    \<and> length ms \<le> 50 \<and> list_all (history_noti ''missed'') ms"
proof -
  obtain m' where m': "syncAllOfonoCallHistory env p m = Inr m'"
    using safe_syncHistory [OF assms(1), of p m] by (auto simp: safe_def)
  obtain ds rs ms where n: "notified env (history_start # ds @ rs @ ms @ [history_end]) m m'"
    and b: "length ds \<le> max_history_items" "list_all (history_noti ''dialed'') ds"
      "length rs \<le> max_history_items" "list_all (history_noti ''received'') rs"
      "length ms \<le> max_history_items" "list_all (history_noti ''missed'') ms"
    using syncHistory_noti [OF m'] by blast
  have "\<forall>(cmd, ok, info) \<in> set (history_start # ds @ rs @ ms @ [history_end]). cmd \<in> set HM_notifications"
    using b by (auto simp: history_noti_def history_start_def history_end_def HM_notifications_def list_all_iff)
  note sent_notified [OF n assms(2,3) this]
  with m' b [unfolded max_history_items_def] show ?thesis by (intro exI conjI)
qed

lemma call_history_synced_witness:
  "\<exists>m' ns. syncAllOfonoCallHistory plain_hm_env ''/phone'' hardware_mgr_init = Inr m'
    \<and> sent (hm_sender m') = hm_noti history_start # ns @ [hm_noti history_end]"
proof -
  have i: "conn (hm_sender hardware_mgr_init)" "sent (hm_sender hardware_mgr_init) = []"
    "\<forall>k. hm_faults plain_hm_env k = no_faults"
    by (simp_all add: hardware_mgr_init_def dbus_sender_init_def)
  obtain m' ds rs ms where "syncAllOfonoCallHistory plain_hm_env ''/phone'' hardware_mgr_init = Inr m'"
    and "sent (hm_sender m') = [] @ map hm_noti (history_start # ds @ rs @ ms @ [history_end])"
    using call_history_synced [OF plain_typed i(1,3), of "''/phone''"] unfolding i(2) by blast
  then show ?thesis by (intro exI [of _ m'] exI [of _ "map hm_noti (ds @ rs @ ms)"]) simp
qed

section \<open>Connections\<close>

text \<open>
  C36: The acceptor, the handshakes, the reads and the writes of the web socket server, interleaved with the
  other threads, do only what the steps of \<open>CoreSystem\<close> allow.  On the way one accept is always outstanding, and
  the members are exactly the sessions that are being read and whose writes have all succeeded.
\<close>

theorem io_refines_core:
  assumes "io_reachable env io"
  shows "core_reachable env (core_of io) \<and> accepts io = 1
    \<and> (\<forall>s. s \<in> set (sessions (server (core_of io))) \<longleftrightarrow>
         phase io s = Reading \<and> failed (session_at (server (core_of io)) s) = 0)"
  using io_refines [OF assms] by (simp add: io_inv_def)

lemma io_refines_core_witness:
  "\<exists>io. io_reachable plain_env io \<and> phase io 4 = Handshaking \<and> core_reachable plain_env (core_of io)
    \<and> 4 \<notin> set (sessions (server (core_of io)))"
proof -
  let ?i = "server_run plain_core"
  let ?j = "server_doAccept (session_start 4 (?i\<lparr>accepts := 0\<rparr>))"
  have i: "?i = server_run (core_init (pool plain_core) (files plain_core) (clock plain_core))"
    by (simp add: plain_core_def core_init_def)
  have "server_accepted (Accepted 4 True) ?i = Inr ?j"
    by (simp add: server_accepted_def server_run_def server_doAccept_def session_start_def Let_def)
  then have "io_step plain_env ?i ?j"
    by (intro io_step.Accept)
      (auto simp: server_run_def server_doAccept_def plain_core_def core_init_def WebSocketServer_init_def
        WebSocketSession_init_def)
  then have r: "io_reachable plain_env ?j"
    unfolding io_reachable_def using i by (metis r_into_rtranclp)
  from io_refines_core [OF r] have "core_reachable plain_env (core_of ?j)"
    and "4 \<in> set (sessions (server (core_of ?j))) \<longleftrightarrow> phase ?j 4 = Reading \<and> failed (session_at (server (core_of ?j)) 4) = 0"
    by blast+
  moreover have "phase ?j 4 = Handshaking" by (simp add: server_doAccept_def session_start_def)
  ultimately show ?thesis using r by (intro exI [of _ ?j]) simp
qed

text \<open>
  The error code of a handshake is dropped: whether or not it succeeded, a connection whose peer is known
  becomes a member, is sent the temperature, the recorder's and the adapter's state in this order, the hardware
  manager is asked to initialise Bluetooth, nobody else is sent anything, and the session is read.  Without a
  peer the thread ends with the exception.
\<close>

lemma handshake_error_ignored:
  assumes "session_accepted env ec has_peer s io = Inr io'"
  shows "session_accepted env ec' has_peer s io = Inr io' \<and> has_peer
    \<and> s \<in> set (sessions (server (core_of io'))) \<and> phase io' s = Reading
    \<and> map (dump env) (init_messages (core_of io)) = map Inr (accepted (session_at (server (core_of io')) s))
    \<and> (\<forall>s'. s' \<noteq> s \<longrightarrow> session_at (server (core_of io')) s' = session_at (server (core_of io)) s')
    \<and> sender (core_of io')
       = snd (sendMessage (dbus_faults env) CM_makeMsg DBusCommand.INITIALIZE_BLUETOOTH (sender (core_of io)))"
proof -
  obtain w snd' where p: has_peer and j: "join (dbus_faults env) (dump env) (core_of io) s
      (new_session s (server (core_of io)), sender (core_of io)) = Inr (w, snd')"
    and io': "io' = io\<lparr>core_of := (core_of io)\<lparr>server := w, sender := snd'\<rparr>, phase := (phase io)(s := Reading)\<rparr>"
    using assms by (auto simp: session_accepted_Inr)
  have "session_accepted env ec' has_peer s io = Inr io'" using assms by (simp add: session_accepted_def)
  with p join_sends [OF j] show ?thesis
    by (auto simp: io' new_session_def WebSocketSession_init_def)
qed

lemma handshake_error_ignored_witness:
  "\<exists>io'. session_accepted plain_env True True 4 (server_run plain_core) = Inr io'
    \<and> 4 \<in> set (sessions (server (core_of io')))"
proof -
  obtain io' where a: "session_accepted plain_env True True 4 (server_run plain_core) = Inr io'"
    by (cases "session_accepted plain_env True True 4 (server_run plain_core)")
      (auto simp: session_accepted_def session_doRead_def join_def Let_def sendInitStateToClient_def json_set_def
        json_object_def plain_dump_def plain_env_def bind_result_def split: prod.splits)
  from handshake_error_ignored [OF a] a show ?thesis by blast
qed

section \<open>The processes\<close>

text \<open>
  C37: An event in the queue of a main worker waits at most the time-out of 2500 milliseconds and three steps
  of the loop before it is taken.  It can wait that long although the worker is idle: when it is pushed between
  \<open>hasEvent\<close> and \<open>waitForEvent\<close> its notification is lost.
\<close>

theorem event_taken_in_time:
  assumes "loop_run ts s = Some s'" and "hasEvent (loop_queue s)" and "loop_flag s" and "Stop_flag \<notin> set ts"
    and "loop_taken s' = loop_taken s" and "\<forall>e. loop_pc s \<noteq> Handling e"
  shows "count_list ts Tick \<le> 2500 \<and> count_list ts Own_turn \<le> 3
    \<and> (\<exists>us t. loop_run (us @ replicate 2500 Tick) (loop_init EventQueue_init) = Some t
         \<and> count_list us Tick = 0 \<and> eventList (loop_queue t) = [e] \<and> loop_taken t = [])"
proof -
  have "count_list ts Tick \<le> 2500 \<and> count_list ts Own_turn \<le> 3"
    using waits_at_most [OF assms] ticks_left_le [of s] own_left_le [of s]
    by (simp add: INTERNAL_EVENTQUEUE_TIMEOUT_MS_def)
  then show ?thesis using event_waits_full_time [of e]
    by (intro conjI exI [of _ "[Own_turn, Own_turn, Push_event e, Own_turn]"])
      (auto simp: INTERNAL_EVENTQUEUE_TIMEOUT_MS_def simp del: loop_run.simps)
qed

lemma event_taken_in_time_witness:
  "\<exists>us t. loop_run (us @ replicate 2500 Tick) (loop_init EventQueue_init) = Some t
     \<and> count_list us Tick = 0 \<and> eventList (loop_queue t) = [make_Event EventTypeID.STARTUP None] \<and> loop_taken t = []"
  using event_taken_in_time [of "[]" "loop_init \<lparr>eventList = [make_Event EventTypeID.STARTUP None]\<rparr>" _
      "make_Event EventTypeID.STARTUP None"]
  by (simp add: loop_init_def hasEvent_def)

text \<open>
  A signal that is handled before \<open>main\<close> has set its flag is forgotten: whatever is left of the start of
  a service, it leads to the same state with and without the signal, so the service keeps running.
\<close>

lemma early_signal_lost:
  assumes "at_main s = Startup as"
  shows "main_turns P (Suc (length as)) (signalHandler s) = main_turns P (Suc (length as)) s"
  using assms by (rule early_signal)

lemma early_signal_lost_witness:
  "\<exists>t. main_turns (core_main bus_ready True) 14
      (signalHandler (service_init (core_main bus_ready True) core_objects_init)) = Some t
    \<and> at_main t = Loop_test \<and> g_runningFlag t \<and> signals t = 0"
proof -
  let ?P = "core_main bus_ready True"
  have "main_turns ?P 14 (signalHandler (service_init ?P core_objects_init))
      = main_turns ?P 14 (service_init ?P core_objects_init)"
    using early_signal_lost [of "service_init ?P core_objects_init" "startup ?P" ?P]
    by (simp add: service_init_def core_main_def eval_nat_numeral del: main_turns.simps)
  with core_started show ?thesis by auto
qed

text \<open>
  C38: The main function of each service stays in its loop until a signal has been handled since it set its
  flag, and when it returns, it returns 0, with every thread stopped, ended and joined.
\<close>

theorem main_returns_joined:
  "(service_reachable (core_main bus bind_ok) core_objects_init s \<longrightarrow> orderly s)
   \<and> (service_reachable (record_main bus rm_env E spurious) (rm_objects_init fs) r \<longrightarrow> orderly r)
   \<and> (service_reachable (hardware_main bus hm_env sensor) (hm_objects_init z) h \<longrightarrow> orderly h)"
  using cmain.orderly_reachable rmain.orderly_reachable hmain.orderly_reachable by blast

lemma main_returns_joined_witness:
  "\<exists>s. service_reachable (record_main bus_ready plain_rm_env (plain_fs_env []) False) (rm_objects_init Map.empty) s
     \<and> at_main s = Returned 0 \<and> 0 < signals s \<and> (\<forall>th. \<not> alive s th)"
proof -
  obtain s where r: "service_reachable (record_main bus_ready plain_rm_env (plain_fs_env []) False) (rm_objects_init Map.empty) s"
    and m: "at_main s = Returned 0"
    using shutdown_loses by blast
  from main_returns_joined r have "orderly s" by blast
  with r m show ?thesis by (auto simp: orderly_def)
qed



text \<open>
  The core manager can hang for ever at the join of the main worker: a signal arrives while the main worker
  waits for the database, the workers of the pool see their flag cleared and leave the task in the queue, and
  nothing that can happen afterwards, no further signal either, changes that.
\<close>

lemma core_shutdown_hangs:
  "\<exists>s. service_reachable (core_main bus_ready True) core_objects_init s \<and> core_hung s
     \<and> (\<forall>t. (service_step (core_main bus_ready True))\<^sup>*\<^sup>* s t \<longrightarrow>
          \<not> over t \<and> alive t Main_worker \<and> awaiting (objects t) \<and> tasks (objects t) = 1)"
proof -
  obtain s where s: "service_reachable (core_main bus_ready True) core_objects_init s" "core_hung s"
    using core_hang_reachable by blast
  have "\<not> over t \<and> alive t Main_worker \<and> awaiting (objects t) \<and> tasks (objects t) = 1" if "core_hung t" for t
    using that by (auto simp: core_hung_def over_def)
  with s core_hung_for_ever show ?thesis by blast
qed

lemma core_shutdown_hangs_witness:
  "\<exists>s. service_reachable (core_main bus_ready True) core_objects_init s \<and> \<not> over s
     \<and> awaiting (objects s) \<and> awaiting (objects (signalHandler s))"
proof -
  obtain s where s: "service_reachable (core_main bus_ready True) core_objects_init s"
    and f: "\<And>t. (service_step (core_main bus_ready True))\<^sup>*\<^sup>* s t \<Longrightarrow> \<not> over t \<and> awaiting (objects t)"
    using core_shutdown_hangs by blast
  have "service_step (core_main bus_ready True) s (signalHandler s)"
    by (rule service_step.Signal) (use f [of s] in blast)
  with f [of s] f [of "signalHandler s"] s show ?thesis by blast
qed

text \<open>
  The record manager's shutdown takes at most 16 steps and one for each join and each filter thread that is
  left.  Then \<open>main\<close> has returned or was terminated, unless the recorder sleeps through the notification of
  \<open>stop\<close>, which a wait that ends for no reason would cure.
\<close>

lemma record_shutdown:
  assumes "service_reachable (record_main bus env E spurious) (rm_objects_init fs) s"
    and "at_main s = Ending (map Join_thread ths)" and "(turn_step (record_main bus env E spurious) ^^ n) s t"
  shows "n \<le> length ths + length (jobs (rm_mgr (objects s))) + 16
    \<and> ((\<nexists>u. turn_step (record_main bus env E spurious) t u) \<longrightarrow> over t \<or> (\<not> spurious \<and> rm_hung t))"
  using record_joining_run [OF assms] by blast

lemma record_shutdown_witness:
  "\<exists>s. service_reachable (record_main bus_ready plain_rm_env (plain_fs_env []) True) (rm_objects_init Map.empty) s
    \<and> (\<forall>n t. (turn_step (record_main bus_ready plain_rm_env (plain_fs_env []) True) ^^ n) s t \<longrightarrow>
         n \<le> 19 \<and> ((\<nexists>u. turn_step (record_main bus_ready plain_rm_env (plain_fs_env []) True) t u) \<longrightarrow> over t))"
proof -
  obtain s where s: "service_reachable (record_main bus_ready plain_rm_env (plain_fs_env []) True) (rm_objects_init Map.empty) s"
      "jobs (rm_mgr (objects s)) = jobs (rm_mgr (rm_objects_init Map.empty))"
      "at_main s = Ending (map Join_thread [Rm_main_worker, Rm_receiver, Rm_recorder])"
    using record_stopping by blast
  have "jobs (rm_mgr (objects s)) = []" using s(2) by (simp add: rm_objects_init_def record_mgr_init_def)
  with record_shutdown [OF s(1,3)] s(1) show ?thesis by fastforce
qed

text \<open>
  The hardware manager's shutdown takes at most 9 steps and one for each join that is left, and always ends.
\<close>

lemma hardware_shutdown:
  assumes "service_reachable (hardware_main bus env sensor) (hm_objects_init z) s"
    and "at_main s = Ending (map Join_thread ths)" and "(turn_step (hardware_main bus env sensor) ^^ n) s t"
  shows "n \<le> length ths + 9 \<and> ((\<nexists>u. turn_step (hardware_main bus env sensor) t u) \<longrightarrow> over t)"
  using hardware_joining_run [OF assms] by blast

lemma hardware_shutdown_witness:
  "\<exists>s. service_reachable (hardware_main bus_ready plain_hm_env ''t'') (hm_objects_init (Finite 0)) s
    \<and> (\<forall>n t. (turn_step (hardware_main bus_ready plain_hm_env ''t'') ^^ n) s t \<longrightarrow>
         n \<le> 13 \<and> ((\<nexists>u. turn_step (hardware_main bus_ready plain_hm_env ''t'') t u) \<longrightarrow> over t))"
proof -
  obtain m where "BluezDBus_new bus_ready plain_hm_env = Inr m"
    using plain_start by (auto simp: hardware_start_def bind_result_Inr BluezDBus_new_def bus_ready_def)
  then obtain s where s: "service_reachable (hardware_main bus_ready plain_hm_env ''t'') (hm_objects_init (Finite 0)) s"
      "at_main s = Ending (map Join_thread [Hm_main_worker, Hm_receiver, Hm_monitor, Hm_bluetooth])"
    using hardware_stopping by blast
  from hardware_shutdown [OF s] s(1) show ?thesis by fastforce
qed

text \<open>
  C40: A recording can be lost by a shutdown: the recorder, when it is stopped, saves the file and reports the
  success to the core manager, but the main worker has ended by then.  The event that would have the recording
  filtered, stored and announced stays in the queue when \<open>main\<close> returns, and no filter thread was started.
\<close>

theorem shutdown_loses_recording:
  "\<exists>s d. service_reachable (record_main bus_ready plain_rm_env E spurious) (rm_objects_init Map.empty) s
     \<and> at_main s = Returned 0 \<and> saved (rm_mgr (objects s)) = [''/tmp/record_20250101_120000.wav'']
     \<and> (DBusCommand.STOP_RECORD_NOTI, True) \<in> set (session_log (rm_mgr (objects s)))
     \<and> eventList (rm_queue (rm_mgr (objects s))) = [make_Event RmEventTypeID.FILTER_WAV_FILE
          (Some (WavPayload ''/tmp/record_20250101_120000.wav'' d))]
     \<and> jobs (rm_mgr (objects s)) = []"
  using shutdown_loses [of E spurious] by blast

end
